(* ===== verification/Prelude.thy ===== *)
theory Prelude
  imports Main "HOL-Library.Word" "HOL-Library.List_Lexorder" "HOL-Library.Char_ord"
begin

text \<open>
  Shared vocabulary of the development: the types that stand for Go's basic types, the
  parts of Go's standard library that the modelled code calls, and the generic facts on
  tables (lists of rows) that every component rests on.

  \<^item> identifiers and text are \<open>string\<close>; \<^verbatim>\<open>time.Time\<close> and
    \<^verbatim>\<open>time.Duration\<close> are integers counting nanoseconds, as in Go;
  \<^item> a JSON document is what \<^verbatim>\<open>json.Unmarshal\<close> into the target type makes
    of it: a decoded value or a decoding error;
  \<^item> a database table is the list of its rows.  \<open>update_rows\<close>,
    \<open>delete_rows\<close> and \<open>find_row\<close> are the meaning of single-table
    \<^verbatim>\<open>UPDATE\<close>, \<^verbatim>\<open>DELETE\<close> and \<^verbatim>\<open>QueryRow\<close>.
\<close>

named_theorems table_simps \<open>how the table operations act on keys and on membership\<close>
named_theorems lifecycle_intros \<open>closure rules for the job life-cycle relation\<close>

section \<open>Go's basic types\<close>

type_synonym id = string
type_synonym time = int
type_synonym duration = int
type_synonym byte = "8 word"

abbreviation Nanosecond :: duration where "Nanosecond \<equiv> 1"
abbreviation Second :: duration where "Second \<equiv> 1000000000"
abbreviation Minute :: duration where "Minute \<equiv> 60 * Second"
abbreviation Hour :: duration where "Hour \<equiv> 60 * Minute"

datatype 'a json = Malformed | Doc 'a

fun decode :: "'a json \<Rightarrow> 'a option" where
  "decode Malformed = None"
| "decode (Doc a) = Some a"

text \<open>\<^verbatim>\<open>strings.HasPrefix\<close>, \<^verbatim>\<open>strings.TrimPrefix\<close> and
  \<^verbatim>\<open>hex.EncodeToString\<close>.\<close>

definition HasPrefix :: "string \<Rightarrow> string \<Rightarrow> bool" where
  "HasPrefix s p \<longleftrightarrow> take (length p) s = p"

definition TrimPrefix :: "string \<Rightarrow> string \<Rightarrow> string" where
  "TrimPrefix s p = (if HasPrefix s p then drop (length p) s else s)"

definition hex_digit :: "nat \<Rightarrow> char" where
  "hex_digit n = ''0123456789abcdef'' ! n"

fun hex_encode :: "byte list \<Rightarrow> string" where
  "hex_encode [] = []"
| "hex_encode (b # bs) =
     hex_digit (unat b div 16) # hex_digit (unat b mod 16) # hex_encode bs"

lemma length_hex_encode [simp]: "length (hex_encode bs) = 2 * length bs"
  by (induction bs) auto

lemma HasPrefix_iff: "HasPrefix s p \<longleftrightarrow> (\<exists>r. s = p @ r)"
  unfolding HasPrefix_def by (metis append_eq_conv_conj)

lemma HasPrefix_append [simp]: "HasPrefix (p @ r) p"
  by (simp add: HasPrefix_def)

lemma TrimPrefix_append [simp]: "TrimPrefix (p @ r) p = r"
  by (simp add: TrimPrefix_def)

section \<open>Tables\<close>

definition update_rows :: "('r \<Rightarrow> bool) \<Rightarrow> ('r \<Rightarrow> 'r) \<Rightarrow> 'r list \<Rightarrow> 'r list" where
  "update_rows P f rs = map (\<lambda>r. if P r then f r else r) rs"

definition rows_affected :: "('r \<Rightarrow> bool) \<Rightarrow> 'r list \<Rightarrow> nat" where
  "rows_affected P rs = length (filter P rs)"

definition delete_rows :: "('r \<Rightarrow> bool) \<Rightarrow> 'r list \<Rightarrow> 'r list" where
  "delete_rows P rs = filter (\<lambda>r. \<not> P r) rs"

fun find_row :: "('r \<Rightarrow> bool) \<Rightarrow> 'r list \<Rightarrow> 'r option" where
  "find_row P [] = None"
| "find_row P (r # rs) = (if P r then Some r else find_row P rs)"

lemma length_update_rows [simp]: "length (update_rows P f rs) = length rs"
  by (simp add: update_rows_def)

lemma update_rows_Nil [simp]: "update_rows P f [] = []"
  by (simp add: update_rows_def)

lemma update_rows_Cons [simp]:
  "update_rows P f (r # rs) = (if P r then f r else r) # update_rows P f rs"
  by (simp add: update_rows_def)

lemma set_update_rows [table_simps]:
  "set (update_rows P f rs) = (\<lambda>r. if P r then f r else r) ` set rs"
  by (simp add: update_rows_def)

lemma map_update_rows [table_simps]:
  assumes "\<And>r. P r \<Longrightarrow> k (f r) = k r"
  shows "map k (update_rows P f rs) = map k rs"
  using assms by (induction rs) auto

lemma update_rows_nth:
  "i < length rs \<Longrightarrow> update_rows P f rs ! i = (if P (rs ! i) then f (rs ! i) else rs ! i)"
  by (simp add: update_rows_def)

lemma update_rows_cleared:
  assumes "\<And>r. P r \<Longrightarrow> \<not> P (f r)" and "r \<in> set (update_rows P f rs)"
  shows "\<not> P r"
  using assms by (auto simp: update_rows_def split: if_splits)

lemma update_rows_mem: "r \<in> set rs \<Longrightarrow> P r \<Longrightarrow> f r \<in> set (update_rows P f rs)"
  by (force simp: update_rows_def)

lemma update_rows_none: "(\<And>r. r \<in> set rs \<Longrightarrow> \<not> P r) \<Longrightarrow> update_rows P f rs = rs"
  by (induction rs) auto

lemma set_delete_rows [table_simps]: "set (delete_rows P rs) = {r \<in> set rs. \<not> P r}"
  by (simp add: delete_rows_def)

lemma find_row_SomeD:
  "find_row P rs = Some r \<Longrightarrow> r \<in> set rs \<and> P r"
  by (induction rs) (auto split: if_splits)

lemma find_row_None_iff [table_simps]: "find_row P rs = None \<longleftrightarrow> (\<forall>r\<in>set rs. \<not> P r)"
  by (induction rs) auto

lemma distinct_key_eq:
  "distinct (map k rs) \<Longrightarrow> r \<in> set rs \<Longrightarrow> s \<in> set rs \<Longrightarrow> k r = k s \<Longrightarrow> r = s"
  by (auto simp: distinct_map inj_on_def)

lemma find_row_key:
  assumes "distinct (map k rs)" and "r \<in> set rs" and "P r"
    and "\<forall>s\<in>set rs. P s \<longrightarrow> k s = k r"
  shows "find_row P rs = Some r"
proof (cases "find_row P rs")
  case None
  with assms(2,3) show ?thesis by (auto simp: find_row_None_iff)
next
  case (Some s)
  then have "s \<in> set rs" "P s" by (auto dest: find_row_SomeD)
  with assms have "s = r" by (blast intro: distinct_key_eq)
  with Some show ?thesis by simp
qed

lemma distinct_map_filterI: "distinct (map k rs) \<Longrightarrow> distinct (map k (filter P rs))"
  by (induction rs) auto

text \<open>A stable sort commutes with a map that keeps the key.\<close>

lemma sort_key_map_same_key:
  assumes "\<And>x. k (g x) = k x"
  shows "sort_key k (map g xs) = map g (sort_key k xs)"
proof (induction xs)
  case (Cons x xs)
  have "insort_key k (g x) (map g ys) = map g (insort_key k x ys)" for ys
    by (induction ys) (simp_all add: assms)
  with Cons show ?case by simp
qed simp

end
