(* ===== verification/Models.thy ===== *)
theory Models
  imports Prelude
begin

text \<open>
  The data of the system: the Go structs of \<^verbatim>\<open>shared/models\<close> and
  \<^verbatim>\<open>shared/protocol\<close>, and the rows of the tables created by
  \<^verbatim>\<open>server/migrate/sql\<close>.

  A struct is a \<^theory_text>\<open>record\<close> whose fields carry a short prefix for their
  struct.  A pointer field or a nullable column is an \<open>option\<close>.  Where a table row
  and the struct the code scans it into agree column by column the record is shared; where
  they differ in nullability (\<^verbatim>\<open>jobs\<close>) there is a record for each.
\<close>

section \<open>Jobs (shared/models/job.go)\<close>

record RetryPolicy =
  rp_MaxRetries :: int
  rp_RetryDelaySeconds :: int

record JobResult =
  jr_ID :: id
  jr_JobID :: id
  jr_ExitCode :: "int option"
  jr_Stdout :: string
  jr_Stderr :: string
  jr_StartedAt :: "time option"
  jr_CompletedAt :: "time option"

record Job =
  job_ID :: id
  job_TenantID :: id
  job_DeviceID :: id
  job_ParentJobID :: id
  job_Type :: string
  job_Status :: string
  job_Payload :: string
  job_RetryPolicy :: "RetryPolicy option"
  job_RetryCount :: int
  job_MaxRetries :: int
  job_LastError :: string
  job_CreatedBy :: id
  job_CreatedAt :: time
  job_DispatchedAt :: "time option"
  job_AcknowledgedAt :: "time option"
  job_StartedAt :: "time option"
  job_CompletedAt :: "time option"
  job_Result :: "JobResult option"

text \<open>A row of table \<^verbatim>\<open>jobs\<close>: the columns that may be NULL are options.\<close>

record job_row =
  j_id :: id
  j_tenant_id :: id
  j_device_id :: id
  j_parent_job_id :: "id option"
  j_type :: string
  j_status :: string
  j_payload :: string
  j_retry_policy :: "RetryPolicy json option"
  j_retry_count :: int
  j_max_retries :: int
  j_last_error :: "string option"
  j_created_by :: "id option"
  j_created_at :: time
  j_dispatched_at :: "time option"
  j_acknowledged_at :: "time option"
  j_started_at :: "time option"
  j_completed_at :: "time option"

definition JobTypeExec :: string where "JobTypeExec = ''exec''"
definition JobTypePackageInstall :: string where "JobTypePackageInstall = ''package_install''"
definition JobTypePackageRemove :: string where "JobTypePackageRemove = ''package_remove''"
definition JobTypePackageUpdate :: string where "JobTypePackageUpdate = ''package_update''"
definition JobTypeInventoryFull :: string where "JobTypeInventoryFull = ''inventory_full''"
definition JobTypeFileTransfer :: string where "JobTypeFileTransfer = ''file_transfer''"
definition JobTypeAgentUpdate :: string where "JobTypeAgentUpdate = ''agent_update''"
definition JobTypeAgentRollback :: string where "JobTypeAgentRollback = ''agent_rollback''"

definition JobStatusPending :: string where "JobStatusPending = ''pending''"
definition JobStatusQueued :: string where "JobStatusQueued = ''queued''"
definition JobStatusCDMHold :: string where "JobStatusCDMHold = ''cdm_hold''"
definition JobStatusDispatched :: string where "JobStatusDispatched = ''dispatched''"
definition JobStatusAcknowledged :: string where "JobStatusAcknowledged = ''acknowledged''"
definition JobStatusRunning :: string where "JobStatusRunning = ''running''"
definition JobStatusCompleted :: string where "JobStatusCompleted = ''completed''"
definition JobStatusFailed :: string where "JobStatusFailed = ''failed''"
definition JobStatusTimedOut :: string where "JobStatusTimedOut = ''timed_out''"
definition JobStatusCancelled :: string where "JobStatusCancelled = ''cancelled''"

lemma job_status_neq [simp]:
  "JobStatusPending \<noteq> JobStatusQueued"
  "JobStatusPending \<noteq> JobStatusCDMHold"
  "JobStatusPending \<noteq> JobStatusDispatched"
  "JobStatusPending \<noteq> JobStatusAcknowledged"
  "JobStatusPending \<noteq> JobStatusRunning"
  "JobStatusPending \<noteq> JobStatusCompleted"
  "JobStatusPending \<noteq> JobStatusFailed"
  "JobStatusPending \<noteq> JobStatusTimedOut"
  "JobStatusPending \<noteq> JobStatusCancelled"
  "JobStatusQueued \<noteq> JobStatusPending"
  "JobStatusQueued \<noteq> JobStatusCDMHold"
  "JobStatusQueued \<noteq> JobStatusDispatched"
  "JobStatusQueued \<noteq> JobStatusAcknowledged"
  "JobStatusQueued \<noteq> JobStatusRunning"
  "JobStatusQueued \<noteq> JobStatusCompleted"
  "JobStatusQueued \<noteq> JobStatusFailed"
  "JobStatusQueued \<noteq> JobStatusTimedOut"
  "JobStatusQueued \<noteq> JobStatusCancelled"
  "JobStatusCDMHold \<noteq> JobStatusPending"
  "JobStatusCDMHold \<noteq> JobStatusQueued"
  "JobStatusCDMHold \<noteq> JobStatusDispatched"
  "JobStatusCDMHold \<noteq> JobStatusAcknowledged"
  "JobStatusCDMHold \<noteq> JobStatusRunning"
  "JobStatusCDMHold \<noteq> JobStatusCompleted"
  "JobStatusCDMHold \<noteq> JobStatusFailed"
  "JobStatusCDMHold \<noteq> JobStatusTimedOut"
  "JobStatusCDMHold \<noteq> JobStatusCancelled"
  "JobStatusDispatched \<noteq> JobStatusPending"
  "JobStatusDispatched \<noteq> JobStatusQueued"
  "JobStatusDispatched \<noteq> JobStatusCDMHold"
  "JobStatusDispatched \<noteq> JobStatusAcknowledged"
  "JobStatusDispatched \<noteq> JobStatusRunning"
  "JobStatusDispatched \<noteq> JobStatusCompleted"
  "JobStatusDispatched \<noteq> JobStatusFailed"
  "JobStatusDispatched \<noteq> JobStatusTimedOut"
  "JobStatusDispatched \<noteq> JobStatusCancelled"
  "JobStatusAcknowledged \<noteq> JobStatusPending"
  "JobStatusAcknowledged \<noteq> JobStatusQueued"
  "JobStatusAcknowledged \<noteq> JobStatusCDMHold"
  "JobStatusAcknowledged \<noteq> JobStatusDispatched"
  "JobStatusAcknowledged \<noteq> JobStatusRunning"
  "JobStatusAcknowledged \<noteq> JobStatusCompleted"
  "JobStatusAcknowledged \<noteq> JobStatusFailed"
  "JobStatusAcknowledged \<noteq> JobStatusTimedOut"
  "JobStatusAcknowledged \<noteq> JobStatusCancelled"
  "JobStatusRunning \<noteq> JobStatusPending"
  "JobStatusRunning \<noteq> JobStatusQueued"
  "JobStatusRunning \<noteq> JobStatusCDMHold"
  "JobStatusRunning \<noteq> JobStatusDispatched"
  "JobStatusRunning \<noteq> JobStatusAcknowledged"
  "JobStatusRunning \<noteq> JobStatusCompleted"
  "JobStatusRunning \<noteq> JobStatusFailed"
  "JobStatusRunning \<noteq> JobStatusTimedOut"
  "JobStatusRunning \<noteq> JobStatusCancelled"
  "JobStatusCompleted \<noteq> JobStatusPending"
  "JobStatusCompleted \<noteq> JobStatusQueued"
  "JobStatusCompleted \<noteq> JobStatusCDMHold"
  "JobStatusCompleted \<noteq> JobStatusDispatched"
  "JobStatusCompleted \<noteq> JobStatusAcknowledged"
  "JobStatusCompleted \<noteq> JobStatusRunning"
  "JobStatusCompleted \<noteq> JobStatusFailed"
  "JobStatusCompleted \<noteq> JobStatusTimedOut"
  "JobStatusCompleted \<noteq> JobStatusCancelled"
  "JobStatusFailed \<noteq> JobStatusPending"
  "JobStatusFailed \<noteq> JobStatusQueued"
  "JobStatusFailed \<noteq> JobStatusCDMHold"
  "JobStatusFailed \<noteq> JobStatusDispatched"
  "JobStatusFailed \<noteq> JobStatusAcknowledged"
  "JobStatusFailed \<noteq> JobStatusRunning"
  "JobStatusFailed \<noteq> JobStatusCompleted"
  "JobStatusFailed \<noteq> JobStatusTimedOut"
  "JobStatusFailed \<noteq> JobStatusCancelled"
  "JobStatusTimedOut \<noteq> JobStatusPending"
  "JobStatusTimedOut \<noteq> JobStatusQueued"
  "JobStatusTimedOut \<noteq> JobStatusCDMHold"
  "JobStatusTimedOut \<noteq> JobStatusDispatched"
  "JobStatusTimedOut \<noteq> JobStatusAcknowledged"
  "JobStatusTimedOut \<noteq> JobStatusRunning"
  "JobStatusTimedOut \<noteq> JobStatusCompleted"
  "JobStatusTimedOut \<noteq> JobStatusFailed"
  "JobStatusTimedOut \<noteq> JobStatusCancelled"
  "JobStatusCancelled \<noteq> JobStatusPending"
  "JobStatusCancelled \<noteq> JobStatusQueued"
  "JobStatusCancelled \<noteq> JobStatusCDMHold"
  "JobStatusCancelled \<noteq> JobStatusDispatched"
  "JobStatusCancelled \<noteq> JobStatusAcknowledged"
  "JobStatusCancelled \<noteq> JobStatusRunning"
  "JobStatusCancelled \<noteq> JobStatusCompleted"
  "JobStatusCancelled \<noteq> JobStatusFailed"
  "JobStatusCancelled \<noteq> JobStatusTimedOut"
  by (simp_all add: JobStatusPending_def JobStatusQueued_def JobStatusCDMHold_def JobStatusDispatched_def JobStatusAcknowledged_def JobStatusRunning_def JobStatusCompleted_def JobStatusFailed_def JobStatusTimedOut_def JobStatusCancelled_def)

lemma job_type_neq [simp]:
  "JobTypeExec \<noteq> JobTypePackageInstall"
  "JobTypeExec \<noteq> JobTypePackageRemove"
  "JobTypeExec \<noteq> JobTypePackageUpdate"
  "JobTypeExec \<noteq> JobTypeInventoryFull"
  "JobTypeExec \<noteq> JobTypeFileTransfer"
  "JobTypeExec \<noteq> JobTypeAgentUpdate"
  "JobTypeExec \<noteq> JobTypeAgentRollback"
  "JobTypePackageInstall \<noteq> JobTypeExec"
  "JobTypePackageInstall \<noteq> JobTypePackageRemove"
  "JobTypePackageInstall \<noteq> JobTypePackageUpdate"
  "JobTypePackageInstall \<noteq> JobTypeInventoryFull"
  "JobTypePackageInstall \<noteq> JobTypeFileTransfer"
  "JobTypePackageInstall \<noteq> JobTypeAgentUpdate"
  "JobTypePackageInstall \<noteq> JobTypeAgentRollback"
  "JobTypePackageRemove \<noteq> JobTypeExec"
  "JobTypePackageRemove \<noteq> JobTypePackageInstall"
  "JobTypePackageRemove \<noteq> JobTypePackageUpdate"
  "JobTypePackageRemove \<noteq> JobTypeInventoryFull"
  "JobTypePackageRemove \<noteq> JobTypeFileTransfer"
  "JobTypePackageRemove \<noteq> JobTypeAgentUpdate"
  "JobTypePackageRemove \<noteq> JobTypeAgentRollback"
  "JobTypePackageUpdate \<noteq> JobTypeExec"
  "JobTypePackageUpdate \<noteq> JobTypePackageInstall"
  "JobTypePackageUpdate \<noteq> JobTypePackageRemove"
  "JobTypePackageUpdate \<noteq> JobTypeInventoryFull"
  "JobTypePackageUpdate \<noteq> JobTypeFileTransfer"
  "JobTypePackageUpdate \<noteq> JobTypeAgentUpdate"
  "JobTypePackageUpdate \<noteq> JobTypeAgentRollback"
  "JobTypeInventoryFull \<noteq> JobTypeExec"
  "JobTypeInventoryFull \<noteq> JobTypePackageInstall"
  "JobTypeInventoryFull \<noteq> JobTypePackageRemove"
  "JobTypeInventoryFull \<noteq> JobTypePackageUpdate"
  "JobTypeInventoryFull \<noteq> JobTypeFileTransfer"
  "JobTypeInventoryFull \<noteq> JobTypeAgentUpdate"
  "JobTypeInventoryFull \<noteq> JobTypeAgentRollback"
  "JobTypeFileTransfer \<noteq> JobTypeExec"
  "JobTypeFileTransfer \<noteq> JobTypePackageInstall"
  "JobTypeFileTransfer \<noteq> JobTypePackageRemove"
  "JobTypeFileTransfer \<noteq> JobTypePackageUpdate"
  "JobTypeFileTransfer \<noteq> JobTypeInventoryFull"
  "JobTypeFileTransfer \<noteq> JobTypeAgentUpdate"
  "JobTypeFileTransfer \<noteq> JobTypeAgentRollback"
  "JobTypeAgentUpdate \<noteq> JobTypeExec"
  "JobTypeAgentUpdate \<noteq> JobTypePackageInstall"
  "JobTypeAgentUpdate \<noteq> JobTypePackageRemove"
  "JobTypeAgentUpdate \<noteq> JobTypePackageUpdate"
  "JobTypeAgentUpdate \<noteq> JobTypeInventoryFull"
  "JobTypeAgentUpdate \<noteq> JobTypeFileTransfer"
  "JobTypeAgentUpdate \<noteq> JobTypeAgentRollback"
  "JobTypeAgentRollback \<noteq> JobTypeExec"
  "JobTypeAgentRollback \<noteq> JobTypePackageInstall"
  "JobTypeAgentRollback \<noteq> JobTypePackageRemove"
  "JobTypeAgentRollback \<noteq> JobTypePackageUpdate"
  "JobTypeAgentRollback \<noteq> JobTypeInventoryFull"
  "JobTypeAgentRollback \<noteq> JobTypeFileTransfer"
  "JobTypeAgentRollback \<noteq> JobTypeAgentUpdate"
  by (simp_all add: JobTypeExec_def JobTypePackageInstall_def JobTypePackageRemove_def JobTypePackageUpdate_def JobTypeInventoryFull_def JobTypeFileTransfer_def JobTypeAgentUpdate_def JobTypeAgentRollback_def)

definition IsTerminalStatus :: "string \<Rightarrow> bool" where
  "IsTerminalStatus status \<longleftrightarrow>
     status \<in> {JobStatusCompleted, JobStatusFailed, JobStatusTimedOut, JobStatusCancelled}"

record JobTarget =
  jt_DeviceIDs :: "id list"
  jt_GroupIDs :: "id list"
  jt_TagIDs :: "id list"
  jt_SiteIDs :: "id list"

record ScheduledJob =
  sj_ID :: id
  sj_TenantID :: id
  sj_Name :: string
  sj_JobType :: string
  sj_Payload :: string
  sj_Target :: "JobTarget option"
  sj_CronExpr :: string
  sj_RetryPolicy :: "RetryPolicy option"
  sj_Enabled :: bool
  sj_LastRunAt :: "time option"
  sj_NextRunAt :: "time option"

section \<open>Tenants, users, roles, API keys\<close>

record TenantQuotas =
  tq_MaxDevices :: int
  tq_MaxQueuedJobs :: int
  tq_MaxAPIKeys :: int
  tq_MaxFileSizeBytes :: int

record SSOConfig =
  sso_Enabled :: bool
  sso_Provider :: string
  sso_ClientID :: string
  sso_IssuerURL :: string

record StorageConfig =
  stc_Backend :: string
  stc_Endpoint :: string
  stc_Bucket :: string
  stc_Region :: string
  stc_PresignExpirySeconds :: int

record TenantConfig =
  tc_DefaultPollIntervalSeconds :: int
  tc_DefaultCertLifetimeDays :: int
  tc_SSO :: "SSOConfig option"
  tc_Storage :: "StorageConfig option"
  tc_Quotas :: "TenantQuotas option"

record tenant_row =
  t_id :: id
  t_name :: string
  t_slug :: string
  t_config :: "TenantConfig json option"
  t_created_at :: time

record User =
  u_ID :: id
  u_TenantID :: id
  u_Email :: string
  u_RoleID :: "id option"
  u_SSOSubject :: "string option"
  u_CreatedAt :: time

record APIScope =
  sc_GroupIDs :: "id list"
  sc_TagIDs :: "id list"
  sc_SiteIDs :: "id list"
  sc_DeviceIDs :: "id list"

text \<open>A row of \<^verbatim>\<open>roles\<close>: a NULL tenant marks a system role.\<close>

record role_row =
  rl_id :: id
  rl_tenant_id :: "id option"
  rl_name :: string
  rl_permissions :: "string list json"
  rl_is_custom :: bool

record api_key_row =
  k_id :: id
  k_tenant_id :: id
  k_user_id :: "id option"
  k_name :: string
  k_key_hash :: string
  k_role_id :: "id option"
  k_scope :: "APIScope json option"
  k_is_admin :: bool
  k_last_used_at :: "time option"
  k_expires_at :: "time option"
  k_created_at :: time

section \<open>Devices and grouping\<close>

text \<open>The columns of table \<^verbatim>\<open>devices\<close>; the Go struct adds the three lists that
  are populated on read.\<close>

record device_row =
  d_id :: id
  d_tenant_id :: id
  d_hostname :: string
  d_os :: string
  d_os_version :: string
  d_arch :: string
  d_agent_version :: string
  d_status :: string
  d_last_seen_at :: "time option"
  d_registered_at :: time
  d_cdm_enabled :: bool
  d_cdm_session_active :: bool
  d_cdm_session_expires_at :: "time option"
  d_sequence_last :: int

record Device = device_row +
  d_Groups :: "string list"
  d_Tags :: "string list"
  d_Sites :: "string list"

definition DeviceStatusOnline :: string where "DeviceStatusOnline = ''online''"
definition DeviceStatusOffline :: string where "DeviceStatusOffline = ''offline''"
definition DeviceStatusUnknown :: string where "DeviceStatusUnknown = ''unknown''"
definition DeviceStatusRevoked :: string where "DeviceStatusRevoked = ''revoked''"

lemma device_status_neq [simp]:
  "DeviceStatusOnline \<noteq> DeviceStatusOffline"
  "DeviceStatusOnline \<noteq> DeviceStatusUnknown"
  "DeviceStatusOnline \<noteq> DeviceStatusRevoked"
  "DeviceStatusOffline \<noteq> DeviceStatusOnline"
  "DeviceStatusOffline \<noteq> DeviceStatusUnknown"
  "DeviceStatusOffline \<noteq> DeviceStatusRevoked"
  "DeviceStatusUnknown \<noteq> DeviceStatusOnline"
  "DeviceStatusUnknown \<noteq> DeviceStatusOffline"
  "DeviceStatusUnknown \<noteq> DeviceStatusRevoked"
  "DeviceStatusRevoked \<noteq> DeviceStatusOnline"
  "DeviceStatusRevoked \<noteq> DeviceStatusOffline"
  "DeviceStatusRevoked \<noteq> DeviceStatusUnknown"
  by (simp_all add: DeviceStatusOnline_def DeviceStatusOffline_def DeviceStatusUnknown_def DeviceStatusRevoked_def)

text \<open>Groups and tags have the same columns; a site adds its nullable location.\<close>

record named_row =
  n_id :: id
  n_tenant_id :: id
  n_name :: string

record site_row = named_row +
  n_location :: "string option"

section \<open>Certificates and enrollment tokens (shared/models/cert.go)\<close>

text \<open>A row of \<^verbatim>\<open>agent_certificates\<close>.\<close>

record cert_row =
  c_id :: id
  c_device_id :: id
  c_serial_number :: string
  c_fingerprint :: string
  c_issued_at :: time
  c_expires_at :: time
  c_revoked_at :: "time option"
  c_revocation_reason :: "string option"

record enrollment_token_row =
  et_id :: id
  et_tenant_id :: id
  et_token_hash :: string
  et_created_by :: id
  et_scope :: "APIScope json option"
  et_used_at :: "time option"
  et_expires_at :: time
  et_created_at :: time

record EnrollmentToken =
  tok_ID :: id
  tok_TenantID :: id
  tok_TokenHash :: string
  tok_CreatedBy :: id
  tok_Scope :: "APIScope option"
  tok_UsedAt :: "time option"
  tok_ExpiresAt :: time
  tok_CreatedAt :: time

section \<open>Audit entries and package inventory\<close>

text \<open>The metadata document is kept as the list of its members, each rendered as text.\<close>

record AuditEntry =
  a_ID :: id
  a_TenantID :: id
  a_ActorID :: id
  a_ActorType :: string
  a_Action :: string
  a_ResourceType :: string
  a_ResourceID :: id
  a_Metadata :: "(string \<times> string) list option"
  a_IPAddress :: string
  a_CreatedAt :: time

definition ActorTypeUser :: string where "ActorTypeUser = ''user''"
definition ActorTypeAPIKey :: string where "ActorTypeAPIKey = ''api_key''"
definition ActorTypeAgent :: string where "ActorTypeAgent = ''agent''"
definition ActorTypeSystem :: string where "ActorTypeSystem = ''system''"

record Package =
  p_ID :: id
  p_DeviceID :: id
  p_Name :: string
  p_Version :: string
  p_Manager :: string
  p_InstalledAt :: "time option"
  p_LastSeenAt :: time

section \<open>Alert rules (shared/models/alert.go)\<close>

text \<open>The condition document is the \<^verbatim>\<open>AlertCondition\<close> of the scheduler.\<close>

record AlertCondition =
  cond_Type :: string
  cond_ThresholdMinutes :: int
  cond_Scope :: "JobTarget option"

record AlertChannels =
  ch_Webhooks :: "string list"
  ch_Emails :: "string list"

record alert_rule_row =
  ar_id :: id
  ar_tenant_id :: id
  ar_name :: string
  ar_condition :: "AlertCondition json"
  ar_channels :: "AlertChannels json"
  ar_enabled :: bool

record AlertRule =
  rule_ID :: id
  rule_TenantID :: id
  rule_Name :: string
  rule_Condition :: "AlertCondition json"
  rule_Channels :: "AlertChannels option"
  rule_Enabled :: bool

section \<open>Signing keys and files (shared/models/file.go)\<close>

record SigningKey =
  sk_ID :: id
  sk_TenantID :: id
  sk_Name :: string
  sk_Algorithm :: string
  sk_PublicKey :: string
  sk_Fingerprint :: string
  sk_CreatedBy :: "id option"
  sk_CreatedAt :: time

record file_row =
  f_id :: id
  f_tenant_id :: id
  f_filename :: string
  f_size_bytes :: int
  f_sha256 :: string
  f_signature :: "string option"
  f_signature_key_id :: "id option"
  f_signature_verified :: bool
  f_mime_type :: "string option"
  f_storage_backend :: string
  f_storage_path :: string
  f_created_by :: "id option"
  f_created_at :: time

record file_upload_row =
  up_id :: id
  up_file_id :: id
  up_tenant_id :: id
  up_chunk_size_bytes :: int
  up_total_chunks :: int
  up_uploaded_chunks :: "int list"
  up_completed_at :: "time option"
  up_expires_at :: time
  up_created_at :: time

section \<open>Agent versions and rollouts (shared/models/agent_version.go, rollout.go)\<close>

record agent_version_row =
  av_id :: id
  av_version :: string
  av_channel :: string
  av_changelog :: "string option"
  av_yanked :: bool
  av_yank_reason :: "string option"
  av_created_at :: time

record AgentVersionBinary =
  avb_ID :: id
  avb_AgentVersionID :: id
  avb_OS :: string
  avb_Arch :: string
  avb_FileID :: id
  avb_SHA256 :: string
  avb_Signature :: string
  avb_SignatureKeyID :: id

record update_policy_row =
  pol_id :: id
  pol_tenant_id :: id
  pol_group_id :: "id option"
  pol_enabled :: bool
  pol_channel :: string
  pol_schedule :: "string option"
  pol_rollout_strategy :: string
  pol_batch_percent :: int
  pol_batch_interval_minutes :: int

record installer_row =
  ins_id :: id
  ins_version :: string
  ins_channel :: string
  ins_os :: string
  ins_arch :: string
  ins_file_id :: id
  ins_sha256 :: string
  ins_signature :: string
  ins_signature_key_id :: id
  ins_released_at :: time
  ins_yanked :: bool
  ins_yank_reason :: "string option"

record Rollout =
  ro_ID :: id
  ro_AgentVersionID :: id
  ro_TenantID :: id
  ro_Status :: string
  ro_Strategy :: string
  ro_BatchPercent :: int
  ro_BatchIntervalMinutes :: int
  ro_CurrentBatch :: int
  ro_TotalDevices :: int
  ro_UpdatedDevices :: int
  ro_RolledBackDevices :: int
  ro_Seed :: int
  ro_LastBatchAt :: "time option"
  ro_CreatedAt :: time

section \<open>Device logs\<close>

record device_log_row =
  dl_id :: id
  dl_tenant_id :: id
  dl_device_id :: id
  dl_timestamp :: time
  dl_level :: string
  dl_message :: string
  dl_created_at :: time

section \<open>Wire protocol (shared/protocol)\<close>

record PackageRef =
  pr_Name :: string
  pr_Version :: string
  pr_Manager :: string

record PackageDelta =
  pd_Added :: "PackageRef list"
  pd_Removed :: "PackageRef list"
  pd_Updated :: "PackageRef list"

record InventoryDelta =
  id_Packages :: "PackageDelta option"

record AgentStatus =
  as_UptimeSeconds :: int
  as_CDMEnabled :: bool
  as_CDMSessionActive :: bool
  as_CDMSessionExpiresAt :: "time option"
  as_AgentVersion :: string
  as_LastUpdateFailed :: bool
  as_LastUpdateJobID :: id
  as_LastUpdateError :: string

record CheckinRequest =
  cq_AgentID :: id
  cq_Timestamp :: time
  cq_Sequence :: int
  cq_Status :: AgentStatus
  cq_InventoryDelta :: "InventoryDelta option"

record LogEntry =
  le_Timestamp :: time
  le_Level :: string
  le_Message :: string

record JobDispatch =
  jd_JobID :: id
  jd_Type :: string
  jd_Payload :: string
  jd_CreatedAt :: time

record AgentConfig =
  ac_PollIntervalSeconds :: int

record CheckinResponse =
  cr_Timestamp :: time
  cr_Jobs :: "JobDispatch list"
  cr_Config :: "AgentConfig option"

record JobResultSubmission =
  js_Status :: string
  js_ExitCode :: "int option"
  js_Stdout :: string
  js_Stderr :: string
  js_Message :: string
  js_StartedAt :: "time option"
  js_CompletedAt :: "time option"

record EnrollRequest =
  eq_EnrollmentToken :: string
  eq_CSR :: string
  eq_Hostname :: string
  eq_OS :: string
  eq_OSVersion :: string
  eq_Arch :: string
  eq_AgentVersion :: string

record EnrollResponse =
  er_AgentID :: id
  er_Certificate :: string
  er_CAChain :: string
  er_PollIntervalSeconds :: int

record RenewRequest =
  rq_CSR :: string

record RenewResponse =
  rr_Certificate :: string
  rr_CAChain :: string

end
