(* ===== verification/Database.thy ===== *)
theory Database
  imports Models
begin

text \<open>
  The PostgreSQL database as the server uses it, and the world a handler runs in.

  A table is the list of its rows in insertion order.  A statement is a function from the
  database to an error or a result with the new database; INSERT checks the constraints of
  \<^verbatim>\<open>server/migrate/sql\<close> (primary keys, unique columns, foreign keys).  The world
  adds what the environment decides: a schedule of statement outcomes, the random bytes, and
  the readings of the clock.  A statement that \<open>Fails\<close> is not executed; one that is
  \<open>Lost\<close> is executed and the client still sees an error, as when the connection
  breaks before the reply.

  The locale \<open>db_contract\<close> is the interface between the statements and the proofs about
  handlers: a preorder on databases that every statement of a handler respects is respected by
  the handler, whatever the schedule.
\<close>

section \<open>Rows not shared with a struct\<close>

text \<open>A row of \<^verbatim>\<open>inventory_hardware\<close>; the JSON columns are opaque text.\<close>

record hardware_row =
  hw_id :: id
  hw_device_id :: id
  hw_collected_at :: time
  hw_cpu :: string
  hw_ram_mb :: int
  hw_disks :: string
  hw_network_interfaces :: string

record scheduled_job_row =
  s_id :: id
  s_tenant_id :: id
  s_name :: string
  s_job_type :: string
  s_payload :: string
  s_target :: "JobTarget json"
  s_cron_expr :: string
  s_retry_policy :: "RetryPolicy json option"
  s_enabled :: bool
  s_last_run_at :: "time option"
  s_next_run_at :: "time option"

section \<open>Tables\<close>

record db =
  db_tenants :: "tenant_row list"
  db_users :: "User list"
  db_roles :: "role_row list"
  db_api_keys :: "api_key_row list"
  db_devices :: "device_row list"
  db_groups :: "named_row list"
  db_device_groups :: "(id \<times> id) list"
  db_tags :: "named_row list"
  db_device_tags :: "(id \<times> id) list"
  db_sites :: "site_row list"
  db_device_sites :: "(id \<times> id) list"
  db_inventory_hardware :: "hardware_row list"
  db_inventory_packages :: "Package list"
  db_jobs :: "job_row list"
  db_job_results :: "JobResult list"
  db_scheduled_jobs :: "scheduled_job_row list"
  db_audit_log :: "AuditEntry list"
  db_agent_certificates :: "cert_row list"
  db_enrollment_tokens :: "enrollment_token_row list"
  db_alert_rules :: "alert_rule_row list"
  db_signing_keys :: "SigningKey list"
  db_files :: "file_row list"
  db_file_uploads :: "file_upload_row list"
  db_device_logs :: "device_log_row list"
  db_agent_versions :: "agent_version_row list"
  db_version_binaries :: "AgentVersionBinary list"
  db_update_policies :: "update_policy_row list"
  db_installers :: "installer_row list"
  db_rollouts :: "Rollout list"

text \<open>A violated unique index (SQLSTATE 23505) is told apart from a violated foreign key, as
  some handlers do.  PostgreSQL checks a unique index when the row is inserted and the foreign
  keys at the end of the statement.\<close>

datatype db_error = ErrNoRows | ErrScan | ErrUnique | ErrForeignKey | ErrConn

type_synonym 'a stmt = "db \<Rightarrow> db_error + ('a \<times> db)"

definition references :: "id option \<Rightarrow> id list \<Rightarrow> bool" where
  "references k keys = (case k of None \<Rightarrow> True | Some x \<Rightarrow> x \<in> set keys)"

definition constrained :: "bool \<Rightarrow> bool \<Rightarrow> db \<Rightarrow> db_error + (unit \<times> db)" where
  "constrained unique refs d' =
    (if \<not> unique then Inl ErrUnique else if \<not> refs then Inl ErrForeignKey else Inr ((), d'))"

definition insert_job :: "job_row \<Rightarrow> unit stmt" where
  "insert_job r d =
    constrained (j_id r \<notin> set (map j_id (db_jobs d)))
      (j_tenant_id r \<in> set (map t_id (db_tenants d))
        \<and> j_device_id r \<in> set (map d_id (db_devices d))
        \<and> references (j_parent_job_id r) (map j_id (db_jobs d))
        \<and> references (j_created_by r) (map u_ID (db_users d)))
      (d\<lparr>db_jobs := db_jobs d @ [r]\<rparr>)"

definition update_jobs :: "(job_row \<Rightarrow> bool) \<Rightarrow> (job_row \<Rightarrow> job_row) \<Rightarrow> nat stmt" where
  "update_jobs P f d =
     Inr (rows_affected P (db_jobs d), d\<lparr>db_jobs := update_rows P f (db_jobs d)\<rparr>)"

definition update_devices :: "(device_row \<Rightarrow> bool) \<Rightarrow> (device_row \<Rightarrow> device_row) \<Rightarrow> nat stmt" where
  "update_devices P f d =
     Inr (rows_affected P (db_devices d),
          d\<lparr>db_devices := update_rows P f (db_devices d)\<rparr>)"

definition insert_job_result :: "JobResult \<Rightarrow> unit stmt" where
  "insert_job_result r d =
    constrained (jr_ID r \<notin> set (map jr_ID (db_job_results d)))
      (jr_JobID r \<in> set (map j_id (db_jobs d)))
      (d\<lparr>db_job_results := db_job_results d @ [r]\<rparr>)"

definition insert_audit :: "AuditEntry \<Rightarrow> unit stmt" where
  "insert_audit e d =
    constrained (a_ID e \<notin> set (map a_ID (db_audit_log d)))
      (a_TenantID e \<in> set (map t_id (db_tenants d)))
      (d\<lparr>db_audit_log := db_audit_log d @ [e]\<rparr>)"

definition insert_package :: "Package \<Rightarrow> unit stmt" where
  "insert_package p d =
    constrained (p_ID p \<notin> set (map p_ID (db_inventory_packages d)))
      (p_DeviceID p \<in> set (map d_id (db_devices d)))
      (d\<lparr>db_inventory_packages := db_inventory_packages d @ [p]\<rparr>)"

text \<open>\<^verbatim>\<open>ON CONFLICT DO NOTHING\<close>: the primary key is the only unique index of the
  table, and a missing device is still an error.\<close>

definition insert_package_nothing :: "Package \<Rightarrow> unit stmt" where
  "insert_package_nothing p d =
    (if p_ID p \<in> set (map p_ID (db_inventory_packages d)) then Inr ((), d)
     else insert_package p d)"

definition update_packages :: "(Package \<Rightarrow> bool) \<Rightarrow> (Package \<Rightarrow> Package) \<Rightarrow> unit stmt" where
  "update_packages P f d =
     Inr ((), d\<lparr>db_inventory_packages := update_rows P f (db_inventory_packages d)\<rparr>)"

definition delete_packages :: "(Package \<Rightarrow> bool) \<Rightarrow> unit stmt" where
  "delete_packages P d =
     Inr ((), d\<lparr>db_inventory_packages := delete_rows P (db_inventory_packages d)\<rparr>)"

definition insert_hardware :: "hardware_row \<Rightarrow> unit stmt" where
  "insert_hardware r d =
    constrained (hw_id r \<notin> set (map hw_id (db_inventory_hardware d)))
      (hw_device_id r \<in> set (map d_id (db_devices d)))
      (d\<lparr>db_inventory_hardware := db_inventory_hardware d @ [r]\<rparr>)"

definition delete_hardware :: "(hardware_row \<Rightarrow> bool) \<Rightarrow> unit stmt" where
  "delete_hardware P d =
     Inr ((), d\<lparr>db_inventory_hardware := delete_rows P (db_inventory_hardware d)\<rparr>)"

definition delete_tokens :: "(enrollment_token_row \<Rightarrow> bool) \<Rightarrow> nat stmt" where
  "delete_tokens P d =
     Inr (rows_affected P (db_enrollment_tokens d),
          d\<lparr>db_enrollment_tokens := delete_rows P (db_enrollment_tokens d)\<rparr>)"

definition update_scheduled ::
  "(scheduled_job_row \<Rightarrow> bool) \<Rightarrow> (scheduled_job_row \<Rightarrow> scheduled_job_row) \<Rightarrow> nat stmt" where
  "update_scheduled P f d =
     Inr (rows_affected P (db_scheduled_jobs d),
          d\<lparr>db_scheduled_jobs := update_rows P f (db_scheduled_jobs d)\<rparr>)"

definition insert_scheduled :: "scheduled_job_row \<Rightarrow> unit stmt" where
  "insert_scheduled r d =
    constrained (s_id r \<notin> set (map s_id (db_scheduled_jobs d)))
      (s_tenant_id r \<in> set (map t_id (db_tenants d)))
      (d\<lparr>db_scheduled_jobs := db_scheduled_jobs d @ [r]\<rparr>)"

definition delete_scheduled :: "(scheduled_job_row \<Rightarrow> bool) \<Rightarrow> nat stmt" where
  "delete_scheduled P d =
     Inr (rows_affected P (db_scheduled_jobs d),
          d\<lparr>db_scheduled_jobs := delete_rows P (db_scheduled_jobs d)\<rparr>)"

definition insert_alert_rule :: "alert_rule_row \<Rightarrow> unit stmt" where
  "insert_alert_rule r d =
    constrained (ar_id r \<notin> set (map ar_id (db_alert_rules d)))
      (ar_tenant_id r \<in> set (map t_id (db_tenants d)))
      (d\<lparr>db_alert_rules := db_alert_rules d @ [r]\<rparr>)"

definition update_alert_rules ::
  "(alert_rule_row \<Rightarrow> bool) \<Rightarrow> (alert_rule_row \<Rightarrow> alert_rule_row) \<Rightarrow> nat stmt" where
  "update_alert_rules P f d =
     Inr (rows_affected P (db_alert_rules d),
          d\<lparr>db_alert_rules := update_rows P f (db_alert_rules d)\<rparr>)"

definition delete_alert_rules :: "(alert_rule_row \<Rightarrow> bool) \<Rightarrow> nat stmt" where
  "delete_alert_rules P d =
     Inr (rows_affected P (db_alert_rules d),
          d\<lparr>db_alert_rules := delete_rows P (db_alert_rules d)\<rparr>)"

text \<open>A SELECT of one row: no row is \<open>ErrNoRows\<close>.\<close>

definition select_row :: "('r \<Rightarrow> bool) \<Rightarrow> 'r list \<Rightarrow> db_error + 'r" where
  "select_row P rs = (case find_row P rs of None \<Rightarrow> Inl ErrNoRows | Some r \<Rightarrow> Inr r)"

section \<open>The world\<close>

datatype outcome = Succeeds | Fails | Lost

text \<open>What the server sends to the outside (\<^verbatim>\<open>server/notify\<close>): the destination and the
  alert.  Whether it arrives has no effect on the sender.\<close>

record AlertPayload =
  al_AlertRuleID :: id
  al_AlertRuleName :: string
  al_TenantID :: id
  al_ConditionType :: string
  al_Message :: string
  al_FiredAt :: time

datatype delivery = Webhook string AlertPayload | Email string AlertPayload

record world =
  w_db :: db
  w_faults :: "outcome list"
  w_clock :: "nat \<Rightarrow> time"
  w_ticks :: nat
  w_rand :: "nat \<Rightarrow> byte"
  w_drawn :: nat
  w_sent :: "delivery list"

text \<open>An exhausted schedule means that every further statement succeeds.\<close>

definition next_outcome :: "world \<Rightarrow> outcome \<times> world" where
  "next_outcome w =
    (case w_faults w of [] \<Rightarrow> (Succeeds, w) | x # xs \<Rightarrow> (x, w\<lparr>w_faults := xs\<rparr>))"

definition Exec :: "'a stmt \<Rightarrow> world \<Rightarrow> (db_error + 'a) \<times> world" where
  "Exec f w =
    (case next_outcome w of (oc, w1) \<Rightarrow>
      (case oc of
         Fails \<Rightarrow> (Inl ErrConn, w1)
       | Succeeds \<Rightarrow> (case f (w_db w1) of
             Inl e \<Rightarrow> (Inl e, w1)
           | Inr (x, d) \<Rightarrow> (Inr x, w1\<lparr>w_db := d\<rparr>))
       | Lost \<Rightarrow> (case f (w_db w1) of
             Inl e \<Rightarrow> (Inl ErrConn, w1)
           | Inr (x, d) \<Rightarrow> (Inl ErrConn, w1\<lparr>w_db := d\<rparr>))))"

definition Query :: "(db \<Rightarrow> db_error + 'a) \<Rightarrow> world \<Rightarrow> (db_error + 'a) \<times> world" where
  "Query f = Exec (\<lambda>d. case f d of Inl e \<Rightarrow> Inl e | Inr x \<Rightarrow> Inr (x, d))"

text \<open>An UPDATE or DELETE after which the store turns \<^verbatim>\<open>RowsAffected() == 0\<close> into
  \<^verbatim>\<open>pgx.ErrNoRows\<close>.\<close>

definition ExecRow :: "nat stmt \<Rightarrow> world \<Rightarrow> (db_error + unit) \<times> world" where
  "ExecRow f w =
    (case Exec f w of
       (Inl e, w1) \<Rightarrow> (Inl e, w1)
     | (Inr n, w1) \<Rightarrow> (if n = 0 then Inl ErrNoRows else Inr (), w1))"

text \<open>A transaction: \<^verbatim>\<open>BeginTx\<close>, the statements, \<^verbatim>\<open>Commit\<close>, and the deferred
  \<^verbatim>\<open>Rollback\<close> on every early return.  A lost reply to the commit leaves the transaction
  committed although the client sees an error.\<close>

definition Transaction ::
  "'e \<Rightarrow> 'e \<Rightarrow> (world \<Rightarrow> ('e + 'a) \<times> world) \<Rightarrow> world \<Rightarrow> ('e + 'a) \<times> world" where
  "Transaction no_begin no_commit body w =
    (case next_outcome w of (oc, w1) \<Rightarrow>
      if oc \<noteq> Succeeds then (Inl no_begin, w1)
      else case body w1 of
        (Inl e, w2) \<Rightarrow> (Inl e, w2\<lparr>w_db := w_db w1\<rparr>)
      | (Inr x, w2) \<Rightarrow>
        (case next_outcome w2 of (oc2, w3) \<Rightarrow>
          (case oc2 of
             Succeeds \<Rightarrow> (Inr x, w3)
           | Fails \<Rightarrow> (Inl no_commit, w3\<lparr>w_db := w_db w1\<rparr>)
           | Lost \<Rightarrow> (Inl no_commit, w3))))"

text \<open>\<^verbatim>\<open>time.Now().UTC()\<close> reads the clock; \<^verbatim>\<open>crypto/rand.Read\<close> draws
  bytes and, from Go 1.24 on, never returns an error.\<close>

definition Now :: "world \<Rightarrow> time \<times> world" where
  "Now w = (w_clock w (w_ticks w), w\<lparr>w_ticks := Suc (w_ticks w)\<rparr>)"

definition rand_Read :: "nat \<Rightarrow> world \<Rightarrow> byte list \<times> world" where
  "rand_Read n w =
     (map (w_rand w) [w_drawn w ..< w_drawn w + n], w\<lparr>w_drawn := w_drawn w + n\<rparr>)"

text \<open>A loop over a list whose body returns on the first error.\<close>

fun for_each :: "('p \<Rightarrow> world \<Rightarrow> ('e + unit) \<times> world) \<Rightarrow> 'p list \<Rightarrow> world \<Rightarrow> ('e + unit) \<times> world"
where
  "for_each body [] w = (Inr (), w)"
| "for_each body (p # ps) w =
    (case body p w of
       (Inl e, w1) \<Rightarrow> (Inl e, w1)
     | (Inr _, w1) \<Rightarrow> for_each body ps w1)"

section \<open>Identifiers (shared/models/id.go)\<close>

definition newID :: "string \<Rightarrow> world \<Rightarrow> id \<times> world" where
  "newID prefix w = (case rand_Read 8 w of (b, w1) \<Rightarrow> (prefix @ ''_'' @ hex_encode b, w1))"

definition ValidPrefix :: "id \<Rightarrow> string \<Rightarrow> bool" where
  "ValidPrefix i prefix = HasPrefix i (prefix @ ''_'')"

section \<open>Audit log (server/audit/audit.go)\<close>

definition Logger_Log :: "AuditEntry \<Rightarrow> world \<Rightarrow> (db_error + unit) \<times> world" where
  "Logger_Log entry w =
    (case newID ''aud'' w of (i, w1) \<Rightarrow>
     case Now w1 of (t, w2) \<Rightarrow>
       Exec (insert_audit (entry\<lparr>a_ID := i, a_CreatedAt := t\<rparr>)) w2)"

text \<open>The metadata of every caller is a map of strings, which marshals without error.\<close>

definition LogAction ::
  "id \<Rightarrow> id \<Rightarrow> string \<Rightarrow> string \<Rightarrow> string \<Rightarrow> id \<Rightarrow> (string \<times> string) list option
     \<Rightarrow> world \<Rightarrow> world" where
  "LogAction tenantID actorID actorType action resourceType resourceID metadata w =
     snd (Logger_Log \<lparr>a_ID = '''', a_TenantID = tenantID, a_ActorID = actorID,
       a_ActorType = actorType, a_Action = action, a_ResourceType = resourceType,
       a_ResourceID = resourceID, a_Metadata = metadata, a_IPAddress = '''',
       a_CreatedAt = 0\<rparr> w)"

section \<open>What a statement can do to the database\<close>

lemma next_outcome_db [simp]: "w_db (snd (next_outcome w)) = w_db w"
  by (simp add: next_outcome_def split: list.splits)

lemma next_outcome_dbD: "next_outcome w = (oc, w') \<Longrightarrow> w_db w' = w_db w"
  using next_outcome_db [of w] by simp

lemma constrained_Inr [simp]:
  "constrained u f d' = Inr (x, d) \<longleftrightarrow> u \<and> f \<and> d = d'"
  by (auto simp: constrained_def)

lemma Now_db [simp]: "w_db (snd (Now w)) = w_db w"
  by (simp add: Now_def)

lemma rand_Read_db [simp]: "w_db (snd (rand_Read n w)) = w_db w"
  by (simp add: rand_Read_def)

lemma newID_db [simp]: "w_db (snd (newID p w)) = w_db w"
  by (simp add: newID_def rand_Read_def)

lemma Exec_cases:
  assumes "Exec f w = (r, w')"
  shows "(w_db w' = w_db w \<and> (\<forall>x. r \<noteq> Inr x)) \<or>
         (\<exists>x. f (w_db w) = Inr (x, w_db w') \<and> (\<forall>y. r = Inr y \<longrightarrow> y = x))"
proof -
  obtain oc w1 where oc: "next_outcome w = (oc, w1)" by (cases "next_outcome w")
  note db = next_outcome_dbD [OF oc]
  show ?thesis
    using assms db by (cases oc; cases "f (w_db w)") (auto simp: Exec_def oc)
qed

lemma Exec_Inr: "Exec f w = (Inr x, w') \<Longrightarrow> f (w_db w) = Inr (x, w_db w')"
  using Exec_cases by fastforce

lemma Query_db: "w_db (snd (Query f w)) = w_db w"
proof -
  obtain r w' where "Query f w = (r, w')" by (cases "Query f w")
  then show ?thesis
    unfolding Query_def using Exec_cases by (fastforce split: sum.splits)
qed

lemma Query_Inr: "Query f w = (Inr x, w') \<Longrightarrow> f (w_db w) = Inr x \<and> w_db w' = w_db w"
  unfolding Query_def by (drule Exec_Inr) (auto split: sum.splits)

lemma Query_same_db: "Query f w = (r, w') \<Longrightarrow> w_db w' = w_db w"
  using Query_db [of f w] by simp

text \<open>A statement takes no reading of the clock.\<close>

lemma Exec_clock [simp]:
  "w_clock (snd (Exec f w)) = w_clock w" "w_ticks (snd (Exec f w)) = w_ticks w"
proof -
  obtain oc w1 where oc: "next_outcome w = (oc, w1)" by (cases "next_outcome w")
  have "w_clock w1 = w_clock w" "w_ticks w1 = w_ticks w"
    using oc by (auto simp: next_outcome_def split: list.splits)
  then show "w_clock (snd (Exec f w)) = w_clock w" "w_ticks (snd (Exec f w)) = w_ticks w"
    by (cases oc; cases "f (w_db w1)"; auto simp: Exec_def oc)+
qed

lemma Query_clock [simp]:
  "w_clock (snd (Query f w)) = w_clock w" "w_ticks (snd (Query f w)) = w_ticks w"
  by (simp_all add: Query_def)

text \<open>Without faults a statement is its denotation.\<close>

lemma Exec_no_fault:
  "w_faults w = [] \<Longrightarrow>
     Exec f w = (case f (w_db w) of Inl e \<Rightarrow> (Inl e, w) | Inr (x, d) \<Rightarrow> (Inr x, w\<lparr>w_db := d\<rparr>))"
  by (simp add: Exec_def next_outcome_def)

lemma Query_no_fault: "w_faults w = [] \<Longrightarrow> Query f w = (f (w_db w), w)"
  by (simp add: Query_def Exec_no_fault split: sum.splits)

lemma Exec_faults: "w_faults w = [] \<Longrightarrow> w_faults (snd (Exec f w)) = []"
  by (simp add: Exec_no_fault split: sum.splits prod.splits)

lemma Query_faults: "w_faults w = [] \<Longrightarrow> w_faults (snd (Query f w)) = []"
  by (simp add: Query_no_fault)

lemma fold_faults:
  assumes "\<And>p w. w_faults w = [] \<Longrightarrow> w_faults (body p w) = []" and "w_faults w = []"
  shows "w_faults (fold body ps w) = []"
  using assms(2) by (induction ps arbitrary: w) (simp_all add: assms(1))

lemma newID_faults [simp]: "w_faults (snd (newID p w)) = w_faults w"
  by (simp add: newID_def rand_Read_def)

lemma Now_faults [simp]: "w_faults (snd (Now w)) = w_faults w"
  by (simp add: Now_def)

lemma for_each_faults:
  assumes "\<And>p w. w_faults w = [] \<Longrightarrow> w_faults (snd (body p w)) = []" and "w_faults w = []"
  shows "w_faults (snd (for_each body ps w)) = []"
  using assms(2)
proof (induction ps arbitrary: w)
  case (Cons p ps)
  obtain r w1 where b: "body p w = (r, w1)" by (cases "body p w")
  then show ?case using assms(1) [OF Cons.prems, of p] Cons.IH [of w1] by (cases r) auto
qed simp

text \<open>A transaction that reports success ran its body on the database it started from and kept
  the result; otherwise the database is the old one, or the reply to the commit was lost.\<close>

lemma Transaction_Inr:
  assumes "Transaction e1 e2 body w = (Inr x, w')"
  obtains w1 w2 where "w_db w1 = w_db w" "body w1 = (Inr x, w2)" "w_db w' = w_db w2"
proof -
  obtain oc w1 where oc: "next_outcome w = (oc, w1)" by (cases "next_outcome w")
  obtain r w2 where b: "body w1 = (r, w2)" by (cases "body w1")
  obtain oc2 w3 where oc2: "next_outcome w2 = (oc2, w3)" by (cases "next_outcome w2")
  have "oc = Succeeds" "r = Inr x" "oc2 = Succeeds" "w' = w3"
    using assms by (auto simp: Transaction_def oc b oc2 split: if_splits sum.splits outcome.splits)
  then show thesis
    using that b next_outcome_dbD [OF oc] next_outcome_dbD [OF oc2] by blast
qed

lemma Transaction_cases:
  assumes "Transaction e1 e2 body w = (r, w')"
  shows "w_db w' = w_db w \<or> (\<exists>w1 x w2. w_db w1 = w_db w \<and> body w1 = (Inr x, w2) \<and> w_db w' = w_db w2)"
proof -
  obtain oc w1 where oc: "next_outcome w = (oc, w1)" by (cases "next_outcome w")
  note d1 = next_outcome_dbD [OF oc]
  obtain r2 w2 where b: "body w1 = (r2, w2)" by (cases "body w1")
  obtain oc2 w3 where oc2: "next_outcome w2 = (oc2, w3)" by (cases "next_outcome w2")
  note d3 = next_outcome_dbD [OF oc2]
  show ?thesis
  proof (cases r2)
    case (Inl e)
    then show ?thesis using assms d1 by (auto simp: Transaction_def oc b split: if_splits)
  next
    case (Inr x)
    then show ?thesis using assms d1 d3 b
      by (cases oc2) (auto simp: Transaction_def oc oc2 split: if_splits)
  qed
qed

lemma Transaction_Inl:
  assumes "Transaction e1 e2 body w = (Inl r, w')"
  shows "r = e1 \<or> r = e2 \<or> (\<exists>w1 w2. body w1 = (Inl r, w2))"
proof -
  obtain oc w1 where oc: "next_outcome w = (oc, w1)" by (cases "next_outcome w")
  obtain r2 w2 where b: "body w1 = (r2, w2)" by (cases "body w1")
  obtain oc2 w3 where oc2: "next_outcome w2 = (oc2, w3)" by (cases "next_outcome w2")
  show ?thesis
    using assms b by (cases r2; cases oc2) (auto simp: Transaction_def oc oc2 split: if_splits)
qed

lemma Transaction_no_fault:
  assumes "w_faults w = []" "w_faults (snd (body w)) = []"
  shows "Transaction e1 e2 body w =
    (case body w of (Inl e, w2) \<Rightarrow> (Inl e, w2\<lparr>w_db := w_db w\<rparr>) | (Inr x, w2) \<Rightarrow> (Inr x, w2))"
  using assms by (simp add: Transaction_def next_outcome_def case_prod_beta split: sum.split)

lemma select_row_Inr: "select_row P rs = Inr r \<Longrightarrow> r \<in> set rs \<and> P r"
  by (auto simp: select_row_def split: option.splits dest: find_row_SomeD)

locale db_contract =
  fixes R :: "db \<Rightarrow> db \<Rightarrow> bool"
  assumes contract_refl: "R d d"
    and contract_trans: "R a b \<Longrightarrow> R b c \<Longrightarrow> R a c"
begin

lemma Exec_respects:
  assumes "\<And>x d'. f (w_db w) = Inr (x, d') \<Longrightarrow> R (w_db w) d'"
  shows "R (w_db w) (w_db (snd (Exec f w)))"
proof -
  obtain r w' where ex: "Exec f w = (r, w')" by (cases "Exec f w")
  from Exec_cases [OF ex] show ?thesis using assms contract_refl ex by auto
qed

lemma Query_respects: "R (w_db w) (w_db (snd (Query f w)))"
  by (simp add: Query_db contract_refl)

text \<open>Rules that follow the syntax of a handler: \<open>d\<close> is the database it started from.\<close>

lemma Exec_after:
  assumes "R d (w_db w)" and "\<And>x d'. f (w_db w) = Inr (x, d') \<Longrightarrow> R (w_db w) d'"
  shows "R d (w_db (snd (Exec f w)))"
  using assms(1) by (rule contract_trans) (rule Exec_respects, rule assms(2))

lemma Query_after: "R d (w_db w) \<Longrightarrow> R d (w_db (snd (Query f w)))"
  by (simp add: Query_db)

lemma newID_after: "R d (w_db w) \<Longrightarrow> R d (w_db (snd (newID p w)))"
  by simp

lemma Now_after: "R d (w_db w) \<Longrightarrow> R d (w_db (snd (Now w)))"
  by simp

lemma ExecRow_after:
  assumes "R d (w_db w)" and "\<And>x d'. f (w_db w) = Inr (x, d') \<Longrightarrow> R (w_db w) d'"
  shows "R d (w_db (snd (ExecRow f w)))"
proof -
  have "R d (w_db (snd (Exec f w)))" using assms by (rule Exec_after)
  then show ?thesis by (simp add: ExecRow_def case_prod_beta split: sum.split)
qed

lemma bind_after:
  assumes "R d (w_db (snd m))"
    and "\<And>x w1. m = (x, w1) \<Longrightarrow> R d (w_db w1) \<Longrightarrow> R d (w_db (snd (k x w1)))"
  shows "R d (w_db (snd (case m of (x, w1) \<Rightarrow> k x w1)))"
  using assms by (cases m) auto

lemma bind_world_after:
  assumes "R d (w_db (snd m))"
    and "\<And>x w1. m = (x, w1) \<Longrightarrow> R d (w_db w1) \<Longrightarrow> R d (w_db (k x w1))"
  shows "R d (w_db (case m of (x, w1) \<Rightarrow> k x w1))"
  using assms by (cases m) auto

lemma sum_after:
  assumes "\<And>e. x = Inl e \<Longrightarrow> R d (w_db (snd (f e)))"
    and "\<And>y. x = Inr y \<Longrightarrow> R d (w_db (snd (g y)))"
  shows "R d (w_db (snd (case x of Inl e \<Rightarrow> f e | Inr y \<Rightarrow> g y)))"
  using assms by (cases x) auto

lemma sum_world_after:
  assumes "\<And>e. x = Inl e \<Longrightarrow> R d (w_db (f e))"
    and "\<And>y. x = Inr y \<Longrightarrow> R d (w_db (g y))"
  shows "R d (w_db (case x of Inl e \<Rightarrow> f e | Inr y \<Rightarrow> g y))"
  using assms by (cases x) auto

lemma pair_after: "R d (w_db w) \<Longrightarrow> R d (w_db (snd (r, w)))"
  by simp

lemma for_each_after:
  assumes "R d (w_db w)" and "\<And>p w. R d (w_db w) \<Longrightarrow> R d (w_db (snd (body p w)))"
  shows "R d (w_db (snd (for_each body ps w)))"
  using assms(1)
proof (induction ps arbitrary: w)
  case (Cons p ps)
  obtain r w1 where b: "body p w = (r, w1)" by (cases "body p w")
  then show ?case using assms(2) [OF Cons.prems, of p] Cons.IH [of w1] by (cases r) auto
qed simp

lemma Transaction_after:
  assumes "R d (w_db w)" and "\<And>w1. R d (w_db w1) \<Longrightarrow> R d (w_db (snd (body w1)))"
  shows "R d (w_db (snd (Transaction e1 e2 body w)))"
proof -
  obtain oc w1 where oc: "next_outcome w = (oc, w1)" by (cases "next_outcome w")
  note d1 = next_outcome_dbD [OF oc]
  obtain r w2 where b: "body w1 = (r, w2)" by (cases "body w1")
  have r2: "R d (w_db w2)" using assms(2) [of w1] assms(1) d1 b by simp
  obtain oc2 w3 where oc2: "next_outcome w2 = (oc2, w3)" by (cases "next_outcome w2")
  note d3 = next_outcome_dbD [OF oc2]
  show ?thesis
    using assms(1) r2 d1 d3
    by (cases r; cases oc2) (simp_all add: Transaction_def oc b oc2)
qed

lemma fold_after:
  assumes "R d (w_db w)" and "\<And>p w. R d (w_db w) \<Longrightarrow> R d (w_db (body p w))"
  shows "R d (w_db (fold body ps w))"
  using assms(1) by (induction ps arbitrary: w) (simp_all add: assms(2))

lemmas after = pair_after bind_after bind_world_after sum_after sum_world_after
  newID_after Now_after Query_after

end

locale audited_contract = db_contract +
  assumes contract_audit: "insert_audit e d = Inr (x, d') \<Longrightarrow> R d d'"
begin

lemma LogAction_respects:
  "R (w_db w) (w_db (LogAction t a at ac rt ri m w))"
proof -
  obtain i w1 where i: "newID ''aud'' w = (i, w1)" by (cases "newID ''aud'' w")
  obtain n w2 where n: "Now w1 = (n, w2)" by (cases "Now w1")
  have db: "w_db w2 = w_db w" using newID_db [of "''aud''" w] Now_db [of w1] i n by simp
  show ?thesis
    unfolding LogAction_def Logger_Log_def i n prod.case db [symmetric]
    by (rule Exec_respects) (rule contract_audit)
qed

lemma LogAction_after:
  "R d (w_db w) \<Longrightarrow> R d (w_db (LogAction t a at ac rt ri m w))"
  using contract_trans LogAction_respects by blast

end

end
