(* ===== verification/Jobs.thy ===== *)
theory Jobs
  imports Models
begin

text \<open>
  The job state machine and the job types: package \<^verbatim>\<open>server/jobs\<close>
  (\<^verbatim>\<open>state.go\<close>, \<^verbatim>\<open>types.go\<close>).  The transition table of the code is
  read as a step relation, and the paths of that relation are what the handlers are measured
  against in the theories that follow.
\<close>

section \<open>Transitions (server/jobs/state.go)\<close>

definition validTransitions :: "(string \<times> string list) list" where
  "validTransitions =
    [(JobStatusPending, [JobStatusQueued, JobStatusCancelled]),
     (JobStatusQueued, [JobStatusDispatched, JobStatusCDMHold, JobStatusCancelled]),
     (JobStatusCDMHold, [JobStatusDispatched, JobStatusCancelled]),
     (JobStatusDispatched, [JobStatusAcknowledged, JobStatusQueued, JobStatusCancelled]),
     (JobStatusAcknowledged, [JobStatusRunning, JobStatusQueued]),
     (JobStatusRunning, [JobStatusCompleted, JobStatusFailed, JobStatusTimedOut])]"

datatype transition_error =
    TerminalState string
  | UnknownState string
  | InvalidTransition string string

definition ValidateTransition :: "string \<Rightarrow> string \<Rightarrow> transition_error + unit" where
  "ValidateTransition from to =
    (case map_of validTransitions from of
       None \<Rightarrow> if IsTerminalStatus from then Inl (TerminalState from)
                else Inl (UnknownState from)
     | Some targets \<Rightarrow> if to \<in> set targets then Inr ()
                       else Inl (InvalidTransition from to))"

definition AllStatuses :: "string list" where
  "AllStatuses =
    [JobStatusPending, JobStatusQueued, JobStatusCDMHold, JobStatusDispatched,
     JobStatusAcknowledged, JobStatusRunning, JobStatusCompleted, JobStatusFailed,
     JobStatusTimedOut, JobStatusCancelled]"

definition CancellableStatuses :: "string list" where
  "CancellableStatuses =
    [JobStatusPending, JobStatusQueued, JobStatusCDMHold, JobStatusDispatched]"

definition IsCancellable :: "string \<Rightarrow> bool" where
  "IsCancellable status \<longleftrightarrow> status \<in> set CancellableStatuses"

definition IsRetryable :: "string \<Rightarrow> bool" where
  "IsRetryable status \<longleftrightarrow> status = JobStatusFailed \<or> status = JobStatusTimedOut"

section \<open>Types and retries (server/jobs/types.go)\<close>

definition allJobTypes :: "string list" where
  "allJobTypes =
    [JobTypeExec, JobTypePackageInstall, JobTypePackageRemove, JobTypePackageUpdate,
     JobTypeInventoryFull, JobTypeFileTransfer, JobTypeAgentUpdate, JobTypeAgentRollback]"

text \<open>The error carries the rejected type, as the message of the code does.\<close>

definition ValidateType :: "string \<Rightarrow> string + unit" where
  "ValidateType jobType = (if jobType \<in> set allJobTypes then Inr () else Inl jobType)"

definition defaultRetryPolicies :: "(string \<times> RetryPolicy) list" where
  "defaultRetryPolicies =
    [(JobTypePackageInstall, \<lparr>rp_MaxRetries = 3, rp_RetryDelaySeconds = 300\<rparr>),
     (JobTypePackageRemove, \<lparr>rp_MaxRetries = 3, rp_RetryDelaySeconds = 300\<rparr>),
     (JobTypePackageUpdate, \<lparr>rp_MaxRetries = 3, rp_RetryDelaySeconds = 300\<rparr>),
     (JobTypeInventoryFull, \<lparr>rp_MaxRetries = 5, rp_RetryDelaySeconds = 60\<rparr>),
     (JobTypeFileTransfer, \<lparr>rp_MaxRetries = 3, rp_RetryDelaySeconds = 300\<rparr>),
     (JobTypeAgentUpdate, \<lparr>rp_MaxRetries = 2, rp_RetryDelaySeconds = 600\<rparr>)]"

definition DefaultRetryPolicy :: "string \<Rightarrow> RetryPolicy option" where
  "DefaultRetryPolicy jobType = map_of defaultRetryPolicies jobType"

definition ShouldRetry :: "string \<Rightarrow> int \<Rightarrow> int \<Rightarrow> bool" where
  "ShouldRetry status retryCount maxRetries \<longleftrightarrow>
     IsRetryable status \<and> retryCount < maxRetries"

section \<open>The state machine as a step relation\<close>

inductive job_step :: "string \<Rightarrow> string \<Rightarrow> bool" where
  "ValidateTransition s t = Inr () \<Longrightarrow> job_step s t"

inductive job_path :: "string \<Rightarrow> string list \<Rightarrow> string \<Rightarrow> bool" where
  path_refl: "job_path s [] s"
| path_step: "job_step s t \<Longrightarrow> job_path t ts u \<Longrightarrow> job_path s (t # ts) u"

inductive_cases job_path_ConsE: "job_path s (t # ts) u"
inductive_cases job_path_NilE: "job_path s [] u"
inductive_simps job_step_iff: "job_step s t"

lemma map_of_validTransitions:
  "map_of validTransitions s =
     (if s = JobStatusPending then Some [JobStatusQueued, JobStatusCancelled]
      else if s = JobStatusQueued
        then Some [JobStatusDispatched, JobStatusCDMHold, JobStatusCancelled]
      else if s = JobStatusCDMHold then Some [JobStatusDispatched, JobStatusCancelled]
      else if s = JobStatusDispatched
        then Some [JobStatusAcknowledged, JobStatusQueued, JobStatusCancelled]
      else if s = JobStatusAcknowledged then Some [JobStatusRunning, JobStatusQueued]
      else if s = JobStatusRunning
        then Some [JobStatusCompleted, JobStatusFailed, JobStatusTimedOut]
      else None)"
  by (simp add: validTransitions_def)

lemma ValidateTransition_ok_iff:
  "ValidateTransition s t = Inr () \<longleftrightarrow>
     (\<exists>ts. map_of validTransitions s = Some ts \<and> t \<in> set ts)"
  by (auto simp: ValidateTransition_def split: option.splits if_splits)

lemma job_step_source_not_terminal: "job_step s t \<Longrightarrow> \<not> IsTerminalStatus s"
  by (auto simp: job_step_iff ValidateTransition_ok_iff map_of_validTransitions
      IsTerminalStatus_def split: if_splits)

lemma terminal_path_Nil: "job_path s ts u \<Longrightarrow> IsTerminalStatus s \<Longrightarrow> ts = [] \<and> u = s"
  by (induction rule: job_path.induct) (auto dest: job_step_source_not_terminal)

lemma job_step_into:
  "job_step s JobStatusRunning \<Longrightarrow> s = JobStatusAcknowledged"
  "job_step s JobStatusAcknowledged \<Longrightarrow> s = JobStatusDispatched"
  "job_step s JobStatusCompleted \<Longrightarrow> s = JobStatusRunning"
  by (auto simp: job_step_iff ValidateTransition_ok_iff map_of_validTransitions
      split: if_splits)

text \<open>A path that ends in a state other than its start has a last step into it.\<close>

lemma job_path_last:
  "job_path s ts u \<Longrightarrow> s \<noteq> u \<Longrightarrow> \<exists>v. job_step v u \<and> v \<in> set (s # ts)"
proof (induction rule: job_path.induct)
  case (path_step s t ts u)
  then show ?case by (cases "t = u") auto
qed simp

lemma job_path_prefix:
  "job_path s ts u \<Longrightarrow> v \<in> set ts \<Longrightarrow> \<exists>vs. job_path s vs v \<and> set vs \<subseteq> set ts"
proof (induction rule: job_path.induct)
  case (path_step s t ts u)
  show ?case
  proof (cases "v = t")
    case True
    then show ?thesis
      using path_step.hyps(1) by (intro exI [of _ "[t]"]) (auto intro: job_path.intros)
  next
    case False
    with path_step obtain vs where "job_path t vs v" "set vs \<subseteq> set ts" by auto
    then show ?thesis
      using path_step.hyps(1) by (intro exI [of _ "t # vs"]) (auto intro: job_path.intros)
  qed
qed simp

lemma job_path_pred:
  assumes "job_path s ts u" "v \<in> set ts" "s \<noteq> v"
  shows "\<exists>w. job_step w v \<and> w \<in> set (s # ts)"
  using job_path_prefix [OF assms(1,2)] job_path_last assms(3) by fastforce

end
