(* ===== verification/Lifecycle.thy ===== *)
theory Lifecycle
  imports Database Jobs
begin

text \<open>
  What may happen to the rows of table \<^verbatim>\<open>jobs\<close>.  No statement of the server deletes a
  job or moves it in the table, so a job keeps its position: \<open>jobs_related\<close> compares two
  databases row by row, and a preorder on rows gives a contract for statements.  Two preorders
  are used: \<open>job_evolves\<close> (the identity of the job is kept and its status follows a step
  relation) and \<open>kept_if\<close> (rows of a given kind are untouched).
\<close>

section \<open>Row by row\<close>

lemma update_jobs_Inr:
  "update_jobs P f d = Inr (n, d') \<longleftrightarrow>
     n = rows_affected P (db_jobs d) \<and> d' = d\<lparr>db_jobs := update_rows P f (db_jobs d)\<rparr>"
  by (auto simp: update_jobs_def)

lemma Exec_update_jobs:
  assumes "Exec (update_jobs P f) w = (res, w')"
  shows "(w_db w' = w_db w \<and> \<not> (\<exists>x. res = Inr x)) \<or>
         w_db w' = (w_db w)\<lparr>db_jobs := update_rows P f (db_jobs (w_db w))\<rparr>"
  using Exec_cases [OF assms] unfolding update_jobs_Inr by blast

lemma update_devices_Inr:
  "update_devices P f d = Inr (n, d') \<longleftrightarrow>
     n = rows_affected P (db_devices d) \<and>
     d' = d\<lparr>db_devices := update_rows P f (db_devices d)\<rparr>"
  by (auto simp: update_devices_def)

definition jobs_related :: "(job_row \<Rightarrow> job_row \<Rightarrow> bool) \<Rightarrow> db \<Rightarrow> db \<Rightarrow> bool" where
  "jobs_related \<rho> d d' \<longleftrightarrow>
     length (db_jobs d) \<le> length (db_jobs d') \<and>
     (\<forall>i < length (db_jobs d). \<rho> (db_jobs d ! i) (db_jobs d' ! i))"

locale row_preorder =
  fixes \<rho> :: "job_row \<Rightarrow> job_row \<Rightarrow> bool"
  assumes row_refl: "\<rho> r r"
    and row_trans: "\<rho> r s \<Longrightarrow> \<rho> s t \<Longrightarrow> \<rho> r t"
begin

lemma related_refl: "jobs_related \<rho> d d"
  by (simp add: jobs_related_def row_refl)

lemma related_trans: "jobs_related \<rho> a b \<Longrightarrow> jobs_related \<rho> b c \<Longrightarrow> jobs_related \<rho> a c"
  unfolding jobs_related_def by (meson order.trans order.strict_trans2 row_trans)

lemma related_same_jobs: "db_jobs d' = db_jobs d \<Longrightarrow> jobs_related \<rho> d d'"
  by (simp add: jobs_related_def row_refl)

lemma related_audit: "insert_audit e d = Inr (x, d') \<Longrightarrow> jobs_related \<rho> d d'"
  by (auto simp: insert_audit_def intro: related_same_jobs)

lemma related_insert: "insert_job r d = Inr (x, d') \<Longrightarrow> jobs_related \<rho> d d'"
  by (auto simp: insert_job_def jobs_related_def nth_append row_refl)

lemma related_update:
  assumes "update_jobs P f d = Inr (x, d')"
    and "\<And>r. r \<in> set (db_jobs d) \<Longrightarrow> P r \<Longrightarrow> \<rho> r (f r)"
  shows "jobs_related \<rho> d d'"
  using assms by (auto simp: update_jobs_def jobs_related_def update_rows_nth length_update_rows row_refl)

end

sublocale row_preorder \<subseteq> audited_contract "jobs_related \<rho>"
  by unfold_locales (fact related_refl, fact related_trans, fact related_audit)

section \<open>Evolution along a step relation\<close>

text \<open>The columns no statement of the server ever updates.\<close>

definition same_job :: "job_row \<Rightarrow> job_row \<Rightarrow> bool" where
  "same_job r r' \<longleftrightarrow>
     j_id r' = j_id r \<and> j_tenant_id r' = j_tenant_id r \<and> j_device_id r' = j_device_id r \<and>
     j_parent_job_id r' = j_parent_job_id r \<and> j_type r' = j_type r \<and>
     j_payload r' = j_payload r \<and> j_retry_policy r' = j_retry_policy r \<and>
     j_retry_count r' = j_retry_count r \<and> j_max_retries r' = j_max_retries r \<and>
     j_created_by r' = j_created_by r \<and> j_created_at r' = j_created_at r"

definition job_evolves :: "(string \<Rightarrow> string \<Rightarrow> bool) \<Rightarrow> job_row \<Rightarrow> job_row \<Rightarrow> bool" where
  "job_evolves S r r' \<longleftrightarrow> same_job r r' \<and> S\<^sup>*\<^sup>* (j_status r) (j_status r')"

definition kept_if :: "(job_row \<Rightarrow> bool) \<Rightarrow> job_row \<Rightarrow> job_row \<Rightarrow> bool" where
  "kept_if Q r r' \<longleftrightarrow> (Q r \<longrightarrow> r' = r)"

text \<open>The steps the server takes: those of the table in \<^verbatim>\<open>server/jobs/state.go\<close>, and
  two that are not in it, the release of a held job and the reaper's timeout of a job that was
  acknowledged and never reported.\<close>

definition server_step :: "string \<Rightarrow> string \<Rightarrow> bool" where
  "server_step s t \<longleftrightarrow> job_step s t
     \<or> s = JobStatusCDMHold \<and> t = JobStatusQueued
     \<or> s = JobStatusAcknowledged \<and> t = JobStatusTimedOut"

lemma server_step_not_terminal: "server_step s t \<Longrightarrow> \<not> IsTerminalStatus s"
  by (auto simp: server_step_def IsTerminalStatus_def dest: job_step_source_not_terminal)

lemma server_steps_terminal: "server_step\<^sup>*\<^sup>* s t \<Longrightarrow> IsTerminalStatus s \<Longrightarrow> t = s"
  by (metis converse_rtranclpE server_step_not_terminal)

lemma server_step_intros:
  "server_step JobStatusDispatched JobStatusQueued"
  "server_step JobStatusQueued JobStatusCDMHold"
  "server_step JobStatusCDMHold JobStatusQueued"
  "server_step JobStatusQueued JobStatusDispatched"
  "server_step JobStatusDispatched JobStatusAcknowledged"
  "server_step JobStatusAcknowledged JobStatusRunning"
  "server_step JobStatusAcknowledged JobStatusTimedOut"
  "server_step JobStatusRunning JobStatusTimedOut"
  by (simp_all add: server_step_def job_step_iff ValidateTransition_ok_iff
      map_of_validTransitions)

interpretation evolves: row_preorder "job_evolves S" for S
  by unfold_locales (simp_all add: job_evolves_def same_job_def, meson rtranclp_trans)

interpretation kept: row_preorder "kept_if Q" for Q
  by unfold_locales (simp_all add: kept_if_def)

lemma job_evolves_stepI:
  "same_job r r' \<Longrightarrow> S (j_status r) (j_status r') \<Longrightarrow> job_evolves S r r'"
  by (auto simp: job_evolves_def)

lemma job_evolves_mono:
  assumes "job_evolves S r r'" and "\<And>s t. S s t \<Longrightarrow> S' s t"
  shows "job_evolves S' r r'"
proof -
  have "S\<^sup>*\<^sup>* (j_status r) (j_status r')" and same: "same_job r r'"
    using assms(1) by (simp_all add: job_evolves_def)
  then have "S'\<^sup>*\<^sup>* (j_status r) (j_status r')"
    by (induction rule: rtranclp_induct) (auto intro: rtranclp.rtrancl_into_rtrancl assms(2))
  with same show ?thesis by (simp add: job_evolves_def)
qed

text \<open>Statements on other tables keep the whole table of jobs.\<close>

interpretation same_jobs: audited_contract "\<lambda>d d'. db_jobs d' = db_jobs d"
  by unfold_locales (auto simp: insert_audit_def)

lemma same_jobs_stmts:
  "insert_package p d = Inr (x, d') \<Longrightarrow> db_jobs d' = db_jobs d"
  "insert_package_nothing p d = Inr (x, d') \<Longrightarrow> db_jobs d' = db_jobs d"
  "update_packages P f d = Inr (x, d') \<Longrightarrow> db_jobs d' = db_jobs d"
  "delete_packages P d = Inr (x, d') \<Longrightarrow> db_jobs d' = db_jobs d"
  "insert_hardware h d = Inr (x, d') \<Longrightarrow> db_jobs d' = db_jobs d"
  "delete_hardware Q d = Inr (x, d') \<Longrightarrow> db_jobs d' = db_jobs d"
  "insert_job_result jr d = Inr (x, d') \<Longrightarrow> db_jobs d' = db_jobs d"
  "update_devices Pd fd d = Inr (n, d') \<Longrightarrow> db_jobs d' = db_jobs d"
  "delete_tokens Pt d = Inr (n, d') \<Longrightarrow> db_jobs d' = db_jobs d"
  "update_scheduled Ps fs d = Inr (n, d') \<Longrightarrow> db_jobs d' = db_jobs d"
  "insert_scheduled sr d = Inr (x, d') \<Longrightarrow> db_jobs d' = db_jobs d"
  "delete_scheduled Ps d = Inr (n, d') \<Longrightarrow> db_jobs d' = db_jobs d"
  "insert_alert_rule ar d = Inr (x, d') \<Longrightarrow> db_jobs d' = db_jobs d"
  "update_alert_rules Pa fa d = Inr (n, d') \<Longrightarrow> db_jobs d' = db_jobs d"
  "delete_alert_rules Pa d = Inr (n, d') \<Longrightarrow> db_jobs d' = db_jobs d"
  by (auto simp: insert_package_def insert_package_nothing_def update_packages_def
      delete_packages_def insert_hardware_def delete_hardware_def insert_job_result_def
      update_devices_def delete_tokens_def update_scheduled_def insert_scheduled_def
      delete_scheduled_def insert_alert_rule_def update_alert_rules_def delete_alert_rules_def
      split: if_splits)

section \<open>Primary keys of jobs\<close>

definition distinct_jobs :: "db \<Rightarrow> bool" where
  "distinct_jobs d \<longleftrightarrow> distinct (map j_id (db_jobs d))"

lemma distinct_jobs_update:
  assumes "distinct_jobs d" "update_jobs P f d = Inr (x, d')" "\<And>r. j_id (f r) = j_id r"
  shows "distinct_jobs d'"
proof -
  have "map j_id (update_rows P f (db_jobs d)) = map j_id (db_jobs d)"
    by (rule map_update_rows) (simp add: assms(3))
  with assms(1,2) show ?thesis by (auto simp: distinct_jobs_def update_jobs_def)
qed

lemma distinct_jobs_insert:
  "distinct_jobs d \<Longrightarrow> insert_job r d = Inr (x, d') \<Longrightarrow> distinct_jobs d'"
  by (auto simp: distinct_jobs_def insert_job_def)

interpretation job_ids: audited_contract "\<lambda>d d'. map j_id (db_jobs d') = map j_id (db_jobs d)"
  by unfold_locales (auto simp: insert_audit_def)

lemma job_ids_update:
  "update_jobs P f d = Inr (x, d') \<Longrightarrow> (\<And>r. j_id (f r) = j_id r) \<Longrightarrow>
     map j_id (db_jobs d') = map j_id (db_jobs d)"
  by (simp add: update_jobs_Inr map_update_rows)

lemma distinct_jobs_ids:
  "map j_id (db_jobs d') = map j_id (db_jobs d) \<Longrightarrow> distinct_jobs d \<Longrightarrow> distinct_jobs d'"
  by (simp add: distinct_jobs_def)

lemma distinct_jobs_row:
  assumes "distinct_jobs d" "r \<in> set (db_jobs d)" "s \<in> set (db_jobs d)" "j_id r = j_id s"
  shows "r = s"
  using assms unfolding distinct_jobs_def by (metis distinct_key_eq)

text \<open>The row that \<open>select_row\<close> returns is the only one with its key.\<close>

lemma selected_row:
  assumes "Query (\<lambda>d. select_row P (db_jobs d)) w = (Inr job, w')"
  shows "w_db w' = w_db w" "job \<in> set (db_jobs (w_db w))" "P job"
  using Query_Inr [OF assms] by (auto dest: select_row_Inr)

context row_preorder
begin

text \<open>A handler that selects a row by its key and then updates by that key touches this row only.\<close>

lemma update_selected_related:
  assumes "distinct_jobs (w_db w)" "job \<in> set (db_jobs (w_db w))" "j_id job = jid"
    and "db_jobs (w_db w1) = db_jobs (w_db w)" and "\<rho> job (f job)"
  shows "jobs_related \<rho> (w_db w) (w_db (snd (Exec (update_jobs (\<lambda>r. j_id r = jid) f) w1)))"
proof -
  have "jobs_related \<rho> (w_db w1) (w_db (snd (Exec (update_jobs (\<lambda>r. j_id r = jid) f) w1)))"
  proof (rule Exec_respects, erule related_update)
    fix r
    assume r: "r \<in> set (db_jobs (w_db w1))" and k: "j_id r = jid"
    have "r = job"
      by (rule distinct_jobs_row [OF assms(1) r [unfolded assms(4)] assms(2)]) (simp add: k assms(3))
    with assms(5) show "\<rho> r (f r)" by simp
  qed
  with related_same_jobs [OF assms(4)] show ?thesis by (rule related_trans)
qed

end

end
