(* ===== verification/Http.thy ===== *)
theory Http
  imports Database Jobs
begin

text \<open>
  HTTP responses: \<^verbatim>\<open>server/api/respond.go\<close>.  A handler of the model returns a
  \<open>response\<close>.  The request identifier that the error body echoes from a response header is
  not part of it.
\<close>

datatype 'a response =
    JSON nat 'a
  | ErrorBody nat string string
  | NoContent

abbreviation StatusOK :: nat where "StatusOK \<equiv> 200"
abbreviation StatusCreated :: nat where "StatusCreated \<equiv> 201"
abbreviation StatusBadRequest :: nat where "StatusBadRequest \<equiv> 400"
abbreviation StatusUnauthorized :: nat where "StatusUnauthorized \<equiv> 401"
abbreviation StatusForbidden :: nat where "StatusForbidden \<equiv> 403"
abbreviation StatusNotFound :: nat where "StatusNotFound \<equiv> 404"
abbreviation StatusMethodNotAllowed :: nat where "StatusMethodNotAllowed \<equiv> 405"
abbreviation StatusConflict :: nat where "StatusConflict \<equiv> 409"
abbreviation StatusTooManyRequests :: nat where "StatusTooManyRequests \<equiv> 429"
abbreviation StatusInternalServerError :: nat where "StatusInternalServerError \<equiv> 500"

definition httpCodeToErrorCode :: "nat \<Rightarrow> string" where
  "httpCodeToErrorCode status =
    (if status = StatusBadRequest then ''bad_request''
     else if status = StatusUnauthorized then ''unauthorized''
     else if status = StatusForbidden then ''forbidden''
     else if status = StatusNotFound then ''not_found''
     else if status = StatusMethodNotAllowed then ''method_not_allowed''
     else if status = StatusConflict then ''conflict''
     else if status = StatusTooManyRequests then ''rate_limited''
     else ''internal_error'')"

definition Error :: "nat \<Rightarrow> string \<Rightarrow> 'a response" where
  "Error status msg = ErrorBody status (httpCodeToErrorCode status) msg"

definition ErrorWithCode :: "nat \<Rightarrow> string \<Rightarrow> string \<Rightarrow> 'a response" where
  "ErrorWithCode status code msg = ErrorBody status code msg"

fun status_of :: "'a response \<Rightarrow> nat" where
  "status_of (JSON s _) = s"
| "status_of (ErrorBody s _ _) = s"
| "status_of NoContent = 204"

lemma status_of_Error [simp]:
  "status_of (Error s m) = s" "status_of (ErrorWithCode s c m) = s"
  by (simp_all add: Error_def ErrorWithCode_def)

lemma Error_neq [simp]:
  "Error s m \<noteq> JSON t x" "Error s m \<noteq> NoContent"
  "ErrorWithCode s c m \<noteq> JSON t x" "ErrorWithCode s c m \<noteq> NoContent"
  "JSON t x \<noteq> Error s m" "NoContent \<noteq> Error s m"
  "JSON t x \<noteq> ErrorWithCode s c m" "NoContent \<noteq> ErrorWithCode s c m"
  by (simp_all add: Error_def ErrorWithCode_def)

text \<open>What the authentication middleware puts into the request context
  (\<^verbatim>\<open>server/auth/apikey.go\<close>): an absent value reads as the zero value of its type.\<close>

record auth_context =
  ctx_TenantID :: id
  ctx_UserID :: id
  ctx_RoleID :: id
  ctx_Permissions :: "string list"
  ctx_Scope :: "APIScope option"
  ctx_IsAdmin :: bool

text \<open>The verb \<^verbatim>\<open>%q\<close> on text that is ASCII or valid printable UTF-8.\<close>

definition quote_char :: "char \<Rightarrow> string" where
  "quote_char c =
    (let n = of_char c :: nat in
     if n = 34 \<or> n = 92 then [char_of (92 :: nat), c]
     else if n = 7 then [char_of (92 :: nat), CHR ''a'']
     else if n = 8 then [char_of (92 :: nat), CHR ''b'']
     else if n = 9 then [char_of (92 :: nat), CHR ''t'']
     else if n = 10 then [char_of (92 :: nat), CHR ''n'']
     else if n = 11 then [char_of (92 :: nat), CHR ''v'']
     else if n = 12 then [char_of (92 :: nat), CHR ''f'']
     else if n = 13 then [char_of (92 :: nat), CHR ''r'']
     else if n < 32 \<or> n = 127
       then [char_of (92 :: nat), CHR ''x''] @ hex_encode [of_nat n]
     else [c])"

definition quote :: "string \<Rightarrow> string" where
  "quote s = [CHR 0x22] @ concat (map quote_char s) @ [CHR 0x22]"

fun transition_message :: "transition_error \<Rightarrow> string" where
  "transition_message (TerminalState s) = ''cannot transition from terminal state '' @ quote s"
| "transition_message (UnknownState s) = ''unknown state '' @ quote s"
| "transition_message (InvalidTransition s t) =
     ''invalid transition from '' @ quote s @ '' to '' @ quote t"

section \<open>Shapes the handlers share\<close>

text \<open>An optional field of a PATCH request gives an update of its column.\<close>

definition opt_update :: "('x \<Rightarrow> 'u) \<Rightarrow> 'x option \<Rightarrow> 'u list" where
  "opt_update c x = (case x of None \<Rightarrow> [] | Some v \<Rightarrow> [c v])"

text \<open>The tail of an endpoint that acts on one row (delete, enable, disable): the statement of the
  store, the answer to a missing row, the audit entry.\<close>

definition row_action ::
  "bool \<Rightarrow> auth_context \<Rightarrow> string \<Rightarrow> string \<Rightarrow> string \<Rightarrow> string \<Rightarrow> id
     \<Rightarrow> (world \<Rightarrow> (db_error + unit) \<times> world) \<Rightarrow> world \<Rightarrow> unit response \<times> world" where
  "row_action audit ctx missing failed action resource i act w =
    (case act w of
       (Inl e, w1) \<Rightarrow>
         (if e = ErrNoRows then Error StatusNotFound missing
          else Error StatusInternalServerError failed, w1)
     | (Inr _, w1) \<Rightarrow>
       (NoContent, if audit then LogAction (ctx_TenantID ctx) (ctx_UserID ctx) ActorTypeUser
          action resource i None w1 else w1))"

end
