(* ===== verification/Samples.thy ===== *)
theory Samples
  imports Database
begin

text \<open>A small concrete database and world, on which the properties are exercised: one tenant
  with a user, two devices, and a second tenant with a device of its own.\<close>

definition sample_tenant :: "id \<Rightarrow> tenant_row" where
  "sample_tenant i = \<lparr>t_id = i, t_name = i, t_slug = i, t_config = None, t_created_at = 0\<rparr>"

definition sample_user :: "id \<Rightarrow> id \<Rightarrow> User" where
  "sample_user i t = \<lparr>u_ID = i, u_TenantID = t, u_Email = i, u_RoleID = None,
     u_SSOSubject = None, u_CreatedAt = 0\<rparr>"

definition sample_device :: "id \<Rightarrow> id \<Rightarrow> device_row" where
  "sample_device i t = \<lparr>d_id = i, d_tenant_id = t, d_hostname = i, d_os = ''linux'',
     d_os_version = ''1'', d_arch = ''amd64'', d_agent_version = ''1'',
     d_status = DeviceStatusOnline, d_last_seen_at = None, d_registered_at = 0,
     d_cdm_enabled = False, d_cdm_session_active = False, d_cdm_session_expires_at = None,
     d_sequence_last = 0\<rparr>"

definition sample_job :: "id \<Rightarrow> id \<Rightarrow> id \<Rightarrow> string \<Rightarrow> time \<Rightarrow> job_row" where
  "sample_job i t dev status at = \<lparr>j_id = i, j_tenant_id = t, j_device_id = dev,
     j_parent_job_id = None, j_type = JobTypeExec, j_status = status, j_payload = ''{}'',
     j_retry_policy = None, j_retry_count = 0, j_max_retries = 1, j_last_error = None,
     j_created_by = Some ''u1'', j_created_at = at, j_dispatched_at = None,
     j_acknowledged_at = None, j_started_at = None, j_completed_at = None\<rparr>"

definition sample_db :: "job_row list \<Rightarrow> db" where
  "sample_db js = \<lparr>db_tenants = [sample_tenant ''t1'', sample_tenant ''t2''],
     db_users = [sample_user ''u1'' ''t1''], db_roles = [], db_api_keys = [],
     db_devices = [sample_device ''d1'' ''t1'', sample_device ''d2'' ''t1'',
       sample_device ''e1'' ''t2''],
     db_groups = [\<lparr>n_id = ''g1'', n_tenant_id = ''t1'', n_name = ''g''\<rparr>],
     db_device_groups = [(''d1'', ''g1''), (''d2'', ''g1'')], db_tags = [], db_device_tags = [],
     db_sites = [], db_device_sites = [], db_inventory_hardware = [],
     db_inventory_packages = [], db_jobs = js, db_job_results = [], db_scheduled_jobs = [],
     db_audit_log = [], db_agent_certificates = [], db_enrollment_tokens = [], db_alert_rules = [],
     db_signing_keys = [], db_files = [], db_file_uploads = [], db_device_logs = [],
     db_agent_versions = [], db_version_binaries = [], db_update_policies = [], db_installers = [],
     db_rollouts = []\<rparr>"

definition sample_world :: "job_row list \<Rightarrow> world" where
  "sample_world js = \<lparr>w_db = sample_db js, w_faults = [],
     w_clock = (\<lambda>n. int n * Second + 100 * Second), w_ticks = 0,
     w_rand = (\<lambda>n. of_nat n), w_drawn = 0, w_sent = []\<rparr>"

definition sample_jobs :: "job_row list" where
  "sample_jobs =
    [sample_job ''j1'' ''t1'' ''d1'' JobStatusQueued 5,
     sample_job ''j2'' ''t1'' ''d1'' JobStatusQueued 3,
     sample_job ''j3'' ''t1'' ''d2'' JobStatusCompleted 1,
     sample_job ''j4'' ''t1'' ''d1'' JobStatusDispatched 2,
     sample_job ''j5'' ''t1'' ''d1'' JobStatusAcknowledged 2]"

definition sample_status :: "bool \<Rightarrow> bool \<Rightarrow> AgentStatus" where
  "sample_status en act = \<lparr>as_UptimeSeconds = 1, as_CDMEnabled = en, as_CDMSessionActive = act,
     as_CDMSessionExpiresAt = None, as_AgentVersion = ''1'', as_LastUpdateFailed = False,
     as_LastUpdateJobID = '''', as_LastUpdateError = ''''\<rparr>"

definition sample_checkin :: "AgentStatus \<Rightarrow> CheckinRequest" where
  "sample_checkin st = \<lparr>cq_AgentID = ''d1'', cq_Timestamp = 0, cq_Sequence = 1,
     cq_Status = st, cq_InventoryDelta = None\<rparr>"

end
