(* ===== verification/Checkin.thy ===== *)
theory Checkin
  imports Lifecycle Http Samples "HOL-Library.Sublist"
begin

text \<open>
  Agent check-in: \<^verbatim>\<open>server/api/checkin.go\<close>.  The handler records the device, takes a
  report of a failed update, applies a package delta, requeues dispatched jobs the agent missed,
  and dispatches up to ten queued jobs, unless the device is in customer device mode (CDM)
  without a session, in which case its queued jobs are held.
\<close>

section \<open>The handler\<close>

definition zero_Job :: Job where
  "zero_Job = \<lparr>job_ID = '''', job_TenantID = '''', job_DeviceID = '''', job_ParentJobID = '''',
     job_Type = '''', job_Status = '''', job_Payload = '''', job_RetryPolicy = None,
     job_RetryCount = 0, job_MaxRetries = 0, job_LastError = '''', job_CreatedBy = '''',
     job_CreatedAt = 0, job_DispatchedAt = None, job_AcknowledgedAt = None,
     job_StartedAt = None, job_CompletedAt = None, job_Result = None\<rparr>"

definition scan_dispatchable :: "job_row \<Rightarrow> Job" where
  "scan_dispatchable r = zero_Job\<lparr>job_ID := j_id r, job_TenantID := j_tenant_id r,
     job_DeviceID := j_device_id r, job_Type := j_type r, job_Status := j_status r,
     job_Payload := j_payload r, job_CreatedAt := j_created_at r\<rparr>"

definition own_with_status :: "id \<Rightarrow> id \<Rightarrow> string \<Rightarrow> job_row \<Rightarrow> bool" where
  "own_with_status agentID tenantID status r \<longleftrightarrow>
     j_device_id r = agentID \<and> j_tenant_id r = tenantID \<and> j_status r = status"

definition select_queued :: "id \<Rightarrow> id \<Rightarrow> db \<Rightarrow> job_row list" where
  "select_queued agentID tenantID d =
     take 10 (sort_key j_created_at
       (filter (own_with_status agentID tenantID JobStatusQueued) (db_jobs d)))"

definition CheckinHandler_fetchDispatchableJobs ::
  "id \<Rightarrow> id \<Rightarrow> bool \<Rightarrow> bool \<Rightarrow> world \<Rightarrow> (db_error + Job list) \<times> world" where
  "CheckinHandler_fetchDispatchableJobs agentID tenantID cdmEnabled cdmSessionActive w =
    (if cdmEnabled \<and> \<not> cdmSessionActive then
       (case Exec (update_jobs (own_with_status agentID tenantID JobStatusQueued)
                     (\<lambda>r. r\<lparr>j_status := JobStatusCDMHold\<rparr>)) w of
          (Inl e, w1) \<Rightarrow> (Inl e, w1)
        | (Inr _, w1) \<Rightarrow> (Inr [], w1))
     else
       let w1 = (if cdmEnabled \<and> cdmSessionActive then
                   snd (Exec (update_jobs (own_with_status agentID tenantID JobStatusCDMHold)
                                (\<lambda>r. r\<lparr>j_status := JobStatusQueued\<rparr>)) w)
                 else w) in
       Query (\<lambda>d. Inr (map scan_dispatchable (select_queued agentID tenantID d))) w1)"

definition delta_add :: "id \<Rightarrow> time \<Rightarrow> PackageRef \<Rightarrow> world \<Rightarrow> (db_error + unit) \<times> world" where
  "delta_add deviceID now p w =
    (case newID ''ipk'' w of (i, w1) \<Rightarrow>
       Exec (insert_package_nothing \<lparr>p_ID = i, p_DeviceID = deviceID, p_Name = pr_Name p,
         p_Version = pr_Version p, p_Manager = pr_Manager p, p_InstalledAt = None,
         p_LastSeenAt = now\<rparr>) w1)"

definition package_is :: "id \<Rightarrow> PackageRef \<Rightarrow> Package \<Rightarrow> bool" where
  "package_is deviceID p q \<longleftrightarrow>
     p_DeviceID q = deviceID \<and> p_Name q = pr_Name p \<and> p_Manager q = pr_Manager p"

definition delta_update :: "id \<Rightarrow> time \<Rightarrow> PackageRef \<Rightarrow> world \<Rightarrow> (db_error + unit) \<times> world" where
  "delta_update deviceID now p =
     Exec (update_packages (package_is deviceID p)
       (\<lambda>q. q\<lparr>p_Version := pr_Version p, p_LastSeenAt := now\<rparr>))"

definition delta_remove :: "id \<Rightarrow> PackageRef \<Rightarrow> world \<Rightarrow> (db_error + unit) \<times> world" where
  "delta_remove deviceID p = Exec (delete_packages (package_is deviceID p))"

definition CheckinHandler_processPackageDelta ::
  "id \<Rightarrow> PackageDelta \<Rightarrow> world \<Rightarrow> (db_error + unit) \<times> world" where
  "CheckinHandler_processPackageDelta deviceID delta w =
    (case Now w of (now, w0) \<Rightarrow>
     case for_each (delta_add deviceID now) (pd_Added delta) w0 of
       (Inl e, w1) \<Rightarrow> (Inl e, w1)
     | (Inr _, w1) \<Rightarrow>
       (case for_each (delta_update deviceID now) (pd_Updated delta) w1 of
          (Inl e, w2) \<Rightarrow> (Inl e, w2)
        | (Inr _, w2) \<Rightarrow> for_each (delta_remove deviceID) (pd_Removed delta) w2))"

definition checkin_device :: "time \<Rightarrow> CheckinRequest \<Rightarrow> device_row \<Rightarrow> device_row" where
  "checkin_device now req r = r\<lparr>d_last_seen_at := Some now, d_status := DeviceStatusOnline,
     d_agent_version := as_AgentVersion (cq_Status req),
     d_cdm_enabled := as_CDMEnabled (cq_Status req),
     d_cdm_session_active := as_CDMSessionActive (cq_Status req),
     d_cdm_session_expires_at := as_CDMSessionExpiresAt (cq_Status req),
     d_sequence_last := cq_Sequence req\<rparr>"

definition checkin_update_failed :: "id \<Rightarrow> id \<Rightarrow> time \<Rightarrow> AgentStatus \<Rightarrow> world \<Rightarrow> world" where
  "checkin_update_failed agentID tenantID now st w =
    (if as_LastUpdateFailed st \<and> as_LastUpdateJobID st \<noteq> '''' then
       (case Exec (update_jobs
                (\<lambda>r. j_id r = as_LastUpdateJobID st \<and> j_tenant_id r = tenantID
                      \<and> j_status r \<noteq> JobStatusFailed)
                (\<lambda>r. r\<lparr>j_status := JobStatusFailed, j_last_error := Some (as_LastUpdateError st),
                        j_completed_at := Some now\<rparr>)) w of
          (Inl _, w1) \<Rightarrow> w1
        | (Inr _, w1) \<Rightarrow> LogAction tenantID agentID ''agent'' ''agent_update.rollback'' ''job''
                          (as_LastUpdateJobID st) (Some [(''error'', as_LastUpdateError st)]) w1)
     else w)"

definition checkin_inventory :: "id \<Rightarrow> CheckinRequest \<Rightarrow> world \<Rightarrow> world" where
  "checkin_inventory agentID req w =
    (case cq_InventoryDelta req of None \<Rightarrow> w
     | Some idelta \<Rightarrow> (case id_Packages idelta of None \<Rightarrow> w
         | Some delta \<Rightarrow> snd (CheckinHandler_processPackageDelta agentID delta w)))"

definition checkin_requeue :: "id \<Rightarrow> id \<Rightarrow> time \<Rightarrow> world \<Rightarrow> world" where
  "checkin_requeue agentID tenantID now w =
     snd (Exec (update_jobs
       (\<lambda>r. own_with_status agentID tenantID JobStatusDispatched r \<and>
             (case j_dispatched_at r of None \<Rightarrow> False | Some t \<Rightarrow> t < now - 60 * Second))
       (\<lambda>r. r\<lparr>j_status := JobStatusQueued, j_dispatched_at := None\<rparr>)) w)"

definition dispatch_of :: "Job \<Rightarrow> JobDispatch" where
  "dispatch_of j = \<lparr>jd_JobID = job_ID j, jd_Type = job_Type j, jd_Payload = job_Payload j,
     jd_CreatedAt = job_CreatedAt j\<rparr>"

fun checkin_dispatch :: "time \<Rightarrow> Job list \<Rightarrow> world \<Rightarrow> JobDispatch list \<times> world" where
  "checkin_dispatch now [] w = ([], w)"
| "checkin_dispatch now (j # js) w =
    (case Exec (update_jobs (\<lambda>r. j_id r = job_ID j)
            (\<lambda>r. r\<lparr>j_status := JobStatusDispatched, j_dispatched_at := Some now\<rparr>)) w of
       (Inl _, w1) \<Rightarrow> checkin_dispatch now js w1
     | (Inr _, w1) \<Rightarrow> (case checkin_dispatch now js w1 of (ds, w2) \<Rightarrow> (dispatch_of j # ds, w2)))"

definition CheckinHandler_ServeHTTP ::
  "id \<Rightarrow> id \<Rightarrow> CheckinRequest json \<Rightarrow> world \<Rightarrow> CheckinResponse response \<times> world" where
  "CheckinHandler_ServeHTTP agentID tenantID body w =
    (if agentID = '''' \<or> tenantID = '''' then
       (Error StatusUnauthorized ''agent identity not found'', w)
     else case body of
       Malformed \<Rightarrow> (Error StatusBadRequest ''invalid request body'', w)
     | Doc req \<Rightarrow>
       (case Now w of (now, w0) \<Rightarrow>
        case Exec (update_devices (\<lambda>r. d_id r = agentID \<and> d_tenant_id r = tenantID)
                     (checkin_device now req)) w0 of
          (Inl _, w1) \<Rightarrow> (Error StatusInternalServerError ''failed to update device'', w1)
        | (Inr _, w1) \<Rightarrow>
          let w2 = checkin_update_failed agentID tenantID now (cq_Status req) w1;
              w3 = checkin_inventory agentID req w2;
              w4 = checkin_requeue agentID tenantID now w3 in
          (case CheckinHandler_fetchDispatchableJobs agentID tenantID
                  (as_CDMEnabled (cq_Status req)) (as_CDMSessionActive (cq_Status req)) w4 of
             (Inl _, w5) \<Rightarrow> (Error StatusInternalServerError ''failed to fetch jobs'', w5)
           | (Inr js, w5) \<Rightarrow>
             (case checkin_dispatch now js w5 of (ds, w6) \<Rightarrow>
               (JSON StatusOK \<lparr>cr_Timestamp = now, cr_Jobs = ds, cr_Config = None\<rparr>, w6)))))"

section \<open>What each part does to the jobs\<close>

lemma processPackageDelta_jobs:
  "db_jobs (w_db (snd (CheckinHandler_processPackageDelta dev delta w))) = db_jobs (w_db w)"
  unfolding CheckinHandler_processPackageDelta_def delta_add_def delta_update_def
    delta_remove_def
  by (intro same_jobs.after same_jobs.for_each_after same_jobs.Exec_after refl;
      (assumption | erule same_jobs_stmts))

lemma checkin_inventory_jobs:
  "db_jobs (w_db (checkin_inventory a req w)) = db_jobs (w_db w)"
  by (simp add: checkin_inventory_def processPackageDelta_jobs split: option.splits)

definition mark_dispatched :: "time \<Rightarrow> job_row \<Rightarrow> job_row" where
  "mark_dispatched now r = r\<lparr>j_status := JobStatusDispatched, j_dispatched_at := Some now\<rparr>"

lemma mark_dispatched_simps [simp]:
  "j_id (mark_dispatched now r) = j_id r"
  "mark_dispatched now (mark_dispatched now r) = mark_dispatched now r"
  by (simp_all add: mark_dispatched_def)

text \<open>Every row is kept or marked; rows whose job is in the reply are marked.\<close>

definition marked :: "time \<Rightarrow> id set \<Rightarrow> id set \<Rightarrow> job_row \<Rightarrow> job_row \<Rightarrow> bool" where
  "marked now J K r r' \<longleftrightarrow>
     (r' = r \<or> (j_id r \<in> J \<and> r' = mark_dispatched now r)) \<and>
     (j_id r \<in> K \<longrightarrow> r' = mark_dispatched now r)"

lemma Exec_mark:
  assumes "Exec (update_jobs (\<lambda>r. j_id r = i)
             (\<lambda>r. r\<lparr>j_status := JobStatusDispatched, j_dispatched_at := Some now\<rparr>)) w = (res, w')"
  shows "length (db_jobs (w_db w')) = length (db_jobs (w_db w))"
    and "\<forall>n < length (db_jobs (w_db w)).
           marked now {i} (if \<exists>x. res = Inr x then {i} else {})
             (db_jobs (w_db w) ! n) (db_jobs (w_db w') ! n)"
proof -
  let ?f = "\<lambda>r. r\<lparr>j_status := JobStatusDispatched, j_dispatched_at := Some now\<rparr>"
  consider (kept) "w_db w' = w_db w" "\<not> (\<exists>x. res = Inr x)"
    | (written) "w_db w' = (w_db w)\<lparr>db_jobs := update_rows (\<lambda>r. j_id r = i) ?f (db_jobs (w_db w))\<rparr>"
    using Exec_update_jobs [OF assms] by blast
  note two = this
  show "length (db_jobs (w_db w')) = length (db_jobs (w_db w))"
    by (cases rule: two) (simp_all add: length_update_rows)
  show "\<forall>n < length (db_jobs (w_db w)).
           marked now {i} (if \<exists>x. res = Inr x then {i} else {})
             (db_jobs (w_db w) ! n) (db_jobs (w_db w') ! n)"
    by (cases rule: two) (simp_all add: update_rows_nth marked_def mark_dispatched_def)
qed

lemma marked_trans:
  assumes "marked now J K r s" "marked now J' K' s t"
  shows "marked now (J \<union> J') (K \<union> K') r t"
proof -
  have "j_id s = j_id r" using assms(1) by (auto simp: marked_def)
  then show ?thesis using assms by (auto simp: marked_def)
qed

lemma checkin_dispatch_rows:
  assumes "checkin_dispatch now js w = (ds, w')"
  shows "\<exists>ks. subseq ks js \<and> ds = map dispatch_of ks \<and>
           length (db_jobs (w_db w')) = length (db_jobs (w_db w)) \<and>
           (\<forall>n < length (db_jobs (w_db w)).
              marked now (job_ID ` set js) (job_ID ` set ks)
                (db_jobs (w_db w) ! n) (db_jobs (w_db w') ! n))"
  using assms
proof (induction js arbitrary: w ds w')
  case Nil
  then show ?case by (auto simp: marked_def)
next
  case (Cons j js)
  obtain res w1 where ex: "Exec (update_jobs (\<lambda>r. j_id r = job_ID j)
      (\<lambda>r. r\<lparr>j_status := JobStatusDispatched, j_dispatched_at := Some now\<rparr>)) w = (res, w1)"
    by (rule prod.exhaust)
  obtain ds1 w2 where rest: "checkin_dispatch now js w1 = (ds1, w2)"
    by (cases "checkin_dispatch now js w1")
  obtain ks where ks: "subseq ks js" "ds1 = map dispatch_of ks"
    "length (db_jobs (w_db w2)) = length (db_jobs (w_db w1))"
    "\<forall>n < length (db_jobs (w_db w1)). marked now (job_ID ` set js) (job_ID ` set ks)
       (db_jobs (w_db w1) ! n) (db_jobs (w_db w2) ! n)"
    using Cons.IH [OF rest] by auto
  have w': "w' = w2" and ds: "ds = (case res of Inl _ \<Rightarrow> ds1 | Inr _ \<Rightarrow> dispatch_of j # ds1)"
    using Cons.prems by (auto simp: ex rest split: sum.splits)
  define K where "K = (if \<exists>x. res = Inr x then {job_ID j} else {})"
  have len: "length (db_jobs (w_db w1)) = length (db_jobs (w_db w))" by (rule Exec_mark(1) [OF ex])
  have rows: "marked now ({job_ID j} \<union> job_ID ` set js) (K \<union> job_ID ` set ks)
      (db_jobs (w_db w) ! n) (db_jobs (w_db w2) ! n)" if "n < length (db_jobs (w_db w))" for n
    using that Exec_mark(2) [OF ex, folded K_def] ks(4) len by (intro marked_trans) auto
  define ks' where "ks' = (case res of Inl _ \<Rightarrow> ks | Inr _ \<Rightarrow> j # ks)"
  have "subseq ks' (j # js)" "ds = map dispatch_of ks'" "job_ID ` set ks' = K \<union> job_ID ` set ks"
    using ks(1,2) by (auto simp: ks'_def K_def ds split: sum.splits)
  then show ?case
    using rows ks(3) len unfolding w' by (intro exI [of _ ks']) simp
qed

lemma fetch_Inr:
  assumes "CheckinHandler_fetchDispatchableJobs a t en act w = (Inr js, w')"
  shows "(en \<and> \<not> act \<and> js = [] \<and>
            db_jobs (w_db w') = update_rows (own_with_status a t JobStatusQueued)
              (\<lambda>r. r\<lparr>j_status := JobStatusCDMHold\<rparr>) (db_jobs (w_db w))) \<or>
         ((en \<longrightarrow> act) \<and> js = map scan_dispatchable (select_queued a t (w_db w')))"
proof (cases "en \<and> \<not> act")
  case True
  let ?ex = "Exec (update_jobs (own_with_status a t JobStatusQueued)
      (\<lambda>r. r\<lparr>j_status := JobStatusCDMHold\<rparr>)) w"
  obtain n where ex: "?ex = (Inr n, w')" and js: "js = []"
    using assms True
    by (cases ?ex) (auto simp: CheckinHandler_fetchDispatchableJobs_def split: sum.splits)
  show ?thesis using Exec_Inr [OF ex] True js by (simp add: update_jobs_Inr)
next
  case False
  define w1 where "w1 = (if en \<and> act then snd (Exec (update_jobs
      (own_with_status a t JobStatusCDMHold) (\<lambda>r. r\<lparr>j_status := JobStatusQueued\<rparr>)) w) else w)"
  have "Query (\<lambda>d. Inr (map scan_dispatchable (select_queued a t d))) w1 = (Inr js, w')"
    using assms False unfolding CheckinHandler_fetchDispatchableJobs_def w1_def Let_def
    by (simp only: if_False)
  from Query_Inr [OF this] False show ?thesis by simp
qed

lemma select_queued_rows:
  "r \<in> set (select_queued a t d) \<Longrightarrow>
     r \<in> set (db_jobs d) \<and> own_with_status a t JobStatusQueued r"
  by (auto simp: select_queued_def dest: in_set_takeD)

text \<open>What the handler relies on for a preorder on rows, and what it gives.\<close>

context row_preorder
begin

lemma update_failed_related:
  assumes "\<And>r. as_LastUpdateFailed st \<Longrightarrow> as_LastUpdateJobID st \<noteq> '''' \<Longrightarrow>
             j_tenant_id r = t \<Longrightarrow> j_id r = as_LastUpdateJobID st \<Longrightarrow>
             \<rho> r (r\<lparr>j_status := JobStatusFailed, j_last_error := Some (as_LastUpdateError st),
                    j_completed_at := Some now\<rparr>)"
  shows "jobs_related \<rho> (w_db w) (w_db (checkin_update_failed a t now st w))"
proof (cases "as_LastUpdateFailed st \<and> as_LastUpdateJobID st \<noteq> ''''")
  case True
  show ?thesis
    unfolding checkin_update_failed_def if_P [OF True]
    by (intro after Exec_after LogAction_after related_refl;
        (assumption | erule related_update, use True assms in simp))
next
  case False
  then have "checkin_update_failed a t now st w = w"
    unfolding checkin_update_failed_def by (rule if_not_P)
  then show ?thesis by (simp add: related_refl)
qed

lemma requeue_related:
  assumes "\<And>r. own_with_status a t JobStatusDispatched r \<Longrightarrow>
             \<rho> r (r\<lparr>j_status := JobStatusQueued, j_dispatched_at := None\<rparr>)"
  shows "jobs_related \<rho> (w_db w) (w_db (checkin_requeue a t now w))"
  unfolding checkin_requeue_def
  by (intro Exec_after related_refl; erule related_update, use assms in simp)

lemma fetch_related:
  assumes "\<And>r. own_with_status a t JobStatusQueued r \<Longrightarrow> \<rho> r (r\<lparr>j_status := JobStatusCDMHold\<rparr>)"
    and "\<And>r. own_with_status a t JobStatusCDMHold r \<Longrightarrow> \<rho> r (r\<lparr>j_status := JobStatusQueued\<rparr>)"
  shows "jobs_related \<rho> (w_db w)
           (w_db (snd (CheckinHandler_fetchDispatchableJobs a t en act w)))"
proof (cases "en \<and> \<not> act")
  case True
  show ?thesis
    unfolding CheckinHandler_fetchDispatchableJobs_def if_P [OF True]
    by (intro after Exec_after related_refl;
        (assumption | erule related_update, use assms(1) in simp))
next
  case False
  have "jobs_related \<rho> (w_db w) (w_db (snd (Exec (update_jobs
      (own_with_status a t JobStatusCDMHold) (\<lambda>r. r\<lparr>j_status := JobStatusQueued\<rparr>)) w)))"
    by (intro Exec_after related_refl; erule related_update, use assms(2) in simp)
  then show ?thesis
    unfolding CheckinHandler_fetchDispatchableJobs_def if_not_P [OF False] Let_def Query_db
    by (simp add: related_refl)
qed

lemma dispatch_related:
  assumes "distinct_jobs (w_db w)"
    and "\<And>r. own_with_status a t JobStatusQueued r \<Longrightarrow> \<rho> r (mark_dispatched now r)"
    and js: "js = [] \<or> js = map scan_dispatchable (select_queued a t (w_db w))"
  shows "jobs_related \<rho> (w_db w) (w_db (snd (checkin_dispatch now js w)))"
proof -
  obtain ds w' where ex: "checkin_dispatch now js w = (ds, w')"
    by (cases "checkin_dispatch now js w")
  obtain ks :: "Job list" where len: "length (db_jobs (w_db w')) = length (db_jobs (w_db w))"
    and rows: "\<forall>n < length (db_jobs (w_db w)). marked now (job_ID ` set js) (job_ID ` set ks)
       (db_jobs (w_db w) ! n) (db_jobs (w_db w') ! n)"
    using checkin_dispatch_rows [OF ex] by (elim exE conjE) (rule that)
  have keys: "job_ID ` set js \<subseteq> j_id ` set (select_queued a t (w_db w))"
    using js by (elim disjE) (simp_all add: image_image scan_dispatchable_def)
  have own: "own_with_status a t JobStatusQueued r"
    if r: "r \<in> set (db_jobs (w_db w))" and k: "j_id r \<in> job_ID ` set js" for r
  proof -
    from subsetD [OF keys k]
    obtain s where s: "s \<in> set (select_queued a t (w_db w))" and e: "j_id r = j_id s"
      by (rule imageE)
    note s' = select_queued_rows [OF s]
    have "r = s" by (rule distinct_jobs_row [OF assms(1) r conjunct1 [OF s'] e])
    with s' show ?thesis by simp
  qed
  have "\<rho> (db_jobs (w_db w) ! n) (db_jobs (w_db w') ! n)" if n: "n < length (db_jobs (w_db w))" for n
    using rows [rule_format, OF n] own [OF nth_mem [OF n]] assms(2) row_refl
    unfolding marked_def by metis
  then show ?thesis by (simp add: jobs_related_def ex len)
qed

end

lemma update_failed_ids:
  "map j_id (db_jobs (w_db (checkin_update_failed a t now st w))) = map j_id (db_jobs (w_db w))"
proof (cases "as_LastUpdateFailed st \<and> as_LastUpdateJobID st \<noteq> ''''")
  case True
  show ?thesis
    unfolding checkin_update_failed_def if_P [OF True]
    by (intro job_ids.after job_ids.Exec_after job_ids.LogAction_after refl;
        (assumption | erule job_ids_update, simp))
next
  case False
  then have "checkin_update_failed a t now st w = w"
    unfolding checkin_update_failed_def by (rule if_not_P)
  then show ?thesis by simp
qed

lemma requeue_ids:
  "map j_id (db_jobs (w_db (checkin_requeue a t now w))) = map j_id (db_jobs (w_db w))"
  unfolding checkin_requeue_def
  by (intro job_ids.Exec_after refl; erule job_ids_update, simp)

lemma fetch_ids:
  "map j_id (db_jobs (w_db (snd (CheckinHandler_fetchDispatchableJobs a t en act w)))) =
     map j_id (db_jobs (w_db w))"
proof (cases "en \<and> \<not> act")
  case True
  show ?thesis
    unfolding CheckinHandler_fetchDispatchableJobs_def if_P [OF True]
    by (intro job_ids.after job_ids.Exec_after refl; (assumption | erule job_ids_update, simp))
next
  case False
  have "map j_id (db_jobs (w_db (snd (Exec (update_jobs (own_with_status a t JobStatusCDMHold)
      (\<lambda>r. r\<lparr>j_status := JobStatusQueued\<rparr>)) w)))) = map j_id (db_jobs (w_db w))"
    by (intro job_ids.Exec_after refl; erule job_ids_update, simp)
  then show ?thesis
    unfolding CheckinHandler_fetchDispatchableJobs_def if_not_P [OF False] Let_def Query_db
    by simp
qed

text \<open>A successful check-in, taken apart.\<close>

lemma ServeHTTP_JSON:
  assumes "CheckinHandler_ServeHTTP a t body w = (JSON st resp, w')"
  obtains req now n w1 w4 w5 js where
    "body = Doc req" "a \<noteq> ''''" "t \<noteq> ''''" "st = StatusOK"
    "now = w_clock w (w_ticks w)"
    "Exec (update_devices (\<lambda>r. d_id r = a \<and> d_tenant_id r = t) (checkin_device now req))
       (snd (Now w)) = (Inr n, w1)"
    "w4 = checkin_requeue a t now (checkin_inventory a req
       (checkin_update_failed a t now (cq_Status req) w1))"
    "CheckinHandler_fetchDispatchableJobs a t (as_CDMEnabled (cq_Status req))
       (as_CDMSessionActive (cq_Status req)) w4 = (Inr js, w5)"
    "checkin_dispatch now js w5 = (cr_Jobs resp, w')" "cr_Timestamp resp = now"
proof -
  obtain req where req: "body = Doc req" and ids: "a \<noteq> ''''" "t \<noteq> ''''"
    using assms by (auto simp: CheckinHandler_ServeHTTP_def split: if_splits json.splits)
  let ?now = "w_clock w (w_ticks w)"
  let ?ex = "Exec (update_devices (\<lambda>r. d_id r = a \<and> d_tenant_id r = t) (checkin_device ?now req))
       (snd (Now w))"
  obtain n w1 where ex: "?ex = (Inr n, w1)"
    using assms ids
    by (cases ?ex) (auto simp: req CheckinHandler_ServeHTTP_def Now_def split: sum.splits)
  define w4 where "w4 = checkin_requeue a t ?now (checkin_inventory a req
       (checkin_update_failed a t ?now (cq_Status req) w1))"
  obtain js w5 where fe: "CheckinHandler_fetchDispatchableJobs a t (as_CDMEnabled (cq_Status req))
       (as_CDMSessionActive (cq_Status req)) w4 = (Inr js, w5)"
    using assms ids ex
    by (auto simp: req CheckinHandler_ServeHTTP_def Now_def Let_def w4_def [symmetric]
        split: prod.splits sum.splits)
  obtain ds w6 where di: "checkin_dispatch ?now js w5 = (ds, w6)"
    by (cases "checkin_dispatch ?now js w5")
  show thesis
    using assms ids ex fe di w4_def
    by (intro that [OF req ids _ refl ex w4_def fe])
      (auto simp: req CheckinHandler_ServeHTTP_def Now_def Let_def)
qed

definition checkin_before_fetch :: "id \<Rightarrow> id \<Rightarrow> time \<Rightarrow> CheckinRequest \<Rightarrow> world \<Rightarrow> world" where
  "checkin_before_fetch a t now req w1 =
     checkin_requeue a t now (checkin_inventory a req
       (checkin_update_failed a t now (cq_Status req) w1))"

lemma before_fetch_ids:
  "map j_id (db_jobs (w_db (checkin_before_fetch a t now req w))) = map j_id (db_jobs (w_db w))"
  by (simp add: checkin_before_fetch_def requeue_ids checkin_inventory_jobs update_failed_ids)

lemma device_update_jobs:
  "Exec (update_devices P f) w = (r, w') \<Longrightarrow> db_jobs (w_db w') = db_jobs (w_db w)"
  using same_jobs.Exec_respects [of "update_devices P f" w] same_jobs_stmts(8) by fastforce

context row_preorder
begin

lemma ServeHTTP_related:
  assumes dist: "distinct_jobs (w_db w)"
    and failed: "\<And>req now r. body = Doc req \<Longrightarrow> as_LastUpdateFailed (cq_Status req) \<Longrightarrow>
       as_LastUpdateJobID (cq_Status req) \<noteq> '''' \<Longrightarrow> j_tenant_id r = t \<Longrightarrow>
       j_id r = as_LastUpdateJobID (cq_Status req) \<Longrightarrow>
       \<rho> r (r\<lparr>j_status := JobStatusFailed,
              j_last_error := Some (as_LastUpdateError (cq_Status req)),
              j_completed_at := Some now\<rparr>)"
    and requeue: "\<And>r. own_with_status a t JobStatusDispatched r \<Longrightarrow>
       \<rho> r (r\<lparr>j_status := JobStatusQueued, j_dispatched_at := None\<rparr>)"
    and hold: "\<And>r. own_with_status a t JobStatusQueued r \<Longrightarrow> \<rho> r (r\<lparr>j_status := JobStatusCDMHold\<rparr>)"
    and release: "\<And>r. own_with_status a t JobStatusCDMHold r \<Longrightarrow> \<rho> r (r\<lparr>j_status := JobStatusQueued\<rparr>)"
    and dispatch: "\<And>r now. own_with_status a t JobStatusQueued r \<Longrightarrow> \<rho> r (mark_dispatched now r)"
  shows "jobs_related \<rho> (w_db w) (w_db (snd (CheckinHandler_ServeHTTP a t body w)))"
proof (cases "a = '''' \<or> t = '''' \<or> body = Malformed")
  case True
  then show ?thesis by (auto simp: CheckinHandler_ServeHTTP_def related_refl)
next
  case False
  then obtain req where body: "body = Doc req" by (cases body) auto
  obtain now w0 where now: "Now w = (now, w0)" by (cases "Now w")
  have w0: "w_db w0 = w_db w" using Now_db [of w] now by simp
  obtain r1 w1 where ex: "Exec (update_devices (\<lambda>r. d_id r = a \<and> d_tenant_id r = t)
      (checkin_device now req)) w0 = (r1, w1)" by (rule prod.exhaust)
  define w4 where "w4 = checkin_before_fetch a t now req w1"
  obtain r5 w5 where fe: "CheckinHandler_fetchDispatchableJobs a t (as_CDMEnabled (cq_Status req))
      (as_CDMSessionActive (cq_Status req)) w4 = (r5, w5)" by (rule prod.exhaust)
  have j1: "db_jobs (w_db w1) = db_jobs (w_db w)" using device_update_jobs [OF ex] w0 by simp
  have s1: "jobs_related \<rho> (w_db w) (w_db w1)" by (rule related_same_jobs [OF j1])
  have s2: "jobs_related \<rho> (w_db w1) (w_db (checkin_update_failed a t now (cq_Status req) w1))"
    by (rule update_failed_related) (rule failed [OF body])
  have s3: "jobs_related \<rho> (w_db w1) (w_db w4)"
    unfolding w4_def checkin_before_fetch_def
    by (intro related_trans [OF s2] related_trans [OF related_same_jobs requeue_related] requeue
        checkin_inventory_jobs)
  have s5: "jobs_related \<rho> (w_db w4) (w_db w5)"
    using fetch_related [OF hold release, where w = w4] fe by (metis snd_conv)
  have s: "jobs_related \<rho> (w_db w) (w_db w5)"
    by (rule related_trans [OF s1 related_trans [OF s3 s5]])
  have "map j_id (db_jobs (w_db w5)) = map j_id (db_jobs (w_db w))"
    using fetch_ids [of a t _ _ w4] fe before_fetch_ids [of a t now req w1] j1
    unfolding w4_def by (metis snd_conv)
  then have d5: "distinct_jobs (w_db w5)" by (rule distinct_jobs_ids [OF _ dist])
  have s6: "jobs_related \<rho> (w_db w) (w_db (snd (checkin_dispatch now js w5)))" if "r5 = Inr js" for js
    using fetch_Inr [OF fe [unfolded that]] by (intro related_trans [OF s dispatch_related [OF d5 dispatch]]) auto
  show ?thesis
    using False s1 s s6 unfolding w4_def checkin_before_fetch_def
    by (cases r1; cases r5) (simp_all add: CheckinHandler_ServeHTTP_def body now ex Let_def
        fe [unfolded w4_def checkin_before_fetch_def] case_prod_beta)
qed

end

lemma select_queued_props:
  "length (select_queued a t d) \<le> 10"
  "sorted (map j_created_at (select_queued a t d))"
  "distinct_jobs d \<Longrightarrow> distinct (map j_id (select_queued a t d))"
proof -
  let ?q = "filter (own_with_status a t JobStatusQueued) (db_jobs d)"
  show "length (select_queued a t d) \<le> 10" by (simp add: select_queued_def)
  show "sorted (map j_created_at (select_queued a t d))"
    by (simp add: select_queued_def take_map [symmetric] sorted_wrt_take)
  assume "distinct_jobs d"
  then have "distinct (map j_id ?q)" by (simp add: distinct_jobs_def distinct_map_filterI)
  then have "distinct (map j_id (sort_key j_created_at ?q))"
    by (simp add: distinct_map)
  then show "distinct (map j_id (select_queued a t d))"
    by (simp add: select_queued_def take_map [symmetric])
qed

lemma subseq_sorted_distinct:
  assumes "subseq xs ys"
  shows "length xs \<le> length ys" "set xs \<subseteq> set ys"
    "sorted (map f ys) \<Longrightarrow> sorted (map f xs)" "distinct (map g ys) \<Longrightarrow> distinct (map g xs)"
proof -
  obtain N where N: "xs = nths ys N" using assms by (auto simp: subseq_conv_nths)
  show "length xs \<le> length ys" using assms by (rule list_emb_length)
  show "set xs \<subseteq> set ys" by (simp add: N set_nths_subset)
  show "sorted (map f ys) \<Longrightarrow> sorted (map f xs)"
    by (simp add: N nths_map [symmetric] sorted_nths)
  show "distinct (map g ys) \<Longrightarrow> distinct (map g xs)"
    by (simp add: N nths_map [symmetric] distinct_nthsI)
qed

lemma scan_dispatchable_sel [simp]:
  "job_ID (scan_dispatchable r) = j_id r" "job_CreatedAt (scan_dispatchable r) = j_created_at r"
  "job_Type (scan_dispatchable r) = j_type r" "job_Payload (scan_dispatchable r) = j_payload r"
  by (simp_all add: scan_dispatchable_def)

lemma dispatch_of_sel [simp]:
  "jd_JobID (dispatch_of j) = job_ID j" "jd_CreatedAt (dispatch_of j) = job_CreatedAt j"
  by (simp_all add: dispatch_of_def)

definition dispatched_row :: "id \<Rightarrow> id \<Rightarrow> time \<Rightarrow> JobDispatch \<Rightarrow> job_row \<Rightarrow> bool" where
  "dispatched_row a t now jd r \<longleftrightarrow>
     jd = \<lparr>jd_JobID = j_id r, jd_Type = j_type r, jd_Payload = j_payload r,
           jd_CreatedAt = j_created_at r\<rparr> \<and>
     own_with_status a t JobStatusDispatched r \<and> j_dispatched_at r = Some now"

lemma dispatch_reply_rows:
  assumes ds: "checkin_dispatch now (map scan_dispatchable rs) w = (ds, w')"
    and rs: "\<And>r. r \<in> set rs \<Longrightarrow> r \<in> set (db_jobs (w_db w)) \<and> own_with_status a t s r"
    and jd: "jd \<in> set ds"
  shows "\<exists>r \<in> set (db_jobs (w_db w')). dispatched_row a t now jd r"
proof -
  obtain ks :: "Job list" where sub: "subseq ks (map scan_dispatchable rs)"
    and dk: "ds = map dispatch_of ks"
    and len: "length (db_jobs (w_db w')) = length (db_jobs (w_db w))"
    and rows: "\<forall>n < length (db_jobs (w_db w)). marked now (job_ID ` set (map scan_dispatchable rs))
       (job_ID ` set ks) (db_jobs (w_db w) ! n) (db_jobs (w_db w') ! n)"
    using checkin_dispatch_rows [OF ds] by (elim exE conjE) (rule that)
  obtain k where k: "k \<in> set ks" "jd = dispatch_of k" using jd dk by auto
  obtain r where r: "r \<in> set rs" "k = scan_dispatchable r"
    using subseq_sorted_distinct(2) [OF sub] k(1) by auto
  obtain n where n: "n < length (db_jobs (w_db w))" "db_jobs (w_db w) ! n = r"
    using rs [OF r(1)] by (auto simp: in_set_conv_nth)
  have "j_id r \<in> job_ID ` set ks" using imageI [OF k(1), of job_ID] r(2) by simp
  then have "db_jobs (w_db w') ! n = mark_dispatched now r"
    using rows [rule_format, OF n(1)] n(2) by (simp add: marked_def)
  moreover have "db_jobs (w_db w') ! n \<in> set (db_jobs (w_db w'))"
    using n(1) len by simp
  ultimately show ?thesis
    using rs [OF r(1)] k(2) r(2)
    by (auto simp: dispatched_row_def mark_dispatched_def own_with_status_def dispatch_of_def
        intro!: bexI [of _ "mark_dispatched now r"])
qed

lemma dispatch_reply_list:
  assumes "checkin_dispatch now (map scan_dispatchable rs) w = (ds, w')"
    and "sorted (map j_created_at rs)" "distinct (map j_id rs)"
  shows "length ds \<le> length rs \<and> sorted (map jd_CreatedAt ds) \<and> distinct (map jd_JobID ds)"
proof -
  obtain ks :: "Job list" where sub: "subseq ks (map scan_dispatchable rs)"
    and dk: "ds = map dispatch_of ks"
    using checkin_dispatch_rows [OF assms(1)] by (elim exE conjE) (rule that)
  have "sorted (map job_CreatedAt ks)" "distinct (map job_ID ks)"
    by (rule subseq_sorted_distinct [OF sub]; simp add: o_def assms(2,3))+
  then show ?thesis using subseq_sorted_distinct(1) [OF sub] by (simp add: dk o_def)
qed

section \<open>Properties\<close>


text \<open>C9: a check-in of an agent of tenant \<open>t\<close> leaves the jobs of every other tenant untouched,
  and without a report of a failed update also the jobs of every other device.\<close>

theorem checkin_isolation:
  assumes "distinct_jobs (w_db w)"
  shows "jobs_related (kept_if (\<lambda>r. j_tenant_id r \<noteq> t)) (w_db w)
           (w_db (snd (CheckinHandler_ServeHTTP a t (Doc req) w))) \<and>
         (\<not> as_LastUpdateFailed (cq_Status req) \<longrightarrow>
            jobs_related (kept_if (\<lambda>r. j_device_id r \<noteq> a)) (w_db w)
              (w_db (snd (CheckinHandler_ServeHTTP a t (Doc req) w))))"
proof (intro conjI impI)
  show "jobs_related (kept_if (\<lambda>r. j_tenant_id r \<noteq> t)) (w_db w)
           (w_db (snd (CheckinHandler_ServeHTTP a t (Doc req) w)))"
    by (rule kept.ServeHTTP_related [OF assms]) (auto simp: kept_if_def own_with_status_def)
next
  assume "\<not> as_LastUpdateFailed (cq_Status req)"
  then show "jobs_related (kept_if (\<lambda>r. j_device_id r \<noteq> a)) (w_db w)
              (w_db (snd (CheckinHandler_ServeHTTP a t (Doc req) w)))"
    by (intro kept.ServeHTTP_related [OF assms]) (auto simp: kept_if_def own_with_status_def)
qed

text \<open>C7: the jobs a check-in hands to the agent are at most ten, oldest first and without
  repetition; each is a job of this very device and tenant which the database now records as
  dispatched at the time of the reply; and a device in customer device mode without a session
  gets none.  This holds whatever statements fail on the way.\<close>

theorem checkin_dispatch_sound:
  assumes "distinct_jobs (w_db w)"
    and "fst (CheckinHandler_ServeHTTP a t (Doc req) w) = JSON st resp"
  shows "length (cr_Jobs resp) \<le> 10 \<and> sorted (map jd_CreatedAt (cr_Jobs resp)) \<and>
         distinct (map jd_JobID (cr_Jobs resp)) \<and>
         (as_CDMEnabled (cq_Status req) \<and> \<not> as_CDMSessionActive (cq_Status req) \<longrightarrow>
            cr_Jobs resp = []) \<and>
         (\<forall>jd \<in> set (cr_Jobs resp).
            \<exists>r \<in> set (db_jobs (w_db (snd (CheckinHandler_ServeHTTP a t (Doc req) w)))).
              dispatched_row a t (cr_Timestamp resp) jd r)"
proof -
  define w' where "w' = snd (CheckinHandler_ServeHTTP a t (Doc req) w)"
  have "CheckinHandler_ServeHTTP a t (Doc req) w = (JSON st resp, w')"
    using assms(2) by (simp add: w'_def prod_eq_iff)
  then show ?thesis
  proof (rule ServeHTTP_JSON, goal_cases)
    case (1 req' now n w1 w4 w5 js)
    have req: "req' = req" using 1(1) by simp
    have "map j_id (db_jobs (w_db w5)) = map j_id (db_jobs (w_db w))"
      using fetch_ids [of a t _ _ w4] 1(8) before_fetch_ids [of a t now req' w1]
        device_update_jobs [OF 1(6)] Now_db [of w]
      unfolding 1(7) checkin_before_fetch_def by (metis snd_conv)
    then have d5: "distinct_jobs (w_db w5)" by (rule distinct_jobs_ids [OF _ assms(1)])
    show ?thesis
    proof (cases "js = []")
      case True
      then show ?thesis using 1(9) by simp
    next
      case False
      let ?rs = "select_queued a t (w_db w5)"
      have act: "as_CDMEnabled (cq_Status req) \<longrightarrow> as_CDMSessionActive (cq_Status req)"
        and js: "js = map scan_dispatchable ?rs"
        using fetch_Inr [OF 1(8)] False unfolding req by simp_all
      note di = 1(9) [unfolded js]
      show ?thesis
        using dispatch_reply_list [OF di select_queued_props(2) select_queued_props(3) [OF d5]]
          select_queued_props(1) [of a t "w_db w5"] act
          dispatch_reply_rows [OF di select_queued_rows] 1(10) w'_def
        by auto
    qed
  qed
qed

text \<open>after a successful check-in of a device in customer device mode without a session, no
  job of the device is queued: all of them are held.\<close>

theorem checkin_holds:
  assumes "fst (CheckinHandler_ServeHTTP a t (Doc req) w) = JSON st resp"
    and "as_CDMEnabled (cq_Status req)" "\<not> as_CDMSessionActive (cq_Status req)"
  shows "\<forall>r \<in> set (db_jobs (w_db (snd (CheckinHandler_ServeHTTP a t (Doc req) w)))).
           \<not> own_with_status a t JobStatusQueued r"
proof -
  define w' where "w' = snd (CheckinHandler_ServeHTTP a t (Doc req) w)"
  have "CheckinHandler_ServeHTTP a t (Doc req) w = (JSON st resp, w')"
    using assms(1) by (simp add: w'_def prod_eq_iff)
  then show ?thesis
  proof (rule ServeHTTP_JSON, goal_cases)
    case (1 req' now n w1 w4 w5 js)
    have js: "js = []" and rows: "db_jobs (w_db w5) =
        update_rows (own_with_status a t JobStatusQueued)
          (\<lambda>r. r\<lparr>j_status := JobStatusCDMHold\<rparr>) (db_jobs (w_db w4))"
      using fetch_Inr [OF 1(8)] 1(1) assms(2,3) by simp_all
    have w5: "w' = w5" using 1(9) js by simp
    have "\<not> own_with_status a t JobStatusQueued r" if "r \<in> set (db_jobs (w_db w5))" for r
      by (rule update_rows_cleared [OF _ that [unfolded rows]]) (simp add: own_with_status_def)
    then show ?thesis unfolding w'_def [symmetric] w5 by (intro ballI)
  qed
qed

definition eligible :: "id \<Rightarrow> id \<Rightarrow> time \<Rightarrow> AgentStatus \<Rightarrow> job_row \<Rightarrow> bool" where
  "eligible a t now st r \<longleftrightarrow> j_device_id r = a \<and> j_tenant_id r = t \<and>
     (j_status r = JobStatusQueued
      \<or> j_status r = JobStatusDispatched \<and>
          (case j_dispatched_at r of None \<Rightarrow> False | Some u \<Rightarrow> u < now - 60 * Second)
      \<or> j_status r = JobStatusCDMHold \<and> as_CDMEnabled st \<and> as_CDMSessionActive st)"

lemma processPackageDelta_faults:
  assumes "w_faults w = []"
  shows "w_faults (snd (CheckinHandler_processPackageDelta dev delta w)) = []"
proof -
  have a: "w_faults (snd (delta_add dev now p v)) = []" if "w_faults v = []" for now p v
    using that newID_faults [of "''ipk''" v]
    by (simp add: delta_add_def case_prod_beta Exec_faults)
  have u: "w_faults (snd (delta_update dev now p v)) = []" if "w_faults v = []" for now p v
    using that by (simp add: delta_update_def Exec_faults)
  have r: "w_faults (snd (delta_remove dev p v)) = []" if "w_faults v = []" for p v
    using that by (simp add: delta_remove_def Exec_faults)
  have as: "w_faults (snd (for_each (delta_add dev now) ps v)) = []" if "w_faults v = []" for now ps v
    using that by (rule for_each_faults [OF a, rotated])
  have us: "w_faults (snd (for_each (delta_update dev now) ps v)) = []" if "w_faults v = []" for now ps v
    using that by (rule for_each_faults [OF u, rotated])
  have rs: "w_faults (snd (for_each (delta_remove dev) ps v)) = []" if "w_faults v = []" for ps v
    using that by (rule for_each_faults [OF r, rotated])
  show ?thesis
    using assms
    by (simp add: CheckinHandler_processPackageDelta_def case_prod_beta as us rs split: sum.split)
qed

lemma checkin_dispatch_no_fault:
  "w_faults w = [] \<Longrightarrow> fst (checkin_dispatch now js w) = map dispatch_of js"
  by (induction js arbitrary: w)
    (simp_all add: Exec_no_fault update_jobs_def case_prod_beta)

definition requeued :: "id \<Rightarrow> id \<Rightarrow> time \<Rightarrow> job_row \<Rightarrow> job_row" where
  "requeued a t now r =
    (if own_with_status a t JobStatusDispatched r \<and>
        (case j_dispatched_at r of None \<Rightarrow> False | Some u \<Rightarrow> u < now - 60 * Second)
     then r\<lparr>j_status := JobStatusQueued, j_dispatched_at := None\<rparr> else r)"

definition released :: "id \<Rightarrow> id \<Rightarrow> AgentStatus \<Rightarrow> job_row \<Rightarrow> job_row" where
  "released a t st r =
    (if as_CDMEnabled st \<and> as_CDMSessionActive st \<and> own_with_status a t JobStatusCDMHold r
     then r\<lparr>j_status := JobStatusQueued\<rparr> else r)"

lemma eligible_iff:
  "own_with_status a t JobStatusQueued (released a t st (requeued a t now r)) =
     eligible a t now st r"
  by (cases "j_status r = JobStatusQueued"; cases "j_status r = JobStatusDispatched";
      cases "j_status r = JobStatusCDMHold")
    (auto simp: released_def requeued_def eligible_def own_with_status_def split: option.split)

lemma select_released:
  assumes "db_jobs d = map (\<lambda>r. released a t st (requeued a t now r)) rs"
  shows "map (\<lambda>r. dispatch_of (scan_dispatchable r)) (select_queued a t d) =
         map (\<lambda>r. dispatch_of (scan_dispatchable r))
           (take 10 (sort_key j_created_at (filter (eligible a t now st) rs)))"
proof -
  let ?g = "\<lambda>r. released a t st (requeued a t now r)"
  have key: "j_created_at (?g r) = j_created_at r" for r
    by (simp add: released_def requeued_def)
  have reply: "dispatch_of (scan_dispatchable (?g r)) = dispatch_of (scan_dispatchable r)" for r
    by (simp add: released_def requeued_def dispatch_of_def)
  have "filter (own_with_status a t JobStatusQueued) (map ?g rs) =
      map ?g (filter (eligible a t now st) rs)"
    by (simp add: filter_map o_def eligible_iff)
  then show ?thesis
    by (simp add: select_queued_def assms sort_key_map_same_key key take_map reply o_def)
qed

text \<open>C8: when no statement fails and the device is not held, the reply is exactly the ten oldest
  of the device's jobs that are queued, were dispatched more than sixty seconds ago without an
  answer, or are held while a session is active.\<close>

theorem checkin_complete:
  assumes "w_faults w = []" "a \<noteq> ''''" "t \<noteq> ''''"
    and "\<not> as_LastUpdateFailed (cq_Status req)"
    and "as_CDMEnabled (cq_Status req) \<longrightarrow> as_CDMSessionActive (cq_Status req)"
  shows "\<exists>resp. fst (CheckinHandler_ServeHTTP a t (Doc req) w) = JSON StatusOK resp \<and>
           cr_Jobs resp = map (\<lambda>r. dispatch_of (scan_dispatchable r))
             (take 10 (sort_key j_created_at
               (filter (eligible a t (w_clock w (w_ticks w)) (cq_Status req)) (db_jobs (w_db w)))))"
proof -
  let ?now = "w_clock w (w_ticks w)" and ?st = "cq_Status req"
  define w0 where "w0 = w\<lparr>w_ticks := Suc (w_ticks w)\<rparr>"
  have now: "Now w = (?now, w0)" by (simp add: Now_def w0_def)
  let ?ex = "Exec (update_devices (\<lambda>r. d_id r = a \<and> d_tenant_id r = t) (checkin_device ?now req)) w0"
  have f0: "w_faults w0 = []" using assms(1) by (simp add: w0_def)
  obtain n w1 where ex: "?ex = (Inr n, w1)"
    using f0 by (simp add: Exec_no_fault update_devices_def)
  have f1: "w_faults w1 = []" using Exec_faults [OF f0] ex by (metis snd_conv)
  have j1: "db_jobs (w_db w1) = db_jobs (w_db w)"
    using device_update_jobs [OF ex] by (simp add: w0_def)
  have w2: "checkin_update_failed a t ?now ?st w1 = w1"
    using assms(4) by (simp add: checkin_update_failed_def)
  define w3 where "w3 = checkin_inventory a req w1"
  have f3: "w_faults w3 = []"
    using f1 by (simp add: w3_def checkin_inventory_def processPackageDelta_faults split: option.split)
  have j3: "db_jobs (w_db w3) = db_jobs (w_db w)" by (simp add: w3_def checkin_inventory_jobs j1)
  define w4 where "w4 = checkin_requeue a t ?now w3"
  have f4: "w_faults w4 = []" by (simp add: w4_def checkin_requeue_def Exec_faults f3)
  have j4: "db_jobs (w_db w4) = map (requeued a t ?now) (db_jobs (w_db w))"
    by (simp add: w4_def checkin_requeue_def Exec_no_fault [OF f3] update_jobs_def j3
        update_rows_def requeued_def [abs_def])
  define w5 where "w5 = (if as_CDMEnabled ?st \<and> as_CDMSessionActive ?st then
      snd (Exec (update_jobs (own_with_status a t JobStatusCDMHold)
        (\<lambda>r. r\<lparr>j_status := JobStatusQueued\<rparr>)) w4) else w4)"
  have f5: "w_faults w5 = []" by (simp add: w5_def f4 Exec_faults)
  have j5: "db_jobs (w_db w5) =
      map (\<lambda>r. released a t ?st (requeued a t ?now r)) (db_jobs (w_db w))"
    by (cases "as_CDMEnabled ?st \<and> as_CDMSessionActive ?st")
      (simp_all add: w5_def Exec_no_fault [OF f4] update_jobs_def j4 update_rows_def
        released_def cong: conj_cong)
  have fe: "CheckinHandler_fetchDispatchableJobs a t (as_CDMEnabled ?st) (as_CDMSessionActive ?st) w4
      = (Inr (map scan_dispatchable (select_queued a t (w_db w5))), w5)"
    using assms(5) by (auto simp: CheckinHandler_fetchDispatchableJobs_def Let_def
        w5_def [symmetric] Query_no_fault [OF f5])
  have "fst (CheckinHandler_ServeHTTP a t (Doc req) w) = JSON StatusOK
      \<lparr>cr_Timestamp = ?now, cr_Jobs = map dispatch_of (map scan_dispatchable
         (select_queued a t (w_db w5))), cr_Config = None\<rparr>"
    using assms(2,3) checkin_dispatch_no_fault [OF f5]
    by (simp add: CheckinHandler_ServeHTTP_def now ex Let_def w2 w3_def [symmetric]
        w4_def [symmetric] fe case_prod_beta)
  then show ?thesis using select_released [OF j5] by (simp add: o_def)
qed

text \<open>a report of a failed update is taken from any agent for any job of its tenant: device
  \<open>d1\<close> turns the completed job \<open>j3\<close> of device \<open>d2\<close> into a failed one.  The
  statement filters on the tenant only and on no state but \<^verbatim>\<open>failed\<close>.\<close>

theorem checkin_failed_report_any_job:
  "let st = (sample_status False False)\<lparr>as_LastUpdateFailed := True, as_LastUpdateJobID := ''j3''\<rparr>;
       w' = snd (CheckinHandler_ServeHTTP ''d1'' ''t1'' (Doc (sample_checkin st))
              (sample_world sample_jobs))
   in (j_device_id (sample_jobs ! 2), j_status (sample_jobs ! 2)) = (''d2'', JobStatusCompleted) \<and>
      (j_id (db_jobs (w_db w') ! 2), j_status (db_jobs (w_db w') ! 2)) = (''j3'', JobStatusFailed) \<and>
      ValidateTransition JobStatusCompleted JobStatusFailed = Inl (TerminalState JobStatusCompleted)"
  by code_simp

section \<open>Witnesses\<close>


theorem checkin_isolation_witness:
  "distinct_jobs (w_db (sample_world sample_jobs)) \<and>
   jobs_related (kept_if (\<lambda>r. j_device_id r \<noteq> ''d1'')) (w_db (sample_world sample_jobs))
     (w_db (snd (CheckinHandler_ServeHTTP ''d1'' ''t1''
       (Doc (sample_checkin (sample_status False False))) (sample_world sample_jobs))))"
proof -
  have 1: "distinct_jobs (w_db (sample_world sample_jobs))" by code_simp
  have 2: "\<not> as_LastUpdateFailed (cq_Status (sample_checkin (sample_status False False)))"
    by code_simp
  show ?thesis using 1 2 checkin_isolation [OF 1] by blast
qed

definition sample_reply :: CheckinResponse where
  "sample_reply = \<lparr>cr_Timestamp = 100 * Second, cr_Jobs =
     [\<lparr>jd_JobID = ''j2'', jd_Type = JobTypeExec, jd_Payload = ''{}'', jd_CreatedAt = 3\<rparr>,
      \<lparr>jd_JobID = ''j1'', jd_Type = JobTypeExec, jd_Payload = ''{}'', jd_CreatedAt = 5\<rparr>],
     cr_Config = None\<rparr>"

theorem checkin_dispatch_sound_witness:
  "\<exists>r \<in> set (db_jobs (w_db (snd (CheckinHandler_ServeHTTP ''d1'' ''t1''
       (Doc (sample_checkin (sample_status False False))) (sample_world sample_jobs))))).
     dispatched_row ''d1'' ''t1'' (100 * Second) (cr_Jobs sample_reply ! 0) r"
proof -
  have 1: "distinct_jobs (w_db (sample_world sample_jobs))" by code_simp
  have 2: "fst (CheckinHandler_ServeHTTP ''d1'' ''t1''
      (Doc (sample_checkin (sample_status False False))) (sample_world sample_jobs)) =
      JSON StatusOK sample_reply" by code_simp
  show ?thesis using checkin_dispatch_sound [OF 1 2] by (simp add: sample_reply_def)
qed

theorem checkin_holds_witness:
  "filter (own_with_status ''d1'' ''t1'' JobStatusQueued)
     (db_jobs (w_db (snd (CheckinHandler_ServeHTTP ''d1'' ''t1''
       (Doc (sample_checkin (sample_status True False))) (sample_world sample_jobs))))) = []"
proof -
  have 1: "fst (CheckinHandler_ServeHTTP ''d1'' ''t1''
      (Doc (sample_checkin (sample_status True False))) (sample_world sample_jobs)) =
      JSON StatusOK (sample_reply\<lparr>cr_Jobs := []\<rparr>)" by code_simp
  have 2: "as_CDMEnabled (cq_Status (sample_checkin (sample_status True False)))"
    and 3: "\<not> as_CDMSessionActive (cq_Status (sample_checkin (sample_status True False)))"
    by code_simp+
  show ?thesis unfolding filter_empty_conv by (rule checkin_holds [OF 1 2 3])
qed

theorem checkin_complete_witness:
  "\<exists>resp. fst (CheckinHandler_ServeHTTP ''d1'' ''t1''
       (Doc (sample_checkin (sample_status False False))) (sample_world sample_jobs)) =
       JSON StatusOK resp \<and> map jd_JobID (cr_Jobs resp) = [''j2'', ''j1'']"
proof -
  let ?w = "sample_world sample_jobs" and ?q = "sample_checkin (sample_status False False)"
  have "\<exists>resp. fst (CheckinHandler_ServeHTTP ''d1'' ''t1'' (Doc ?q) ?w) = JSON StatusOK resp \<and>
      cr_Jobs resp = map (\<lambda>r. dispatch_of (scan_dispatchable r))
        (take 10 (sort_key j_created_at
          (filter (eligible ''d1'' ''t1'' (w_clock ?w (w_ticks ?w)) (cq_Status ?q))
            (db_jobs (w_db ?w)))))"
    by (rule checkin_complete) (code_simp | simp add: sample_checkin_def sample_status_def)+
  moreover have "map jd_JobID (map (\<lambda>r. dispatch_of (scan_dispatchable r))
        (take 10 (sort_key j_created_at
          (filter (eligible ''d1'' ''t1'' (w_clock ?w (w_ticks ?w)) (cq_Status ?q))
            (db_jobs (w_db ?w)))))) = [''j2'', ''j1'']"
    by code_simp
  ultimately show ?thesis by metis
qed

end
