(* ===== verification/AgentJobs.thy ===== *)
theory AgentJobs
  imports Lifecycle Http Samples
begin

text \<open>
  The job endpoints an agent calls: \<^verbatim>\<open>server/api/agent_jobs.go\<close>.  An agent
  acknowledges a dispatched job and later submits its result; a failed or timed-out job with
  retries left gets a successor.  The decoder of the inventory document in a result's output is
  the argument \<open>unmarshal\<close>, and \<open>audit\<close> tells whether the handler has an audit logger.
\<close>

section \<open>The handlers\<close>

definition agent_job :: "id \<Rightarrow> id \<Rightarrow> id \<Rightarrow> job_row \<Rightarrow> bool" where
  "agent_job jobID agentID tenantID r \<longleftrightarrow>
     j_id r = jobID \<and> j_device_id r = agentID \<and> j_tenant_id r = tenantID"

definition AgentJobsHandler_Acknowledge ::
  "bool \<Rightarrow> id \<Rightarrow> id \<Rightarrow> id \<Rightarrow> world \<Rightarrow> unit response \<times> world" where
  "AgentJobsHandler_Acknowledge audit agentID tenantID jobID w =
    (case Now w of (now, w0) \<Rightarrow>
     case Query (\<lambda>d. select_row (agent_job jobID agentID tenantID) (db_jobs d)) w0 of
       (Inl e, w1) \<Rightarrow>
         (if e = ErrNoRows then (Error StatusNotFound ''job not found'', w1)
          else (Error StatusInternalServerError ''failed to get job'', w1))
     | (Inr job, w1) \<Rightarrow>
       (case ValidateTransition (j_status job) JobStatusAcknowledged of
          Inl e \<Rightarrow> (ErrorWithCode StatusConflict ''invalid_transition'' (transition_message e), w1)
        | Inr _ \<Rightarrow>
          (case Exec (update_jobs (\<lambda>r. j_id r = jobID)
                  (\<lambda>r. r\<lparr>j_status := JobStatusAcknowledged, j_acknowledged_at := Some now\<rparr>)) w1 of
             (Inl _, w2) \<Rightarrow> (Error StatusInternalServerError ''failed to acknowledge job'', w2)
           | (Inr _, w2) \<Rightarrow>
             (NoContent,
              if audit then LogAction tenantID agentID ActorTypeAgent ''job.acknowledge'' ''job''
                              jobID None w2 else w2))))"

record fullInventoryHW =
  fh_CPU :: "string option"
  fh_RAMMB :: int
  fh_Disks :: "string option"
  fh_NetworkInterfaces :: "string option"

record full_inventory =
  fi_Hardware :: "fullInventoryHW option"
  fi_Packages :: "PackageRef list"

text \<open>\<^verbatim>\<open>json.Marshal\<close> of a raw message: an absent one is \<^verbatim>\<open>null\<close>.\<close>

definition marshal_raw :: "string option \<Rightarrow> string" where
  "marshal_raw m = (case m of None \<Rightarrow> ''null'' | Some s \<Rightarrow> s)"

definition full_package :: "id \<Rightarrow> time \<Rightarrow> PackageRef \<Rightarrow> world \<Rightarrow> (db_error + unit) \<times> world" where
  "full_package deviceID now p w =
    (case newID ''ipk'' w of (i, w1) \<Rightarrow>
       Exec (insert_package \<lparr>p_ID = i, p_DeviceID = deviceID, p_Name = pr_Name p,
         p_Version = pr_Version p, p_Manager = pr_Manager p, p_InstalledAt = None,
         p_LastSeenAt = now\<rparr>) w1)"

definition full_hardware ::
  "id \<Rightarrow> time \<Rightarrow> fullInventoryHW option \<Rightarrow> world \<Rightarrow> (db_error + unit) \<times> world" where
  "full_hardware deviceID now hw w =
    (case hw of None \<Rightarrow> (Inr (), w)
     | Some h \<Rightarrow>
       (case newID ''ihw'' (snd (Exec (delete_hardware (\<lambda>r. hw_device_id r = deviceID)) w)) of
          (i, w1) \<Rightarrow>
            Exec (insert_hardware \<lparr>hw_id = i, hw_device_id = deviceID, hw_collected_at = now,
              hw_cpu = marshal_raw (fh_CPU h), hw_ram_mb = fh_RAMMB h,
              hw_disks = marshal_raw (fh_Disks h),
              hw_network_interfaces = marshal_raw (fh_NetworkInterfaces h)\<rparr>) w1))"

definition AgentJobsHandler_processFullInventory ::
  "(string \<Rightarrow> full_inventory json) \<Rightarrow> id \<Rightarrow> string \<Rightarrow> world \<Rightarrow> (db_error + unit) \<times> world" where
  "AgentJobsHandler_processFullInventory unmarshal deviceID resultData w =
    (case unmarshal resultData of
       Malformed \<Rightarrow> (Inl ErrScan, w)
     | Doc doc \<Rightarrow>
       (case Now w of (now, w0) \<Rightarrow>
        case full_hardware deviceID now (fi_Hardware doc) w0 of
          (Inl e, w1) \<Rightarrow> (Inl e, w1)
        | (Inr _, w1) \<Rightarrow>
          (if fi_Packages doc \<noteq> [] then
             for_each (full_package deviceID now) (fi_Packages doc)
               (snd (Exec (delete_packages (\<lambda>p. p_DeviceID p = deviceID)) w1))
           else (Inr (), w1))))"

definition AgentJobsHandler_createRetryJob ::
  "id \<Rightarrow> id \<Rightarrow> id \<Rightarrow> string \<Rightarrow> int \<Rightarrow> int \<Rightarrow> world \<Rightarrow> world" where
  "AgentJobsHandler_createRetryJob parentJobID tenantID deviceID jobType retryCount maxRetries w =
    (case Now w of (now, w0) \<Rightarrow>
     case Query (\<lambda>d. select_row (\<lambda>r. j_id r = parentJobID) (db_jobs d)) w0 of
       (Inl _, w1) \<Rightarrow> w1
     | (Inr parent, w1) \<Rightarrow>
       (case newID ''job'' w1 of (retryJobID, w2) \<Rightarrow>
         snd (Exec (insert_job \<lparr>j_id = retryJobID, j_tenant_id = tenantID,
           j_device_id = deviceID, j_parent_job_id = Some parentJobID, j_type = jobType,
           j_status = JobStatusQueued, j_payload = j_payload parent,
           j_retry_policy = j_retry_policy parent, j_retry_count = retryCount,
           j_max_retries = maxRetries, j_last_error = None, j_created_by = j_created_by parent,
           j_created_at = now, j_dispatched_at = None, j_acknowledged_at = None,
           j_started_at = None, j_completed_at = None\<rparr>) w2)))"

definition submitted_status :: "string \<Rightarrow> string option" where
  "submitted_status s =
    (if s = ''completed'' then Some JobStatusCompleted
     else if s = ''failed'' then Some JobStatusFailed
     else if s = ''timed_out'' then Some JobStatusTimedOut
     else None)"

definition finished_job :: "string \<Rightarrow> time \<Rightarrow> JobResultSubmission \<Rightarrow> job_row \<Rightarrow> job_row" where
  "finished_job targetStatus now req r = r\<lparr>j_status := targetStatus, j_completed_at := Some now,
     j_last_error := Some (js_Message req),
     j_started_at := (case j_started_at r of None \<Rightarrow> js_StartedAt req | Some s \<Rightarrow> Some s)\<rparr>"

text \<open>An acknowledged job is taken to be running when its result arrives.\<close>

definition reported_from :: "string \<Rightarrow> string" where
  "reported_from status = (if status = JobStatusAcknowledged then JobStatusRunning else status)"

text \<open>What follows the update of the job: inventory, audit entry, automatic retry.\<close>

definition submit_after ::
  "(string \<Rightarrow> full_inventory json) \<Rightarrow> bool \<Rightarrow> id \<Rightarrow> id \<Rightarrow> id \<Rightarrow> JobResultSubmission \<Rightarrow> string
     \<Rightarrow> job_row \<Rightarrow> world \<Rightarrow> world" where
  "submit_after unmarshal audit agentID tenantID jobID req targetStatus job w =
    (let w1 = (if j_type job = JobTypeInventoryFull \<and> targetStatus = JobStatusCompleted then
                 snd (AgentJobsHandler_processFullInventory unmarshal agentID (js_Stdout req) w)
               else w);
         w2 = (if audit then LogAction tenantID agentID ActorTypeAgent ''job.result'' ''job'' jobID
                 (Some [(''status'', targetStatus)]) w1 else w1) in
     if ShouldRetry targetStatus (j_retry_count job) (j_max_retries job) then
       AgentJobsHandler_createRetryJob jobID tenantID agentID (j_type job)
         (j_retry_count job + 1) (j_max_retries job) w2
     else w2)"

definition AgentJobsHandler_SubmitResult ::
  "(string \<Rightarrow> full_inventory json) \<Rightarrow> bool \<Rightarrow> id \<Rightarrow> id \<Rightarrow> id \<Rightarrow> JobResultSubmission json
     \<Rightarrow> world \<Rightarrow> unit response \<times> world" where
  "AgentJobsHandler_SubmitResult unmarshal audit agentID tenantID jobID body w =
    (case Now w of (now, w0) \<Rightarrow>
     case body of
       Malformed \<Rightarrow> (Error StatusBadRequest ''invalid request body'', w0)
     | Doc req \<Rightarrow>
     (case submitted_status (js_Status req) of
        None \<Rightarrow> (Error StatusBadRequest
          ''invalid status: must be completed, failed, or timed_out'', w0)
      | Some targetStatus \<Rightarrow>
     (case Query (\<lambda>d. select_row (agent_job jobID agentID tenantID) (db_jobs d)) w0 of
        (Inl e, w1) \<Rightarrow>
          (if e = ErrNoRows then (Error StatusNotFound ''job not found'', w1)
           else (Error StatusInternalServerError ''failed to get job'', w1))
      | (Inr job, w1) \<Rightarrow>
        (let currentStatus = (reported_from (j_status job)) in
         case ValidateTransition currentStatus targetStatus of
           Inl e \<Rightarrow> (ErrorWithCode StatusConflict ''invalid_transition'' (transition_message e), w1)
         | Inr _ \<Rightarrow>
     (case newID ''jrs'' w1 of (resultID, w2) \<Rightarrow>
      case Exec (insert_job_result \<lparr>jr_ID = resultID, jr_JobID = jobID,
             jr_ExitCode = js_ExitCode req, jr_Stdout = js_Stdout req, jr_Stderr = js_Stderr req,
             jr_StartedAt = js_StartedAt req, jr_CompletedAt = js_CompletedAt req\<rparr>) w2 of
        (Inl _, w3) \<Rightarrow> (Error StatusInternalServerError ''failed to store result'', w3)
      | (Inr _, w3) \<Rightarrow>
     (case Exec (update_jobs (\<lambda>r. j_id r = jobID) (finished_job targetStatus now req)) w3 of
        (Inl _, w4) \<Rightarrow> (Error StatusInternalServerError ''failed to update job'', w4)
      | (Inr _, w4) \<Rightarrow>
        (NoContent,
         submit_after unmarshal audit agentID tenantID jobID req targetStatus job w4)))))))"

section \<open>What the handlers do to the jobs\<close>

lemma processFullInventory_jobs:
  "db_jobs (w_db (snd (AgentJobsHandler_processFullInventory u dev s w))) = db_jobs (w_db w)"
proof (cases "u s")
  case (Doc doc)
  have hw: "db_jobs (w_db (snd (full_hardware dev now h v))) = db_jobs (w_db v)" for now h v
  proof (cases h)
    case (Some x)
    show ?thesis
      unfolding full_hardware_def Some option.case
      by (intro same_jobs.after same_jobs.Exec_after refl; (assumption | erule same_jobs_stmts))
  qed (simp add: full_hardware_def)
  have pk: "db_jobs (w_db (snd (full_package dev now p v))) = db_jobs (w_db v)" for now p v
    unfolding full_package_def
    by (intro same_jobs.after same_jobs.Exec_after refl; (assumption | erule same_jobs_stmts))
  have del: "db_jobs (w_db (snd (Exec (delete_packages P) v))) = db_jobs (w_db v)" for P v
    by (rule same_jobs.Exec_respects) (erule same_jobs_stmts)
  have all: "db_jobs (w_db (snd (for_each (full_package dev now) ps v))) = db_jobs (w_db v)" for now ps v
    by (rule same_jobs.for_each_after) (simp_all add: pk)
  show ?thesis
    using hw [of "fst (Now w)" "fi_Hardware doc" "snd (Now w)"]
    by (simp add: AgentJobsHandler_processFullInventory_def Doc case_prod_beta all del split: sum.split)
qed (simp add: AgentJobsHandler_processFullInventory_def)

context row_preorder
begin

lemma createRetryJob_related:
  "jobs_related \<rho> (w_db w) (w_db (AgentJobsHandler_createRetryJob p t dev ty rc mr w))"
  unfolding AgentJobsHandler_createRetryJob_def
  by (intro after Exec_after related_refl; (assumption | erule related_insert))

lemma submit_after_related:
  "jobs_related \<rho> (w_db w) (w_db (submit_after u audit a t jid req tgt job w))"
proof -
  define w1 where "w1 = (if j_type job = JobTypeInventoryFull \<and> tgt = JobStatusCompleted then
      snd (AgentJobsHandler_processFullInventory u a (js_Stdout req) w) else w)"
  have 1: "jobs_related \<rho> (w_db w) (w_db w1)"
    by (rule related_same_jobs) (simp add: w1_def processFullInventory_jobs)
  define w2 where "w2 = (if audit then LogAction t a ActorTypeAgent ''job.result'' ''job'' jid
      (Some [(''status'', tgt)]) w1 else w1)"
  have 2: "jobs_related \<rho> (w_db w) (w_db w2)"
    using 1 LogAction_after by (simp add: w2_def)
  show ?thesis
    unfolding submit_after_def Let_def w1_def [symmetric] w2_def [symmetric]
    using 2 related_trans [OF 2 createRetryJob_related] by simp
qed

lemma Acknowledge_related:
  assumes dist: "distinct_jobs (w_db w)"
    and step: "\<And>r now. agent_job jid a t r \<Longrightarrow>
       ValidateTransition (j_status r) JobStatusAcknowledged = Inr () \<Longrightarrow>
       \<rho> r (r\<lparr>j_status := JobStatusAcknowledged, j_acknowledged_at := Some now\<rparr>)"
  shows "jobs_related \<rho> (w_db w) (w_db (snd (AgentJobsHandler_Acknowledge audit a t jid w)))"
proof -
  obtain now w0 where now: "Now w = (now, w0)" by (cases "Now w")
  have w0: "w_db w0 = w_db w" using Now_db [of w] now by simp
  obtain q w1 where q: "Query (\<lambda>d. select_row (agent_job jid a t) (db_jobs d)) w0 = (q, w1)"
    by (rule prod.exhaust)
  have w1: "w_db w1 = w_db w" using Query_same_db [OF q] w0 by simp
  let ?f = "\<lambda>r. r\<lparr>j_status := JobStatusAcknowledged, j_acknowledged_at := Some now\<rparr>"
  have upd: "jobs_related \<rho> (w_db w) (w_db (snd (Exec (update_jobs (\<lambda>r. j_id r = jid) ?f) w1)))"
    if "q = Inr job" "ValidateTransition (j_status job) JobStatusAcknowledged = Inr x" for job x
  proof -
    note sel = selected_row [OF q [unfolded that(1)], unfolded w0]
    show ?thesis
      using sel(2,3) step that(2) w1
      by (intro update_selected_related [OF dist]) (auto simp: agent_job_def)
  qed
  show ?thesis
    using upd LogAction_after w1 related_refl
    by (cases q) (auto simp: AgentJobsHandler_Acknowledge_def now q case_prod_beta split: sum.split)
qed

end

context row_preorder
begin

lemma SubmitResult_related:
  assumes dist: "distinct_jobs (w_db w)"
    and step: "\<And>r now req tgt. agent_job jid a t r \<Longrightarrow> submitted_status (js_Status req) = Some tgt \<Longrightarrow>
       ValidateTransition (reported_from (j_status r)) tgt = Inr () \<Longrightarrow>
       \<rho> r (finished_job tgt now req r)"
  shows "jobs_related \<rho> (w_db w)
           (w_db (snd (AgentJobsHandler_SubmitResult u audit a t jid body w)))"
proof (cases "\<exists>req tgt. body = Doc req \<and> submitted_status (js_Status req) = Some tgt")
  case False
  then show ?thesis
    by (cases body) (auto simp: AgentJobsHandler_SubmitResult_def case_prod_beta related_refl
        split: option.split)
next
  case True
  then obtain req tgt where body: "body = Doc req" and tgt: "submitted_status (js_Status req) = Some tgt"
    by blast
  obtain now w0 where now: "Now w = (now, w0)" by (cases "Now w")
  have w0: "w_db w0 = w_db w" using Now_db [of w] now by simp
  obtain q w1 where q: "Query (\<lambda>d. select_row (agent_job jid a t) (db_jobs d)) w0 = (q, w1)"
    by (rule prod.exhaust)
  have w1: "w_db w1 = w_db w" using Query_same_db [OF q] w0 by simp
  obtain i w2 where i: "newID ''jrs'' w1 = (i, w2)" by (cases "newID ''jrs'' w1")
  have w2: "w_db w2 = w_db w" using newID_db [of "''jrs''" w1] i w1 by simp
  let ?jr = "\<lparr>jr_ID = i, jr_JobID = jid, jr_ExitCode = js_ExitCode req, jr_Stdout = js_Stdout req,
     jr_Stderr = js_Stderr req, jr_StartedAt = js_StartedAt req, jr_CompletedAt = js_CompletedAt req\<rparr>"
  obtain x w3 where x: "Exec (insert_job_result ?jr) w2 = (x, w3)" by (rule prod.exhaust)
  have "db_jobs (w_db (snd (Exec (insert_job_result ?jr) w2))) = db_jobs (w_db w2)"
    by (rule same_jobs.Exec_respects) (erule same_jobs_stmts)
  then have w3: "db_jobs (w_db w3) = db_jobs (w_db w)" using x w2 by simp
  have upd: "jobs_related \<rho> (w_db w) (w_db (snd (Exec (update_jobs (\<lambda>r. j_id r = jid)
      (finished_job tgt now req)) w3)))"
    if "q = Inr job" "ValidateTransition (reported_from (j_status job)) tgt = Inr y" for job y
  proof -
    note sel = selected_row [OF q [unfolded that(1)], unfolded w0]
    show ?thesis
      using sel(2,3) step [OF _ tgt] that(2) w3
      by (intro update_selected_related [OF dist]) (auto simp: agent_job_def)
  qed
  note fin = related_trans [OF _ submit_after_related]
  show ?thesis
    using upd fin related_same_jobs [OF w3] w1 related_refl
    by (cases q) (auto simp: AgentJobsHandler_SubmitResult_def now body tgt q i x Let_def
        case_prod_beta split: sum.split)
qed

end

section \<open>Retries\<close>

lemma Exec_job_ids_update:
  "(\<And>r. j_id (f r) = j_id r) \<Longrightarrow>
     map j_id (db_jobs (w_db (snd (Exec (update_jobs P f) w)))) = map j_id (db_jobs (w_db w))"
  by (rule job_ids.Exec_respects) (erule job_ids_update)

lemma Exec_result_jobs:
  "db_jobs (w_db (snd (Exec (insert_job_result r) w))) = db_jobs (w_db w)"
  by (rule same_jobs.Exec_respects) (erule same_jobs_stmts)

lemma finished_job_sel [simp]:
  "j_id (finished_job tgt now req r) = j_id r" "j_status (finished_job tgt now req r) = tgt"
  "same_job r (finished_job tgt now req r)"
  by (simp_all add: finished_job_def same_job_def)

text \<open>The world in which a successor may be created: the keys of the jobs are still those the
  handler started from.\<close>

lemma submit_after_cases:
  obtains w5 where "map j_id (db_jobs (w_db w5)) = map j_id (db_jobs (w_db w))"
    "submit_after u audit a t jid req tgt job w =
      (if ShouldRetry tgt (j_retry_count job) (j_max_retries job) then
         AgentJobsHandler_createRetryJob jid t a (j_type job) (j_retry_count job + 1)
           (j_max_retries job) w5 else w5)"
proof -
  define w1 where "w1 = (if j_type job = JobTypeInventoryFull \<and> tgt = JobStatusCompleted then
      snd (AgentJobsHandler_processFullInventory u a (js_Stdout req) w) else w)"
  define w2 where "w2 = (if audit then LogAction t a ActorTypeAgent ''job.result'' ''job'' jid
      (Some [(''status'', tgt)]) w1 else w1)"
  have 1: "map j_id (db_jobs (w_db w1)) = map j_id (db_jobs (w_db w))"
    by (simp add: w1_def processFullInventory_jobs)
  have "map j_id (db_jobs (w_db w2)) = map j_id (db_jobs (w_db w))"
    using job_ids.LogAction_after [OF 1] 1 by (simp add: w2_def)
  then show thesis
    by (rule that) (simp add: submit_after_def Let_def w1_def [symmetric] w2_def [symmetric])
qed

definition retry_of :: "job_row \<Rightarrow> job_row \<Rightarrow> bool" where
  "retry_of parent r \<longleftrightarrow>
     j_parent_job_id r = Some (j_id parent) \<and> j_tenant_id r = j_tenant_id parent \<and>
     j_device_id r = j_device_id parent \<and> j_type r = j_type parent \<and>
     j_status r = JobStatusQueued \<and> j_max_retries r = j_max_retries parent \<and>
     j_retry_count r = j_retry_count parent + 1 \<and> j_retry_count r \<le> j_max_retries r"

lemma createRetryJob_cases:
  "db_jobs (w_db (AgentJobsHandler_createRetryJob p t dev ty rc mr w)) = db_jobs (w_db w) \<or>
   (\<exists>r. db_jobs (w_db (AgentJobsHandler_createRetryJob p t dev ty rc mr w)) = db_jobs (w_db w) @ [r] \<and>
      j_parent_job_id r = Some p \<and> j_tenant_id r = t \<and> j_device_id r = dev \<and> j_type r = ty \<and>
      j_status r = JobStatusQueued \<and> j_retry_count r = rc \<and> j_max_retries r = mr)"
proof -
  obtain now w0 where now: "Now w = (now, w0)" by (cases "Now w")
  have w0: "w_db w0 = w_db w" using Now_db [of w] now by simp
  obtain q w1 where q: "Query (\<lambda>d. select_row (\<lambda>r. j_id r = p) (db_jobs d)) w0 = (q, w1)"
    by (rule prod.exhaust)
  have w1: "w_db w1 = w_db w" using Query_same_db [OF q] w0 by simp
  obtain i w2 where i: "newID ''job'' w1 = (i, w2)" by (cases "newID ''job'' w1")
  have w2: "w_db w2 = w_db w" using newID_db [of "''job''" w1] i w1 by simp
  have ins: "db_jobs (w_db (snd (Exec (insert_job r) w2))) = db_jobs (w_db w) \<or>
      db_jobs (w_db (snd (Exec (insert_job r) w2))) = db_jobs (w_db w) @ [r]" for r
  proof -
    obtain x v where "Exec (insert_job r) w2 = (x, v)" by (rule prod.exhaust)
    from this Exec_cases [OF this] show ?thesis
      by (elim disjE exE conjE) (simp_all add: insert_job_def w2)
  qed
  show ?thesis
  proof (cases q)
    case (Inl e)
    then show ?thesis by (simp add: AgentJobsHandler_createRetryJob_def now q w1)
  next
    case (Inr parent)
    let ?r = "\<lparr>j_id = i, j_tenant_id = t, j_device_id = dev, j_parent_job_id = Some p, j_type = ty,
       j_status = JobStatusQueued, j_payload = j_payload parent,
       j_retry_policy = j_retry_policy parent, j_retry_count = rc, j_max_retries = mr,
       j_last_error = None, j_created_by = j_created_by parent, j_created_at = now,
       j_dispatched_at = None, j_acknowledged_at = None, j_started_at = None,
       j_completed_at = None\<rparr>"
    have "AgentJobsHandler_createRetryJob p t dev ty rc mr w = snd (Exec (insert_job ?r) w2)"
      by (simp add: AgentJobsHandler_createRetryJob_def now q i Inr)
    then show ?thesis using ins [of ?r] by auto
  qed
qed

text \<open>The three ways a submission ends: before the job is touched, with an error of the update, or
  with the update done.\<close>

lemma SubmitResult_cases:
  obtains
    (early) "db_jobs (w_db (snd (AgentJobsHandler_SubmitResult u audit a t jid body w))) = db_jobs (w_db w)"
      "fst (AgentJobsHandler_SubmitResult u audit a t jid body w) \<noteq> NoContent"
  | (update) req tgt job now w3 x w4 where "body = Doc req" "submitted_status (js_Status req) = Some tgt"
      "now = w_clock w (w_ticks w)" "job \<in> set (db_jobs (w_db w))" "agent_job jid a t job"
      "ValidateTransition (reported_from (j_status job)) tgt = Inr ()"
      "db_jobs (w_db w3) = db_jobs (w_db w)"
      "Exec (update_jobs (\<lambda>r. j_id r = jid) (finished_job tgt now req)) w3 = (x, w4)"
      "AgentJobsHandler_SubmitResult u audit a t jid body w =
        (case x of Inl _ \<Rightarrow> (Error StatusInternalServerError ''failed to update job'', w4)
         | Inr _ \<Rightarrow> (NoContent, submit_after u audit a t jid req tgt job w4))"
proof (cases "\<exists>req tgt. body = Doc req \<and> submitted_status (js_Status req) = Some tgt")
  case False
  then show thesis
    by (intro early; cases body) (auto simp: AgentJobsHandler_SubmitResult_def case_prod_beta
        split: option.split)
next
  case True
  then obtain req tgt where body: "body = Doc req" and tgt: "submitted_status (js_Status req) = Some tgt"
    by blast
  let ?now = "w_clock w (w_ticks w)"
  define w0 where "w0 = w\<lparr>w_ticks := Suc (w_ticks w)\<rparr>"
  have now: "Now w = (?now, w0)" and w0: "w_db w0 = w_db w" by (simp_all add: Now_def w0_def)
  obtain q w1 where q: "Query (\<lambda>d. select_row (agent_job jid a t) (db_jobs d)) w0 = (q, w1)"
    by (rule prod.exhaust)
  have w1: "w_db w1 = w_db w" using Query_same_db [OF q] w0 by simp
  obtain i w2 where i: "newID ''jrs'' w1 = (i, w2)" by (cases "newID ''jrs'' w1")
  have w2: "w_db w2 = w_db w" using newID_db [of "''jrs''" w1] i w1 by simp
  let ?jr = "\<lparr>jr_ID = i, jr_JobID = jid, jr_ExitCode = js_ExitCode req, jr_Stdout = js_Stdout req,
     jr_Stderr = js_Stderr req, jr_StartedAt = js_StartedAt req, jr_CompletedAt = js_CompletedAt req\<rparr>"
  obtain y w3 where y: "Exec (insert_job_result ?jr) w2 = (y, w3)" by (rule prod.exhaust)
  have w3: "db_jobs (w_db w3) = db_jobs (w_db w)" using Exec_result_jobs [of ?jr w2] y w2 by simp
  obtain x w4 where x: "Exec (update_jobs (\<lambda>r. j_id r = jid) (finished_job tgt ?now req)) w3 = (x, w4)"
    by (rule prod.exhaust)
  note run = AgentJobsHandler_SubmitResult_def now body tgt q Let_def
  consider (bad) "\<And>job. q = Inr job \<Longrightarrow> ValidateTransition (reported_from (j_status job)) tgt \<noteq> Inr ()"
    | (ok) job where "q = Inr job" "ValidateTransition (reported_from (j_status job)) tgt = Inr ()" by blast
  then show thesis
  proof cases
    case bad
    then show thesis
      by (intro early; cases q) (auto simp: run w1 split: sum.split)
  next
    case (ok job)
    note sel = selected_row [OF q [unfolded ok(1)], unfolded w0]
    show thesis
    proof (cases y)
      case (Inl e)
      then show thesis using ok by (intro early) (simp_all add: run i y w3)
    next
      case (Inr z)
      have "AgentJobsHandler_SubmitResult u audit a t jid body w =
        (case x of Inl _ \<Rightarrow> (Error StatusInternalServerError ''failed to update job'', w4)
         | Inr _ \<Rightarrow> (NoContent, submit_after u audit a t jid req tgt job w4))"
        using ok Inr by (simp add: run i y x split: sum.split)
      with body tgt sel ok x w3 show thesis by (intro update [OF _ _ refl]) auto
    qed
  qed
qed

section \<open>Properties\<close>


text \<open>C12: submitting a result creates at most one new job; it is a queued successor of the job the
  result is for, on the same device, and its retry count is one more and still within the limit.
  So a chain of automatic retries is never longer than the limit of its first job.\<close>

theorem submit_retry_bounded:
  "map j_id (db_jobs (w_db (snd (AgentJobsHandler_SubmitResult u audit a t jid body w)))) =
     map j_id (db_jobs (w_db w)) \<or>
   (\<exists>job init r. job \<in> set (db_jobs (w_db w)) \<and> agent_job jid a t job \<and> retry_of job r \<and>
      map j_id init = map j_id (db_jobs (w_db w)) \<and>
      db_jobs (w_db (snd (AgentJobsHandler_SubmitResult u audit a t jid body w))) = init @ [r])"
proof (cases u audit a t jid body w rule: SubmitResult_cases)
  case early
  then show ?thesis by simp
next
  case (update req tgt job now w3 x w4)
  have ids4: "map j_id (db_jobs (w_db w4)) = map j_id (db_jobs (w_db w))"
    using Exec_job_ids_update [of "finished_job tgt now req" "\<lambda>r. j_id r = jid" w3] update(7,8)
    by simp
  show ?thesis
  proof (cases x)
    case (Inl e)
    then show ?thesis using update(9) ids4 by simp
  next
    case (Inr y)
    obtain w5 where ids5: "map j_id (db_jobs (w_db w5)) = map j_id (db_jobs (w_db w4))"
      and after: "submit_after u audit a t jid req tgt job w4 =
        (if ShouldRetry tgt (j_retry_count job) (j_max_retries job) then
           AgentJobsHandler_createRetryJob jid t a (j_type job) (j_retry_count job + 1)
             (j_max_retries job) w5 else w5)"
      by (rule submit_after_cases)
    have job: "j_id job = jid" "j_device_id job = a" "j_tenant_id job = t"
      using update(5) by (simp_all add: agent_job_def)
    show ?thesis
    proof (cases "ShouldRetry tgt (j_retry_count job) (j_max_retries job)")
      case False
      then show ?thesis using update(9) Inr after ids4 ids5 by simp
    next
      case True
      from createRetryJob_cases [of jid t a "j_type job" "j_retry_count job + 1"
          "j_max_retries job" w5]
      show ?thesis
      proof
        assume "db_jobs (w_db (AgentJobsHandler_createRetryJob jid t a (j_type job)
          (j_retry_count job + 1) (j_max_retries job) w5)) = db_jobs (w_db w5)"
        then show ?thesis using update(9) Inr after ids4 ids5 True by simp
      next
        assume "\<exists>r. db_jobs (w_db (AgentJobsHandler_createRetryJob jid t a (j_type job)
            (j_retry_count job + 1) (j_max_retries job) w5)) = db_jobs (w_db w5) @ [r] \<and>
          j_parent_job_id r = Some jid \<and> j_tenant_id r = t \<and> j_device_id r = a \<and>
          j_type r = j_type job \<and> j_status r = JobStatusQueued \<and>
          j_retry_count r = j_retry_count job + 1 \<and> j_max_retries r = j_max_retries job"
        then obtain r where r: "db_jobs (w_db (snd (AgentJobsHandler_SubmitResult u audit a t jid body w)))
            = db_jobs (w_db w5) @ [r]" "retry_of job r"
          using update(9) Inr after True job by (auto simp: retry_of_def ShouldRetry_def)
        then show ?thesis using update(4,5) ids4 ids5 by metis
      qed
    qed
  qed
qed

text \<open>C13: a job that has finished is never changed by a submission: the request is refused and the
  table of jobs stays as it is, so a result can be recorded once only.\<close>

theorem submit_finished_refused:
  assumes "distinct_jobs (w_db w)" "job \<in> set (db_jobs (w_db w))" "j_id job = jid"
    and "IsTerminalStatus (j_status job)"
  shows "fst (AgentJobsHandler_SubmitResult u audit a t jid body w) \<noteq> NoContent \<and>
         db_jobs (w_db (snd (AgentJobsHandler_SubmitResult u audit a t jid body w))) =
           db_jobs (w_db w)"
proof (cases u audit a t jid body w rule: SubmitResult_cases)
  case (update req tgt job' now w3 x w4)
  have "job' = job"
    by (rule distinct_jobs_row [OF assms(1) update(4) assms(2)])
      (use update(5) assms(3) in \<open>simp add: agent_job_def\<close>)
  moreover have "reported_from (j_status job) = j_status job"
    using assms(4) by (auto simp: reported_from_def IsTerminalStatus_def)
  ultimately have "job_step (j_status job) tgt" using update(6) by (simp add: job_step_iff)
  then show ?thesis using job_step_source_not_terminal assms(4) by blast
qed simp

text \<open>when a submission is accepted, the job was acknowledged or running on this device, and it
  is now in the submitted final state with the time of the request as its completion.\<close>

theorem submit_accepted:
  assumes "distinct_jobs (w_db w)"
    and "fst (AgentJobsHandler_SubmitResult u audit a t jid (Doc req) w) = NoContent"
  shows "\<exists>job \<in> set (db_jobs (w_db w)). agent_job jid a t job \<and>
           j_status job \<in> {JobStatusAcknowledged, JobStatusRunning} \<and>
           (\<exists>tgt. submitted_status (js_Status req) = Some tgt \<and>
              finished_job tgt (w_clock w (w_ticks w)) req job \<in>
                set (db_jobs (w_db (snd (AgentJobsHandler_SubmitResult u audit a t jid (Doc req) w)))))"
proof (cases u audit a t jid "Doc req" w rule: SubmitResult_cases)
  case early
  then show ?thesis using assms(2) by simp
next
  case (update req' tgt job now w3 x w4)
  have req: "req' = req" using update(1) by simp
  obtain y where x: "x = Inr y" using update(9) assms(2) by (cases x) auto
  let ?w' = "snd (AgentJobsHandler_SubmitResult u audit a t jid (Doc req) w)"
  have jobs4: "db_jobs (w_db w4) = update_rows (\<lambda>r. j_id r = jid) (finished_job tgt now req)
      (db_jobs (w_db w))"
    using Exec_Inr [OF update(8) [unfolded x]] update(7) by (simp add: update_jobs_Inr req)
  have mem4: "finished_job tgt now req job \<in> set (db_jobs (w_db w4))"
    unfolding jobs4 using update(4,5) by (intro update_rows_mem) (simp_all add: agent_job_def)
  obtain n where n: "n < length (db_jobs (w_db w4))"
      "db_jobs (w_db w4) ! n = finished_job tgt now req job"
    using mem4 unfolding in_set_conv_nth by blast
  have w': "?w' = submit_after u audit a t jid req tgt job w4" using update(9) by (simp add: x req)
  have "jobs_related (kept_if (\<lambda>_. True)) (w_db w4) (w_db ?w')"
    unfolding w' by (rule kept.submit_after_related)
  then have len: "length (db_jobs (w_db w4)) \<le> length (db_jobs (w_db ?w'))"
    and keep: "\<forall>i < length (db_jobs (w_db w4)). db_jobs (w_db ?w') ! i = db_jobs (w_db w4) ! i"
    by (simp_all add: jobs_related_def kept_if_def)
  have n': "n < length (db_jobs (w_db ?w'))" using n(1) len by simp
  have fin: "finished_job tgt now req job \<in> set (db_jobs (w_db ?w'))"
    using nth_mem [OF n'] unfolding keep [rule_format, OF n(1)] n(2) .
  have st: "j_status job \<in> {JobStatusAcknowledged, JobStatusRunning}"
  proof -
    have "tgt \<in> {JobStatusCompleted, JobStatusFailed, JobStatusTimedOut}"
      using update(2) by (auto simp: submitted_status_def split: if_splits)
    then have "reported_from (j_status job) = JobStatusRunning"
      using update(6) by (auto simp: ValidateTransition_ok_iff map_of_validTransitions split: if_splits)
    then show ?thesis by (auto simp: reported_from_def split: if_splits)
  qed
  show ?thesis
    using fin update(2) update(3) unfolding req
    by (intro bexI [OF _ update(4)] conjI update(5) st exI [of _ tgt]) simp_all
qed

text \<open>the status \<^verbatim>\<open>restarting\<close>, which the protocol lists and the agent reports when
  it is about to restart for an update or a rollback, is refused as a bad request and nothing is
  stored.\<close>

theorem submit_restarting_refused:
  "fst (AgentJobsHandler_SubmitResult u audit a t jid (Doc (req\<lparr>js_Status := ''restarting''\<rparr>)) w) =
     Error StatusBadRequest ''invalid status: must be completed, failed, or timed_out'' \<and>
   w_db (snd (AgentJobsHandler_SubmitResult u audit a t jid (Doc (req\<lparr>js_Status := ''restarting''\<rparr>)) w)) =
     w_db w"
  by (simp add: AgentJobsHandler_SubmitResult_def submitted_status_def case_prod_beta)

section \<open>Witnesses\<close>

definition sample_submission :: "string \<Rightarrow> JobResultSubmission" where
  "sample_submission s = \<lparr>js_Status = s, js_ExitCode = Some 1, js_Stdout = ''out'', js_Stderr = '''',
     js_Message = ''exit 1'', js_StartedAt = None, js_CompletedAt = None\<rparr>"


theorem submit_finished_refused_witness:
  "fst (AgentJobsHandler_SubmitResult (\<lambda>_. Malformed) True ''d2'' ''t1'' ''j3''
     (Doc (sample_submission ''failed'')) (sample_world sample_jobs)) \<noteq> NoContent"
proof -
  have 1: "distinct_jobs (w_db (sample_world sample_jobs))" by code_simp
  have 2: "sample_jobs ! 2 \<in> set (db_jobs (w_db (sample_world sample_jobs)))" by code_simp
  have 3: "j_id (sample_jobs ! 2) = ''j3''" by code_simp
  have 4: "IsTerminalStatus (j_status (sample_jobs ! 2))" by code_simp
  show ?thesis using submit_finished_refused [OF 1 2 3 4] by blast
qed

theorem submit_accepted_witness:
  "\<exists>job \<in> set (db_jobs (w_db (sample_world sample_jobs))). agent_job ''j5'' ''d1'' ''t1'' job \<and>
     j_status job \<in> {JobStatusAcknowledged, JobStatusRunning}"
proof -
  have 1: "distinct_jobs (w_db (sample_world sample_jobs))" by code_simp
  have 2: "fst (AgentJobsHandler_SubmitResult (\<lambda>_. Malformed) True ''d1'' ''t1'' ''j5''
     (Doc (sample_submission ''failed'')) (sample_world sample_jobs)) = NoContent" by code_simp
  show ?thesis using submit_accepted [OF 1 2] by blast
qed

end
