(* ===== verification/Scope.thy ===== *)
theory Scope
  imports Database Samples
begin

text \<open>
  Scopes of API keys and the expansion of groups, tags and sites to devices:
  \<^verbatim>\<open>server/auth/scope.go\<close> and the \<^verbatim>\<open>resolveTargets\<close> of the jobs handler and of the
  scheduler, which expand a job's target the same way.

  The code collects the devices in a map when it resolves a scope and in a list without
  repetition when it resolves a target.  The locale \<open>collector\<close> is what the expansion needs
  of such a container.
\<close>

section \<open>Expansion of memberships\<close>

text \<open>\<^verbatim>\<open>SELECT m.device_id FROM memberships m JOIN devices d ON d.id = m.device_id WHERE
  m.group_id = $1 AND d.tenant_id = $2\<close>\<close>

definition select_members :: "(db \<Rightarrow> (id \<times> id) list) \<Rightarrow> id \<Rightarrow> id \<Rightarrow> db \<Rightarrow> id list" where
  "select_members tbl tenantID gid d =
     concat (map (\<lambda>(dev, g). if g = gid then
         map d_id (filter (\<lambda>r. d_id r = dev \<and> d_tenant_id r = tenantID) (db_devices d))
       else []) (tbl d))"

fun expand_members ::
  "('acc \<Rightarrow> id \<Rightarrow> 'acc) \<Rightarrow> (db \<Rightarrow> (id \<times> id) list) \<Rightarrow> id \<Rightarrow> id list \<Rightarrow> 'acc \<Rightarrow> world
     \<Rightarrow> (db_error + 'acc) \<times> world" where
  "expand_members add tbl tenantID [] acc w = (Inr acc, w)"
| "expand_members add tbl tenantID (g # gs) acc w =
    (case Query (\<lambda>d. Inr (select_members tbl tenantID g d)) w of
       (Inl e, w1) \<Rightarrow> (Inl e, w1)
     | (Inr ids, w1) \<Rightarrow> expand_members add tbl tenantID gs (foldl add acc ids) w1)"

text \<open>Direct devices first, then groups, tags and sites.\<close>

definition expand_dimensions ::
  "('acc \<Rightarrow> id \<Rightarrow> 'acc) \<Rightarrow> 'acc \<Rightarrow> id \<Rightarrow> id list \<Rightarrow> id list \<Rightarrow> id list \<Rightarrow> id list \<Rightarrow> world
     \<Rightarrow> (db_error + 'acc) \<times> world" where
  "expand_dimensions add acc0 tenantID devs groups tags sites w =
    (case expand_members add db_device_groups tenantID groups (foldl add acc0 devs) w of
       (Inl e, w1) \<Rightarrow> (Inl e, w1)
     | (Inr a1, w1) \<Rightarrow>
       (case expand_members add db_device_tags tenantID tags a1 w1 of
          (Inl e, w2) \<Rightarrow> (Inl e, w2)
        | (Inr a2, w2) \<Rightarrow> expand_members add db_device_sites tenantID sites a2 w2))"

definition ResolveScope ::
  "id \<Rightarrow> APIScope option \<Rightarrow> world \<Rightarrow> (db_error + id set option) \<times> world" where
  "ResolveScope tenantID scope w =
    (case scope of None \<Rightarrow> (Inr None, w)
     | Some sc \<Rightarrow>
       (case expand_dimensions (\<lambda>S i. insert i S) {} tenantID (sc_DeviceIDs sc) (sc_GroupIDs sc)
               (sc_TagIDs sc) (sc_SiteIDs sc) w of
          (Inl e, w1) \<Rightarrow> (Inl e, w1)
        | (Inr allowed, w1) \<Rightarrow> (Inr (Some allowed), w1)))"

text \<open>The list and the map of seen devices of \<^verbatim>\<open>resolveTargets\<close> always hold the same
  devices, so the list alone is kept.\<close>

definition add_new :: "id list \<Rightarrow> id \<Rightarrow> id list" where
  "add_new ids i = (if i \<in> set ids then ids else ids @ [i])"

definition JobsHandler_resolveTargets ::
  "id \<Rightarrow> JobTarget \<Rightarrow> world \<Rightarrow> (db_error + id list) \<times> world" where
  "JobsHandler_resolveTargets tenantID target =
     expand_dimensions add_new [] tenantID (jt_DeviceIDs target) (jt_GroupIDs target)
       (jt_TagIDs target) (jt_SiteIDs target)"

definition Scheduler_resolveTargets ::
  "id \<Rightarrow> JobTarget \<Rightarrow> world \<Rightarrow> (db_error + id list) \<times> world" where
  "Scheduler_resolveTargets tenantID target =
     expand_dimensions add_new [] tenantID (jt_DeviceIDs target) (jt_GroupIDs target)
       (jt_TagIDs target) (jt_SiteIDs target)"

section \<open>Checks against a scope\<close>

definition DeviceInScope :: "id set option \<Rightarrow> id \<Rightarrow> bool" where
  "DeviceInScope allowed deviceID =
    (case allowed of None \<Rightarrow> True | Some S \<Rightarrow> deviceID \<in> S)"

definition FilterDeviceIDs :: "id set option \<Rightarrow> id list \<Rightarrow> id list" where
  "FilterDeviceIDs allowed deviceIDs =
    (case allowed of None \<Rightarrow> deviceIDs | Some S \<Rightarrow> filter (\<lambda>i. i \<in> S) deviceIDs)"

definition scope_field :: "APIScope \<Rightarrow> string \<Rightarrow> id list" where
  "scope_field scope field =
    (if field = ''groups'' then sc_GroupIDs scope
     else if field = ''tags'' then sc_TagIDs scope
     else if field = ''sites'' then sc_SiteIDs scope
     else if field = ''devices'' then sc_DeviceIDs scope
     else [])"

definition ScopeHasField :: "APIScope option \<Rightarrow> string \<Rightarrow> bool" where
  "ScopeHasField scope field =
    (case scope of None \<Rightarrow> False | Some sc \<Rightarrow> scope_field sc field \<noteq> [])"

definition allInSet :: "id list \<Rightarrow> id list \<Rightarrow> bool" where
  "allInSet candidates allowed =
    (if candidates = [] then True else if allowed = [] then False
     else list_all (\<lambda>i. i \<in> set allowed) candidates)"

definition anyInSet :: "id list \<Rightarrow> id list \<Rightarrow> bool" where
  "anyInSet candidates allowed = list_ex (\<lambda>i. i \<in> set allowed) candidates"

definition TargetOverlapsScope :: "APIScope option \<Rightarrow> JobTarget option \<Rightarrow> bool" where
  "TargetOverlapsScope scope target =
    (case (scope, target) of
       (Some sc, Some t) \<Rightarrow>
         \<not> (sc_GroupIDs sc \<noteq> [] \<and> jt_GroupIDs t \<noteq> [] \<and> \<not> anyInSet (jt_GroupIDs t) (sc_GroupIDs sc)) \<and>
         \<not> (sc_TagIDs sc \<noteq> [] \<and> jt_TagIDs t \<noteq> [] \<and> \<not> anyInSet (jt_TagIDs t) (sc_TagIDs sc)) \<and>
         \<not> (sc_SiteIDs sc \<noteq> [] \<and> jt_SiteIDs t \<noteq> [] \<and> \<not> anyInSet (jt_SiteIDs t) (sc_SiteIDs sc)) \<and>
         \<not> (sc_DeviceIDs sc \<noteq> [] \<and> jt_DeviceIDs t \<noteq> [] \<and> \<not> anyInSet (jt_DeviceIDs t) (sc_DeviceIDs sc))
     | _ \<Rightarrow> True)"

definition ScopeIsSubset :: "APIScope option \<Rightarrow> APIScope option \<Rightarrow> bool" where
  "ScopeIsSubset outer inner =
    (case outer of None \<Rightarrow> True
     | Some ou \<Rightarrow> (case inner of None \<Rightarrow> False
         | Some sub \<Rightarrow> allInSet (sc_GroupIDs sub) (sc_GroupIDs ou) \<and>
             allInSet (sc_TagIDs sub) (sc_TagIDs ou) \<and>
             allInSet (sc_SiteIDs sub) (sc_SiteIDs ou) \<and>
             allInSet (sc_DeviceIDs sub) (sc_DeviceIDs ou)))"

definition IDInScopeField :: "APIScope option \<Rightarrow> string \<Rightarrow> id \<Rightarrow> bool" where
  "IDInScopeField scope field i =
    (case scope of None \<Rightarrow> True
     | Some sc \<Rightarrow> (let ids = scope_field sc field in if ids = [] then True else i \<in> set ids))"

datatype scope_error = ScopeQuery db_error | NotInTenant string id

text \<open>\<^verbatim>\<open>SELECT EXISTS(SELECT 1 FROM table WHERE id = $1 AND tenant_id = $2)\<close>\<close>

definition scope_check ::
  "string \<Rightarrow> (db \<Rightarrow> (id \<times> id) list) \<Rightarrow> id \<Rightarrow> id \<Rightarrow> world \<Rightarrow> (scope_error + unit) \<times> world" where
  "scope_check name owners tenantID i w =
    (case Query (\<lambda>d. Inr ((i, tenantID) \<in> set (owners d))) w of
       (Inl e, w1) \<Rightarrow> (Inl (ScopeQuery e), w1)
     | (Inr found, w1) \<Rightarrow> (if found then (Inr (), w1) else (Inl (NotInTenant name i), w1)))"

definition group_owners :: "db \<Rightarrow> (id \<times> id) list" where
  "group_owners d = map (\<lambda>r. (n_id r, n_tenant_id r)) (db_groups d)"

definition tag_owners :: "db \<Rightarrow> (id \<times> id) list" where
  "tag_owners d = map (\<lambda>r. (n_id r, n_tenant_id r)) (db_tags d)"

definition site_owners :: "db \<Rightarrow> (id \<times> id) list" where
  "site_owners d = map (\<lambda>r. (n_id r, n_tenant_id r)) (db_sites d)"

definition device_owners :: "db \<Rightarrow> (id \<times> id) list" where
  "device_owners d = map (\<lambda>r. (d_id r, d_tenant_id r)) (db_devices d)"

definition ValidateScopeTenant ::
  "id \<Rightarrow> APIScope option \<Rightarrow> world \<Rightarrow> (scope_error + unit) \<times> world" where
  "ValidateScopeTenant tenantID scope w =
    (case scope of None \<Rightarrow> (Inr (), w)
     | Some sc \<Rightarrow>
       (case for_each (scope_check ''groups'' group_owners tenantID) (sc_GroupIDs sc) w of
          (Inl e, w1) \<Rightarrow> (Inl e, w1)
        | (Inr _, w1) \<Rightarrow>
       (case for_each (scope_check ''tags'' tag_owners tenantID) (sc_TagIDs sc) w1 of
          (Inl e, w2) \<Rightarrow> (Inl e, w2)
        | (Inr _, w2) \<Rightarrow>
       (case for_each (scope_check ''sites'' site_owners tenantID) (sc_SiteIDs sc) w2 of
          (Inl e, w3) \<Rightarrow> (Inl e, w3)
        | (Inr _, w3) \<Rightarrow> for_each (scope_check ''devices'' device_owners tenantID) (sc_DeviceIDs sc) w3))))"

section \<open>What an expansion returns\<close>

definition device_of_tenant :: "db \<Rightarrow> id \<Rightarrow> id \<Rightarrow> bool" where
  "device_of_tenant d t dev \<longleftrightarrow> (dev, t) \<in> set (device_owners d)"

definition members_of :: "(db \<Rightarrow> (id \<times> id) list) \<Rightarrow> id \<Rightarrow> db \<Rightarrow> id list \<Rightarrow> id set" where
  "members_of tbl t d gs = {dev. \<exists>g \<in> set gs. (dev, g) \<in> set (tbl d) \<and> device_of_tenant d t dev}"

definition devices_of :: "id \<Rightarrow> db \<Rightarrow> id list \<Rightarrow> id list \<Rightarrow> id list \<Rightarrow> id list \<Rightarrow> id set" where
  "devices_of t d devs gs ts ss = set devs \<union> members_of db_device_groups t d gs \<union>
     members_of db_device_tags t d ts \<union> members_of db_device_sites t d ss"

definition scope_devices :: "id \<Rightarrow> db \<Rightarrow> APIScope \<Rightarrow> id set" where
  "scope_devices t d sc =
     devices_of t d (sc_DeviceIDs sc) (sc_GroupIDs sc) (sc_TagIDs sc) (sc_SiteIDs sc)"

definition target_devices :: "id \<Rightarrow> db \<Rightarrow> JobTarget \<Rightarrow> id set" where
  "target_devices t d tg =
     devices_of t d (jt_DeviceIDs tg) (jt_GroupIDs tg) (jt_TagIDs tg) (jt_SiteIDs tg)"

lemma set_select_members:
  "set (select_members tbl t g d) = members_of tbl t d [g]"
  by (force simp: select_members_def members_of_def device_of_tenant_def device_owners_def
      split: if_splits)

lemma members_of_Cons: "members_of tbl t d (g # gs) = members_of tbl t d [g] \<union> members_of tbl t d gs"
  by (auto simp: members_of_def)

lemma members_of_Nil [simp]: "members_of tbl t d [] = {}"
  by (simp add: members_of_def)

lemma members_of_mono: "set gs \<subseteq> set hs \<Longrightarrow> members_of tbl t d gs \<subseteq> members_of tbl t d hs"
  by (auto simp: members_of_def)

locale collector =
  fixes add :: "'acc \<Rightarrow> id \<Rightarrow> 'acc" and acc0 :: 'acc and content :: "'acc \<Rightarrow> id set"
  assumes content_empty: "content acc0 = {}"
    and content_add: "content (add acc i) = insert i (content acc)"
begin

lemma content_foldl: "content (foldl add acc is) = content acc \<union> set is"
  by (induction "is" arbitrary: acc) (simp_all add: content_add)

lemma expand_members_spec:
  "w_db (snd (expand_members add tbl t gs acc w)) = w_db w \<and>
   (case fst (expand_members add tbl t gs acc w) of
      Inl _ \<Rightarrow> w_faults w \<noteq> []
    | Inr acc' \<Rightarrow> content acc' = content acc \<union> members_of tbl t (w_db w) gs) \<and>
   (w_faults w = [] \<longrightarrow> w_faults (snd (expand_members add tbl t gs acc w)) = [])"
proof (induction gs arbitrary: acc w)
  case (Cons g gs)
  obtain q w1 where q: "Query (\<lambda>d. Inr (select_members tbl t g d)) w = (q, w1)"
    by (rule prod.exhaust)
  have db: "w_db w1 = w_db w" by (rule Query_same_db [OF q])
  have nf: "q = Inr (select_members tbl t g (w_db w)) \<and> w1 = w" if "w_faults w = []"
    using Query_no_fault [OF that, of "\<lambda>d. Inr (select_members tbl t g d)"] q by simp
  show ?case
  proof (cases q)
    case (Inl e)
    then have "w_faults w \<noteq> []" using nf by auto
    with Inl show ?thesis by (simp add: q db)
  next
    case (Inr ids)
    have ids: "set ids = members_of tbl t (w_db w) [g]"
      using Query_Inr [OF q [unfolded Inr]] by (auto simp: set_select_members [symmetric])
    have f: "w_faults w1 \<noteq> [] \<Longrightarrow> w_faults w \<noteq> []" "w_faults w = [] \<Longrightarrow> w_faults w1 = []"
      using nf by auto
    show ?thesis
      using Cons.IH [of "foldl add acc ids" w1] f
      by (auto simp: q Inr db content_foldl ids members_of_Cons [of _ _ _ g gs] split: sum.splits)
  qed
qed simp

lemma expand_dimensions_spec:
  "w_db (snd (expand_dimensions add acc0 t devs gs ts ss w)) = w_db w \<and>
   (case fst (expand_dimensions add acc0 t devs gs ts ss w) of
      Inl _ \<Rightarrow> w_faults w \<noteq> []
    | Inr acc \<Rightarrow> content acc = devices_of t (w_db w) devs gs ts ss)"
proof -
  obtain r1 w1 where 1: "expand_members add db_device_groups t gs (foldl add acc0 devs) w = (r1, w1)"
    by (rule prod.exhaust)
  note s1 = expand_members_spec [of db_device_groups t gs "foldl add acc0 devs" w, unfolded 1]
  show ?thesis
  proof (cases r1)
    case (Inl e)
    then show ?thesis using s1 by (simp add: expand_dimensions_def 1)
  next
    case a1: (Inr a1)
    obtain r2 w2 where 2: "expand_members add db_device_tags t ts a1 w1 = (r2, w2)"
      by (rule prod.exhaust)
    note s2 = expand_members_spec [of db_device_tags t ts a1 w1, unfolded 2]
    show ?thesis
    proof (cases r2)
      case (Inl e)
      then show ?thesis using s1 s2 by (auto simp: expand_dimensions_def 1 2 a1)
    next
      case a2: (Inr a2)
      note s3 = expand_members_spec [of db_device_sites t ss a2 w2]
      show ?thesis
        using s1 s2 s3
        by (auto simp: expand_dimensions_def 1 2 a1 a2 devices_of_def content_foldl content_empty
            split: sum.splits)
    qed
  qed
qed

end

interpretation scope_set: collector "\<lambda>S i. insert i S" "{}" "\<lambda>S. S"
  by unfold_locales simp_all

interpretation target_list: collector add_new "[]" set
  by unfold_locales (simp_all add: add_new_def insert_absorb)

lemma ResolveScope_db: "w_db (snd (ResolveScope t sc w)) = w_db w"
  using scope_set.expand_dimensions_spec
  by (simp add: ResolveScope_def case_prod_beta split: option.split sum.split)

lemma ResolveScope_Inr:
  assumes "ResolveScope t (Some sc) w = (Inr S, w')"
  shows "S = Some (scope_devices t (w_db w) sc)"
  using assms scope_set.expand_dimensions_spec [of t "sc_DeviceIDs sc" "sc_GroupIDs sc"
      "sc_TagIDs sc" "sc_SiteIDs sc" w]
  by (auto simp: ResolveScope_def scope_devices_def case_prod_beta split: sum.splits)

lemma ResolveScope_ok:
  "w_faults w = [] \<Longrightarrow>
     fst (ResolveScope t (Some sc) w) = Inr (Some (scope_devices t (w_db w) sc))"
  using scope_set.expand_dimensions_spec [of t "sc_DeviceIDs sc" "sc_GroupIDs sc"
      "sc_TagIDs sc" "sc_SiteIDs sc" w]
  by (auto simp: ResolveScope_def scope_devices_def case_prod_beta split: sum.splits)

lemma foldl_add_new_distinct: "distinct xs \<Longrightarrow> distinct (foldl add_new xs ys)"
  by (induction ys arbitrary: xs) (simp_all add: add_new_def)

lemma expand_members_distinct:
  "distinct acc \<Longrightarrow> fst (expand_members add_new tbl t gs acc w) = Inr acc' \<Longrightarrow> distinct acc'"
proof (induction gs arbitrary: acc w)
  case (Cons g gs)
  show ?case
    using Cons.prems Cons.IH [OF foldl_add_new_distinct [OF Cons.prems(1)]]
    by (auto split: prod.splits sum.splits)
qed simp

lemma expand_members_world:
  "w_faults w = [] \<Longrightarrow> snd (expand_members add tbl t gs acc w) = w"
proof (induction gs arbitrary: acc w)
  case (Cons g gs)
  then show ?case by (simp add: Query_no_fault split: sum.split)
qed simp

lemma expand_dimensions_world:
  "w_faults w = [] \<Longrightarrow> snd (expand_dimensions add acc t devs gs ts ss w) = w"
  by (simp add: expand_dimensions_def case_prod_beta expand_members_world split: sum.split)

lemma Scheduler_resolveTargets_db [simp]: "w_db (snd (Scheduler_resolveTargets t tg w)) = w_db w"
  using target_list.expand_dimensions_spec by (simp add: Scheduler_resolveTargets_def)

lemma Scheduler_resolveTargets_world:
  "w_faults w = [] \<Longrightarrow> snd (Scheduler_resolveTargets t tg w) = w"
  by (simp add: Scheduler_resolveTargets_def expand_dimensions_world)

lemma Scheduler_resolveTargets_set:
  assumes "w_faults w = []"
  shows "\<exists>ids. Scheduler_resolveTargets t tg w = (Inr ids, w) \<and> set ids = target_devices t (w_db w) tg"
proof -
  obtain r w' where r: "Scheduler_resolveTargets t tg w = (r, w')" by (rule prod.exhaust)
  have "w' = w" using Scheduler_resolveTargets_world [OF assms] r by (metis snd_conv)
  then show ?thesis
    using target_list.expand_dimensions_spec [of t "jt_DeviceIDs tg" "jt_GroupIDs tg" "jt_TagIDs tg"
        "jt_SiteIDs tg" w] assms r
    by (cases r) (simp_all add: Scheduler_resolveTargets_def target_devices_def)
qed

lemma resolveTargets_distinct:
  assumes "fst (JobsHandler_resolveTargets t tg w) = Inr ids"
  shows "distinct ids"
proof -
  obtain r1 w1 where 1: "expand_members add_new db_device_groups t (jt_GroupIDs tg)
      (foldl add_new [] (jt_DeviceIDs tg)) w = (r1, w1)" by (rule prod.exhaust)
  with assms obtain a1 where r1: "r1 = Inr a1"
    by (cases r1) (auto simp: JobsHandler_resolveTargets_def expand_dimensions_def)
  obtain r2 w2 where 2: "expand_members add_new db_device_tags t (jt_TagIDs tg) a1 w1 = (r2, w2)"
    by (rule prod.exhaust)
  with assms 1 r1 obtain a2 where r2: "r2 = Inr a2"
    by (cases r2) (auto simp: JobsHandler_resolveTargets_def expand_dimensions_def)
  have "distinct a1"
    by (rule expand_members_distinct [OF foldl_add_new_distinct [OF distinct.simps(1) [THEN iffD2, OF TrueI]],
      of db_device_groups t "jt_GroupIDs tg" "jt_DeviceIDs tg" w]) (simp add: 1 r1)
  then have "distinct a2"
    by (rule expand_members_distinct [of _ db_device_tags t "jt_TagIDs tg" w1]) (simp add: 2 r2)
  then show ?thesis
    by (rule expand_members_distinct [of _ db_device_sites t "jt_SiteIDs tg" w2])
      (use assms in \<open>simp add: JobsHandler_resolveTargets_def expand_dimensions_def 1 2 r1 r2\<close>)
qed

lemma scope_check_ok:
  assumes "for_each (scope_check n owners t) ids w = (Inr x, w')"
  shows "(\<forall>i \<in> set ids. (i, t) \<in> set (owners (w_db w))) \<and> w_db w' = w_db w"
  using assms
proof (induction ids arbitrary: w)
  case (Cons i ids)
  obtain q w1 where q: "Query (\<lambda>d. Inr ((i, t) \<in> set (owners d))) w = (q, w1)" by (rule prod.exhaust)
  from Cons.prems obtain b where b: "q = Inr b" "b"
    by (cases q) (auto simp: scope_check_def q split: if_splits)
  have "(i, t) \<in> set (owners (w_db w))" "w_db w1 = w_db w"
    using Query_Inr [OF q [unfolded b(1)]] b(2) by auto
  moreover have "scope_check n owners t i w = (Inr (), w1)" by (simp add: scope_check_def q b)
  then have "for_each (scope_check n owners t) ids w1 = (Inr x, w')" using Cons.prems by simp
  ultimately show ?case using Cons.IH [of w1] by simp
qed simp

section \<open>Properties\<close>

text \<open>a scope resolves to the union of its devices and the members, within the tenant, of its
  groups, tags and sites; when a query fails the result is an error and never a smaller or larger
  set; resolving changes nothing in the database.\<close>

theorem ResolveScope_union:
  "w_db (snd (ResolveScope t (Some sc) w)) = w_db w \<and>
   (fst (ResolveScope t (Some sc) w) = Inr (Some (scope_devices t (w_db w) sc)) \<or>
    (\<exists>e. fst (ResolveScope t (Some sc) w) = Inl e) \<and> w_faults w \<noteq> [])"
  using scope_set.expand_dimensions_spec [of t "sc_DeviceIDs sc" "sc_GroupIDs sc" "sc_TagIDs sc"
      "sc_SiteIDs sc" w]
  by (auto simp: ResolveScope_def scope_devices_def case_prod_beta split: sum.splits)

text \<open>a job target resolves, in the jobs handler and in the scheduler alike, to exactly its own
  devices and the members, within the tenant, of its groups, tags and sites, each device once.\<close>

theorem resolveTargets_exact:
  "Scheduler_resolveTargets t tg w = JobsHandler_resolveTargets t tg w \<and>
   w_db (snd (JobsHandler_resolveTargets t tg w)) = w_db w \<and>
   ((\<exists>ids. fst (JobsHandler_resolveTargets t tg w) = Inr ids \<and> distinct ids \<and>
       set ids = target_devices t (w_db w) tg) \<or>
    (\<exists>e. fst (JobsHandler_resolveTargets t tg w) = Inl e) \<and> w_faults w \<noteq> [])"
proof -
  have "Scheduler_resolveTargets t tg w = JobsHandler_resolveTargets t tg w"
    by (simp add: Scheduler_resolveTargets_def JobsHandler_resolveTargets_def)
  moreover note target_list.expand_dimensions_spec [of t "jt_DeviceIDs tg" "jt_GroupIDs tg"
      "jt_TagIDs tg" "jt_SiteIDs tg" w, folded JobsHandler_resolveTargets_def target_devices_def]
  ultimately show ?thesis
    using resolveTargets_distinct [of t tg w] by (auto split: sum.splits)
qed

text \<open>C14: when one scope passes the subset check against another, every device it reaches is reached
  by the other, in every tenant and database; so a token can never be given more devices than the
  key that creates it.\<close>

theorem ScopeIsSubset_devices:
  assumes "ScopeIsSubset outer inner"
    and "DeviceInScope (map_option (scope_devices t d) inner) dev"
  shows "DeviceInScope (map_option (scope_devices t d) outer) dev"
proof (cases outer)
  case None
  then show ?thesis by (simp add: DeviceInScope_def)
next
  case (Some ou)
  then obtain sub where inner: "inner = Some sub" and sub:
    "set (sc_GroupIDs sub) \<subseteq> set (sc_GroupIDs ou)" "set (sc_TagIDs sub) \<subseteq> set (sc_TagIDs ou)"
    "set (sc_SiteIDs sub) \<subseteq> set (sc_SiteIDs ou)" "set (sc_DeviceIDs sub) \<subseteq> set (sc_DeviceIDs ou)"
    using assms(1)
    by (auto simp: ScopeIsSubset_def allInSet_def list_all_iff split: option.splits if_splits)
  have "scope_devices t d sub \<subseteq> scope_devices t d ou"
    unfolding scope_devices_def devices_of_def by (intro Un_mono sub members_of_mono)
  with assms(2) show ?thesis by (auto simp: Some inner DeviceInScope_def)
qed

text \<open>the subset check does not bound access to groups: a scope with no groups passes it against
  one that allows a single group, and the group handlers then take every group to be allowed,
  because an empty field means no restriction to them.\<close>

theorem ScopeIsSubset_not_fields:
  "let outer = \<lparr>sc_GroupIDs = [''g1''], sc_TagIDs = [], sc_SiteIDs = [], sc_DeviceIDs = [''d1'']\<rparr>;
       sub = \<lparr>sc_GroupIDs = [], sc_TagIDs = [], sc_SiteIDs = [], sc_DeviceIDs = [''d1'']\<rparr>
   in ScopeIsSubset (Some outer) (Some sub) \<and>
      IDInScopeField (Some sub) ''groups'' ''g2'' \<and> \<not> IDInScopeField (Some outer) ''groups'' ''g2''"
  by code_simp

text \<open>The structural check of a scheduled job's target accepts a target that names a device
  outside the scope next to one inside it, and a target in a dimension the scope leaves empty.\<close>

theorem TargetOverlapsScope_partial:
  "let scope = \<lparr>sc_GroupIDs = [], sc_TagIDs = [], sc_SiteIDs = [], sc_DeviceIDs = [''d1'']\<rparr>;
       none = \<lparr>jt_DeviceIDs = [], jt_GroupIDs = [], jt_TagIDs = [], jt_SiteIDs = []\<rparr>
   in TargetOverlapsScope (Some scope) (Some (none\<lparr>jt_DeviceIDs := [''d1'', ''d2'']\<rparr>)) \<and>
      TargetOverlapsScope (Some scope) (Some (none\<lparr>jt_GroupIDs := [''g1'']\<rparr>)) \<and>
      fst (Scheduler_resolveTargets ''t1'' (none\<lparr>jt_GroupIDs := [''g1'']\<rparr>) (sample_world [])) =
        Inr [''d1'', ''d2'']"
  by code_simp

text \<open>a scope that passes the tenant check refers to groups, tags, sites and devices of that
  tenant only.\<close>

theorem ValidateScopeTenant_sound:
  assumes "fst (ValidateScopeTenant t (Some sc) w) = Inr ()"
  shows "set (sc_GroupIDs sc) \<subseteq> {i. (i, t) \<in> set (group_owners (w_db w))} \<and>
         set (sc_TagIDs sc) \<subseteq> {i. (i, t) \<in> set (tag_owners (w_db w))} \<and>
         set (sc_SiteIDs sc) \<subseteq> {i. (i, t) \<in> set (site_owners (w_db w))} \<and>
         set (sc_DeviceIDs sc) \<subseteq> {i. device_of_tenant (w_db w) t i}"
proof -
  obtain w1 where 1: "for_each (scope_check ''groups'' group_owners t) (sc_GroupIDs sc) w = (Inr (), w1)"
    using assms by (auto simp: ValidateScopeTenant_def split: prod.splits sum.splits)
  obtain w2 where 2: "for_each (scope_check ''tags'' tag_owners t) (sc_TagIDs sc) w1 = (Inr (), w2)"
    using assms 1 by (auto simp: ValidateScopeTenant_def split: prod.splits sum.splits)
  obtain w3 where 3: "for_each (scope_check ''sites'' site_owners t) (sc_SiteIDs sc) w2 = (Inr (), w3)"
    using assms 1 2 by (auto simp: ValidateScopeTenant_def split: prod.splits sum.splits)
  obtain w4 where 4: "for_each (scope_check ''devices'' device_owners t) (sc_DeviceIDs sc) w3 = (Inr (), w4)"
    using assms 1 2 3 by (cases "for_each (scope_check ''devices'' device_owners t) (sc_DeviceIDs sc) w3")
      (auto simp: ValidateScopeTenant_def)
  show ?thesis
    using scope_check_ok [OF 1] scope_check_ok [OF 2] scope_check_ok [OF 3] scope_check_ok [OF 4]
    by (auto simp: device_of_tenant_def)
qed

section \<open>Witnesses\<close>

theorem ScopeIsSubset_devices_witness:
  "let sc = \<lparr>sc_GroupIDs = [''g1''], sc_TagIDs = [], sc_SiteIDs = [], sc_DeviceIDs = []\<rparr>
   in DeviceInScope (map_option (scope_devices ''t1'' (sample_db [])) (Some sc)) ''d2''"
proof -
  let ?sc = "\<lparr>sc_GroupIDs = [''g1''], sc_TagIDs = [], sc_SiteIDs = [], sc_DeviceIDs = []\<rparr>"
  have 1: "ScopeIsSubset (Some ?sc) (Some ?sc)" by code_simp
  have 2: "DeviceInScope (map_option (scope_devices ''t1'' (sample_db [])) (Some ?sc)) ''d2''"
    by (simp add: DeviceInScope_def scope_devices_def devices_of_def members_of_def
        device_of_tenant_def device_owners_def sample_db_def sample_device_def)
  show ?thesis unfolding Let_def by (rule ScopeIsSubset_devices [OF 1 2])
qed

theorem ValidateScopeTenant_sound_witness:
  "(''g1'', ''t1'') \<in> set (group_owners (w_db (sample_world [])))"
proof -
  let ?sc = "\<lparr>sc_GroupIDs = [''g1''], sc_TagIDs = [], sc_SiteIDs = [], sc_DeviceIDs = [''d1'']\<rparr>"
  have "fst (ValidateScopeTenant ''t1'' (Some ?sc) (sample_world [])) = Inr ()" by code_simp
  from ValidateScopeTenant_sound [OF this] show ?thesis by simp
qed

end
