(* ===== verification/Quota.thy ===== *)
theory Quota
  imports Database Http Samples
begin

text \<open>
  Per-tenant ceilings: \<^verbatim>\<open>server/quota/quota.go\<close>, and \<^verbatim>\<open>HandleQuotaError\<close> of
  \<^verbatim>\<open>server/api/respond.go\<close>.  A resolver is \<open>None\<close> when the server runs without quotas
  and otherwise carries the cluster's defaults.  The counts are 64-bit in the code; they are
  integers here, since no table of the system approaches that size.

  The locale \<open>ceiling\<close> is the contract of a check: what passing it says about the count.
\<close>

datatype Kind = KindDevices | KindQueuedJobs | KindAPIKeys | KindFileSize

datatype quota_error =
    ErrExceeded Kind (limit: int) (current: int) (attempted: int)
  | QuotaQuery db_error

record Defaults =
  q_MaxDevices :: int
  q_MaxQueuedJobs :: int
  q_MaxAPIKeys :: int
  q_MaxFileSizeBytes :: int

type_synonym Resolver = "Defaults option"

definition AsExceeded :: "quota_error \<Rightarrow> quota_error option" where
  "AsExceeded e = (case e of ErrExceeded _ _ _ _ \<Rightarrow> Some e | QuotaQuery _ \<Rightarrow> None)"

definition GlobalDefaults :: "Resolver \<Rightarrow> Defaults" where
  "GlobalDefaults r = (case r of
     None \<Rightarrow> \<lparr>q_MaxDevices = 0, q_MaxQueuedJobs = 0, q_MaxAPIKeys = 0, q_MaxFileSizeBytes = 0\<rparr>
   | Some d \<Rightarrow> d)"

definition ApplyOverride :: "Defaults \<Rightarrow> TenantQuotas \<Rightarrow> Defaults" where
  "ApplyOverride def q =
    (let d1 = (if tq_MaxDevices q \<noteq> 0 then def\<lparr>q_MaxDevices := tq_MaxDevices q\<rparr> else def);
         d2 = (if tq_MaxQueuedJobs q \<noteq> 0 then d1\<lparr>q_MaxQueuedJobs := tq_MaxQueuedJobs q\<rparr> else d1);
         d3 = (if tq_MaxAPIKeys q \<noteq> 0 then d2\<lparr>q_MaxAPIKeys := tq_MaxAPIKeys q\<rparr> else d2)
     in if tq_MaxFileSizeBytes q \<noteq> 0 then d3\<lparr>q_MaxFileSizeBytes := tq_MaxFileSizeBytes q\<rparr> else d3)"

text \<open>A configuration that does not decode, or has no quotas, leaves the defaults.\<close>

definition effective_limits :: "Defaults \<Rightarrow> TenantConfig json option \<Rightarrow> Defaults" where
  "effective_limits def cfg =
    (case cfg of None \<Rightarrow> def
     | Some Malformed \<Rightarrow> def
     | Some (Doc c) \<Rightarrow> (case tc_Quotas c of None \<Rightarrow> def | Some q \<Rightarrow> ApplyOverride def q))"

definition Resolver_Effective :: "Resolver \<Rightarrow> id \<Rightarrow> world \<Rightarrow> (quota_error + Defaults) \<times> world" where
  "Resolver_Effective r tenantID w =
    (case r of
       None \<Rightarrow> (Inr \<lparr>q_MaxDevices = -1, q_MaxQueuedJobs = -1, q_MaxAPIKeys = -1,
                     q_MaxFileSizeBytes = -1\<rparr>, w)
     | Some def \<Rightarrow>
       (case Query (\<lambda>d. select_row (\<lambda>t. t_id t = tenantID) (db_tenants d)) w of
          (Inl e, w1) \<Rightarrow> (Inl (QuotaQuery e), w1)
        | (Inr t, w1) \<Rightarrow> (Inr (effective_limits def (t_config t)), w1)))"

definition count_rows :: "('r \<Rightarrow> bool) \<Rightarrow> 'r list \<Rightarrow> int" where
  "count_rows P rs = int (length (filter P rs))"

definition counts_as_queued :: "id \<Rightarrow> job_row \<Rightarrow> bool" where
  "counts_as_queued tenantID r \<longleftrightarrow>
     j_tenant_id r = tenantID \<and> (j_status r = ''queued'' \<or> j_status r = ''dispatched'')"

definition Resolver_CheckDevices :: "Resolver \<Rightarrow> id \<Rightarrow> world \<Rightarrow> (quota_error + unit) \<times> world" where
  "Resolver_CheckDevices r tenantID w =
    (if r = None then (Inr (), w)
     else case Resolver_Effective r tenantID w of
       (Inl e, w1) \<Rightarrow> (Inl e, w1)
     | (Inr eff, w1) \<Rightarrow>
       (if q_MaxDevices eff < 0 then (Inr (), w1)
        else case Query (\<lambda>d. Inr (count_rows (\<lambda>x. d_tenant_id x = tenantID) (db_devices d))) w1 of
          (Inl e, w2) \<Rightarrow> (Inl (QuotaQuery e), w2)
        | (Inr count, w2) \<Rightarrow>
          (if count + 1 > q_MaxDevices eff
           then (Inl (ErrExceeded KindDevices (q_MaxDevices eff) count 0), w2)
           else (Inr (), w2))))"

definition Resolver_CheckQueuedJobs ::
  "Resolver \<Rightarrow> id \<Rightarrow> int \<Rightarrow> world \<Rightarrow> (quota_error + unit) \<times> world" where
  "Resolver_CheckQueuedJobs r tenantID incr w =
    (if r = None \<or> incr \<le> 0 then (Inr (), w)
     else case Resolver_Effective r tenantID w of
       (Inl e, w1) \<Rightarrow> (Inl e, w1)
     | (Inr eff, w1) \<Rightarrow>
       (if q_MaxQueuedJobs eff < 0 then (Inr (), w1)
        else case Query (\<lambda>d. Inr (count_rows (counts_as_queued tenantID) (db_jobs d))) w1 of
          (Inl e, w2) \<Rightarrow> (Inl (QuotaQuery e), w2)
        | (Inr count, w2) \<Rightarrow>
          (if count + incr > q_MaxQueuedJobs eff
           then (Inl (ErrExceeded KindQueuedJobs (q_MaxQueuedJobs eff) count incr), w2)
           else (Inr (), w2))))"

definition Resolver_CheckAPIKeys :: "Resolver \<Rightarrow> id \<Rightarrow> world \<Rightarrow> (quota_error + unit) \<times> world" where
  "Resolver_CheckAPIKeys r tenantID w =
    (if r = None then (Inr (), w)
     else case Resolver_Effective r tenantID w of
       (Inl e, w1) \<Rightarrow> (Inl e, w1)
     | (Inr eff, w1) \<Rightarrow>
       (if q_MaxAPIKeys eff < 0 then (Inr (), w1)
        else case Query (\<lambda>d. Inr (count_rows (\<lambda>x. k_tenant_id x = tenantID) (db_api_keys d))) w1 of
          (Inl e, w2) \<Rightarrow> (Inl (QuotaQuery e), w2)
        | (Inr count, w2) \<Rightarrow>
          (if count + 1 > q_MaxAPIKeys eff
           then (Inl (ErrExceeded KindAPIKeys (q_MaxAPIKeys eff) count 0), w2)
           else (Inr (), w2))))"

definition Resolver_CheckFileSize ::
  "Resolver \<Rightarrow> id \<Rightarrow> int \<Rightarrow> world \<Rightarrow> (quota_error + unit) \<times> world" where
  "Resolver_CheckFileSize r tenantID sizeBytes w =
    (if r = None then (Inr (), w)
     else case Resolver_Effective r tenantID w of
       (Inl e, w1) \<Rightarrow> (Inl e, w1)
     | (Inr eff, w1) \<Rightarrow>
       (if q_MaxFileSizeBytes eff < 0 then (Inr (), w1)
        else if sizeBytes > q_MaxFileSizeBytes eff
        then (Inl (ErrExceeded KindFileSize (q_MaxFileSizeBytes eff) 0 sizeBytes), w1)
        else (Inr (), w1)))"

section \<open>Rendering\<close>

fun digits :: "nat \<Rightarrow> string" where
  "digits n = (if n < 10 then [char_of (48 + n)] else digits (n div 10) @ [char_of (48 + n mod 10)])"

declare digits.simps [simp del]

definition decimal :: "int \<Rightarrow> string" where
  "decimal i = (if i < 0 then ''-'' @ digits (nat (- i)) else digits (nat i))"

fun kind_name :: "Kind \<Rightarrow> string" where
  "kind_name KindDevices = ''devices''"
| "kind_name KindQueuedJobs = ''queued_jobs''"
| "kind_name KindAPIKeys = ''api_keys''"
| "kind_name KindFileSize = ''file_size_bytes''"

definition exceeded_message :: "Kind \<Rightarrow> int \<Rightarrow> int \<Rightarrow> int \<Rightarrow> string" where
  "exceeded_message k lim cur att =
    (if att > 0 then
       ''quota '' @ kind_name k @ '' exceeded: current='' @ decimal cur @ '' attempted='' @
         decimal att @ '' limit='' @ decimal lim
     else ''quota '' @ kind_name k @ '' exceeded: current='' @ decimal cur @ '' limit='' @ decimal lim)"

text \<open>The response when the error is a violated quota, and nothing otherwise.\<close>

definition HandleQuotaError :: "quota_error \<Rightarrow> 'a response option" where
  "HandleQuotaError e =
    (case AsExceeded e of
       Some (ErrExceeded k lim cur att) \<Rightarrow>
         Some (ErrorWithCode StatusConflict ''quota_exceeded'' (exceeded_message k lim cur att))
     | _ \<Rightarrow> None)"

section \<open>The contract of a check\<close>

definition tenant_limits :: "Resolver \<Rightarrow> id \<Rightarrow> db \<Rightarrow> Defaults option" where
  "tenant_limits r t d = (case r of None \<Rightarrow> None
     | Some def \<Rightarrow> map_option (\<lambda>row. effective_limits def (t_config row))
         (find_row (\<lambda>row. t_id row = t) (db_tenants d)))"

lemma Effective_db: "w_db (snd (Resolver_Effective r t w)) = w_db w"
  by (auto simp: Resolver_Effective_def case_prod_beta Query_db split: option.split sum.split)

lemma Effective_Inr:
  assumes "Resolver_Effective (Some def) t w = (Inr eff, w')"
  shows "tenant_limits (Some def) t (w_db w) = Some eff \<and> w_db w' = w_db w"
proof -
  obtain q w1 where q: "Query (\<lambda>d. select_row (\<lambda>x. t_id x = t) (db_tenants d)) w = (q, w1)"
    by (rule prod.exhaust)
  with assms obtain row where row: "q = Inr row" "eff = effective_limits def (t_config row)" "w' = w1"
    by (cases q) (auto simp: Resolver_Effective_def)
  show ?thesis
    using Query_Inr [OF q [unfolded row(1)]] row(2,3)
    by (auto simp: tenant_limits_def select_row_def split: option.splits)
qed

locale ceiling =
  fixes check :: "Resolver \<Rightarrow> id \<Rightarrow> world \<Rightarrow> (quota_error + unit) \<times> world"
    and added :: int and lim :: "Defaults \<Rightarrow> int" and count :: "id \<Rightarrow> db \<Rightarrow> int"
  assumes check_db: "w_db (snd (check r t w)) = w_db w"
    and check_ok: "fst (check (Some def) t w) = Inr () \<Longrightarrow> 0 < added \<Longrightarrow>
      \<exists>eff. tenant_limits (Some def) t (w_db w) = Some eff \<and>
        (lim eff < 0 \<or> count t (w_db w) + added \<le> lim eff)"
    and check_off: "check None t w = (Inr (), w)"
begin

text \<open>A tenant whose ceiling is not negative stays within it after adding what was checked.\<close>

lemma within_after:
  assumes "fst (check (Some def) t w) = Inr ()" "0 < added"
    and "tenant_limits (Some def) t (w_db w) = Some eff" "0 \<le> lim eff"
    and "count t d' \<le> count t (w_db w) + added"
  shows "count t d' \<le> lim eff"
  using check_ok [OF assms(1,2)] assms(3,4,5) by auto

end

lemma Query_value:
  "Query (\<lambda>d. Inr (f d)) w = (Inr n, w') \<Longrightarrow> n = f (w_db w) \<and> w_db w' = w_db w"
  using Query_Inr [of "\<lambda>d. Inr (f d)" w n w'] by simp

lemma CheckQueuedJobs_cases:
  assumes ok: "fst (Resolver_CheckQueuedJobs (Some def) t n w) = Inr ()" and n: "0 < n"
  shows "\<exists>eff. tenant_limits (Some def) t (w_db w) = Some eff \<and>
    (q_MaxQueuedJobs eff < 0 \<or>
     count_rows (counts_as_queued t) (db_jobs (w_db w)) + n \<le> q_MaxQueuedJobs eff)"
proof -
  obtain r w1 where e: "Resolver_Effective (Some def) t w = (r, w1)" by (rule prod.exhaust)
  obtain eff where r: "r = Inr eff"
    using ok n by (cases r) (simp_all add: Resolver_CheckQueuedJobs_def e)
  note eff = Effective_Inr [OF e [unfolded r]]
  obtain q w2 where q: "Query (\<lambda>d. Inr (count_rows (counts_as_queued t) (db_jobs d))) w1 = (q, w2)"
    by (rule prod.exhaust)
  have "q_MaxQueuedJobs eff < 0 \<or>
     count_rows (counts_as_queued t) (db_jobs (w_db w)) + n \<le> q_MaxQueuedJobs eff"
  proof (cases q)
    case (Inl x)
    then show ?thesis using ok n by (simp add: Resolver_CheckQueuedJobs_def e r q split: if_splits)
  next
    case (Inr c)
    then show ?thesis
      using ok n Query_value [OF q [unfolded Inr]] eff
      by (simp add: Resolver_CheckQueuedJobs_def e r q split: if_splits)
  qed
  with eff show ?thesis by (intro exI [of _ eff]) simp
qed

lemma CheckDevices_cases:
  assumes ok: "fst (Resolver_CheckDevices (Some def) t w) = Inr ()"
  shows "\<exists>eff. tenant_limits (Some def) t (w_db w) = Some eff \<and>
    (q_MaxDevices eff < 0 \<or>
     count_rows (\<lambda>x. d_tenant_id x = t) (db_devices (w_db w)) + 1 \<le> q_MaxDevices eff)"
proof -
  obtain r w1 where e: "Resolver_Effective (Some def) t w = (r, w1)" by (rule prod.exhaust)
  obtain eff where r: "r = Inr eff"
    using ok by (cases r) (simp_all add: Resolver_CheckDevices_def e)
  note eff = Effective_Inr [OF e [unfolded r]]
  obtain q w2 where q: "Query (\<lambda>d. Inr (count_rows (\<lambda>x. d_tenant_id x = t) (db_devices d))) w1 = (q, w2)"
    by (rule prod.exhaust)
  have "q_MaxDevices eff < 0 \<or>
     count_rows (\<lambda>x. d_tenant_id x = t) (db_devices (w_db w)) + 1 \<le> q_MaxDevices eff"
  proof (cases q)
    case (Inl x)
    then show ?thesis using ok by (simp add: Resolver_CheckDevices_def e r q split: if_splits)
  next
    case (Inr c)
    then show ?thesis
      using ok Query_value [OF q [unfolded Inr]] eff
      by (simp add: Resolver_CheckDevices_def e r q split: if_splits)
  qed
  with eff show ?thesis by (intro exI [of _ eff]) simp
qed

lemma CheckAPIKeys_cases:
  assumes ok: "fst (Resolver_CheckAPIKeys (Some def) t w) = Inr ()"
  shows "\<exists>eff. tenant_limits (Some def) t (w_db w) = Some eff \<and>
    (q_MaxAPIKeys eff < 0 \<or>
     count_rows (\<lambda>x. k_tenant_id x = t) (db_api_keys (w_db w)) + 1 \<le> q_MaxAPIKeys eff)"
proof -
  obtain r w1 where e: "Resolver_Effective (Some def) t w = (r, w1)" by (rule prod.exhaust)
  obtain eff where r: "r = Inr eff"
    using ok by (cases r) (simp_all add: Resolver_CheckAPIKeys_def e)
  note eff = Effective_Inr [OF e [unfolded r]]
  obtain q w2 where q: "Query (\<lambda>d. Inr (count_rows (\<lambda>x. k_tenant_id x = t) (db_api_keys d))) w1 = (q, w2)"
    by (rule prod.exhaust)
  have "q_MaxAPIKeys eff < 0 \<or>
     count_rows (\<lambda>x. k_tenant_id x = t) (db_api_keys (w_db w)) + 1 \<le> q_MaxAPIKeys eff"
  proof (cases q)
    case (Inl x)
    then show ?thesis using ok by (simp add: Resolver_CheckAPIKeys_def e r q split: if_splits)
  next
    case (Inr c)
    then show ?thesis
      using ok Query_value [OF q [unfolded Inr]] eff
      by (simp add: Resolver_CheckAPIKeys_def e r q split: if_splits)
  qed
  with eff show ?thesis by (intro exI [of _ eff]) simp
qed

lemma CheckQueuedJobs_db: "w_db (snd (Resolver_CheckQueuedJobs r t n w)) = w_db w"
  by (simp add: Resolver_CheckQueuedJobs_def case_prod_beta Query_db Effective_db split: sum.split)

lemma CheckDevices_db: "w_db (snd (Resolver_CheckDevices r t w)) = w_db w"
  by (simp add: Resolver_CheckDevices_def case_prod_beta Query_db Effective_db split: sum.split)

lemma CheckAPIKeys_db: "w_db (snd (Resolver_CheckAPIKeys r t w)) = w_db w"
  by (simp add: Resolver_CheckAPIKeys_def case_prod_beta Query_db Effective_db split: sum.split)

interpretation queued: ceiling "\<lambda>r t. Resolver_CheckQueuedJobs r t n" n q_MaxQueuedJobs
  "\<lambda>t d. count_rows (counts_as_queued t) (db_jobs d)" for n
proof unfold_locales
  show "Resolver_CheckQueuedJobs None t n w = (Inr (), w)" for t w
    by (simp add: Resolver_CheckQueuedJobs_def)
qed (fact CheckQueuedJobs_db CheckQueuedJobs_cases)+

interpretation devices: ceiling Resolver_CheckDevices 1 q_MaxDevices
  "\<lambda>t d. count_rows (\<lambda>x. d_tenant_id x = t) (db_devices d)"
proof unfold_locales
  show "Resolver_CheckDevices None t w = (Inr (), w)" for t w
    by (simp add: Resolver_CheckDevices_def)
qed (simp_all add: CheckDevices_db CheckDevices_cases)

interpretation api_keys: ceiling Resolver_CheckAPIKeys 1 q_MaxAPIKeys
  "\<lambda>t d. count_rows (\<lambda>x. k_tenant_id x = t) (db_api_keys d)"
proof unfold_locales
  show "Resolver_CheckAPIKeys None t w = (Inr (), w)" for t w
    by (simp add: Resolver_CheckAPIKeys_def)
qed (simp_all add: CheckAPIKeys_db CheckAPIKeys_cases)

section \<open>Properties\<close>

text \<open>Overlaying a tenant's quotas replaces exactly the ceilings it sets: a zero inherits, any
  other number, -1 for unlimited included, replaces.\<close>

theorem ApplyOverride_fields:
  "ApplyOverride def q =
     \<lparr>q_MaxDevices = (if tq_MaxDevices q = 0 then q_MaxDevices def else tq_MaxDevices q),
      q_MaxQueuedJobs = (if tq_MaxQueuedJobs q = 0 then q_MaxQueuedJobs def else tq_MaxQueuedJobs q),
      q_MaxAPIKeys = (if tq_MaxAPIKeys q = 0 then q_MaxAPIKeys def else tq_MaxAPIKeys q),
      q_MaxFileSizeBytes =
        (if tq_MaxFileSizeBytes q = 0 then q_MaxFileSizeBytes def else tq_MaxFileSizeBytes q)\<rparr>"
  by (simp add: ApplyOverride_def Let_def)

text \<open>without faults, the check of queued jobs refuses with the ceiling, the count and the
  attempted number exactly when the ceiling is not negative and would be passed, and it never
  changes the database.\<close>

theorem CheckQueuedJobs_exact:
  assumes "w_faults w = []" "0 < n"
    and "tenant_limits (Some def) t (w_db w) = Some eff"
  shows "Resolver_CheckQueuedJobs (Some def) t n w =
    (let c = count_rows (counts_as_queued t) (db_jobs (w_db w)) in
     (if 0 \<le> q_MaxQueuedJobs eff \<and> q_MaxQueuedJobs eff < c + n
      then Inl (ErrExceeded KindQueuedJobs (q_MaxQueuedJobs eff) c n) else Inr (), w))"
proof -
  have "Resolver_Effective (Some def) t w = (Inr eff, w)"
    using assms(3) by (auto simp: Resolver_Effective_def Query_no_fault [OF assms(1)]
        select_row_def tenant_limits_def)
  then show ?thesis
    using assms(2) by (simp add: Resolver_CheckQueuedJobs_def Query_no_fault [OF assms(1)] Let_def)
qed

text \<open>Jobs held for customer device mode do not count: a tenant at its ceiling of one queued job
  may add another after the first is held.\<close>

theorem CheckQueuedJobs_ignores_held:
  "let def = \<lparr>q_MaxDevices = -1, q_MaxQueuedJobs = 1, q_MaxAPIKeys = -1, q_MaxFileSizeBytes = -1\<rparr>
   in fst (Resolver_CheckQueuedJobs (Some def) ''t1'' 1
        (sample_world [sample_job ''j1'' ''t1'' ''d1'' JobStatusQueued 1])) =
        Inl (ErrExceeded KindQueuedJobs 1 1 1) \<and>
      fst (Resolver_CheckQueuedJobs (Some def) ''t1'' 1
        (sample_world [sample_job ''j1'' ''t1'' ''d1'' JobStatusCDMHold 1])) = Inr ()"
  by code_simp

theorem CheckQueuedJobs_exact_witness:
  "let def = \<lparr>q_MaxDevices = -1, q_MaxQueuedJobs = 4, q_MaxAPIKeys = -1, q_MaxFileSizeBytes = -1\<rparr>
   in fst (Resolver_CheckQueuedJobs (Some def) ''t1'' 2 (sample_world sample_jobs)) =
        Inl (ErrExceeded KindQueuedJobs 4 3 2)"
proof -
  let ?def = "\<lparr>q_MaxDevices = -1, q_MaxQueuedJobs = 4, q_MaxAPIKeys = -1, q_MaxFileSizeBytes = -1\<rparr>"
  have 1: "w_faults (sample_world sample_jobs) = []" by code_simp
  have 2: "tenant_limits (Some ?def) ''t1'' (w_db (sample_world sample_jobs)) = Some ?def" by code_simp
  have 3: "count_rows (counts_as_queued ''t1'') (db_jobs (w_db (sample_world sample_jobs))) = 3"
    by code_simp
  show ?thesis using CheckQueuedJobs_exact [OF 1 _ 2, of 2] 3 by (simp add: Let_def)
qed

end
