(* ===== verification/JobsAPI.thy ===== *)
theory JobsAPI
  imports Lifecycle Http Scope Quota
begin

text \<open>
  The job endpoints of the operators' API: \<^verbatim>\<open>server/api/jobs.go\<close>.  Creating a job fans
  out to the devices of its target within the caller's scope and the tenant's quota; jobs can be
  read, listed, cancelled and retried.

  Scanning a NULL column into a Go string is an error of the database driver, so \<open>scan_job\<close>
  fails on a row whose \<^verbatim>\<open>last_error\<close> or \<^verbatim>\<open>created_by\<close> is NULL.
\<close>

section \<open>Create\<close>

record CreateRequest =
  crq_Type :: string
  crq_Target :: JobTarget
  crq_Payload :: string
  crq_RetryPolicy :: "RetryPolicy option"

record CreateResponse =
  crs_JobIDs :: "id list"
  crs_TargetDeviceCount :: int

definition new_job_row ::
  "id \<Rightarrow> id \<Rightarrow> string \<Rightarrow> string \<Rightarrow> RetryPolicy option \<Rightarrow> id \<Rightarrow> time \<Rightarrow> id \<Rightarrow> job_row" where
  "new_job_row tenantID deviceID ty payload policy userID now jobID =
     \<lparr>j_id = jobID, j_tenant_id = tenantID, j_device_id = deviceID, j_parent_job_id = None,
      j_type = ty, j_status = JobStatusQueued, j_payload = payload,
      j_retry_policy = map_option Doc policy, j_retry_count = 0,
      j_max_retries = (case policy of None \<Rightarrow> 0 | Some p \<Rightarrow> rp_MaxRetries p),
      j_last_error = None, j_created_by = Some userID, j_created_at = now,
      j_dispatched_at = None, j_acknowledged_at = None, j_started_at = None,
      j_completed_at = None\<rparr>"

fun create_jobs :: "(id \<Rightarrow> id \<Rightarrow> job_row) \<Rightarrow> id list \<Rightarrow> world \<Rightarrow> (db_error + id list) \<times> world" where
  "create_jobs row [] w = (Inr [], w)"
| "create_jobs row (deviceID # ds) w =
    (case newID ''job'' w of (jobID, w1) \<Rightarrow>
     case Exec (insert_job (row deviceID jobID)) w1 of
       (Inl e, w2) \<Rightarrow> (Inl e, w2)
     | (Inr _, w2) \<Rightarrow>
       (case create_jobs row ds w2 of
          (Inl e, w3) \<Rightarrow> (Inl e, w3)
        | (Inr ids, w3) \<Rightarrow> (Inr (jobID # ids), w3)))"

text \<open>The scope filter: an administrator and a key without a scope pass unfiltered.\<close>

definition create_scope ::
  "auth_context \<Rightarrow> id list \<Rightarrow> world \<Rightarrow> (CreateResponse response + id list) \<times> world" where
  "create_scope ctx deviceIDs w =
    (if ctx_IsAdmin ctx \<or> ctx_Scope ctx = None then (Inr deviceIDs, w)
     else case ResolveScope (ctx_TenantID ctx) (ctx_Scope ctx) w of
       (Inl _, w1) \<Rightarrow> (Inl (Error StatusInternalServerError ''failed to resolve scope''), w1)
     | (Inr allowed, w1) \<Rightarrow>
       (let ids = FilterDeviceIDs allowed deviceIDs in
        if ids = [] then
          (Inl (ErrorWithCode StatusForbidden ''scope_violation''
             ''target devices are outside this key's scope''), w1)
        else (Inr ids, w1)))"

definition create_policy :: "CreateRequest \<Rightarrow> RetryPolicy option" where
  "create_policy req = (case crq_RetryPolicy req of
     None \<Rightarrow> DefaultRetryPolicy (crq_Type req) | Some p \<Rightarrow> Some p)"

definition create_insert ::
  "bool \<Rightarrow> auth_context \<Rightarrow> CreateRequest \<Rightarrow> id list \<Rightarrow> world \<Rightarrow> CreateResponse response \<times> world" where
  "create_insert audit ctx req deviceIDs w =
    (case Now w of (now, w1) \<Rightarrow>
     case create_jobs (\<lambda>dev. new_job_row (ctx_TenantID ctx) dev (crq_Type req) (crq_Payload req)
             (create_policy req) (ctx_UserID ctx) now) deviceIDs w1 of
       (Inl _, w2) \<Rightarrow> (Error StatusInternalServerError ''failed to create job'', w2)
     | (Inr jobIDs, w2) \<Rightarrow>
       (JSON StatusCreated \<lparr>crs_JobIDs = jobIDs, crs_TargetDeviceCount = int (length deviceIDs)\<rparr>,
        if audit then LogAction (ctx_TenantID ctx) (ctx_UserID ctx) ActorTypeUser ''job.create''
          ''job'' (hd jobIDs) (Some [(''type'', crq_Type req),
            (''device_count'', decimal (int (length deviceIDs)))]) w2 else w2))"

definition JobsHandler_Create ::
  "Resolver \<Rightarrow> bool \<Rightarrow> auth_context \<Rightarrow> CreateRequest json \<Rightarrow> world
     \<Rightarrow> CreateResponse response \<times> world" where
  "JobsHandler_Create quota audit ctx body w =
    (case body of
       Malformed \<Rightarrow> (Error StatusBadRequest ''invalid request body'', w)
     | Doc req \<Rightarrow>
    (case ValidateType (crq_Type req) of
       Inl ty \<Rightarrow> (ErrorWithCode StatusBadRequest ''invalid_job_type'' (''unknown job type '' @ quote ty), w)
     | Inr _ \<Rightarrow>
    (if crq_Payload req = '''' then (Error StatusBadRequest ''payload is required'', w)
     else case JobsHandler_resolveTargets (ctx_TenantID ctx) (crq_Target req) w of
       (Inl _, w1) \<Rightarrow> (Error StatusInternalServerError ''failed to resolve targets'', w1)
     | (Inr deviceIDs, w1) \<Rightarrow>
    (if deviceIDs = [] then
       (ErrorWithCode StatusBadRequest ''no_targets''
          ''no devices matched the target specification'', w1)
     else case create_scope ctx deviceIDs w1 of
       (Inl resp, w2) \<Rightarrow> (resp, w2)
     | (Inr ids, w2) \<Rightarrow>
    (case Resolver_CheckQueuedJobs quota (ctx_TenantID ctx) (int (length ids)) w2 of
       (Inl e, w3) \<Rightarrow>
         (case HandleQuotaError e of
            Some resp \<Rightarrow> (resp, w3)
          | None \<Rightarrow> (Error StatusInternalServerError ''failed to check quota'', w3))
     | (Inr _, w3) \<Rightarrow> create_insert audit ctx req ids w3)))))"

section \<open>Get and List\<close>

definition scan_job :: "job_row \<Rightarrow> db_error + Job" where
  "scan_job r =
    (case (j_last_error r, j_created_by r) of
       (Some err, Some by) \<Rightarrow>
         Inr \<lparr>job_ID = j_id r, job_TenantID = j_tenant_id r, job_DeviceID = j_device_id r,
           job_ParentJobID = (case j_parent_job_id r of None \<Rightarrow> '''' | Some p \<Rightarrow> p),
           job_Type = j_type r, job_Status = j_status r, job_Payload = j_payload r,
           job_RetryPolicy = (case j_retry_policy r of Some (Doc p) \<Rightarrow> Some p | _ \<Rightarrow> None),
           job_RetryCount = j_retry_count r, job_MaxRetries = j_max_retries r,
           job_LastError = err, job_CreatedBy = by, job_CreatedAt = j_created_at r,
           job_DispatchedAt = j_dispatched_at r, job_AcknowledgedAt = j_acknowledged_at r,
           job_StartedAt = j_started_at r, job_CompletedAt = j_completed_at r,
           job_Result = None\<rparr>
     | _ \<Rightarrow> Inl ErrScan)"

definition tenant_job :: "id \<Rightarrow> id \<Rightarrow> job_row \<Rightarrow> bool" where
  "tenant_job jobID tenantID r \<longleftrightarrow> j_id r = jobID \<and> j_tenant_id r = tenantID"

text \<open>The check of Get, Cancel and Retry: an error while resolving the scope lets the caller
  pass.\<close>

definition scope_refuses :: "auth_context \<Rightarrow> id \<Rightarrow> world \<Rightarrow> bool \<times> world" where
  "scope_refuses ctx deviceID w =
    (if ctx_IsAdmin ctx then (False, w)
     else case ResolveScope (ctx_TenantID ctx) (ctx_Scope ctx) w of
       (Inl _, w1) \<Rightarrow> (False, w1)
     | (Inr allowed, w1) \<Rightarrow> (\<not> DeviceInScope allowed deviceID, w1))"

definition JobsHandler_Get :: "auth_context \<Rightarrow> id \<Rightarrow> world \<Rightarrow> Job response \<times> world" where
  "JobsHandler_Get ctx jobID w =
    (case Query (\<lambda>d. case select_row (tenant_job jobID (ctx_TenantID ctx)) (db_jobs d) of
             Inl e \<Rightarrow> Inl e | Inr r \<Rightarrow> scan_job r) w of
       (Inl e, w1) \<Rightarrow>
         (if e = ErrNoRows then (Error StatusNotFound ''job not found'', w1)
          else (Error StatusInternalServerError ''failed to get job'', w1))
     | (Inr j, w1) \<Rightarrow>
       (case scope_refuses ctx (job_DeviceID j) w1 of (refused, w2) \<Rightarrow>
         if refused then (Error StatusNotFound ''job not found'', w2)
         else if IsTerminalStatus (job_Status j) then
           (case Query (\<lambda>d. select_row (\<lambda>r. jr_JobID r = job_ID j) (db_job_results d)) w2 of
              (Inl _, w3) \<Rightarrow> (JSON StatusOK j, w3)
            | (Inr res, w3) \<Rightarrow> (JSON StatusOK (j\<lparr>job_Result := Some res\<rparr>), w3))
         else (JSON StatusOK j, w2)))"

record job_filter =
  jf_status :: string
  jf_type :: string
  jf_device_id :: string

definition list_matches :: "id \<Rightarrow> id set option \<Rightarrow> job_filter \<Rightarrow> job_row \<Rightarrow> bool" where
  "list_matches tenantID allowed f r \<longleftrightarrow>
     j_tenant_id r = tenantID \<and> DeviceInScope allowed (j_device_id r) \<and>
     (jf_status f = '''' \<or> j_status r = jf_status f) \<and>
     (jf_type f = '''' \<or> j_type r = jf_type f) \<and>
     (jf_device_id f = '''' \<or> j_device_id r = jf_device_id f)"

definition scan_listed :: "job_row \<Rightarrow> Job" where
  "scan_listed r =
     \<lparr>job_ID = j_id r, job_TenantID = j_tenant_id r, job_DeviceID = j_device_id r,
      job_ParentJobID = '''', job_Type = j_type r, job_Status = j_status r,
      job_Payload = j_payload r, job_RetryPolicy = None, job_RetryCount = 0, job_MaxRetries = 0,
      job_LastError = '''', job_CreatedBy = '''', job_CreatedAt = j_created_at r,
      job_DispatchedAt = None, job_AcknowledgedAt = None, job_StartedAt = None,
      job_CompletedAt = None, job_Result = None\<rparr>"

definition list_query ::
  "auth_context \<Rightarrow> id set option \<Rightarrow> job_filter \<Rightarrow> world \<Rightarrow> Job list response \<times> world" where
  "list_query ctx allowed f w =
    (case Query (\<lambda>d. Inr (take 100 (sort_key (\<lambda>r. - j_created_at r)
             (filter (list_matches (ctx_TenantID ctx) allowed f) (db_jobs d))))) w of
       (Inl _, w1) \<Rightarrow> (Error StatusInternalServerError ''failed to list jobs'', w1)
     | (Inr rs, w1) \<Rightarrow> (JSON StatusOK (map scan_listed rs), w1))"

definition JobsHandler_List ::
  "auth_context \<Rightarrow> job_filter \<Rightarrow> world \<Rightarrow> Job list response \<times> world" where
  "JobsHandler_List ctx f w =
    (if ctx_IsAdmin ctx \<or> ctx_Scope ctx = None then list_query ctx None f w
     else case ResolveScope (ctx_TenantID ctx) (ctx_Scope ctx) w of
       (Inl _, w1) \<Rightarrow> (Error StatusInternalServerError ''failed to resolve scope'', w1)
     | (Inr allowed, w1) \<Rightarrow>
       (if allowed = Some {} then (JSON StatusOK [], w1) else list_query ctx allowed f w1))"

section \<open>Cancel and Retry\<close>

definition JobsHandler_Cancel ::
  "bool \<Rightarrow> auth_context \<Rightarrow> id \<Rightarrow> world \<Rightarrow> unit response \<times> world" where
  "JobsHandler_Cancel audit ctx jobID w =
    (case Now w of (now, w0) \<Rightarrow>
     case Query (\<lambda>d. select_row (tenant_job jobID (ctx_TenantID ctx)) (db_jobs d)) w0 of
       (Inl e, w1) \<Rightarrow>
         (if e = ErrNoRows then (Error StatusNotFound ''job not found'', w1)
          else (Error StatusInternalServerError ''failed to get job'', w1))
     | (Inr job, w1) \<Rightarrow>
       (case scope_refuses ctx (j_device_id job) w1 of (refused, w2) \<Rightarrow>
         if refused then
           (ErrorWithCode StatusForbidden ''scope_violation''
              ''job target device is outside this key's scope'', w2)
         else if \<not> IsCancellable (j_status job) then
           (ErrorWithCode StatusConflict ''not_cancellable''
              (''job in state '' @ j_status job @ '' cannot be cancelled''), w2)
         else
           (case Exec (update_jobs (\<lambda>r. j_id r = jobID)
                   (\<lambda>r. r\<lparr>j_status := JobStatusCancelled, j_completed_at := Some now\<rparr>)) w2 of
              (Inl _, w3) \<Rightarrow> (Error StatusInternalServerError ''failed to cancel job'', w3)
            | (Inr _, w3) \<Rightarrow>
              (NoContent,
               if audit then LogAction (ctx_TenantID ctx) (ctx_UserID ctx) ActorTypeUser
                 ''job.cancel'' ''job'' jobID None w3 else w3))))"

definition retry_row :: "id \<Rightarrow> id \<Rightarrow> time \<Rightarrow> id \<Rightarrow> job_row \<Rightarrow> job_row" where
  "retry_row tenantID jobID now retryJobID j =
     \<lparr>j_id = retryJobID, j_tenant_id = tenantID, j_device_id = j_device_id j,
      j_parent_job_id = Some jobID, j_type = j_type j, j_status = JobStatusQueued,
      j_payload = j_payload j, j_retry_policy = j_retry_policy j,
      j_retry_count = j_retry_count j + 1, j_max_retries = j_max_retries j, j_last_error = None,
      j_created_by = j_created_by j, j_created_at = now, j_dispatched_at = None,
      j_acknowledged_at = None, j_started_at = None, j_completed_at = None\<rparr>"

definition JobsHandler_Retry ::
  "Resolver \<Rightarrow> bool \<Rightarrow> auth_context \<Rightarrow> id \<Rightarrow> world \<Rightarrow> id response \<times> world" where
  "JobsHandler_Retry quota audit ctx jobID w =
    (case Now w of (now, w0) \<Rightarrow>
     case Query (\<lambda>d. select_row (tenant_job jobID (ctx_TenantID ctx)) (db_jobs d)) w0 of
       (Inl e, w1) \<Rightarrow>
         (if e = ErrNoRows then (Error StatusNotFound ''job not found'', w1)
          else (Error StatusInternalServerError ''failed to get job'', w1))
     | (Inr j, w1) \<Rightarrow>
       (case scope_refuses ctx (j_device_id j) w1 of (refused, w2) \<Rightarrow>
         if refused then
           (ErrorWithCode StatusForbidden ''scope_violation''
              ''job target device is outside this key's scope'', w2)
         else if \<not> IsRetryable (j_status j) then
           (ErrorWithCode StatusConflict ''not_retryable''
              (''job in state '' @ j_status j @ '' cannot be retried''), w2)
         else
           (case Resolver_CheckQueuedJobs quota (ctx_TenantID ctx) 1 w2 of
              (Inl e, w3) \<Rightarrow>
                (case HandleQuotaError e of
                   Some resp \<Rightarrow> (resp, w3)
                 | None \<Rightarrow> (Error StatusInternalServerError ''failed to check quota'', w3))
            | (Inr _, w3) \<Rightarrow>
              (case newID ''job'' w3 of (retryJobID, w4) \<Rightarrow>
               case Exec (insert_job (retry_row (ctx_TenantID ctx) jobID now retryJobID j)) w4 of
                 (Inl _, w5) \<Rightarrow> (Error StatusInternalServerError ''failed to create retry job'', w5)
               | (Inr _, w5) \<Rightarrow>
                 (JSON StatusCreated retryJobID,
                  if audit then LogAction (ctx_TenantID ctx) (ctx_UserID ctx) ActorTypeUser
                    ''job.retry'' ''job'' retryJobID (Some [(''parent_job_id'', jobID)]) w5 else w5)))))"

section \<open>Creation of jobs\<close>

lemma insert_job_appends: "insert_job r d = Inr (x, d') \<Longrightarrow> d' = d\<lparr>db_jobs := db_jobs d @ [r]\<rparr>"
  by (simp add: insert_job_def)

lemma create_jobs_Inr:
  assumes "create_jobs row ds w = (Inr ids, w')"
  shows "length ids = length ds \<and> db_jobs (w_db w') = db_jobs (w_db w) @ map2 row ds ids"
  using assms
proof (induction ds arbitrary: ids w w')
  case (Cons dev ds)
  obtain i w1 where i: "newID ''job'' w = (i, w1)" by (cases "newID ''job'' w")
  have w1: "w_db w1 = w_db w" using newID_db [of "''job''" w] i by simp
  obtain x w2 where x: "Exec (insert_job (row dev i)) w1 = (x, w2)" by (rule prod.exhaust)
  obtain r w3 where r: "create_jobs row ds w2 = (r, w3)" by (rule prod.exhaust)
  from Cons.prems obtain y where y: "x = Inr y" by (cases x) (auto simp: i x)
  from Cons.prems obtain js where js: "r = Inr js" "ids = i # js" "w' = w3"
    by (cases r) (auto simp: i x y r)
  have "w_db w2 = (w_db w)\<lparr>db_jobs := db_jobs (w_db w) @ [row dev i]\<rparr>"
    using insert_job_appends [OF Exec_Inr [OF x [unfolded y]]] w1 by simp
  with Cons.IH [OF r [unfolded js(1)]] show ?case by (simp add: js)
qed simp

lemma create_jobs_faults:
  "w_faults w = [] \<Longrightarrow> w_faults (snd (create_jobs row ds w)) = []"
proof (induction ds arbitrary: w)
  case (Cons dev ds)
  then show ?case
    by (simp add: case_prod_beta Exec_faults split: sum.split)
qed simp

lemma create_scope_db: "w_db (snd (create_scope ctx ids w)) = w_db w"
proof -
  have "w_db (snd (ResolveScope (ctx_TenantID ctx) (ctx_Scope ctx) w)) = w_db w"
    using ResolveScope_db by simp
  then show ?thesis
    by (simp add: create_scope_def case_prod_beta Let_def split: sum.split)
qed

lemma create_scope_Inr:
  assumes "create_scope ctx ids w = (Inr ids', w')" "ids \<noteq> []"
  shows "ids' \<noteq> [] \<and> set ids' \<subseteq> set ids \<and> length ids' \<le> length ids \<and>
    (\<not> ctx_IsAdmin ctx \<longrightarrow> set ids' \<subseteq> {dev. DeviceInScope
       (map_option (scope_devices (ctx_TenantID ctx) (w_db w)) (ctx_Scope ctx)) dev})"
proof (cases "ctx_IsAdmin ctx \<or> ctx_Scope ctx = None")
  case True
  then show ?thesis using assms by (auto simp: create_scope_def DeviceInScope_def)
next
  case False
  then obtain sc where sc: "ctx_Scope ctx = Some sc" by auto
  obtain r w1 where r: "ResolveScope (ctx_TenantID ctx) (Some sc) w = (r, w1)" by (rule prod.exhaust)
  obtain S where S: "r = Inr S" using assms False by (cases r) (auto simp: create_scope_def sc r)
  have "S = Some (scope_devices (ctx_TenantID ctx) (w_db w) sc)"
    using ResolveScope_Inr [OF r [unfolded S]] .
  then show ?thesis
    using assms False
    by (auto simp: create_scope_def sc r S FilterDeviceIDs_def Let_def DeviceInScope_def
        split: if_splits)
qed

lemma resolveTargets_db: "w_db (snd (JobsHandler_resolveTargets t tg w)) = w_db w"
  using target_list.expand_dimensions_spec [of t "jt_DeviceIDs tg" "jt_GroupIDs tg" "jt_TagIDs tg"
      "jt_SiteIDs tg" w] by (simp add: JobsHandler_resolveTargets_def)

lemma resolveTargets_set:
  "fst (JobsHandler_resolveTargets t tg w) = Inr ids \<Longrightarrow> set ids = target_devices t (w_db w) tg"
  using target_list.expand_dimensions_spec [of t "jt_DeviceIDs tg" "jt_GroupIDs tg" "jt_TagIDs tg"
      "jt_SiteIDs tg" w] by (simp add: JobsHandler_resolveTargets_def target_devices_def)

lemma create_scope_distinct:
  "create_scope ctx ids w = (Inr ids', w') \<Longrightarrow> distinct ids \<Longrightarrow> distinct ids'"
  by (auto simp: create_scope_def FilterDeviceIDs_def Let_def
      split: if_splits prod.splits sum.splits option.splits)

text \<open>A successful creation, taken apart.\<close>

lemma Create_JSON:
  assumes "fst (JobsHandler_Create quota audit ctx (Doc req) w) = JSON st resp"
  obtains targets ids w3 jobIDs now where
    "set targets = target_devices (ctx_TenantID ctx) (w_db w) (crq_Target req)"
    "ids \<noteq> []" "set ids \<subseteq> set targets" "distinct ids"
    "\<not> ctx_IsAdmin ctx \<longrightarrow> set ids \<subseteq> {dev. DeviceInScope
       (map_option (scope_devices (ctx_TenantID ctx) (w_db w)) (ctx_Scope ctx)) dev}"
    "fst (Resolver_CheckQueuedJobs quota (ctx_TenantID ctx) (int (length ids)) w3) = Inr ()"
    "w_db w3 = w_db w" "st = StatusCreated" "crs_JobIDs resp = jobIDs" "length jobIDs = length ids"
    "crs_TargetDeviceCount resp = int (length ids)"
    "db_jobs (w_db (snd (JobsHandler_Create quota audit ctx (Doc req) w))) = db_jobs (w_db w) @
       map2 (\<lambda>dev. new_job_row (ctx_TenantID ctx) dev (crq_Type req) (crq_Payload req)
         (create_policy req) (ctx_UserID ctx) now) ids jobIDs"
proof -
  let ?t = "ctx_TenantID ctx"
  obtain r1 w1 where 1: "JobsHandler_resolveTargets ?t (crq_Target req) w = (r1, w1)"
    by (rule prod.exhaust)
  obtain targets where r1: "r1 = Inr targets" "targets \<noteq> []"
    using assms 1 by (cases r1) (auto simp: JobsHandler_Create_def split: sum.splits if_splits)
  have d1: "w_db w1 = w_db w" using resolveTargets_db [of ?t "crq_Target req" w] 1 by simp
  obtain r2 w2 where 2: "create_scope ctx targets w1 = (r2, w2)" by (rule prod.exhaust)
  have nj: "\<And>w' r. create_scope ctx targets w1 = (Inl r, w') \<Longrightarrow> r \<noteq> JSON st resp"
    by (auto simp: create_scope_def Let_def split: if_splits prod.splits sum.splits)
  obtain ids where r2: "r2 = Inr ids"
    using assms 1 r1 2 nj
    by (cases r2) (auto simp: JobsHandler_Create_def split: sum.splits if_splits)
  have d2: "w_db w2 = w_db w" using create_scope_db [of ctx targets w1] 2 d1 by simp
  obtain r3 w3 where 3: "Resolver_CheckQueuedJobs quota ?t (int (length ids)) w2 = (r3, w3)"
    by (rule prod.exhaust)
  have nq: "HandleQuotaError e \<noteq> Some (JSON st resp)" for e
    by (simp add: HandleQuotaError_def AsExceeded_def split: quota_error.split)
  obtain r3': "r3 = Inr ()"
    using assms 1 r1 2 r2 3 nq
    by (cases r3) (auto simp: JobsHandler_Create_def split: sum.splits if_splits option.splits)
  have d3: "w_db w3 = w_db w"
    using CheckQueuedJobs_db [of quota ?t "int (length ids)" w2] 3 d2 by simp
  have run: "JobsHandler_Create quota audit ctx (Doc req) w = create_insert audit ctx req ids w3"
    using assms 1 r1 2 r2 3 r3' by (auto simp: JobsHandler_Create_def split: sum.splits if_splits)
  obtain now w4 where now: "Now w3 = (now, w4)" by (cases "Now w3")
  have d4: "w_db w4 = w_db w" using Now_db [of w3] now d3 by simp
  let ?row = "\<lambda>dev. new_job_row ?t dev (crq_Type req) (crq_Payload req) (create_policy req)
    (ctx_UserID ctx) now"
  obtain r5 w5 where 5: "create_jobs ?row ids w4 = (r5, w5)" by (rule prod.exhaust)
  obtain jobIDs where r5: "r5 = Inr jobIDs"
    using assms run by (cases r5) (auto simp: create_insert_def now 5)
  have rows: "length jobIDs = length ids" "db_jobs (w_db w5) = db_jobs (w_db w) @ map2 ?row ids jobIDs"
    using create_jobs_Inr [OF 5 [unfolded r5]] d4 by simp_all
  have out: "st = StatusCreated" "crs_JobIDs resp = jobIDs" "crs_TargetDeviceCount resp = int (length ids)"
    using assms run by (auto simp: create_insert_def now 5 r5)
  have fin: "db_jobs (w_db (snd (JobsHandler_Create quota audit ctx (Doc req) w))) =
      db_jobs (w_db w) @ map2 ?row ids jobIDs"
    using same_jobs.LogAction_respects rows(2) unfolding run
    by (simp add: create_insert_def now 5 r5)
  have tset: "set targets = target_devices ?t (w_db w) (crq_Target req)"
    using resolveTargets_set [of ?t "crq_Target req" w targets] 1 r1 by simp
  have dist: "distinct ids"
    using create_scope_distinct [OF 2 [unfolded r2]] resolveTargets_distinct [of ?t "crq_Target req" w targets]
      1 r1 by simp
  have chk: "fst (Resolver_CheckQueuedJobs quota ?t (int (length ids)) w2) = Inr ()"
    by (simp add: 3 r3')
  note sc = create_scope_Inr [OF 2 [unfolded r2] r1(2), unfolded d1]
  show thesis
    by (rule that [OF tset _ _ dist _ chk d2 out(1,2) rows(1) out(3) fin]) (use sc in simp_all)
qed

lemma scope_refuses_db: "w_db (snd (scope_refuses ctx dev w)) = w_db w"
  by (simp add: scope_refuses_def case_prod_beta ResolveScope_db split: sum.split)

lemma count_rows_append:
  "count_rows P (xs @ ys) \<le> count_rows P xs + int (length ys)"
  by (simp add: count_rows_def)

section \<open>What the handlers do to the jobs\<close>

context row_preorder
begin

lemma create_jobs_related:
  "jobs_related \<rho> d (w_db w) \<Longrightarrow> jobs_related \<rho> d (w_db (snd (create_jobs row ds w)))"
proof (induction ds arbitrary: w)
  case (Cons dev ds)
  show ?case
    unfolding create_jobs.simps
    by (intro after Exec_after Cons.prems Cons.IH; (assumption | erule related_insert))
qed simp

lemma Create_related:
  "jobs_related \<rho> (w_db w) (w_db (snd (JobsHandler_Create quota audit ctx body w)))"
proof (cases body)
  case (Doc req)
  have ins: "jobs_related \<rho> (w_db w) (w_db (snd (create_insert audit ctx req ids v)))"
    if "w_db v = w_db w" for ids v
  proof -
    have v: "jobs_related \<rho> (w_db w) (w_db (snd (Now v)))" by (simp add: that related_refl)
    show ?thesis
      using create_jobs_related [OF v] LogAction_after
      by (auto simp: create_insert_def case_prod_beta split: sum.split)
  qed
  have d: "w_db (snd (JobsHandler_resolveTargets t tg v)) = w_db v"
    "w_db (snd (create_scope ctx ids v)) = w_db v"
    "w_db (snd (Resolver_CheckQueuedJobs quota t n v)) = w_db v" for t tg v ids n
    by (simp_all add: resolveTargets_db create_scope_db CheckQueuedJobs_db)
  show ?thesis
    by (simp add: JobsHandler_Create_def Doc case_prod_beta d ins related_refl
        split: sum.split option.split)
qed (simp add: JobsHandler_Create_def related_refl)

lemma Cancel_related:
  assumes dist: "distinct_jobs (w_db w)"
    and step: "\<And>r now. tenant_job jid (ctx_TenantID ctx) r \<Longrightarrow> IsCancellable (j_status r) \<Longrightarrow>
       \<rho> r (r\<lparr>j_status := JobStatusCancelled, j_completed_at := Some now\<rparr>)"
  shows "jobs_related \<rho> (w_db w) (w_db (snd (JobsHandler_Cancel audit ctx jid w)))"
proof -
  obtain now w0 where now: "Now w = (now, w0)" by (cases "Now w")
  have w0: "w_db w0 = w_db w" using Now_db [of w] now by simp
  obtain q w1 where q: "Query (\<lambda>d. select_row (tenant_job jid (ctx_TenantID ctx)) (db_jobs d)) w0 = (q, w1)"
    by (rule prod.exhaust)
  have w1: "w_db w1 = w_db w" using Query_same_db [OF q] w0 by simp
  let ?f = "\<lambda>r. r\<lparr>j_status := JobStatusCancelled, j_completed_at := Some now\<rparr>"
  show ?thesis
  proof (cases q)
    case (Inl e)
    then show ?thesis by (simp add: JobsHandler_Cancel_def now q w1 related_refl)
  next
    case (Inr job)
    note sel = selected_row [OF q [unfolded Inr], unfolded w0]
    obtain b w2 where b: "scope_refuses ctx (j_device_id job) w1 = (b, w2)" by (rule prod.exhaust)
    have w2: "w_db w2 = w_db w" using scope_refuses_db [of ctx "j_device_id job" w1] b w1 by simp
    have upd: "jobs_related \<rho> (w_db w) (w_db (snd (Exec (update_jobs (\<lambda>r. j_id r = jid) ?f) w2)))"
      if "IsCancellable (j_status job)"
      using sel(2,3) step that w2
      by (intro update_selected_related [OF dist]) (auto simp: tenant_job_def)
    show ?thesis
      using upd LogAction_after w2 related_refl
      by (simp add: JobsHandler_Cancel_def now q Inr b case_prod_beta split: sum.split)
  qed
qed

lemma Retry_related:
  "jobs_related \<rho> (w_db w) (w_db (snd (JobsHandler_Retry quota audit ctx jid w)))"
proof -
  obtain now w0 where now: "Now w = (now, w0)" by (cases "Now w")
  have w0: "w_db w0 = w_db w" using Now_db [of w] now by simp
  obtain q w1 where q: "Query (\<lambda>d. select_row (tenant_job jid (ctx_TenantID ctx)) (db_jobs d)) w0 = (q, w1)"
    by (rule prod.exhaust)
  have w1: "w_db w1 = w_db w" using Query_same_db [OF q] w0 by simp
  show ?thesis
  proof (cases q)
    case (Inl e)
    then show ?thesis by (simp add: JobsHandler_Retry_def now q w1 related_refl)
  next
    case (Inr job)
    obtain b w2 where b: "scope_refuses ctx (j_device_id job) w1 = (b, w2)" by (rule prod.exhaust)
    have w2: "w_db w2 = w_db w" using scope_refuses_db [of ctx "j_device_id job" w1] b w1 by simp
    obtain c w3 where c: "Resolver_CheckQueuedJobs quota (ctx_TenantID ctx) 1 w2 = (c, w3)"
      by (rule prod.exhaust)
    have w3: "w_db w3 = w_db w"
      using CheckQueuedJobs_db [of quota "ctx_TenantID ctx" 1 w2] c w2 by simp
    obtain i w4 where i: "newID ''job'' w3 = (i, w4)" by (cases "newID ''job'' w3")
    have w4: "jobs_related \<rho> (w_db w) (w_db w4)"
      using newID_db [of "''job''" w3] i w3 by (simp add: related_refl)
    have ins: "jobs_related \<rho> (w_db w) (w_db (snd (Exec (insert_job r) w4)))" for r
      by (rule Exec_after [OF w4]) (erule related_insert)
    show ?thesis
      using ins LogAction_after w2 w3 related_refl
      by (simp add: JobsHandler_Retry_def now q Inr b c i case_prod_beta split: sum.split option.split)
  qed
qed

end

lemma cancellable_step: "IsCancellable s \<longleftrightarrow> ValidateTransition s JobStatusCancelled = Inr ()"
  by (auto simp: IsCancellable_def CancellableStatuses_def ValidateTransition_ok_iff
      map_of_validTransitions split: if_splits)

section \<open>Properties\<close>




text \<open>a request that is refused as invalid, as outside the scope or as over the quota leaves the
  database untouched: no part of a batch is created.\<close>

theorem create_refused_unchanged:
  assumes "status_of (fst (JobsHandler_Create quota audit ctx body w)) \<in>
             {StatusBadRequest, StatusForbidden, StatusConflict}"
  shows "w_db (snd (JobsHandler_Create quota audit ctx body w)) = w_db w"
proof (cases body)
  case (Doc req)
  have no: "status_of (fst (create_insert audit ctx req ids v)) \<notin>
      {StatusBadRequest, StatusForbidden, StatusConflict}" for ids v
    by (simp add: create_insert_def case_prod_beta split: sum.split)
  have d: "w_db (snd (JobsHandler_resolveTargets t tg v)) = w_db v"
    "w_db (snd (create_scope ctx ids v)) = w_db v"
    "w_db (snd (Resolver_CheckQueuedJobs quota t n v)) = w_db v" for t tg v ids n
    by (simp_all add: resolveTargets_db create_scope_db CheckQueuedJobs_db)
  show ?thesis
    using assms no
    by (auto simp: JobsHandler_Create_def Doc case_prod_beta d
        split: sum.splits option.splits if_splits)
qed (simp add: JobsHandler_Create_def)

text \<open>a cancelled job belonged to the caller's tenant, was in a state from which the table allows
  cancellation, and, when no statement failed and the caller is no administrator, was on a device
  within the caller's scope.\<close>

theorem cancel_accepted:
  assumes "fst (JobsHandler_Cancel audit ctx jid w) = NoContent"
  shows "\<exists>job \<in> set (db_jobs (w_db w)). tenant_job jid (ctx_TenantID ctx) job \<and>
     ValidateTransition (j_status job) JobStatusCancelled = Inr () \<and>
     (w_faults w = [] \<and> \<not> ctx_IsAdmin ctx \<longrightarrow> DeviceInScope
        (map_option (scope_devices (ctx_TenantID ctx) (w_db w)) (ctx_Scope ctx)) (j_device_id job))"
proof -
  define now where "now = w_clock w (w_ticks w)"
  define w0 where "w0 = w\<lparr>w_ticks := Suc (w_ticks w)\<rparr>"
  have n: "Now w = (now, w0)" and w0: "w_db w0 = w_db w" "w_faults w0 = w_faults w"
    by (simp_all add: Now_def w0_def now_def)
  obtain q w1 where q: "Query (\<lambda>d. select_row (tenant_job jid (ctx_TenantID ctx)) (db_jobs d)) w0 = (q, w1)"
    by (rule prod.exhaust)
  obtain job where job: "q = Inr job"
    using assms by (cases q) (auto simp: JobsHandler_Cancel_def n q split: if_splits)
  note sel = selected_row [OF q [unfolded job], unfolded w0(1)]
  obtain b w2 where b: "scope_refuses ctx (j_device_id job) w1 = (b, w2)" by (rule prod.exhaust)
  have nb: "\<not> b" and can: "IsCancellable (j_status job)"
    using assms by (auto simp: JobsHandler_Cancel_def n q job b split: if_splits)
  have "DeviceInScope (map_option (scope_devices (ctx_TenantID ctx) (w_db w)) (ctx_Scope ctx))
      (j_device_id job)" if f: "w_faults w = []" and a: "\<not> ctx_IsAdmin ctx"
  proof (cases "ctx_Scope ctx")
    case None
    then show ?thesis by (simp add: DeviceInScope_def)
  next
    case (Some sc)
    have w1: "w1 = w0"
      using Query_no_fault [of w0 "\<lambda>d. select_row (tenant_job jid (ctx_TenantID ctx)) (db_jobs d)"]
        q f w0(2) by simp
    have "fst (ResolveScope (ctx_TenantID ctx) (Some sc) w0) =
        Inr (Some (scope_devices (ctx_TenantID ctx) (w_db w) sc))"
      using ResolveScope_ok [of w0] f w0 by simp
    then show ?thesis
      using b nb a by (auto simp: scope_refuses_def Some w1 case_prod_beta split: sum.splits)
  qed
  then show ?thesis using sel can by (intro bexI [OF _ sel(2)]) (simp add: cancellable_step)
qed

text \<open>a retried job belonged to the tenant and had failed or timed out; its successor is queued on
  the same device and refers back to it.  The count of a manual retry may pass the job's limit.\<close>

theorem retry_accepted:
  assumes "fst (JobsHandler_Retry quota audit ctx jid w) = JSON st i"
  shows "\<exists>job \<in> set (db_jobs (w_db w)). tenant_job jid (ctx_TenantID ctx) job \<and>
     j_status job \<in> {JobStatusFailed, JobStatusTimedOut} \<and>
     db_jobs (w_db (snd (JobsHandler_Retry quota audit ctx jid w))) =
       db_jobs (w_db w) @ [retry_row (ctx_TenantID ctx) jid (w_clock w (w_ticks w)) i job]"
proof -
  define w0 where "w0 = w\<lparr>w_ticks := Suc (w_ticks w)\<rparr>"
  have n: "Now w = (w_clock w (w_ticks w), w0)" and w0: "w_db w0 = w_db w"
    by (simp_all add: Now_def w0_def)
  obtain q w1 where q: "Query (\<lambda>d. select_row (tenant_job jid (ctx_TenantID ctx)) (db_jobs d)) w0 = (q, w1)"
    by (rule prod.exhaust)
  obtain job where job: "q = Inr job"
    using assms by (cases q) (auto simp: JobsHandler_Retry_def n q split: if_splits)
  note sel = selected_row [OF q [unfolded job], unfolded w0(1)]
  obtain b w2 where b: "scope_refuses ctx (j_device_id job) w1 = (b, w2)" by (rule prod.exhaust)
  have w2: "w_db w2 = w_db w" using scope_refuses_db [of ctx "j_device_id job" w1] b sel(1) by simp
  have nb: "\<not> b" and rt: "IsRetryable (j_status job)"
    using assms by (auto simp: JobsHandler_Retry_def n q job b split: if_splits)
  obtain c w3 where c: "Resolver_CheckQueuedJobs quota (ctx_TenantID ctx) 1 w2 = (c, w3)"
    by (rule prod.exhaust)
  have nq: "HandleQuotaError e \<noteq> Some (JSON st i)" for e
    by (simp add: HandleQuotaError_def AsExceeded_def split: quota_error.split)
  obtain u where c': "c = Inr u"
    using assms nq nb rt by (cases c) (auto simp: JobsHandler_Retry_def n q job b c split: option.splits)
  have w3: "w_db w3 = w_db w"
    using CheckQueuedJobs_db [of quota "ctx_TenantID ctx" 1 w2] c w2 by simp
  obtain k w4 where k: "newID ''job'' w3 = (k, w4)" by (cases "newID ''job'' w3")
  have w4: "w_db w4 = w_db w" using newID_db [of "''job''" w3] k w3 by simp
  let ?r = "retry_row (ctx_TenantID ctx) jid (w_clock w (w_ticks w)) k job"
  obtain x w5 where x: "Exec (insert_job ?r) w4 = (x, w5)" by (rule prod.exhaust)
  note run = JobsHandler_Retry_def n q job b c c' k x nb rt
  obtain y where y: "x = Inr y" using assms nb rt by (cases x) (auto simp: run)
  have i: "i = k" using assms by (simp add: run y)
  have "db_jobs (w_db w5) = db_jobs (w_db w) @ [?r]"
    using insert_job_appends [OF Exec_Inr [OF x [unfolded y]]] w4 by simp
  then have "db_jobs (w_db (snd (JobsHandler_Retry quota audit ctx jid w))) = db_jobs (w_db w) @ [?r]"
    using same_jobs.LogAction_respects by (simp add: run y)
  then show ?thesis
    using sel(3) rt by (intro bexI [OF _ sel(2)]) (auto simp: i IsRetryable_def)
qed

definition sample_ctx :: "bool \<Rightarrow> APIScope option \<Rightarrow> auth_context" where
  "sample_ctx admin sc = \<lparr>ctx_TenantID = ''t1'', ctx_UserID = ''u1'', ctx_RoleID = '''',
     ctx_Permissions = [], ctx_Scope = sc, ctx_IsAdmin = admin\<rparr>"

definition sample_scope :: "id list \<Rightarrow> id list \<Rightarrow> APIScope" where
  "sample_scope devs gs = \<lparr>sc_GroupIDs = gs, sc_TagIDs = [], sc_SiteIDs = [], sc_DeviceIDs = devs\<rparr>"

definition sample_create :: "id list \<Rightarrow> CreateRequest" where
  "sample_create devs = \<lparr>crq_Type = JobTypeExec, crq_Target = \<lparr>jt_DeviceIDs = devs, jt_GroupIDs = [],
     jt_TagIDs = [], jt_SiteIDs = []\<rparr>, crq_Payload = ''{}'', crq_RetryPolicy = None\<rparr>"

text \<open>the scope check of Cancel fails open: when the query that resolves the scope fails, a key
  whose scope does not reach device \<open>d1\<close> cancels a job of it; without the failure the same
  request is refused.\<close>

theorem cancel_scope_fails_open:
  "let ctx = sample_ctx False (Some (sample_scope [''d2''] [''g9'']));
       w = sample_world sample_jobs
   in fst (JobsHandler_Cancel True ctx ''j1'' (w\<lparr>w_faults := [Succeeds, Fails]\<rparr>)) = NoContent \<and>
      status_of (fst (JobsHandler_Cancel True ctx ''j1'' w)) = StatusForbidden"
  by code_simp

text \<open>a job whose last error is not set cannot be read: the handler answers with an internal
  error, whatever the schedule.  Every job is created with that column unset, so a job that was
  created and not yet reported is listed but cannot be fetched.\<close>

theorem get_without_error_fails:
  assumes "distinct_jobs (w_db w)" "r \<in> set (db_jobs (w_db w))"
    and "tenant_job jid (ctx_TenantID ctx) r" "j_last_error r = None"
  shows "fst (JobsHandler_Get ctx jid w) = Error StatusInternalServerError ''failed to get job''"
proof -
  let ?f = "\<lambda>d. case select_row (tenant_job jid (ctx_TenantID ctx)) (db_jobs d) of
      Inl e \<Rightarrow> Inl e | Inr r \<Rightarrow> scan_job r"
  have "find_row (tenant_job jid (ctx_TenantID ctx)) (db_jobs (w_db w)) = Some r"
    by (rule find_row_key [where k = j_id])
      (use assms in \<open>simp_all add: distinct_jobs_def tenant_job_def\<close>)
  then have "select_row (tenant_job jid (ctx_TenantID ctx)) (db_jobs (w_db w)) = Inr r"
    by (simp add: select_row_def)
  then have f: "?f (w_db w) = Inl ErrScan" using assms(4) by (simp add: scan_job_def)
  obtain oc w1 where oc: "next_outcome w = (oc, w1)" by (cases "next_outcome w")
  have "\<exists>e. e \<noteq> ErrNoRows \<and> fst (Query ?f w) = Inl e"
    using f next_outcome_dbD [OF oc] by (cases oc) (simp_all add: Query_def Exec_def oc)
  then show ?thesis
    by (auto simp: JobsHandler_Get_def case_prod_beta)
qed

text \<open>A target may name a device of another tenant: the job is created under the caller's tenant
  for a device the caller's tenant does not own.\<close>

theorem create_foreign_device:
  "let w' = snd (JobsHandler_Create None True (sample_ctx True None) (Doc (sample_create [''e1'']))
              (sample_world [])) in
   map (\<lambda>r. (j_tenant_id r, j_device_id r)) (db_jobs (w_db w')) = [(''t1'', ''e1'')] \<and>
   \<not> device_of_tenant (w_db w') ''t1'' ''e1'' \<and> device_of_tenant (w_db w') ''t2'' ''e1''"
  by code_simp

section \<open>Witnesses\<close>

definition sample_created :: CreateResponse where
  "sample_created = \<lparr>crs_JobIDs = [''job_0001020304050607'', ''job_08090a0b0c0d0e0f''],
     crs_TargetDeviceCount = 2\<rparr>"

lemma sample_create_reply:
  "fst (JobsHandler_Create (Some \<lparr>q_MaxDevices = -1, q_MaxQueuedJobs = 6, q_MaxAPIKeys = -1,
       q_MaxFileSizeBytes = -1\<rparr>) True (sample_ctx False (Some (sample_scope [''d1'', ''d2''] [])))
     (Doc (sample_create [''d1'', ''d2''])) (sample_world sample_jobs)) = JSON StatusCreated sample_created"
  by code_simp




theorem create_refused_unchanged_witness:
  "w_db (snd (JobsHandler_Create None True (sample_ctx False (Some (sample_scope [''d2''] [])))
     (Doc (sample_create [''d1''])) (sample_world sample_jobs))) = w_db (sample_world sample_jobs)"
proof (rule create_refused_unchanged)
  show "status_of (fst (JobsHandler_Create None True (sample_ctx False (Some (sample_scope [''d2''] [])))
     (Doc (sample_create [''d1''])) (sample_world sample_jobs))) \<in>
     {StatusBadRequest, StatusForbidden, StatusConflict}" by code_simp
qed

theorem cancel_accepted_witness:
  "\<exists>job \<in> set (db_jobs (w_db (sample_world sample_jobs))). tenant_job ''j4'' ''t1'' job \<and>
     ValidateTransition (j_status job) JobStatusCancelled = Inr ()"
proof -
  have "fst (JobsHandler_Cancel True (sample_ctx True None) ''j4'' (sample_world sample_jobs)) =
      NoContent" by code_simp
  from cancel_accepted [OF this] show ?thesis by (auto simp: sample_ctx_def)
qed

theorem retry_accepted_witness:
  "\<exists>job \<in> set (db_jobs (w_db (sample_world [sample_job ''j1'' ''t1'' ''d1'' JobStatusFailed 1]))).
     tenant_job ''j1'' ''t1'' job"
proof -
  have "fst (JobsHandler_Retry None True (sample_ctx True None) ''j1''
      (sample_world [sample_job ''j1'' ''t1'' ''d1'' JobStatusFailed 1])) =
      JSON StatusCreated ''job_0001020304050607''" by code_simp
  from retry_accepted [OF this] show ?thesis by (auto simp: sample_ctx_def)
qed

theorem get_without_error_fails_witness:
  "fst (JobsHandler_Get (sample_ctx True None) ''j1'' (sample_world sample_jobs)) =
     Error StatusInternalServerError ''failed to get job''"
proof (rule get_without_error_fails)
  show "distinct_jobs (w_db (sample_world sample_jobs))" by code_simp
  show "sample_jobs ! 0 \<in> set (db_jobs (w_db (sample_world sample_jobs)))" by code_simp
  show "tenant_job ''j1'' (ctx_TenantID (sample_ctx True None)) (sample_jobs ! 0)" by code_simp
  show "j_last_error (sample_jobs ! 0) = None" by code_simp
qed

end
