(* ===== verification/ScheduledJobs.thy ===== *)
theory ScheduledJobs
  imports Lifecycle Http Scope
begin

text \<open>
  Scheduled jobs: the queries of \<^verbatim>\<open>server/store/scheduled_jobs.go\<close> and the
  operators' endpoints of \<^verbatim>\<open>server/api/scheduled_jobs.go\<close>.

  The parser of cron expressions is a third-party package.  It is the parameter
  \<open>cron\<close>: a rejected expression is \<open>Inl\<close> of the message, an accepted one is
  \<open>Inr\<close> of its function \<^verbatim>\<open>Next\<close>.  \<^verbatim>\<open>ORDER BY name\<close> compares
  bytes, as in the C collation.
\<close>

type_synonym cron_parser = "string \<Rightarrow> string + (time \<Rightarrow> time)"

section \<open>Store\<close>

definition scan_scheduled :: "scheduled_job_row \<Rightarrow> ScheduledJob" where
  "scan_scheduled r =
     \<lparr>sj_ID = s_id r, sj_TenantID = s_tenant_id r, sj_Name = s_name r, sj_JobType = s_job_type r,
      sj_Payload = s_payload r, sj_Target = decode (s_target r), sj_CronExpr = s_cron_expr r,
      sj_RetryPolicy = (case s_retry_policy r of Some (Doc p) \<Rightarrow> Some p | _ \<Rightarrow> None),
      sj_Enabled = s_enabled r, sj_LastRunAt = s_last_run_at r, sj_NextRunAt = s_next_run_at r\<rparr>"

text \<open>A nil target is stored as the document \<^verbatim>\<open>null\<close>, which reads back as an empty
  target.\<close>

definition scheduled_row :: "ScheduledJob \<Rightarrow> scheduled_job_row" where
  "scheduled_row sj =
     \<lparr>s_id = sj_ID sj, s_tenant_id = sj_TenantID sj, s_name = sj_Name sj,
      s_job_type = sj_JobType sj, s_payload = sj_Payload sj,
      s_target = Doc (case sj_Target sj of Some t \<Rightarrow> t
        | None \<Rightarrow> \<lparr>jt_DeviceIDs = [], jt_GroupIDs = [], jt_TagIDs = [], jt_SiteIDs = []\<rparr>),
      s_cron_expr = sj_CronExpr sj, s_retry_policy = map_option Doc (sj_RetryPolicy sj),
      s_enabled = sj_Enabled sj, s_last_run_at = None, s_next_run_at = sj_NextRunAt sj\<rparr>"

definition CreateScheduledJob :: "ScheduledJob \<Rightarrow> world \<Rightarrow> (db_error + unit) \<times> world" where
  "CreateScheduledJob sj = Exec (insert_scheduled (scheduled_row sj))"

definition tenant_scheduled :: "id \<Rightarrow> id \<Rightarrow> scheduled_job_row \<Rightarrow> bool" where
  "tenant_scheduled tenantID i r \<longleftrightarrow> s_id r = i \<and> s_tenant_id r = tenantID"

text \<open>No row is the result \<^verbatim>\<open>nil, nil\<close>.\<close>

definition GetScheduledJob ::
  "id \<Rightarrow> id \<Rightarrow> world \<Rightarrow> (db_error + ScheduledJob option) \<times> world" where
  "GetScheduledJob tenantID i w =
    (case Query (\<lambda>d. select_row (tenant_scheduled tenantID i) (db_scheduled_jobs d)) w of
       (Inl e, w1) \<Rightarrow> (if e = ErrNoRows then Inr None else Inl e, w1)
     | (Inr r, w1) \<Rightarrow> (Inr (Some (scan_scheduled r)), w1))"

definition ListScheduledJobs :: "id \<Rightarrow> world \<Rightarrow> (db_error + ScheduledJob list) \<times> world" where
  "ListScheduledJobs tenantID = Query (\<lambda>d. Inr (map scan_scheduled
     (sort_key s_name (filter (\<lambda>r. s_tenant_id r = tenantID) (db_scheduled_jobs d)))))"

text \<open>The map of column updates, one constructor per column the handler writes.  The columns are
  distinct, so the order in which the map is iterated does not matter.\<close>

datatype scheduled_update =
    Set_name string
  | Set_job_type string
  | Set_payload string
  | Set_target JobTarget
  | Set_cron_expr string
  | Set_next_run_at time
  | Set_retry_policy RetryPolicy

fun set_scheduled :: "scheduled_update \<Rightarrow> scheduled_job_row \<Rightarrow> scheduled_job_row" where
  "set_scheduled (Set_name x) r = r\<lparr>s_name := x\<rparr>"
| "set_scheduled (Set_job_type x) r = r\<lparr>s_job_type := x\<rparr>"
| "set_scheduled (Set_payload x) r = r\<lparr>s_payload := x\<rparr>"
| "set_scheduled (Set_target x) r = r\<lparr>s_target := Doc x\<rparr>"
| "set_scheduled (Set_cron_expr x) r = r\<lparr>s_cron_expr := x\<rparr>"
| "set_scheduled (Set_next_run_at x) r = r\<lparr>s_next_run_at := Some x\<rparr>"
| "set_scheduled (Set_retry_policy x) r = r\<lparr>s_retry_policy := Some (Doc x)\<rparr>"

definition UpdateScheduledJob ::
  "id \<Rightarrow> id \<Rightarrow> scheduled_update list \<Rightarrow> world \<Rightarrow> (db_error + unit) \<times> world" where
  "UpdateScheduledJob tenantID i updates w =
    (if updates = [] then (Inr (), w)
     else ExecRow (update_scheduled (tenant_scheduled tenantID i) (fold set_scheduled updates)) w)"

definition DeleteScheduledJob :: "id \<Rightarrow> id \<Rightarrow> world \<Rightarrow> (db_error + unit) \<times> world" where
  "DeleteScheduledJob tenantID i = ExecRow (delete_scheduled (tenant_scheduled tenantID i))"

definition SetScheduledJobEnabled ::
  "id \<Rightarrow> id \<Rightarrow> bool \<Rightarrow> world \<Rightarrow> (db_error + unit) \<times> world" where
  "SetScheduledJobEnabled tenantID i enabled =
     ExecRow (update_scheduled (tenant_scheduled tenantID i) (\<lambda>r. r\<lparr>s_enabled := enabled\<rparr>))"

definition due_at :: "time \<Rightarrow> scheduled_job_row \<Rightarrow> bool" where
  "due_at now r \<longleftrightarrow> s_enabled r \<and> (case s_next_run_at r of None \<Rightarrow> False | Some t \<Rightarrow> t \<le> now)"

definition ListDueScheduledJobs :: "time \<Rightarrow> world \<Rightarrow> (db_error + ScheduledJob list) \<times> world" where
  "ListDueScheduledJobs now = Query (\<lambda>d. Inr (map scan_scheduled
     (sort_key (\<lambda>r. the (s_next_run_at r)) (filter (due_at now) (db_scheduled_jobs d)))))"

definition MarkScheduledJobRun ::
  "id \<Rightarrow> time \<Rightarrow> time \<Rightarrow> world \<Rightarrow> (db_error + unit) \<times> world" where
  "MarkScheduledJobRun i lastRun nextRun w =
    (case Exec (update_scheduled (\<lambda>r. s_id r = i)
        (\<lambda>r. r\<lparr>s_last_run_at := Some lastRun, s_next_run_at := Some nextRun\<rparr>)) w of
       (Inl e, w1) \<Rightarrow> (Inl e, w1)
     | (Inr _, w1) \<Rightarrow> (Inr (), w1))"

section \<open>Endpoints\<close>

record createScheduledJobRequest =
  csj_Name :: string
  csj_JobType :: string
  csj_Payload :: string
  csj_Target :: JobTarget
  csj_CronExpr :: string
  csj_RetryPolicy :: "RetryPolicy option"
  csj_Enabled :: "bool option"

definition ScheduledJobsHandler_Create ::
  "cron_parser \<Rightarrow> bool \<Rightarrow> auth_context \<Rightarrow> createScheduledJobRequest json \<Rightarrow> world
     \<Rightarrow> ScheduledJob response \<times> world" where
  "ScheduledJobsHandler_Create cron audit ctx body w =
    (case body of
       Malformed \<Rightarrow> (Error StatusBadRequest ''invalid request body'', w)
     | Doc req \<Rightarrow>
    (if csj_Name req = '''' then (Error StatusBadRequest ''name is required'', w)
     else case ValidateType (csj_JobType req) of
       Inl ty \<Rightarrow> (ErrorWithCode StatusBadRequest ''invalid_job_type'' (''unknown job type '' @ quote ty), w)
     | Inr _ \<Rightarrow>
    (if csj_Payload req = '''' then (Error StatusBadRequest ''payload is required'', w)
     else if \<not> ctx_IsAdmin ctx \<and> ctx_Scope ctx \<noteq> None
            \<and> \<not> TargetOverlapsScope (ctx_Scope ctx) (Some (csj_Target req)) then
       (ErrorWithCode StatusForbidden ''scope_violation''
          ''scheduled job target is outside this key's scope'', w)
     else case cron (csj_CronExpr req) of
       Inl msg \<Rightarrow> (ErrorWithCode StatusBadRequest ''invalid_cron'' (''invalid cron expression: '' @ msg), w)
     | Inr nxt \<Rightarrow>
    (case Now w of (now, w1) \<Rightarrow>
     case newID ''sjb'' w1 of (i, w2) \<Rightarrow>
     let sj = \<lparr>sj_ID = i, sj_TenantID = ctx_TenantID ctx, sj_Name = csj_Name req,
           sj_JobType = csj_JobType req, sj_Payload = csj_Payload req,
           sj_Target = Some (csj_Target req), sj_CronExpr = csj_CronExpr req,
           sj_RetryPolicy = csj_RetryPolicy req,
           sj_Enabled = (case csj_Enabled req of None \<Rightarrow> True | Some b \<Rightarrow> b),
           sj_LastRunAt = None, sj_NextRunAt = Some (nxt now)\<rparr> in
     case CreateScheduledJob sj w2 of
       (Inl _, w3) \<Rightarrow> (Error StatusInternalServerError ''failed to create scheduled job'', w3)
     | (Inr _, w3) \<Rightarrow>
       (JSON StatusCreated sj,
        if audit then LogAction (ctx_TenantID ctx) (ctx_UserID ctx) ActorTypeUser
          ''scheduled_job.create'' ''scheduled_job'' i None w3 else w3)))))"

definition ScheduledJobsHandler_List ::
  "auth_context \<Rightarrow> world \<Rightarrow> ScheduledJob list response \<times> world" where
  "ScheduledJobsHandler_List ctx w =
    (case ListScheduledJobs (ctx_TenantID ctx) w of
       (Inl _, w1) \<Rightarrow> (Error StatusInternalServerError ''failed to list scheduled jobs'', w1)
     | (Inr sjs, w1) \<Rightarrow> (JSON StatusOK sjs, w1))"

definition ScheduledJobsHandler_Get ::
  "auth_context \<Rightarrow> id \<Rightarrow> world \<Rightarrow> ScheduledJob response \<times> world" where
  "ScheduledJobsHandler_Get ctx i w =
    (case GetScheduledJob (ctx_TenantID ctx) i w of
       (Inl _, w1) \<Rightarrow> (Error StatusInternalServerError ''failed to get scheduled job'', w1)
     | (Inr None, w1) \<Rightarrow> (Error StatusNotFound ''scheduled job not found'', w1)
     | (Inr (Some sj), w1) \<Rightarrow> (JSON StatusOK sj, w1))"

record updateScheduledJobRequest =
  usj_Name :: "string option"
  usj_JobType :: "string option"
  usj_Payload :: "string option"
  usj_Target :: "JobTarget option"
  usj_CronExpr :: "string option"
  usj_RetryPolicy :: "RetryPolicy option"

text \<open>The updates of a request, or the refusal of its job type or cron expression.  The clock is
  read only for a new cron expression.\<close>

definition column_updates ::
  "cron_parser \<Rightarrow> updateScheduledJobRequest \<Rightarrow> world
     \<Rightarrow> (ScheduledJob option response + scheduled_update list) \<times> world" where
  "column_updates cron req w =
    (let u1 = opt_update Set_name (usj_Name req) @ opt_update Set_job_type (usj_JobType req)
           @ opt_update Set_payload (usj_Payload req) @ opt_update Set_target (usj_Target req);
         u2 = opt_update Set_retry_policy (usj_RetryPolicy req) in
     case usj_CronExpr req of
       None \<Rightarrow> (Inr (u1 @ u2), w)
     | Some expr \<Rightarrow>
       (case cron expr of
          Inl msg \<Rightarrow>
            (Inl (ErrorWithCode StatusBadRequest ''invalid_cron'' (''invalid cron expression: '' @ msg)), w)
        | Inr nxt \<Rightarrow>
          (case Now w of (now, w1) \<Rightarrow>
             (Inr (u1 @ [Set_cron_expr expr, Set_next_run_at (nxt now)] @ u2), w1))))"

definition scheduled_updates ::
  "cron_parser \<Rightarrow> updateScheduledJobRequest \<Rightarrow> world
     \<Rightarrow> (ScheduledJob option response + scheduled_update list) \<times> world" where
  "scheduled_updates cron req w =
    (case map_option ValidateType (usj_JobType req) of
       Some (Inl ty) \<Rightarrow>
         (Inl (ErrorWithCode StatusBadRequest ''invalid_job_type'' (''unknown job type '' @ quote ty)), w)
     | _ \<Rightarrow> column_updates cron req w)"

text \<open>The reply is the row read again; an error or a row that is gone gives \<^verbatim>\<open>null\<close>.\<close>

definition ScheduledJobsHandler_Update ::
  "cron_parser \<Rightarrow> bool \<Rightarrow> auth_context \<Rightarrow> id \<Rightarrow> updateScheduledJobRequest json \<Rightarrow> world
     \<Rightarrow> ScheduledJob option response \<times> world" where
  "ScheduledJobsHandler_Update cron audit ctx i body w =
    (case body of
       Malformed \<Rightarrow> (Error StatusBadRequest ''invalid request body'', w)
     | Doc req \<Rightarrow>
    (case scheduled_updates cron req w of
       (Inl resp, w1) \<Rightarrow> (resp, w1)
     | (Inr updates, w1) \<Rightarrow>
    (if updates = [] then (Error StatusBadRequest ''no fields to update'', w1)
     else case UpdateScheduledJob (ctx_TenantID ctx) i updates w1 of
       (Inl e, w2) \<Rightarrow>
         (if e = ErrNoRows then Error StatusNotFound ''scheduled job not found''
          else Error StatusInternalServerError ''failed to update scheduled job'', w2)
     | (Inr _, w2) \<Rightarrow>
       (let w3 = (if audit then LogAction (ctx_TenantID ctx) (ctx_UserID ctx) ActorTypeUser
              ''scheduled_job.update'' ''scheduled_job'' i None w2 else w2) in
        case GetScheduledJob (ctx_TenantID ctx) i w3 of
          (Inl _, w4) \<Rightarrow> (JSON StatusOK None, w4)
        | (Inr sj, w4) \<Rightarrow> (JSON StatusOK sj, w4)))))"

definition ScheduledJobsHandler_Delete :: "bool \<Rightarrow> auth_context \<Rightarrow> id \<Rightarrow> world \<Rightarrow> unit response \<times> world"
where
  "ScheduledJobsHandler_Delete audit ctx i =
     row_action audit ctx ''scheduled job not found'' ''failed to delete scheduled job''
       ''scheduled_job.delete'' ''scheduled_job'' i (DeleteScheduledJob (ctx_TenantID ctx) i)"

definition ScheduledJobsHandler_Enable :: "bool \<Rightarrow> auth_context \<Rightarrow> id \<Rightarrow> world \<Rightarrow> unit response \<times> world"
where
  "ScheduledJobsHandler_Enable audit ctx i =
     row_action audit ctx ''scheduled job not found'' ''failed to enable scheduled job''
       ''scheduled_job.enable'' ''scheduled_job'' i (SetScheduledJobEnabled (ctx_TenantID ctx) i True)"

definition ScheduledJobsHandler_Disable :: "bool \<Rightarrow> auth_context \<Rightarrow> id \<Rightarrow> world \<Rightarrow> unit response \<times> world"
where
  "ScheduledJobsHandler_Disable audit ctx i =
     row_action audit ctx ''scheduled job not found'' ''failed to disable scheduled job''
       ''scheduled_job.disable'' ''scheduled_job'' i (SetScheduledJobEnabled (ctx_TenantID ctx) i False)"

end
