(* ===== verification/AlertRules.thy ===== *)
theory AlertRules
  imports Lifecycle Http
begin

text \<open>
  Alert rules: \<^verbatim>\<open>server/store/alert_rules.go\<close>, the endpoints of
  \<^verbatim>\<open>server/api/alert_rules.go\<close>, and the fan-out of a fired alert to its channels,
  \<^verbatim>\<open>server/notify/notify.go\<close>.

  The condition of a rule is stored as the caller sent it; a document that does not decode as an
  \<open>AlertCondition\<close> is \<open>Malformed\<close> here and found out only by the scheduler.
\<close>

section \<open>Store\<close>

definition scan_alert_rule :: "alert_rule_row \<Rightarrow> AlertRule" where
  "scan_alert_rule r =
     \<lparr>rule_ID = ar_id r, rule_TenantID = ar_tenant_id r, rule_Name = ar_name r,
      rule_Condition = ar_condition r, rule_Channels = decode (ar_channels r),
      rule_Enabled = ar_enabled r\<rparr>"

definition alert_rule_to_row :: "AlertRule \<Rightarrow> alert_rule_row" where
  "alert_rule_to_row ar =
     \<lparr>ar_id = rule_ID ar, ar_tenant_id = rule_TenantID ar, ar_name = rule_Name ar,
      ar_condition = rule_Condition ar,
      ar_channels = Doc (case rule_Channels ar of
          Some ch \<Rightarrow> ch | None \<Rightarrow> \<lparr>ch_Webhooks = [], ch_Emails = []\<rparr>),
      ar_enabled = rule_Enabled ar\<rparr>"

definition CreateAlertRule :: "AlertRule \<Rightarrow> world \<Rightarrow> (db_error + unit) \<times> world" where
  "CreateAlertRule ar = Exec (insert_alert_rule (alert_rule_to_row ar))"

definition tenant_rule :: "id \<Rightarrow> id \<Rightarrow> alert_rule_row \<Rightarrow> bool" where
  "tenant_rule tenantID i r \<longleftrightarrow> ar_id r = i \<and> ar_tenant_id r = tenantID"

definition GetAlertRule :: "id \<Rightarrow> id \<Rightarrow> world \<Rightarrow> (db_error + AlertRule option) \<times> world" where
  "GetAlertRule tenantID i w =
    (case Query (\<lambda>d. select_row (tenant_rule tenantID i) (db_alert_rules d)) w of
       (Inl e, w1) \<Rightarrow> (if e = ErrNoRows then Inr None else Inl e, w1)
     | (Inr r, w1) \<Rightarrow> (Inr (Some (scan_alert_rule r)), w1))"

definition ListAlertRules :: "id \<Rightarrow> world \<Rightarrow> (db_error + AlertRule list) \<times> world" where
  "ListAlertRules tenantID = Query (\<lambda>d. Inr (map scan_alert_rule
     (sort_key ar_name (filter (\<lambda>r. ar_tenant_id r = tenantID) (db_alert_rules d)))))"

datatype alert_update =
    Set_rule_name string
  | Set_condition "AlertCondition json"
  | Set_channels AlertChannels

fun set_alert_rule :: "alert_update \<Rightarrow> alert_rule_row \<Rightarrow> alert_rule_row" where
  "set_alert_rule (Set_rule_name x) r = r\<lparr>ar_name := x\<rparr>"
| "set_alert_rule (Set_condition x) r = r\<lparr>ar_condition := x\<rparr>"
| "set_alert_rule (Set_channels x) r = r\<lparr>ar_channels := Doc x\<rparr>"

definition UpdateAlertRule ::
  "id \<Rightarrow> id \<Rightarrow> alert_update list \<Rightarrow> world \<Rightarrow> (db_error + unit) \<times> world" where
  "UpdateAlertRule tenantID i updates w =
    (if updates = [] then (Inr (), w)
     else ExecRow (update_alert_rules (tenant_rule tenantID i) (fold set_alert_rule updates)) w)"

definition DeleteAlertRule :: "id \<Rightarrow> id \<Rightarrow> world \<Rightarrow> (db_error + unit) \<times> world" where
  "DeleteAlertRule tenantID i = ExecRow (delete_alert_rules (tenant_rule tenantID i))"

definition SetAlertRuleEnabled ::
  "id \<Rightarrow> id \<Rightarrow> bool \<Rightarrow> world \<Rightarrow> (db_error + unit) \<times> world" where
  "SetAlertRuleEnabled tenantID i enabled =
     ExecRow (update_alert_rules (tenant_rule tenantID i) (\<lambda>r. r\<lparr>ar_enabled := enabled\<rparr>))"

definition ListEnabledAlertRules :: "world \<Rightarrow> (db_error + AlertRule list) \<times> world" where
  "ListEnabledAlertRules =
     Query (\<lambda>d. Inr (map scan_alert_rule (filter ar_enabled (db_alert_rules d))))"

section \<open>Endpoints\<close>

record createAlertRuleRequest =
  car_Name :: string
  car_Condition :: "AlertCondition json option"
  car_Channels :: "AlertChannels option"
  car_Enabled :: "bool option"

definition AlertRulesHandler_Create ::
  "bool \<Rightarrow> auth_context \<Rightarrow> createAlertRuleRequest json \<Rightarrow> world \<Rightarrow> AlertRule response \<times> world" where
  "AlertRulesHandler_Create audit ctx body w =
    (case body of
       Malformed \<Rightarrow> (Error StatusBadRequest ''invalid request body'', w)
     | Doc req \<Rightarrow>
    (if car_Name req = '''' then (Error StatusBadRequest ''name is required'', w)
     else case car_Condition req of
       None \<Rightarrow> (Error StatusBadRequest ''condition is required'', w)
     | Some cond \<Rightarrow>
    (case car_Channels req of
       None \<Rightarrow> (Error StatusBadRequest ''channels is required'', w)
     | Some ch \<Rightarrow>
    (case newID ''alr'' w of (i, w1) \<Rightarrow>
     let ar = \<lparr>rule_ID = i, rule_TenantID = ctx_TenantID ctx, rule_Name = car_Name req,
           rule_Condition = cond, rule_Channels = Some ch,
           rule_Enabled = (case car_Enabled req of None \<Rightarrow> True | Some b \<Rightarrow> b)\<rparr> in
     case CreateAlertRule ar w1 of
       (Inl _, w2) \<Rightarrow> (Error StatusInternalServerError ''failed to create alert rule'', w2)
     | (Inr _, w2) \<Rightarrow>
       (JSON StatusCreated ar,
        if audit then LogAction (ctx_TenantID ctx) (ctx_UserID ctx) ActorTypeUser
          ''alert_rule.create'' ''alert_rule'' i None w2 else w2)))))"

definition AlertRulesHandler_List :: "auth_context \<Rightarrow> world \<Rightarrow> AlertRule list response \<times> world" where
  "AlertRulesHandler_List ctx w =
    (case ListAlertRules (ctx_TenantID ctx) w of
       (Inl _, w1) \<Rightarrow> (Error StatusInternalServerError ''failed to list alert rules'', w1)
     | (Inr ars, w1) \<Rightarrow> (JSON StatusOK ars, w1))"

definition AlertRulesHandler_Get :: "auth_context \<Rightarrow> id \<Rightarrow> world \<Rightarrow> AlertRule response \<times> world" where
  "AlertRulesHandler_Get ctx i w =
    (case GetAlertRule (ctx_TenantID ctx) i w of
       (Inl _, w1) \<Rightarrow> (Error StatusInternalServerError ''failed to get alert rule'', w1)
     | (Inr None, w1) \<Rightarrow> (Error StatusNotFound ''alert rule not found'', w1)
     | (Inr (Some ar), w1) \<Rightarrow> (JSON StatusOK ar, w1))"

record updateAlertRuleRequest =
  uar_Name :: "string option"
  uar_Condition :: "AlertCondition json option"
  uar_Channels :: "AlertChannels option"

definition AlertRulesHandler_Update ::
  "bool \<Rightarrow> auth_context \<Rightarrow> id \<Rightarrow> updateAlertRuleRequest json \<Rightarrow> world
     \<Rightarrow> AlertRule option response \<times> world" where
  "AlertRulesHandler_Update audit ctx i body w =
    (case body of
       Malformed \<Rightarrow> (Error StatusBadRequest ''invalid request body'', w)
     | Doc req \<Rightarrow>
    (let updates = opt_update Set_rule_name (uar_Name req)
           @ opt_update Set_condition (uar_Condition req)
           @ opt_update Set_channels (uar_Channels req) in
     if updates = [] then (Error StatusBadRequest ''no fields to update'', w)
     else case UpdateAlertRule (ctx_TenantID ctx) i updates w of
       (Inl e, w1) \<Rightarrow>
         (if e = ErrNoRows then Error StatusNotFound ''alert rule not found''
          else Error StatusInternalServerError ''failed to update alert rule'', w1)
     | (Inr _, w1) \<Rightarrow>
       (let w2 = (if audit then LogAction (ctx_TenantID ctx) (ctx_UserID ctx) ActorTypeUser
              ''alert_rule.update'' ''alert_rule'' i None w1 else w1) in
        case GetAlertRule (ctx_TenantID ctx) i w2 of
          (Inl _, w3) \<Rightarrow> (JSON StatusOK None, w3)
        | (Inr ar, w3) \<Rightarrow> (JSON StatusOK ar, w3))))"

definition AlertRulesHandler_Delete :: "bool \<Rightarrow> auth_context \<Rightarrow> id \<Rightarrow> world \<Rightarrow> unit response \<times> world"
where
  "AlertRulesHandler_Delete audit ctx i =
     row_action audit ctx ''alert rule not found'' ''failed to delete alert rule''
       ''alert_rule.delete'' ''alert_rule'' i (DeleteAlertRule (ctx_TenantID ctx) i)"

definition AlertRulesHandler_Enable :: "bool \<Rightarrow> auth_context \<Rightarrow> id \<Rightarrow> world \<Rightarrow> unit response \<times> world"
where
  "AlertRulesHandler_Enable audit ctx i =
     row_action audit ctx ''alert rule not found'' ''failed to enable alert rule''
       ''alert_rule.enable'' ''alert_rule'' i (SetAlertRuleEnabled (ctx_TenantID ctx) i True)"

definition AlertRulesHandler_Disable :: "bool \<Rightarrow> auth_context \<Rightarrow> id \<Rightarrow> world \<Rightarrow> unit response \<times> world"
where
  "AlertRulesHandler_Disable audit ctx i =
     row_action audit ctx ''alert rule not found'' ''failed to disable alert rule''
       ''alert_rule.disable'' ''alert_rule'' i (SetAlertRuleEnabled (ctx_TenantID ctx) i False)"

section \<open>Delivery\<close>

record SMTPConfig =
  smtp_Host :: string
  smtp_Port :: int
  smtp_Username :: string
  smtp_Password :: string
  smtp_From :: string

text \<open>A delivery is the attempt; its failure is only logged.\<close>

definition sendWebhook :: "string \<Rightarrow> AlertPayload \<Rightarrow> world \<Rightarrow> world" where
  "sendWebhook url payload w = w\<lparr>w_sent := w_sent w @ [Webhook url payload]\<rparr>"

definition sendEmail :: "SMTPConfig option \<Rightarrow> string \<Rightarrow> AlertPayload \<Rightarrow> world \<Rightarrow> world" where
  "sendEmail smtp to payload w =
    (case smtp of
       None \<Rightarrow> w
     | Some c \<Rightarrow> if smtp_Host c = '''' then w
         else w\<lparr>w_sent := w_sent w @ [Email to payload]\<rparr>)"

definition Notifier_Send ::
  "SMTPConfig option \<Rightarrow> AlertRule \<Rightarrow> string \<Rightarrow> string \<Rightarrow> world \<Rightarrow> world" where
  "Notifier_Send smtp rule condType message w =
    (case rule_Channels rule of
       None \<Rightarrow> w
     | Some ch \<Rightarrow>
       (case Now w of (now, w1) \<Rightarrow>
        let payload = \<lparr>al_AlertRuleID = rule_ID rule, al_AlertRuleName = rule_Name rule,
              al_TenantID = rule_TenantID rule, al_ConditionType = condType,
              al_Message = message, al_FiredAt = now\<rparr> in
        fold (\<lambda>addr. sendEmail smtp addr payload) (ch_Emails ch)
          (fold (\<lambda>url. sendWebhook url payload) (ch_Webhooks ch) w1)))"

lemma fold_same_db:
  assumes "\<And>x w. w_db (f x w) = w_db w"
  shows "w_db (fold f xs w) = w_db w"
  by (induction xs arbitrary: w) (simp_all add: assms)

lemma Send_db [simp]: "w_db (Notifier_Send smtp rule ct m w) = w_db w"
proof -
  have e: "\<And>p x w. w_db (sendEmail smtp x p w) = w_db w"
    by (simp add: sendEmail_def split: option.split)
  have u: "\<And>p x w. w_db (sendWebhook x p w) = w_db w" by (simp add: sendWebhook_def)
  show ?thesis
    by (simp add: Notifier_Send_def Let_def case_prod_beta fold_same_db e u split: option.split)
qed

lemma fold_same_faults:
  assumes "\<And>x w. w_faults (f x w) = w_faults w"
  shows "w_faults (fold f xs w) = w_faults w"
  by (induction xs arbitrary: w) (simp_all add: assms)

lemma Send_faults [simp]: "w_faults (Notifier_Send smtp rule ct m w) = w_faults w"
proof -
  have e: "\<And>p x w. w_faults (sendEmail smtp x p w) = w_faults w"
    by (simp add: sendEmail_def split: option.split)
  have u: "\<And>p x w. w_faults (sendWebhook x p w) = w_faults w" by (simp add: sendWebhook_def)
  show ?thesis
    by (simp add: Notifier_Send_def Let_def case_prod_beta fold_same_faults e u split: option.split)
qed

end
