(* ===== verification/Scheduler.thy ===== *)
theory Scheduler
  imports JobsAPI ScheduledJobs AlertRules
begin

text \<open>
  The scheduler process: \<^verbatim>\<open>server/scheduler/scheduler.go\<close>.  One tick dispatches the
  due scheduled jobs, evaluates the alert rules, requeues or times out stuck jobs, and deletes
  expired enrollment tokens.  A step that fails is logged and the tick goes on.  The last section
  models the election of the instance that ticks.
\<close>

section \<open>Configuration\<close>

record scheduler_config =
  cfg_TickSeconds :: int
  cfg_ReaperDispatchedTimeoutSec :: int
  cfg_ReaperInflightTimeoutSec :: int

record Scheduler =
  sched_smtp :: "SMTPConfig option"
  sched_tick :: int
  sched_dispatchedTimeout :: int
  sched_inflightTimeout :: int

definition Scheduler_New :: "SMTPConfig option \<Rightarrow> scheduler_config \<Rightarrow> Scheduler" where
  "Scheduler_New smtp cfg =
     \<lparr>sched_smtp = smtp,
      sched_tick = (if cfg_TickSeconds cfg \<le> 0 then 30 else cfg_TickSeconds cfg) * Second,
      sched_dispatchedTimeout = (if cfg_ReaperDispatchedTimeoutSec cfg \<le> 0 then 300
        else cfg_ReaperDispatchedTimeoutSec cfg) * Second,
      sched_inflightTimeout = (if cfg_ReaperInflightTimeoutSec cfg \<le> 0 then 3600
        else cfg_ReaperInflightTimeoutSec cfg) * Second\<rparr>"

section \<open>Reaping\<close>

text \<open>A comparison with NULL is not true.\<close>

definition before :: "time option \<Rightarrow> time \<Rightarrow> bool" where
  "before t cutoff = (case t of None \<Rightarrow> False | Some x \<Rightarrow> x < cutoff)"

definition coalesce :: "'a option \<Rightarrow> 'a option \<Rightarrow> 'a option" where
  "coalesce x y = (case x of None \<Rightarrow> y | Some _ \<Rightarrow> x)"

definition stuck_dispatched :: "time \<Rightarrow> job_row \<Rightarrow> bool" where
  "stuck_dispatched cutoff r \<longleftrightarrow>
     j_status r = JobStatusDispatched \<and> before (j_dispatched_at r) cutoff"

definition reapStuckDispatchedJobs :: "Scheduler \<Rightarrow> time \<Rightarrow> world \<Rightarrow> world" where
  "reapStuckDispatchedJobs s now w =
     snd (Exec (update_jobs (stuck_dispatched (now - sched_dispatchedTimeout s))
       (\<lambda>r. r\<lparr>j_status := JobStatusQueued, j_dispatched_at := None\<rparr>)) w)"

definition stuck_inflight :: "time \<Rightarrow> job_row \<Rightarrow> bool" where
  "stuck_inflight cutoff r \<longleftrightarrow>
     (j_status r = JobStatusAcknowledged \<or> j_status r = JobStatusRunning)
     \<and> before (coalesce (j_started_at r) (j_acknowledged_at r)) cutoff"

definition reapStuckInflightJobs :: "Scheduler \<Rightarrow> time \<Rightarrow> world \<Rightarrow> world" where
  "reapStuckInflightJobs s now w =
     snd (Exec (update_jobs (stuck_inflight (now - sched_inflightTimeout s))
       (\<lambda>r. r\<lparr>j_status := JobStatusTimedOut, j_completed_at := Some now,
           j_last_error := Some ''reaper: agent never reported completion within inflight timeout''\<rparr>)) w)"

definition reapExpiredEnrollmentTokens :: "time \<Rightarrow> world \<Rightarrow> world" where
  "reapExpiredEnrollmentTokens now w =
     snd (Exec (delete_tokens (\<lambda>t. et_used_at t = None \<and> et_expires_at t < now)) w)"

section \<open>Scheduled jobs\<close>

datatype dispatch_error = NoTarget | ResolveFailed db_error | CreateFailed db_error

text \<open>The rows are those of the jobs handler, with the scheduler as the creator.\<close>

definition dispatchScheduledJob ::
  "ScheduledJob \<Rightarrow> time \<Rightarrow> world \<Rightarrow> (dispatch_error + unit) \<times> world" where
  "dispatchScheduledJob sj now w =
    (case sj_Target sj of
       None \<Rightarrow> (Inl NoTarget, w)
     | Some target \<Rightarrow>
    (case Scheduler_resolveTargets (sj_TenantID sj) target w of
       (Inl e, w1) \<Rightarrow> (Inl (ResolveFailed e), w1)
     | (Inr deviceIDs, w1) \<Rightarrow>
    (if deviceIDs = [] then (Inr (), w1)
     else case create_jobs (\<lambda>dev. new_job_row (sj_TenantID sj) dev (sj_JobType sj) (sj_Payload sj)
               (sj_RetryPolicy sj) (''scheduler:'' @ sj_ID sj) now) deviceIDs w1 of
       (Inl e, w2) \<Rightarrow> (Inl (CreateFailed e), w2)
     | (Inr _, w2) \<Rightarrow> (Inr (), w2))))"

definition run_scheduled :: "cron_parser \<Rightarrow> time \<Rightarrow> ScheduledJob \<Rightarrow> world \<Rightarrow> world" where
  "run_scheduled cron now sj w =
    (case dispatchScheduledJob sj now w of
       (Inl _, w1) \<Rightarrow> w1
     | (Inr _, w1) \<Rightarrow>
       (case cron (sj_CronExpr sj) of
          Inl _ \<Rightarrow> w1
        | Inr nxt \<Rightarrow> snd (MarkScheduledJobRun (sj_ID sj) now (nxt now) w1)))"

definition evaluateScheduledJobs :: "cron_parser \<Rightarrow> time \<Rightarrow> world \<Rightarrow> world" where
  "evaluateScheduledJobs cron now w =
    (case ListDueScheduledJobs now w of
       (Inl _, w1) \<Rightarrow> w1
     | (Inr due, w1) \<Rightarrow> fold (run_scheduled cron now) due w1)"

section \<open>Alerts\<close>

text \<open>The two loops of \<^verbatim>\<open>truncateList\<close>: the index tells the first item from the rest.\<close>

fun join_items :: "nat \<Rightarrow> string \<Rightarrow> string list \<Rightarrow> string" where
  "join_items i result [] = result"
| "join_items i result (item # items) =
     join_items (Suc i) ((if i > 0 then result @ '', '' else result) @ item) items"

definition truncateList :: "string list \<Rightarrow> nat \<Rightarrow> string" where
  "truncateList items n =
    (if length items \<le> n then join_items 0 '''' items
     else join_items 0 '''' (take n items) @ '', ...'')"

definition scope_has_targets :: "JobTarget option \<Rightarrow> bool" where
  "scope_has_targets scope =
    (case scope of None \<Rightarrow> False
     | Some t \<Rightarrow> length (jt_DeviceIDs t) + length (jt_GroupIDs t) + length (jt_TagIDs t)
         + length (jt_SiteIDs t) > 0)"

definition offline_device :: "id \<Rightarrow> time \<Rightarrow> id list \<Rightarrow> device_row \<Rightarrow> bool" where
  "offline_device tenantID threshold deviceIDs r \<longleftrightarrow>
     d_tenant_id r = tenantID \<and> d_status r \<noteq> DeviceStatusRevoked
     \<and> before (d_last_seen_at r) threshold
     \<and> (deviceIDs \<noteq> [] \<longrightarrow> d_id r \<in> set deviceIDs)"

definition alert_scope ::
  "AlertRule \<Rightarrow> AlertCondition \<Rightarrow> world \<Rightarrow> (db_error + id list) \<times> world" where
  "alert_scope rule cond w =
    (case cond_Scope cond of
       Some t \<Rightarrow> if scope_has_targets (cond_Scope cond)
         then Scheduler_resolveTargets (rule_TenantID rule) t w else (Inr [], w)
     | None \<Rightarrow> (Inr [], w))"

definition offline_message :: "AlertCondition \<Rightarrow> string list \<Rightarrow> string" where
  "offline_message cond offline =
     decimal (int (length offline)) @ '' device(s) offline for >'' @
     decimal (cond_ThresholdMinutes cond) @ '' minutes: '' @ truncateList offline 10"

definition evaluateAgentOffline ::
  "Scheduler \<Rightarrow> AlertRule \<Rightarrow> AlertCondition \<Rightarrow> time \<Rightarrow> world \<Rightarrow> world" where
  "evaluateAgentOffline s rule cond now w =
    (let threshold = now - cond_ThresholdMinutes cond * 60 * Second in
     case alert_scope rule cond w of
       (Inl _, w1) \<Rightarrow> w1
     | (Inr deviceIDs, w1) \<Rightarrow>
    (case Query (\<lambda>d. Inr (filter (offline_device (rule_TenantID rule) threshold deviceIDs)
             (db_devices d))) w1 of
       (Inl _, w2) \<Rightarrow> w2
     | (Inr rows, w2) \<Rightarrow>
       (let offlineDevices = map (\<lambda>r. d_hostname r @ '' ('' @ d_id r @ '')'') rows in
        if offlineDevices = [] then w2
        else Notifier_Send (sched_smtp s) rule (cond_Type cond)
          (offline_message cond offlineDevices) w2)))"

definition evaluate_rule :: "Scheduler \<Rightarrow> time \<Rightarrow> AlertRule \<Rightarrow> world \<Rightarrow> world" where
  "evaluate_rule s now rule w =
    (case rule_Condition rule of
       Malformed \<Rightarrow> w
     | Doc cond \<Rightarrow>
       if cond_Type cond = ''agent_offline'' then evaluateAgentOffline s rule cond now w else w)"

definition evaluateAlertRules :: "Scheduler \<Rightarrow> time \<Rightarrow> world \<Rightarrow> world" where
  "evaluateAlertRules s now w =
    (case ListEnabledAlertRules w of
       (Inl _, w1) \<Rightarrow> w1
     | (Inr rules, w1) \<Rightarrow> fold (evaluate_rule s now) rules w1)"

section \<open>A tick\<close>

definition runTick :: "cron_parser \<Rightarrow> Scheduler \<Rightarrow> world \<Rightarrow> world" where
  "runTick cron s w =
    (case Now w of (now, w0) \<Rightarrow>
      reapExpiredEnrollmentTokens now
        (reapStuckInflightJobs s now
          (reapStuckDispatchedJobs s now
            (evaluateAlertRules s now
              (evaluateScheduledJobs cron now w0)))))"

section \<open>What a tick does to the jobs\<close>

context row_preorder
begin

lemma dispatchScheduledJob_after:
  "jobs_related \<rho> d (w_db w) \<Longrightarrow> jobs_related \<rho> d (w_db (snd (dispatchScheduledJob sj now w)))"
  using create_jobs_related
  by (auto simp: dispatchScheduledJob_def case_prod_beta split: option.split sum.split)

lemma run_scheduled_after:
  assumes "jobs_related \<rho> d (w_db w)"
  shows "jobs_related \<rho> d (w_db (run_scheduled cron now sj w))"
proof -
  have "jobs_related \<rho> d (w_db (snd (MarkScheduledJobRun i l n v)))"
    if "jobs_related \<rho> d (w_db v)" for i l n v
    unfolding MarkScheduledJobRun_def
    by (intro after Exec_after that; (assumption | (rule related_same_jobs, erule same_jobs_stmts)))
  then show ?thesis
    using dispatchScheduledJob_after [OF assms, of sj now]
    by (simp add: run_scheduled_def case_prod_beta split: sum.split)
qed

lemma evaluateScheduledJobs_after:
  assumes "jobs_related \<rho> d (w_db w)"
  shows "jobs_related \<rho> d (w_db (evaluateScheduledJobs cron now w))"
proof -
  have "jobs_related \<rho> d (w_db (snd (ListDueScheduledJobs now w)))"
    using assms by (simp add: ListDueScheduledJobs_def Query_db)
  then show ?thesis
    using fold_after [OF _ run_scheduled_after]
    by (auto simp: evaluateScheduledJobs_def case_prod_beta split: sum.split)
qed

end

lemma alert_scope_db [simp]: "w_db (snd (alert_scope rule cond w)) = w_db w"
  by (simp add: alert_scope_def split: option.split)

lemma evaluateAgentOffline_db [simp]: "w_db (evaluateAgentOffline s rule cond now w) = w_db w"
  by (simp add: evaluateAgentOffline_def Let_def case_prod_beta Query_db split: sum.split)

lemma evaluateAlertRules_db [simp]: "w_db (evaluateAlertRules s now w) = w_db w"
proof -
  have "w_db (evaluate_rule s now rule v) = w_db v" for rule v
    by (simp add: evaluate_rule_def split: json.split)
  then have "w_db (fold (evaluate_rule s now) rules v) = w_db v" for rules v
    by (rule fold_same_db)
  then show ?thesis
    by (simp add: evaluateAlertRules_def ListEnabledAlertRules_def case_prod_beta Query_db
        split: sum.split)
qed

context row_preorder
begin

lemma runTick_related:
  assumes requeue: "\<And>r. stuck_dispatched (w_clock w (w_ticks w) - sched_dispatchedTimeout s) r \<Longrightarrow>
       \<rho> r (r\<lparr>j_status := JobStatusQueued, j_dispatched_at := None\<rparr>)"
    and timeout: "\<And>r now msg. stuck_inflight (w_clock w (w_ticks w) - sched_inflightTimeout s) r \<Longrightarrow>
       \<rho> r (r\<lparr>j_status := JobStatusTimedOut, j_completed_at := Some now, j_last_error := Some msg\<rparr>)"
  shows "jobs_related \<rho> (w_db w) (w_db (runTick cron s w))"
proof -
  obtain w0 where now: "Now w = (w_clock w (w_ticks w), w0)" and w0: "w_db w0 = w_db w"
    by (simp add: Now_def)
  let ?now = "w_clock w (w_ticks w)"
  let ?w1 = "evaluateAlertRules s ?now (evaluateScheduledJobs cron ?now w0)"
  have 1: "jobs_related \<rho> (w_db w) (w_db ?w1)"
    using evaluateScheduledJobs_after [of "w_db w" w0] w0 related_refl by simp
  have 2: "jobs_related \<rho> (w_db w) (w_db (reapStuckDispatchedJobs s ?now ?w1))"
    unfolding reapStuckDispatchedJobs_def
    by (rule Exec_after [OF 1], erule related_update, rule requeue)
  have 3: "jobs_related \<rho> (w_db w) (w_db (reapStuckInflightJobs s ?now (reapStuckDispatchedJobs s ?now ?w1)))"
    unfolding reapStuckInflightJobs_def
    by (rule Exec_after [OF 2], erule related_update, rule timeout)
  have "jobs_related \<rho> (w_db w) (w_db (reapExpiredEnrollmentTokens ?now
      (reapStuckInflightJobs s ?now (reapStuckDispatchedJobs s ?now ?w1))))"
    unfolding reapExpiredEnrollmentTokens_def
    by (rule Exec_after [OF 3], rule related_same_jobs, erule same_jobs_stmts)
  then show ?thesis by (simp add: runTick_def now)
qed

end

lemma runTick_evolves: "jobs_related (job_evolves server_step) (w_db w) (w_db (runTick cron s w))"
  by (rule evolves.runTick_related; rule job_evolves_stepI)
     (auto simp: same_job_def stuck_dispatched_def stuck_inflight_def server_step_intros)


section \<open>Reaping is complete\<close>

lemma run_scheduled_faults:
  assumes "w_faults w = []"
  shows "w_faults (run_scheduled cron now sj w) = []"
proof -
  have "w_faults (snd (dispatchScheduledJob sj now w)) = []"
    using assms
    by (simp add: dispatchScheduledJob_def case_prod_beta Scheduler_resolveTargets_world
        create_jobs_faults split: option.split sum.split)
  then show ?thesis
    by (simp add: run_scheduled_def MarkScheduledJobRun_def case_prod_beta Exec_faults
        split: sum.split)
qed

lemma evaluateScheduledJobs_faults:
  assumes "w_faults w = []"
  shows "w_faults (evaluateScheduledJobs cron now w) = []"
  using assms
  by (simp add: evaluateScheduledJobs_def ListDueScheduledJobs_def Query_no_fault
      fold_faults run_scheduled_faults)

lemma evaluate_rule_faults:
  assumes "w_faults w = []"
  shows "w_faults (evaluate_rule s now rule w) = []"
proof -
  have "w_faults (snd (alert_scope rule cond w)) = []" for cond
    using assms by (simp add: alert_scope_def Scheduler_resolveTargets_world split: option.split)
  then show ?thesis
    using assms
    by (simp add: evaluate_rule_def evaluateAgentOffline_def Let_def case_prod_beta Query_faults
        split: json.split sum.split)
qed

lemma evaluateAlertRules_faults:
  assumes "w_faults w = []"
  shows "w_faults (evaluateAlertRules s now w) = []"
  using assms
  by (simp add: evaluateAlertRules_def ListEnabledAlertRules_def Query_no_fault
      fold_faults evaluate_rule_faults)

lemma reapers_db:
  assumes "w_faults w = []"
  shows "w_db (reapExpiredEnrollmentTokens now (reapStuckInflightJobs s now
      (reapStuckDispatchedJobs s now w))) =
    (w_db w)\<lparr>db_jobs := update_rows (stuck_inflight (now - sched_inflightTimeout s))
        (\<lambda>r. r\<lparr>j_status := JobStatusTimedOut, j_completed_at := Some now,
           j_last_error := Some ''reaper: agent never reported completion within inflight timeout''\<rparr>)
        (update_rows (stuck_dispatched (now - sched_dispatchedTimeout s))
          (\<lambda>r. r\<lparr>j_status := JobStatusQueued, j_dispatched_at := None\<rparr>) (db_jobs (w_db w))),
      db_enrollment_tokens := delete_rows (\<lambda>t. et_used_at t = None \<and> et_expires_at t < now)
        (db_enrollment_tokens (w_db w))\<rparr>"
  using assms
  by (simp add: reapExpiredEnrollmentTokens_def reapStuckInflightJobs_def
      reapStuckDispatchedJobs_def Exec_no_fault update_jobs_def delete_tokens_def)

text \<open>C16: When its statements succeed, a tick leaves no job that was dispatched, or acknowledged
  or running, for longer than the configured time, and no unused token that has expired; it
  touches no other job that was there before.\<close>

theorem tick_reaps:
  assumes "w_faults w = []"
  shows "(\<forall>r \<in> set (db_jobs (w_db (runTick cron s w))).
      \<not> stuck_dispatched (w_clock w (w_ticks w) - sched_dispatchedTimeout s) r
      \<and> \<not> stuck_inflight (w_clock w (w_ticks w) - sched_inflightTimeout s) r)
    \<and> (\<forall>t \<in> set (db_enrollment_tokens (w_db (runTick cron s w))).
      et_used_at t \<noteq> None \<or> w_clock w (w_ticks w) \<le> et_expires_at t)
    \<and> jobs_related (kept_if (\<lambda>r.
        \<not> stuck_dispatched (w_clock w (w_ticks w) - sched_dispatchedTimeout s) r
        \<and> \<not> stuck_inflight (w_clock w (w_ticks w) - sched_inflightTimeout s) r))
      (w_db w) (w_db (runTick cron s w))"
proof -
  obtain w0 where now: "Now w = (w_clock w (w_ticks w), w0)" and w0: "w_faults w0 = []"
    using assms by (simp add: Now_def)
  have f: "w_faults (evaluateAlertRules s n (evaluateScheduledJobs cron n w0)) = []" for n
    by (intro evaluateAlertRules_faults evaluateScheduledJobs_faults w0)
  have jobs: "\<forall>r \<in> set (db_jobs (w_db (runTick cron s w))).
      \<not> stuck_dispatched (w_clock w (w_ticks w) - sched_dispatchedTimeout s) r
      \<and> \<not> stuck_inflight (w_clock w (w_ticks w) - sched_inflightTimeout s) r"
    unfolding runTick_def now prod.case reapers_db [OF f]
    by (auto simp: set_update_rows stuck_inflight_def stuck_dispatched_def)
  have tokens: "\<forall>t \<in> set (db_enrollment_tokens (w_db (runTick cron s w))).
      et_used_at t \<noteq> None \<or> w_clock w (w_ticks w) \<le> et_expires_at t"
    unfolding runTick_def now prod.case reapers_db [OF f]
    by (auto simp: set_delete_rows)
  from jobs tokens show ?thesis
    by (intro conjI kept.runTick_related) (simp_all add: kept_if_def)
qed

definition sample_sched :: Scheduler where
  "sample_sched = Scheduler_New None \<lparr>cfg_TickSeconds = 0, cfg_ReaperDispatchedTimeoutSec = 10,
     cfg_ReaperInflightTimeoutSec = 20\<rparr>"

definition sample_cron :: cron_parser where
  "sample_cron expr = (if expr = '''' then Inl ''empty'' else Inr (\<lambda>t. t + 60 * Second))"

definition sample_stuck :: "job_row list" where
  "sample_stuck =
    [(sample_job ''j1'' ''t1'' ''d1'' JobStatusDispatched 1)\<lparr>j_dispatched_at := Some 1\<rparr>,
     (sample_job ''j2'' ''t1'' ''d1'' JobStatusRunning 1)\<lparr>j_acknowledged_at := Some 1\<rparr>]"

theorem tick_reaps_witness:
  "w_faults (sample_world sample_stuck) = [] \<and>
   stuck_dispatched (90 * Second) (sample_stuck ! 0) \<and>
   filter (\<lambda>r. j_status r = JobStatusDispatched \<and> before (j_dispatched_at r) (90 * Second))
     (db_jobs (w_db (runTick sample_cron sample_sched (sample_world sample_stuck)))) = []"
proof -
  have f: "w_faults (sample_world sample_stuck) = []" by (simp add: sample_world_def)
  have c: "w_clock (sample_world sample_stuck) (w_ticks (sample_world sample_stuck))
      - sched_dispatchedTimeout sample_sched = 90 * Second"
    by (simp add: sample_world_def sample_sched_def Scheduler_New_def)
  have s: "stuck_dispatched (90 * Second) (sample_stuck ! 0)"
    by (simp add: sample_stuck_def stuck_dispatched_def before_def sample_job_def)
  show ?thesis
    using tick_reaps [OF f, of sample_cron sample_sched] f s
    unfolding c by (auto simp: filter_empty_conv stuck_dispatched_def)
qed

section \<open>The creator of scheduled jobs\<close>

text \<open>The column \<^verbatim>\<open>created_by\<close> of a job refers to a user.  The scheduler writes its own
  name there.\<close>

lemma create_jobs_no_creator:
  assumes "ds \<noteq> []" and "\<And>dev i. \<not> references (j_created_by (row dev i)) (map u_ID (db_users (w_db w)))"
  shows "(\<exists>e. fst (create_jobs row ds w) = Inl e) \<and> w_db (snd (create_jobs row ds w)) = w_db w"
proof (cases ds)
  case (Cons dev rest)
  obtain i w1 where i: "newID ''job'' w = (i, w1)" by (cases "newID ''job'' w")
  have w1: "w_db w1 = w_db w" using newID_db [of "''job''" w] i by simp
  obtain r w2 where r: "Exec (insert_job (row dev i)) w1 = (r, w2)" by (rule prod.exhaust)
  have "insert_job (row dev i) (w_db w1) \<noteq> Inr (x, d')" for x d'
    using assms(2) by (simp add: insert_job_def w1)
  with Exec_cases [OF r] have "w_db w2 = w_db w1" "\<forall>x. r \<noteq> Inr x" by auto
  then show ?thesis by (cases r) (simp_all add: Cons i r w1)
qed (simp add: assms)

definition no_scheduler_user :: "db \<Rightarrow> bool" where
  "no_scheduler_user d \<longleftrightarrow> filter (\<lambda>u. HasPrefix (u_ID u) ''scheduler:'') (db_users d) = []"

lemma dispatchScheduledJob_no_user:
  assumes "no_scheduler_user (w_db w)"
  shows "w_db (snd (dispatchScheduledJob sj now w)) = w_db w"
proof -
  have row: "\<not> references (j_created_by (new_job_row t dev ty p pol (''scheduler:'' @ i) n j))
      (map u_ID (db_users (w_db w)))" for t dev ty p pol i n j
    using assms HasPrefix_append [of "''scheduler:''" i]
    by (auto simp: new_job_row_def references_def no_scheduler_user_def filter_empty_conv)
  have "w_db (snd (create_jobs (\<lambda>dev. new_job_row t dev ty p pol (''scheduler:'' @ i) n) ds v)) = w_db w"
    if "w_db v = w_db w" "ds \<noteq> []" for t ty p pol i n ds v
    using create_jobs_no_creator [OF that(2)] row that(1) by fastforce
  then show ?thesis
    by (simp add: dispatchScheduledJob_def case_prod_beta split: option.split sum.split)
qed

interpretation jobs_users: db_contract "\<lambda>d d'. db_jobs d' = db_jobs d \<and> db_users d' = db_users d"
  by unfold_locales auto

lemma run_scheduled_no_user:
  assumes "no_scheduler_user (w_db w)"
  shows "db_jobs (w_db (run_scheduled cron now sj w)) = db_jobs (w_db w)
       \<and> db_users (w_db (run_scheduled cron now sj w)) = db_users (w_db w)"
proof -
  have "db_jobs (w_db (snd (MarkScheduledJobRun i l n v))) = db_jobs (w_db v)
      \<and> db_users (w_db (snd (MarkScheduledJobRun i l n v))) = db_users (w_db v)" for i l n v
    unfolding MarkScheduledJobRun_def
    by (intro jobs_users.after jobs_users.Exec_after) (auto simp: update_scheduled_def)
  then show ?thesis
    using dispatchScheduledJob_no_user [OF assms]
    by (simp add: run_scheduled_def case_prod_beta split: sum.split)
qed

text \<open>As long as no user has an identifier that starts with the scheduler's prefix, which the
  server never generates, the evaluation of scheduled jobs creates no job at all: every insert
  violates the foreign key of the creator.\<close>

theorem scheduled_jobs_never_created:
  assumes "no_scheduler_user (w_db w)"
  shows "db_jobs (w_db (evaluateScheduledJobs cron now w)) = db_jobs (w_db w)"
proof -
  have "db_jobs (w_db (fold (run_scheduled cron now) sjs v)) = db_jobs (w_db v)"
    if "no_scheduler_user (w_db v)" for sjs v
    using that
  proof (induction sjs arbitrary: v)
    case (Cons sj sjs)
    have "no_scheduler_user (w_db (run_scheduled cron now sj v))"
      using Cons.prems run_scheduled_no_user [OF Cons.prems] by (simp add: no_scheduler_user_def)
    from Cons.IH [OF this] show ?case using run_scheduled_no_user [OF Cons.prems] by simp
  qed simp
  then show ?thesis
    using assms
    by (simp add: evaluateScheduledJobs_def ListDueScheduledJobs_def case_prod_beta Query_db
        split: sum.split)
qed

definition sample_scheduled :: scheduled_job_row where
  "sample_scheduled =
     \<lparr>s_id = ''s1'', s_tenant_id = ''t1'', s_name = ''nightly'', s_job_type = JobTypeExec,
      s_payload = ''{}'', s_target = Doc \<lparr>jt_DeviceIDs = [''d1''], jt_GroupIDs = [], jt_TagIDs = [],
        jt_SiteIDs = []\<rparr>, s_cron_expr = ''@daily'', s_retry_policy = None, s_enabled = True,
      s_last_run_at = None, s_next_run_at = Some 5\<rparr>"

definition sample_due_world :: world where
  "sample_due_world = (sample_world [])\<lparr>w_db := (sample_db [])\<lparr>db_scheduled_jobs := [sample_scheduled]\<rparr>\<rparr>"

theorem scheduled_jobs_never_created_witness:
  "no_scheduler_user (w_db sample_due_world) \<and> due_at 10 sample_scheduled \<and>
   db_jobs (w_db (evaluateScheduledJobs sample_cron 10 sample_due_world)) = []"
proof -
  have u: "no_scheduler_user (w_db sample_due_world)"
    by (simp add: no_scheduler_user_def sample_due_world_def sample_world_def sample_db_def
        sample_user_def HasPrefix_def)
  show ?thesis
    using scheduled_jobs_never_created [OF u, of sample_cron 10] u
    by (simp add: due_at_def sample_scheduled_def sample_due_world_def sample_world_def sample_db_def)
qed

section \<open>The scope of an alert\<close>

text \<open>A rule whose scope names groups, tags or sites that hold no device is evaluated like a
  rule without a scope: it alerts on every device of the tenant.\<close>

theorem alert_empty_scope_is_tenant:
  assumes "w_faults w = []" and "cond_Scope cond = Some t"
    and "target_devices (rule_TenantID rule) (w_db w) t = {}"
  shows "evaluateAgentOffline s rule cond now w
       = evaluateAgentOffline s rule (cond\<lparr>cond_Scope := None\<rparr>) now w"
proof -
  obtain ids where ids: "Scheduler_resolveTargets (rule_TenantID rule) t w = (Inr ids, w)"
      "set ids = {}"
    using Scheduler_resolveTargets_set [OF assms(1), of "rule_TenantID rule" t] assms(3) by auto
  then have scoped: "alert_scope rule cond w = (Inr [], w)"
    by (simp add: alert_scope_def assms(2))
  have scopeless: "alert_scope rule (cond\<lparr>cond_Scope := None\<rparr>) w = (Inr [], w)"
    by (simp add: alert_scope_def)
  show ?thesis
    by (simp add: evaluateAgentOffline_def scoped scopeless offline_message_def Let_def Query_no_fault
        assms(1))
qed

definition sample_rule :: AlertRule where
  "sample_rule = \<lparr>rule_ID = ''a1'', rule_TenantID = ''t1'', rule_Name = ''offline'',
     rule_Condition = Malformed,
     rule_Channels = Some \<lparr>ch_Webhooks = [''http://hook''], ch_Emails = []\<rparr>, rule_Enabled = True\<rparr>"

definition sample_cond :: "id \<Rightarrow> AlertCondition" where
  "sample_cond g = \<lparr>cond_Type = ''agent_offline'', cond_ThresholdMinutes = 1,
     cond_Scope = Some \<lparr>jt_DeviceIDs = [], jt_GroupIDs = [g], jt_TagIDs = [], jt_SiteIDs = []\<rparr>\<rparr>"

definition sample_offline_world :: world where
  "sample_offline_world = (sample_world [])\<lparr>w_db := (sample_db [])\<lparr>db_devices :=
     [(sample_device ''d1'' ''t1'')\<lparr>d_last_seen_at := Some 0\<rparr>]\<rparr>\<rparr>"

theorem alert_empty_scope_is_tenant_witness:
  "target_devices ''t1'' (w_db sample_offline_world)
     \<lparr>jt_DeviceIDs = [], jt_GroupIDs = [''g9''], jt_TagIDs = [], jt_SiteIDs = []\<rparr> = {} \<and>
   length (w_sent (evaluateAgentOffline sample_sched sample_rule (sample_cond ''g9'')
     (100 * Second) sample_offline_world)) = 1"
proof -
  have t: "target_devices ''t1'' (w_db sample_offline_world)
     \<lparr>jt_DeviceIDs = [], jt_GroupIDs = [''g9''], jt_TagIDs = [], jt_SiteIDs = []\<rparr> = {}"
    by (auto simp: target_devices_def devices_of_def members_of_def sample_offline_world_def
        sample_world_def sample_db_def)
  have f: "w_faults sample_offline_world = []"
    by (simp add: sample_offline_world_def sample_world_def)
  have e: "evaluateAgentOffline sample_sched sample_rule (sample_cond ''g9'')
        (100 * Second) sample_offline_world
      = evaluateAgentOffline sample_sched sample_rule ((sample_cond ''g9'')\<lparr>cond_Scope := None\<rparr>)
        (100 * Second) sample_offline_world"
    by (rule alert_empty_scope_is_tenant [OF f], simp add: sample_cond_def,
        simp add: sample_rule_def, rule t)
  show ?thesis
    unfolding e
    by (rule conjI [OF t]) (simp add: evaluateAgentOffline_def alert_scope_def sample_cond_def Let_def Query_no_fault f
        offline_device_def sample_offline_world_def sample_world_def sample_db_def before_def
        sample_device_def sample_rule_def Notifier_Send_def Now_def sendWebhook_def)
qed

section \<open>Messages\<close>

lemma join_items_Suc:
  "join_items (Suc i) result items = result @ concat (map (\<lambda>x. '', '' @ x) items)"
  by (induction items arbitrary: i result) simp_all

text \<open>The text of \<^verbatim>\<open>truncateList\<close>: the first items, separated by commas, and dots exactly
  if items are missing.\<close>

lemma truncateList_text:
  "truncateList (x # xs) (Suc n) =
     x @ concat (map (\<lambda>y. '', '' @ y) (take n xs)) @ (if length xs \<le> n then '''' else '', ...'')"
  by (simp add: truncateList_def join_items_Suc)

section \<open>Election of the ticking instance\<close>

text \<open>
  Every instance tries to take a session-level advisory lock and ticks while it leads
  (\<^verbatim>\<open>Run\<close>).  The lock belongs to the session of one connection.  The state holds the
  owner of the lock as PostgreSQL sees it and the phase of every instance; a stopped instance has
  left \<^verbatim>\<open>Run\<close> and released the lock if it led.
\<close>

datatype phase = Waiting | Leading | Stopped

record cluster =
  cl_lock :: "nat option"
  cl_phase :: "nat \<Rightarrow> phase"
  cl_world :: world

inductive Run_step :: "cron_parser \<Rightarrow> Scheduler \<Rightarrow> cluster \<Rightarrow> cluster \<Rightarrow> bool" for cron s where
  acquired: "cl_phase c i = Waiting \<Longrightarrow> cl_lock c = None \<Longrightarrow>
    Run_step cron s c (c\<lparr>cl_lock := Some i, cl_phase := (cl_phase c)(i := Leading)\<rparr>)"
| held: "cl_phase c i = Waiting \<Longrightarrow> cl_lock c \<noteq> None \<Longrightarrow> Run_step cron s c c"
| ticked: "cl_phase c i = Leading \<Longrightarrow>
    Run_step cron s c (c\<lparr>cl_world := runTick cron s (cl_world c)\<rparr>)"
| cancelled: "cl_phase c i = Waiting \<Longrightarrow>
    Run_step cron s c (c\<lparr>cl_phase := (cl_phase c)(i := Stopped)\<rparr>)"
| released: "cl_phase c i = Leading \<Longrightarrow>
    Run_step cron s c (c\<lparr>cl_lock := (if cl_lock c = Some i then None else cl_lock c),
      cl_phase := (cl_phase c)(i := Stopped)\<rparr>)"

text \<open>The session of the lock ends, as when the connection breaks: PostgreSQL frees the lock and
  the instance, which uses other connections to tick, does not notice.\<close>

definition session_lost :: "cluster \<Rightarrow> cluster" where
  "session_lost c = c\<lparr>cl_lock := None\<rparr>"

definition cluster_start :: "world \<Rightarrow> cluster" where
  "cluster_start w = \<lparr>cl_lock = None, cl_phase = (\<lambda>_. Waiting), cl_world = w\<rparr>"

definition leaders_hold :: "cluster \<Rightarrow> bool" where
  "leaders_hold c \<longleftrightarrow> (\<forall>i. cl_phase c i = Leading \<longrightarrow> cl_lock c = Some i)"

inductive_cases Run_stepE: "Run_step cron s c c'"

lemma Run_step_leaders: "Run_step cron s c c' \<Longrightarrow> leaders_hold c \<Longrightarrow> leaders_hold c'"
  by (erule Run_stepE) (auto simp: leaders_hold_def split: if_splits, metis option.inject)

lemma Run_steps_leaders:
  "(Run_step cron s)\<^sup>*\<^sup>* c c' \<Longrightarrow> leaders_hold c \<Longrightarrow> leaders_hold c'"
  by (induction rule: rtranclp_induct) (auto intro: Run_step_leaders)

text \<open>C17: While no lock session breaks, at most one instance leads at any time, and every job
  evolves along the state machine however the instances interleave.\<close>

theorem single_leader:
  assumes "(Run_step cron s)\<^sup>*\<^sup>* (cluster_start w) c"
  shows "(cl_phase c i = Leading \<and> cl_phase c j = Leading \<longrightarrow> i = j)
       \<and> jobs_related (job_evolves server_step) (w_db w) (w_db (cl_world c))"
proof
  have "leaders_hold c"
    using assms by (rule Run_steps_leaders) (simp add: leaders_hold_def cluster_start_def)
  then show "cl_phase c i = Leading \<and> cl_phase c j = Leading \<longrightarrow> i = j"
    unfolding leaders_hold_def by (metis option.inject)
  show "jobs_related (job_evolves server_step) (w_db w) (w_db (cl_world c))"
    using assms
  proof (induction rule: rtranclp_induct)
    case base
    then show ?case by (simp add: cluster_start_def evolves.related_refl)
  next
    case (step c c')
    from step.hyps(2) step.IH show ?case
      by (elim Run_stepE) (auto intro: evolves.related_trans runTick_evolves)
  qed
qed

theorem single_leader_witness:
  "\<exists>c. (Run_step sample_cron sample_sched)\<^sup>*\<^sup>* (cluster_start (sample_world sample_stuck)) c
     \<and> cl_phase c 0 = Leading \<and> cl_phase c 1 \<noteq> Leading"
proof -
  let ?c = "(cluster_start (sample_world sample_stuck))\<lparr>cl_lock := Some 0,
      cl_phase := (\<lambda>_. Waiting)(0 := Leading)\<rparr>"
  have "Run_step sample_cron sample_sched (cluster_start (sample_world sample_stuck)) ?c"
    using acquired [of "cluster_start (sample_world sample_stuck)" 0 sample_cron sample_sched]
    by (simp add: cluster_start_def)
  then have r: "(Run_step sample_cron sample_sched)\<^sup>*\<^sup>* (cluster_start (sample_world sample_stuck)) ?c"
    by (rule r_into_rtranclp)
  from single_leader [OF r, of 0 1] r show ?thesis by (intro exI [of _ ?c]) simp
qed

text \<open>When the session of the leader's lock breaks, a second instance takes the lock and both
  tick: the election does not guarantee one instance per cluster.\<close>

theorem lost_session_two_leaders:
  "\<exists>c c'. (Run_step cron s)\<^sup>*\<^sup>* (cluster_start w) c
     \<and> Run_step cron s (session_lost c) c' \<and> cl_phase c' 0 = Leading \<and> cl_phase c' 1 = Leading"
proof -
  let ?c = "(cluster_start w)\<lparr>cl_lock := Some 0, cl_phase := (\<lambda>_. Waiting)(0 := Leading)\<rparr>"
  let ?c' = "(session_lost ?c)\<lparr>cl_lock := Some 1,
      cl_phase := (\<lambda>_. Waiting)(0 := Leading, 1 := Leading)\<rparr>"
  have "Run_step cron s (cluster_start w) ?c"
    using acquired [of "cluster_start w" 0 cron s] by (simp add: cluster_start_def)
  moreover have "Run_step cron s (session_lost ?c) ?c'"
    using acquired [of "session_lost ?c" 1 cron s] by (simp add: session_lost_def)
  ultimately show ?thesis
    by (intro exI [of _ ?c] exI [of _ ?c']) (simp add: r_into_rtranclp)
qed

end
