(* ===== verification/Statements.thy ===== *)
theory Statements
  imports Lifecycle
begin

text \<open>
  Statements on the tables of devices, memberships, identities, certificates, files and agent
  versions.  As in \<open>Database\<close>, an INSERT checks the unique indexes and foreign keys
  of \<^verbatim>\<open>server/migrate/sql\<close>; a DELETE of a row that another table references fails, or
  cascades where the schema says so.
\<close>

section \<open>Devices and certificates\<close>

definition insert_device :: "device_row \<Rightarrow> unit stmt" where
  "insert_device r d =
    constrained (d_id r \<notin> set (map d_id (db_devices d)))
      (d_tenant_id r \<in> set (map t_id (db_tenants d)))
      (d\<lparr>db_devices := db_devices d @ [r]\<rparr>)"

definition insert_cert :: "cert_row \<Rightarrow> unit stmt" where
  "insert_cert r d =
    constrained (c_id r \<notin> set (map c_id (db_agent_certificates d))
        \<and> c_serial_number r \<notin> set (map c_serial_number (db_agent_certificates d))
        \<and> c_fingerprint r \<notin> set (map c_fingerprint (db_agent_certificates d)))
      (c_device_id r \<in> set (map d_id (db_devices d)))
      (d\<lparr>db_agent_certificates := db_agent_certificates d @ [r]\<rparr>)"

definition update_certs :: "(cert_row \<Rightarrow> bool) \<Rightarrow> (cert_row \<Rightarrow> cert_row) \<Rightarrow> nat stmt" where
  "update_certs P f d =
     Inr (rows_affected P (db_agent_certificates d),
          d\<lparr>db_agent_certificates := update_rows P f (db_agent_certificates d)\<rparr>)"

section \<open>Enrollment tokens\<close>

definition insert_token :: "enrollment_token_row \<Rightarrow> unit stmt" where
  "insert_token r d =
    constrained (et_id r \<notin> set (map et_id (db_enrollment_tokens d))
        \<and> et_token_hash r \<notin> set (map et_token_hash (db_enrollment_tokens d)))
      (et_tenant_id r \<in> set (map t_id (db_tenants d)) \<and> et_created_by r \<in> set (map u_ID (db_users d)))
      (d\<lparr>db_enrollment_tokens := db_enrollment_tokens d @ [r]\<rparr>)"

text \<open>An UPDATE with RETURNING read by \<^verbatim>\<open>QueryRow\<close>: every matching row is updated and the
  first one is returned as updated.\<close>

definition update_token_returning ::
  "(enrollment_token_row \<Rightarrow> bool) \<Rightarrow> (enrollment_token_row \<Rightarrow> enrollment_token_row)
     \<Rightarrow> enrollment_token_row stmt" where
  "update_token_returning P f d =
    (case find_row P (db_enrollment_tokens d) of
       None \<Rightarrow> Inl ErrNoRows
     | Some r \<Rightarrow> Inr (f r, d\<lparr>db_enrollment_tokens := update_rows P f (db_enrollment_tokens d)\<rparr>))"

section \<open>Groups, tags, sites and memberships\<close>

datatype membership = Groups | Tags | Sites

fun members :: "membership \<Rightarrow> db \<Rightarrow> (id \<times> id) list" where
  "members Groups d = db_device_groups d"
| "members Tags d = db_device_tags d"
| "members Sites d = db_device_sites d"

fun set_members :: "membership \<Rightarrow> (id \<times> id) list \<Rightarrow> db \<Rightarrow> db" where
  "set_members Groups ms d = d\<lparr>db_device_groups := ms\<rparr>"
| "set_members Tags ms d = d\<lparr>db_device_tags := ms\<rparr>"
| "set_members Sites ms d = d\<lparr>db_device_sites := ms\<rparr>"

text \<open>The identifiers and tenants of the parent rows.\<close>

fun owners :: "membership \<Rightarrow> db \<Rightarrow> (id \<times> id) list" where
  "owners Groups d = map (\<lambda>r. (n_id r, n_tenant_id r)) (db_groups d)"
| "owners Tags d = map (\<lambda>r. (n_id r, n_tenant_id r)) (db_tags d)"
| "owners Sites d = map (\<lambda>r. (n_id r, n_tenant_id r)) (db_sites d)"

text \<open>\<^verbatim>\<open>INSERT INTO device_groups (device_id, group_id) VALUES ... ON CONFLICT DO NOTHING\<close>:
  the number of rows inserted.\<close>

definition insert_member :: "membership \<Rightarrow> id \<Rightarrow> id \<Rightarrow> nat stmt" where
  "insert_member m dev g d =
    (if (dev, g) \<in> set (members m d) then Inr (0, d)
     else if dev \<in> set (map d_id (db_devices d)) \<and> g \<in> set (map fst (owners m d))
       then Inr (1, set_members m (members m d @ [(dev, g)]) d)
     else Inl ErrForeignKey)"

text \<open>\<^verbatim>\<open>INSERT ... SELECT $1, $2 WHERE EXISTS (SELECT 1 FROM groups WHERE id = $2 AND tenant_id =
  $3) ON CONFLICT DO NOTHING\<close>\<close>

definition insert_member_if_owned :: "membership \<Rightarrow> id \<Rightarrow> id \<Rightarrow> id \<Rightarrow> nat stmt" where
  "insert_member_if_owned m dev g tenantID d =
    (if (g, tenantID) \<in> set (owners m d) then insert_member m dev g d else Inr (0, d))"

definition delete_member :: "membership \<Rightarrow> id \<Rightarrow> id \<Rightarrow> nat stmt" where
  "delete_member m dev g d =
     Inr (rows_affected (\<lambda>x. x = (dev, g)) (members m d),
          set_members m (delete_rows (\<lambda>x. x = (dev, g)) (members m d)) d)"

definition insert_group :: "named_row \<Rightarrow> unit stmt" where
  "insert_group r d =
    constrained (n_id r \<notin> set (map n_id (db_groups d))) (n_tenant_id r \<in> set (map t_id (db_tenants d)))
      (d\<lparr>db_groups := db_groups d @ [r]\<rparr>)"

definition update_groups :: "(named_row \<Rightarrow> bool) \<Rightarrow> (named_row \<Rightarrow> named_row) \<Rightarrow> nat stmt" where
  "update_groups P f d =
     Inr (rows_affected P (db_groups d), d\<lparr>db_groups := update_rows P f (db_groups d)\<rparr>)"

text \<open>Memberships cascade; a policy that refers to the group blocks the deletion.\<close>

definition delete_groups :: "(named_row \<Rightarrow> bool) \<Rightarrow> nat stmt" where
  "delete_groups P d =
    (let gone = map n_id (filter P (db_groups d)) in
     if list_ex (\<lambda>p. case pol_group_id p of None \<Rightarrow> False | Some g \<Rightarrow> g \<in> set gone) (db_update_policies d)
     then Inl ErrForeignKey
     else Inr (length gone,
       d\<lparr>db_groups := delete_rows P (db_groups d),
         db_device_groups := delete_rows (\<lambda>x. snd x \<in> set gone) (db_device_groups d)\<rparr>))"

definition insert_tag :: "named_row \<Rightarrow> unit stmt" where
  "insert_tag r d =
    constrained (n_id r \<notin> set (map n_id (db_tags d))) (n_tenant_id r \<in> set (map t_id (db_tenants d)))
      (d\<lparr>db_tags := db_tags d @ [r]\<rparr>)"

definition delete_tags :: "(named_row \<Rightarrow> bool) \<Rightarrow> nat stmt" where
  "delete_tags P d =
    (let gone = map n_id (filter P (db_tags d)) in
     Inr (length gone,
       d\<lparr>db_tags := delete_rows P (db_tags d),
         db_device_tags := delete_rows (\<lambda>x. snd x \<in> set gone) (db_device_tags d)\<rparr>))"

definition insert_site :: "site_row \<Rightarrow> unit stmt" where
  "insert_site r d =
    constrained (n_id r \<notin> set (map n_id (db_sites d))) (n_tenant_id r \<in> set (map t_id (db_tenants d)))
      (d\<lparr>db_sites := db_sites d @ [r]\<rparr>)"

definition update_sites :: "(site_row \<Rightarrow> bool) \<Rightarrow> (site_row \<Rightarrow> site_row) \<Rightarrow> nat stmt" where
  "update_sites P f d =
     Inr (rows_affected P (db_sites d), d\<lparr>db_sites := update_rows P f (db_sites d)\<rparr>)"

definition delete_sites :: "(site_row \<Rightarrow> bool) \<Rightarrow> nat stmt" where
  "delete_sites P d =
    (let gone = map n_id (filter P (db_sites d)) in
     Inr (length gone,
       d\<lparr>db_sites := delete_rows P (db_sites d),
         db_device_sites := delete_rows (\<lambda>x. snd x \<in> set gone) (db_device_sites d)\<rparr>))"

section \<open>Tenants, users, roles, API keys\<close>

definition update_tenants :: "(tenant_row \<Rightarrow> bool) \<Rightarrow> (tenant_row \<Rightarrow> tenant_row) \<Rightarrow> nat stmt" where
  "update_tenants P f d =
     Inr (rows_affected P (db_tenants d), d\<lparr>db_tenants := update_rows P f (db_tenants d)\<rparr>)"

text \<open>The unique index on \<^verbatim>\<open>sso_subject\<close> ignores NULL.\<close>

definition users_ok :: "User list \<Rightarrow> bool" where
  "users_ok us \<longleftrightarrow> distinct (map the (filter (\<lambda>s. s \<noteq> None) (map u_SSOSubject us)))"

definition insert_user :: "User \<Rightarrow> unit stmt" where
  "insert_user u d =
    constrained (u_ID u \<notin> set (map u_ID (db_users d)) \<and> users_ok (db_users d @ [u]))
      (u_TenantID u \<in> set (map t_id (db_tenants d)) \<and> references (u_RoleID u) (map rl_id (db_roles d)))
      (d\<lparr>db_users := db_users d @ [u]\<rparr>)"

definition update_users :: "(User \<Rightarrow> bool) \<Rightarrow> (User \<Rightarrow> User) \<Rightarrow> nat stmt" where
  "update_users P f d =
    (let us = update_rows P f (db_users d) in
     if \<not> users_ok us then Inl ErrUnique
     else if \<not> list_all (\<lambda>u. P u \<longrightarrow> references (u_RoleID (f u)) (map rl_id (db_roles d))) (db_users d)
       then Inl ErrForeignKey
     else Inr (rows_affected P (db_users d), d\<lparr>db_users := us\<rparr>))"

definition insert_role :: "role_row \<Rightarrow> unit stmt" where
  "insert_role r d =
    constrained (rl_id r \<notin> set (map rl_id (db_roles d)))
      (references (rl_tenant_id r) (map t_id (db_tenants d)))
      (d\<lparr>db_roles := db_roles d @ [r]\<rparr>)"

definition update_roles :: "(role_row \<Rightarrow> bool) \<Rightarrow> (role_row \<Rightarrow> role_row) \<Rightarrow> nat stmt" where
  "update_roles P f d =
     Inr (rows_affected P (db_roles d), d\<lparr>db_roles := update_rows P f (db_roles d)\<rparr>)"

definition delete_roles :: "(role_row \<Rightarrow> bool) \<Rightarrow> nat stmt" where
  "delete_roles P d =
    (let gone = map rl_id (filter P (db_roles d)) in
     if list_ex (\<lambda>r. case r of None \<Rightarrow> False | Some x \<Rightarrow> x \<in> set gone)
          (map u_RoleID (db_users d) @ map k_role_id (db_api_keys d))
     then Inl ErrForeignKey
     else Inr (length gone, d\<lparr>db_roles := delete_rows P (db_roles d)\<rparr>))"

definition insert_api_key :: "api_key_row \<Rightarrow> unit stmt" where
  "insert_api_key r d =
    constrained (k_id r \<notin> set (map k_id (db_api_keys d)))
      (k_tenant_id r \<in> set (map t_id (db_tenants d))
        \<and> references (k_user_id r) (map u_ID (db_users d))
        \<and> references (k_role_id r) (map rl_id (db_roles d)))
      (d\<lparr>db_api_keys := db_api_keys d @ [r]\<rparr>)"

definition update_api_keys :: "(api_key_row \<Rightarrow> bool) \<Rightarrow> (api_key_row \<Rightarrow> api_key_row) \<Rightarrow> nat stmt" where
  "update_api_keys P f d =
     Inr (rows_affected P (db_api_keys d), d\<lparr>db_api_keys := update_rows P f (db_api_keys d)\<rparr>)"

definition delete_api_keys :: "(api_key_row \<Rightarrow> bool) \<Rightarrow> nat stmt" where
  "delete_api_keys P d =
     Inr (rows_affected P (db_api_keys d), d\<lparr>db_api_keys := delete_rows P (db_api_keys d)\<rparr>)"

section \<open>Signing keys, files, uploads, logs\<close>

definition insert_signing_key :: "SigningKey \<Rightarrow> unit stmt" where
  "insert_signing_key r d =
    constrained (sk_ID r \<notin> set (map sk_ID (db_signing_keys d)))
      (sk_TenantID r \<in> set (map t_id (db_tenants d)) \<and> references (sk_CreatedBy r) (map u_ID (db_users d)))
      (d\<lparr>db_signing_keys := db_signing_keys d @ [r]\<rparr>)"

definition delete_signing_keys :: "(SigningKey \<Rightarrow> bool) \<Rightarrow> nat stmt" where
  "delete_signing_keys P d =
    (let gone = map sk_ID (filter P (db_signing_keys d)) in
     if list_ex (\<lambda>r. case f_signature_key_id r of None \<Rightarrow> False | Some x \<Rightarrow> x \<in> set gone) (db_files d)
        \<or> list_ex (\<lambda>b. avb_SignatureKeyID b \<in> set gone) (db_version_binaries d)
        \<or> list_ex (\<lambda>i. ins_signature_key_id i \<in> set gone) (db_installers d)
     then Inl ErrForeignKey
     else Inr (length gone, d\<lparr>db_signing_keys := delete_rows P (db_signing_keys d)\<rparr>))"

definition insert_file :: "file_row \<Rightarrow> unit stmt" where
  "insert_file r d =
    constrained (f_id r \<notin> set (map f_id (db_files d)))
      (f_tenant_id r \<in> set (map t_id (db_tenants d))
        \<and> references (f_signature_key_id r) (map sk_ID (db_signing_keys d))
        \<and> references (f_created_by r) (map u_ID (db_users d)))
      (d\<lparr>db_files := db_files d @ [r]\<rparr>)"

definition update_files :: "(file_row \<Rightarrow> bool) \<Rightarrow> (file_row \<Rightarrow> file_row) \<Rightarrow> nat stmt" where
  "update_files P f d =
     Inr (rows_affected P (db_files d), d\<lparr>db_files := update_rows P f (db_files d)\<rparr>)"

text \<open>Uploads cascade; a published binary or installer blocks the deletion.\<close>

definition delete_files :: "(file_row \<Rightarrow> bool) \<Rightarrow> nat stmt" where
  "delete_files P d =
    (let gone = map f_id (filter P (db_files d)) in
     if list_ex (\<lambda>b. avb_FileID b \<in> set gone) (db_version_binaries d)
        \<or> list_ex (\<lambda>i. ins_file_id i \<in> set gone) (db_installers d)
     then Inl ErrForeignKey
     else Inr (length gone,
       d\<lparr>db_files := delete_rows P (db_files d),
         db_file_uploads := delete_rows (\<lambda>u. up_file_id u \<in> set gone) (db_file_uploads d)\<rparr>))"

definition insert_upload :: "file_upload_row \<Rightarrow> unit stmt" where
  "insert_upload r d =
    constrained (up_id r \<notin> set (map up_id (db_file_uploads d)))
      (up_file_id r \<in> set (map f_id (db_files d)) \<and> up_tenant_id r \<in> set (map t_id (db_tenants d)))
      (d\<lparr>db_file_uploads := db_file_uploads d @ [r]\<rparr>)"

definition update_uploads ::
  "(file_upload_row \<Rightarrow> bool) \<Rightarrow> (file_upload_row \<Rightarrow> file_upload_row) \<Rightarrow> nat stmt" where
  "update_uploads P f d =
     Inr (rows_affected P (db_file_uploads d),
          d\<lparr>db_file_uploads := update_rows P f (db_file_uploads d)\<rparr>)"

definition insert_device_log :: "device_log_row \<Rightarrow> unit stmt" where
  "insert_device_log r d =
    constrained (dl_id r \<notin> set (map dl_id (db_device_logs d)))
      (dl_tenant_id r \<in> set (map t_id (db_tenants d)) \<and> dl_device_id r \<in> set (map d_id (db_devices d)))
      (d\<lparr>db_device_logs := db_device_logs d @ [r]\<rparr>)"

lemmas statement_defs =
  insert_device_def insert_cert_def update_certs_def insert_token_def update_token_returning_def
  insert_group_def update_groups_def delete_groups_def insert_tag_def delete_tags_def
  insert_site_def update_sites_def delete_sites_def update_tenants_def insert_user_def
  update_users_def insert_role_def update_roles_def delete_roles_def insert_api_key_def
  update_api_keys_def delete_api_keys_def insert_signing_key_def delete_signing_keys_def
  insert_file_def update_files_def delete_files_def insert_upload_def update_uploads_def
  insert_device_log_def

lemma set_members_simps [simp]:
  "db_jobs (set_members m ms d) = db_jobs d" "db_devices (set_members m ms d) = db_devices d"
  "db_agent_certificates (set_members m ms d) = db_agent_certificates d"
  "db_enrollment_tokens (set_members m ms d) = db_enrollment_tokens d"
  "db_users (set_members m ms d) = db_users d" "db_tenants (set_members m ms d) = db_tenants d"
  "owners k (set_members m ms d) = owners k d"
  "members k (set_members m ms d) = (if k = m then ms else members k d)"
  by (cases m; cases k; simp)+

text \<open>Two databases that agree on what a function reads; an audit entry changes none of it.\<close>

locale projection =
  fixes \<pi> :: "db \<Rightarrow> 'v"
  assumes audit_irrelevant: "\<pi> (d\<lparr>db_audit_log := l\<rparr>) = \<pi> d"

sublocale projection \<subseteq> audited_contract "\<lambda>d d'. \<pi> d' = \<pi> d"
  by unfold_locales (auto simp: insert_audit_def audit_irrelevant)

text \<open>An invariant of the database is a contract as well.\<close>

definition preserves :: "(db \<Rightarrow> bool) \<Rightarrow> db \<Rightarrow> db \<Rightarrow> bool" where
  "preserves I d d' \<longleftrightarrow> (I d \<longrightarrow> I d')"

lemma preservesI: "(I d \<Longrightarrow> I d') \<Longrightarrow> preserves I d d'"
  by (simp add: preserves_def)

locale invariant =
  fixes I :: "db \<Rightarrow> bool"
  assumes audit_keeps: "I d \<Longrightarrow> I (d\<lparr>db_audit_log := l\<rparr>)"

sublocale invariant \<subseteq> audited_contract "preserves I"
  by unfold_locales (auto simp: insert_audit_def preserves_def audit_keeps)

text \<open>What an agent's identity depends on.\<close>

definition identity_tables ::
  "db \<Rightarrow> device_row list \<times> cert_row list \<times> (id \<times> id) list list" where
  "identity_tables d = (db_devices d, db_agent_certificates d, map (\<lambda>m. members m d) [Groups, Tags, Sites])"

interpretation identity: projection identity_tables
  by unfold_locales (simp add: identity_tables_def)

lemma identity_tablesD:
  assumes "identity_tables d' = identity_tables d"
  shows "db_devices d' = db_devices d" "db_agent_certificates d' = db_agent_certificates d"
    "members m d' = members m d"
  using assms by (cases m; auto simp: identity_tables_def)+

text \<open>None of them touches the jobs.\<close>

lemma same_jobs_statements:
  "insert_device r1 d = Inr (x1, d') \<Longrightarrow> db_jobs d' = db_jobs d"
  "insert_cert r2 d = Inr (x2, d') \<Longrightarrow> db_jobs d' = db_jobs d"
  "update_certs P3 f3 d = Inr (x3, d') \<Longrightarrow> db_jobs d' = db_jobs d"
  "insert_token r4 d = Inr (x4, d') \<Longrightarrow> db_jobs d' = db_jobs d"
  "update_token_returning P5 f5 d = Inr (x5, d') \<Longrightarrow> db_jobs d' = db_jobs d"
  "insert_group r6 d = Inr (x6, d') \<Longrightarrow> db_jobs d' = db_jobs d"
  "update_groups P7 f7 d = Inr (x7, d') \<Longrightarrow> db_jobs d' = db_jobs d"
  "delete_groups P8 d = Inr (x8, d') \<Longrightarrow> db_jobs d' = db_jobs d"
  "insert_tag r9 d = Inr (x9, d') \<Longrightarrow> db_jobs d' = db_jobs d"
  "delete_tags P10 d = Inr (x10, d') \<Longrightarrow> db_jobs d' = db_jobs d"
  "insert_site r11 d = Inr (x11, d') \<Longrightarrow> db_jobs d' = db_jobs d"
  "update_sites P12 f12 d = Inr (x12, d') \<Longrightarrow> db_jobs d' = db_jobs d"
  "delete_sites P13 d = Inr (x13, d') \<Longrightarrow> db_jobs d' = db_jobs d"
  "update_tenants P14 f14 d = Inr (x14, d') \<Longrightarrow> db_jobs d' = db_jobs d"
  "insert_user r15 d = Inr (x15, d') \<Longrightarrow> db_jobs d' = db_jobs d"
  "update_users P16 f16 d = Inr (x16, d') \<Longrightarrow> db_jobs d' = db_jobs d"
  "insert_role r17 d = Inr (x17, d') \<Longrightarrow> db_jobs d' = db_jobs d"
  "update_roles P18 f18 d = Inr (x18, d') \<Longrightarrow> db_jobs d' = db_jobs d"
  "delete_roles P19 d = Inr (x19, d') \<Longrightarrow> db_jobs d' = db_jobs d"
  "insert_api_key r20 d = Inr (x20, d') \<Longrightarrow> db_jobs d' = db_jobs d"
  "update_api_keys P21 f21 d = Inr (x21, d') \<Longrightarrow> db_jobs d' = db_jobs d"
  "delete_api_keys P22 d = Inr (x22, d') \<Longrightarrow> db_jobs d' = db_jobs d"
  "insert_signing_key r23 d = Inr (x23, d') \<Longrightarrow> db_jobs d' = db_jobs d"
  "delete_signing_keys P24 d = Inr (x24, d') \<Longrightarrow> db_jobs d' = db_jobs d"
  "insert_file r25 d = Inr (x25, d') \<Longrightarrow> db_jobs d' = db_jobs d"
  "update_files P26 f26 d = Inr (x26, d') \<Longrightarrow> db_jobs d' = db_jobs d"
  "delete_files P27 d = Inr (x27, d') \<Longrightarrow> db_jobs d' = db_jobs d"
  "insert_upload r28 d = Inr (x28, d') \<Longrightarrow> db_jobs d' = db_jobs d"
  "update_uploads P29 f29 d = Inr (x29, d') \<Longrightarrow> db_jobs d' = db_jobs d"
  "insert_device_log r30 d = Inr (x30, d') \<Longrightarrow> db_jobs d' = db_jobs d"
  "insert_member m31 dev g d = Inr (x31, d') \<Longrightarrow> db_jobs d' = db_jobs d"
  "insert_member_if_owned m32 dev g t d = Inr (x32, d') \<Longrightarrow> db_jobs d' = db_jobs d"
  "delete_member m33 dev g d = Inr (x33, d') \<Longrightarrow> db_jobs d' = db_jobs d"
  by (auto simp: statement_defs insert_member_def insert_member_if_owned_def delete_member_def
      Let_def split: if_splits option.splits)

end
