(* ===== verification/Crypto.thy ===== *)
theory Crypto
  imports Prelude
begin

text \<open>
  The parts of Go's standard library the authentication code computes with: SHA-256
  (\<^verbatim>\<open>crypto/sha256\<close>) on 32-bit words, and the decoding
  of query strings (\<^verbatim>\<open>net/url.QueryUnescape\<close>).
\<close>

unbundle bit_operations_syntax

section \<open>SHA-256\<close>

text \<open>The constants are the leading fractional bits of the roots of the first primes: the \<open>k\<close>-th
  root of \<open>n\<close>, rounded down, is found bit by bit, and truncation to 32 bits drops the integer part.\<close>

fun root_below :: "nat \<Rightarrow> nat \<Rightarrow> nat \<Rightarrow> nat \<Rightarrow> nat" where
  "root_below k n 0 r = r"
| "root_below k n (Suc b) r = root_below k n b (if (r + 2 ^ b) ^ k \<le> n then r + 2 ^ b else r)"

definition sha_primes :: "nat list" where
  "sha_primes = filter (\<lambda>n. list_all (\<lambda>m. n mod m \<noteq> 0) [2..<n]) [2..<312]"

definition sha_K :: "32 word list" where
  "sha_K = map (\<lambda>p. of_nat (root_below 3 (p * 2 ^ 96) 36 0)) sha_primes"

definition sha_init :: "32 word list" where
  "sha_init = map (\<lambda>p. of_nat (root_below 2 (p * 2 ^ 64) 36 0)) (take 8 sha_primes)"

definition sha_pad :: "byte list \<Rightarrow> byte list" where
  "sha_pad msg =
    (let n = length msg in
     msg @ [0x80] @ replicate ((119 - n mod 64) mod 64) 0 @
     map (\<lambda>i. of_nat (8 * n div 256 ^ (7 - i))) [0..<8])"

fun be_words :: "byte list \<Rightarrow> 32 word list" where
  "be_words (a # b # c # d # bs) =
     (push_bit 24 (ucast a) OR push_bit 16 (ucast b) OR push_bit 8 (ucast c) OR ucast d) # be_words bs"
| "be_words _ = []"

definition small_sigma0 :: "32 word \<Rightarrow> 32 word" where
  "small_sigma0 x = word_rotr 7 x XOR word_rotr 18 x XOR drop_bit 3 x"

definition small_sigma1 :: "32 word \<Rightarrow> 32 word" where
  "small_sigma1 x = word_rotr 17 x XOR word_rotr 19 x XOR drop_bit 10 x"

fun sha_extend :: "nat \<Rightarrow> 32 word list \<Rightarrow> 32 word list" where
  "sha_extend 0 ws = ws"
| "sha_extend (Suc n) ws =
    (let t = length ws in
     sha_extend n (ws @ [small_sigma1 (ws ! (t - 2)) + ws ! (t - 7)
        + small_sigma0 (ws ! (t - 15)) + ws ! (t - 16)]))"

fun sha_round :: "32 word \<times> 32 word \<Rightarrow> 32 word list \<Rightarrow> 32 word list" where
  "sha_round (k, w) [a, b, c, d, e, f, g, h] =
    (let t1 = h + (word_rotr 6 e XOR word_rotr 11 e XOR word_rotr 25 e)
           + ((e AND f) XOR (NOT e AND g)) + k + w;
         t2 = (word_rotr 2 a XOR word_rotr 13 a XOR word_rotr 22 a)
           + ((a AND b) XOR (a AND c) XOR (b AND c)) in
     [t1 + t2, a, b, c, d + t1, e, f, g])"
| "sha_round _ st = st"

definition sha_block :: "byte list \<Rightarrow> 32 word list \<Rightarrow> 32 word list" where
  "sha_block blk st = map2 (+) st (fold sha_round (zip sha_K (sha_extend 48 (be_words blk))) st)"

fun sha_blocks :: "nat \<Rightarrow> byte list \<Rightarrow> 32 word list \<Rightarrow> 32 word list" where
  "sha_blocks 0 bs st = st"
| "sha_blocks (Suc n) bs st = sha_blocks n (drop 64 bs) (sha_block (take 64 bs) st)"

definition be_bytes :: "32 word \<Rightarrow> byte list" where
  "be_bytes w = [ucast (drop_bit 24 w), ucast (drop_bit 16 w), ucast (drop_bit 8 w), ucast w]"

definition Sum256 :: "byte list \<Rightarrow> byte list" where
  "Sum256 msg = (let p = sha_pad msg in
     concat (map be_bytes (sha_blocks (length p div 64) p sha_init)))"

definition bytes_of :: "string \<Rightarrow> byte list" where
  "bytes_of s = map (\<lambda>c. of_nat (of_char c)) s"

lemma sha_primes_8: "8 \<le> length sha_primes"
proof -
  let ?P = "\<lambda>n. list_all (\<lambda>m. n mod m \<noteq> 0) [2..<n::nat]"
  have "[2..<20 + 292] = [2..<20] @ [20..<20 + 292::nat]" by (rule upt_add_eq_append) simp
  moreover have "(312::nat) = 20 + 292" by simp
  moreover have "length (filter ?P [2..<20]) = 8" by code_simp
  ultimately show ?thesis
    unfolding sha_primes_def by (simp only: filter_append length_append le_add1)
qed

text \<open>The padded message is a whole number of blocks and a digest has 32 bytes.\<close>

lemma pad_to_64:
  fixes q r :: nat
  assumes "r < 64"
  shows "(64 * q + r + (119 - r) mod 64 + 9) mod 64 = 0"
proof (cases "r \<le> 55")
  case True
  then have "119 - r = (55 - r) + 64" by simp
  then have "(119 - r) mod 64 = 55 - r" using True by (simp only: mod_add_self2 mod_less)
  then have "64 * q + r + (119 - r) mod 64 + 9 = 64 * (q + 1)" using True by simp
  then show ?thesis by (simp only: mod_mult_self1_is_0)
next
  case False
  then have "64 * q + r + (119 - r) mod 64 + 9 = 64 * (q + 2)" using assms by simp
  then show ?thesis by (simp only: mod_mult_self1_is_0)
qed

lemma length_sha_pad: "length (sha_pad msg) mod 64 = 0"
proof -
  let ?n = "length msg"
  have "(64 * (?n div 64) + ?n mod 64 + (119 - ?n mod 64) mod 64 + 9) mod 64 = 0"
    by (rule pad_to_64) simp
  then have "(?n + (119 - ?n mod 64) mod 64 + 9) mod 64 = 0"
    by (simp only: mult_div_mod_eq)
  moreover have "length (sha_pad msg) = ?n + (119 - ?n mod 64) mod 64 + 9"
    by (simp add: sha_pad_def Let_def)
  ultimately show ?thesis by (simp only:)
qed

lemma length_sha_round: "length (sha_round kw st) = length st"
  by (induction kw st rule: sha_round.induct) (simp_all add: Let_def)

lemma length_fold_sha_round: "length (fold sha_round kws st) = length st"
  by (induction kws arbitrary: st) (simp_all add: length_sha_round)

lemma length_sha_blocks: "length (sha_blocks n bs st) = length st"
  by (induction n arbitrary: bs st) (simp_all add: sha_block_def length_fold_sha_round)

lemma length_Sum256 [simp]: "length (Sum256 msg) = 32"
proof -
  have "length (sha_blocks n p sha_init) = 8" for n p
    using sha_primes_8 by (simp add: length_sha_blocks sha_init_def)
  moreover have "length (concat (map be_bytes ws)) = 4 * length ws" for ws
    by (induction ws) (simp_all add: be_bytes_def)
  ultimately show ?thesis by (simp add: Sum256_def Let_def)
qed

section \<open>Query strings\<close>

definition unhex :: "char \<Rightarrow> nat option" where
  "unhex c =
    (let n = of_char c :: nat in
     if 48 \<le> n \<and> n \<le> 57 then Some (n - 48)
     else if 97 \<le> n \<and> n \<le> 102 then Some (n - 97 + 10)
     else if 65 \<le> n \<and> n \<le> 70 then Some (n - 65 + 10)
     else None)"

fun QueryUnescape :: "string \<Rightarrow> string option" where
  "QueryUnescape [] = Some []"
| "QueryUnescape (c # cs) =
    (if c = CHR ''%'' then
       (case cs of
          x # y # rest \<Rightarrow>
            (case (unhex x, unhex y) of
               (Some a, Some b) \<Rightarrow> map_option ((#) (char_of (16 * a + b))) (QueryUnescape rest)
             | _ \<Rightarrow> None)
        | _ \<Rightarrow> None)
     else if c = CHR ''+'' then map_option ((#) (CHR '' '')) (QueryUnescape cs)
     else map_option ((#) c) (QueryUnescape cs))"

text \<open>Text without a percent sign always decodes, and every plus sign becomes a space.\<close>

lemma QueryUnescape_plus:
  "CHR ''%'' \<notin> set s \<Longrightarrow>
     QueryUnescape s = Some (map (\<lambda>c. if c = CHR ''+'' then CHR '' '' else c) s)"
  by (induction s) auto

section \<open>Base64 (encoding/base64.StdEncoding)\<close>

definition b64_alphabet :: string where
  "b64_alphabet = ''ABCDEFGHIJKLMNOPQRSTUVWXYZabcdefghijklmnopqrstuvwxyz0123456789+/''"

definition b64_char :: "nat \<Rightarrow> char" where
  "b64_char n = b64_alphabet ! n"

definition b64_value :: "char \<Rightarrow> nat option" where
  "b64_value c = find (\<lambda>n. b64_alphabet ! n = c) [0..<64]"

fun base64_encode :: "byte list \<Rightarrow> string" where
  "base64_encode [] = []"
| "base64_encode [a] = (let x = unat a in [b64_char (x div 4), b64_char (x mod 4 * 16), CHR ''='', CHR ''=''])"
| "base64_encode [a, b] = (let x = unat a; y = unat b in
     [b64_char (x div 4), b64_char (x mod 4 * 16 + y div 16), b64_char (y mod 16 * 4), CHR ''=''])"
| "base64_encode (a # b # c # bs) = (let x = unat a; y = unat b; z = unat c in
     b64_char (x div 4) # b64_char (x mod 4 * 16 + y div 16) # b64_char (y mod 16 * 4 + z div 64)
       # b64_char (z mod 64) # base64_encode bs)"

text \<open>Line breaks are skipped; the last group may be padded; the bits that padding drops are not
  checked.\<close>

fun b64_groups :: "string \<Rightarrow> byte list option" where
  "b64_groups [] = Some []"
| "b64_groups (p # q # r # s # cs) =
    (case (b64_value p, b64_value q) of
       (Some i, Some j) \<Rightarrow>
         (let a = of_nat (i * 4 + j div 16) in
          if r = CHR ''='' \<and> s = CHR ''='' \<and> cs = [] then Some [a]
          else case b64_value r of
            None \<Rightarrow> None
          | Some k \<Rightarrow>
            (let b = of_nat (j mod 16 * 16 + k div 4) in
             if s = CHR ''='' \<and> cs = [] then Some [a, b]
             else case (b64_value s, b64_groups cs) of
               (Some l, Some bs) \<Rightarrow> Some (a # b # of_nat (k mod 4 * 64 + l) # bs)
             | _ \<Rightarrow> None))
     | _ \<Rightarrow> None)"
| "b64_groups _ = None"

definition base64_decode :: "string \<Rightarrow> byte list option" where
  "base64_decode s = b64_groups (filter (\<lambda>c. c \<noteq> CHR 0x0D \<and> c \<noteq> CHR 0x0A) s)"

lemma b64_value_char: "n < 64 \<Longrightarrow> b64_value (b64_char n) = Some n"
proof -
  have "list_all (\<lambda>n. b64_value (b64_char n) = Some n) [0..<64]" by code_simp
  then show "n < 64 \<Longrightarrow> ?thesis" by (simp add: list_all_iff)
qed

lemma b64_char_plain: "n < 64 \<Longrightarrow> b64_char n \<noteq> CHR ''='' \<and> b64_char n \<noteq> CHR 0x0D \<and> b64_char n \<noteq> CHR 0x0A"
proof -
  have "list_all (\<lambda>n. b64_char n \<noteq> CHR ''='' \<and> b64_char n \<noteq> CHR 0x0D \<and> b64_char n \<noteq> CHR 0x0A) [0..<64]"
    by code_simp
  then show "n < 64 \<Longrightarrow> ?thesis" by (simp add: list_all_iff)
qed

lemma byte_bound: "unat (a :: byte) < 256"
  using unsigned_less [of a, where 'a = nat] by simp

lemma b64_bounds:
  "unat (a :: byte) div 4 < 64" "x mod 4 * 16 + unat (b :: byte) div 16 < 64" "x mod 4 * 16 < 64"
  "y mod 16 * 4 + unat (c :: byte) div 64 < 64" "y mod 16 * 4 < 64" "z mod 64 < 64" for x y z :: nat
proof -
  have d: "unat a div 4 < 64" "unat b div 16 < 16" "unat c div 64 < 4"
    using byte_bound by (simp_all add: less_mult_imp_div_less)
  have "x mod 4 < 4" "y mod 16 < 16" "z mod 64 < 64" by simp_all
  with d show "unat a div 4 < 64" "x mod 4 * 16 + unat b div 16 < 64" "x mod 4 * 16 < 64"
    "y mod 16 * 4 + unat c div 64 < 64" "y mod 16 * 4 < 64" "z mod 64 < 64" by linarith+
qed

lemma b64_join:
  fixes x y z :: nat
  assumes "y < 256" "z < 256"
  shows "x div 4 * 4 + (x mod 4 * 16 + y div 16) div 16 = x"
    and "(x mod 4 * 16 + y div 16) mod 16 * 16 + (y mod 16 * 4 + z div 64) div 4 = y"
    and "(x mod 4 * 16 + y div 16) mod 16 * 16 + y mod 16 = y"
    and "(y mod 16 * 4 + z div 64) mod 4 * 64 + z mod 64 = z"
proof -
  have d: "y div 16 < 16" "z div 64 < 4" using assms by (simp_all add: less_mult_imp_div_less)
  have "(x mod 4 * 16 + y div 16) div 16 = x mod 4" "(x mod 4 * 16 + y div 16) mod 16 = y div 16"
    "(y mod 16 * 4 + z div 64) div 4 = y mod 16" "(y mod 16 * 4 + z div 64) mod 4 = z div 64"
    using d by simp_all
  then show "x div 4 * 4 + (x mod 4 * 16 + y div 16) div 16 = x"
    "(x mod 4 * 16 + y div 16) mod 16 * 16 + (y mod 16 * 4 + z div 64) div 4 = y"
    "(x mod 4 * 16 + y div 16) mod 16 * 16 + y mod 16 = y"
    "(y mod 16 * 4 + z div 64) mod 4 * 64 + z mod 64 = z"
    by (simp_all only: div_mult_mod_eq)
qed

lemma of_nat_unat: "i = unat a \<Longrightarrow> (of_nat i :: byte) = a"
  by simp

lemma b64_groups_full:
  fixes a b c :: byte
  defines "x \<equiv> unat a" and "y \<equiv> unat b" and "z \<equiv> unat c"
  shows "b64_groups (b64_char (x div 4) # b64_char (x mod 4 * 16 + y div 16) # b64_char (y mod 16 * 4 + z div 64)
      # b64_char (z mod 64) # cs) = map_option (\<lambda>bs. a # b # c # bs) (b64_groups cs)"
proof -
  have lt: "y < 256" "z < 256" by (simp_all only: x_def y_def z_def byte_bound)
  have v: "b64_value (b64_char (x div 4)) = Some (x div 4)"
    "b64_value (b64_char (x mod 4 * 16 + y div 16)) = Some (x mod 4 * 16 + y div 16)"
    "b64_value (b64_char (y mod 16 * 4 + z div 64)) = Some (y mod 16 * 4 + z div 64)"
    "b64_value (b64_char (z mod 64)) = Some (z mod 64)"
    by (simp_all only: x_def y_def z_def b64_value_char b64_bounds)
  have p: "b64_char (y mod 16 * 4 + z div 64) \<noteq> CHR ''=''" "b64_char (z mod 64) \<noteq> CHR ''=''"
    using b64_char_plain b64_bounds(4) [of y c] b64_bounds(6) [of z] by (simp_all add: z_def)
  have j: "of_nat (x div 4 * 4 + (x mod 4 * 16 + y div 16) div 16) = a"
    "of_nat ((x mod 4 * 16 + y div 16) mod 16 * 16 + (y mod 16 * 4 + z div 64) div 4) = b"
    "of_nat ((y mod 16 * 4 + z div 64) mod 4 * 64 + z mod 64) = c"
    by (rule of_nat_unat, simp only: b64_join [OF lt] flip: x_def y_def z_def)+
  show ?thesis
    unfolding b64_groups.simps v option.case prod.case Let_def j
    by (cases "b64_groups cs") (simp_all add: p)
qed

lemma b64_groups_two:
  fixes a b :: byte
  defines "x \<equiv> unat a" and "y \<equiv> unat b"
  shows "b64_groups [b64_char (x div 4), b64_char (x mod 4 * 16 + y div 16), b64_char (y mod 16 * 4), CHR ''=''] = Some [a, b]"
proof -
  have lt: "y < 256" "0 < (256::nat)" by (simp_all only: y_def byte_bound)
  have v: "b64_value (b64_char (x div 4)) = Some (x div 4)"
    "b64_value (b64_char (x mod 4 * 16 + y div 16)) = Some (x mod 4 * 16 + y div 16)"
    "b64_value (b64_char (y mod 16 * 4)) = Some (y mod 16 * 4)"
    by (simp_all only: x_def y_def b64_value_char b64_bounds)
  have p: "b64_char (y mod 16 * 4) \<noteq> CHR ''=''" using b64_char_plain b64_bounds(5) [of y] by blast
  have "y mod 16 * 4 div 4 = y mod 16" by simp
  then have j: "of_nat (x div 4 * 4 + (x mod 4 * 16 + y div 16) div 16) = a"
    "of_nat ((x mod 4 * 16 + y div 16) mod 16 * 16 + y mod 16 * 4 div 4) = b"
    by (rule_tac of_nat_unat, simp only: b64_join [OF lt] flip: x_def y_def)+
  show ?thesis unfolding b64_groups.simps v option.case prod.case Let_def j by (simp add: p)
qed

lemma b64_groups_one:
  fixes a :: byte
  defines "x \<equiv> unat a"
  shows "b64_groups [b64_char (x div 4), b64_char (x mod 4 * 16), CHR ''='', CHR ''=''] = Some [a]"
proof -
  have v: "b64_value (b64_char (x div 4)) = Some (x div 4)" "b64_value (b64_char (x mod 4 * 16)) = Some (x mod 4 * 16)"
    by (simp_all only: x_def b64_value_char b64_bounds)
  have "x div 4 * 4 + x mod 4 * 16 div 16 = x" by simp
  then have j: "of_nat (x div 4 * 4 + x mod 4 * 16 div 16) = a" by (rule_tac of_nat_unat) (simp only: x_def)
  show ?thesis unfolding b64_groups.simps v option.case prod.case Let_def j by simp
qed

theorem base64_roundtrip: "base64_decode (base64_encode bs) = Some bs"
proof -
  have plain: "filter (\<lambda>c. c \<noteq> CHR 0x0D \<and> c \<noteq> CHR 0x0A) (base64_encode bs) = base64_encode bs"
    by (induction bs rule: base64_encode.induct) (simp_all add: Let_def b64_char_plain b64_bounds)
  have "b64_groups (base64_encode bs) = Some bs"
    by (induction bs rule: base64_encode.induct)
      (simp_all only: base64_encode.simps Let_def b64_groups_one b64_groups_two b64_groups_full
        b64_groups.simps(1) option.map)
  with plain show ?thesis by (simp add: base64_decode_def)
qed

end
