(* ===== verification/RateLimit.thy ===== *)
theory RateLimit
  imports Complex_Main Http Quota
begin

text \<open>
  The token buckets of \<^verbatim>\<open>server/ratelimit\<close>: the keyed limiter and the three
  middlewares that use it.  Tokens are rational numbers, so the rounding of
  \<^verbatim>\<open>float64\<close> is not modelled; a duration is a whole number of nanoseconds as in Go.

  A bucket that was idle for long is evicted and starts full again.  The abstraction
  \<open>level\<close> gives the tokens a key can use at a time, with or without a bucket; on it
  every request is a subtraction, and eviction cannot be observed.
\<close>

section \<open>Limiter (limiter.go)\<close>

record BucketConfig =
  bc_Rate :: rat
  bc_Burst :: int

record bucket =
  b_tokens :: rat
  b_lastTime :: time

record KeyedLimiter =
  kl_buckets :: "string \<Rightarrow> bucket option"
  kl_rate :: rat
  kl_burst :: rat
  kl_ttl :: time
  kl_calls :: int

definition NewKeyedLimiter :: "BucketConfig \<Rightarrow> time \<Rightarrow> KeyedLimiter" where
  "NewKeyedLimiter cfg cleanupTTL =
     \<lparr>kl_buckets = (\<lambda>_. None), kl_rate = bc_Rate cfg, kl_burst = of_int (bc_Burst cfg),
      kl_ttl = cleanupTTL, kl_calls = 0\<rparr>"

definition Seconds :: "time \<Rightarrow> rat" where
  "Seconds t = of_int t / of_int Second"

definition maybeCleanup :: "time \<Rightarrow> KeyedLimiter \<Rightarrow> KeyedLimiter" where
  "maybeCleanup now kl =
    (let calls = kl_calls kl + 1 in
     if calls < 1024 then kl\<lparr>kl_calls := calls\<rparr>
     else kl\<lparr>kl_calls := 0, kl_buckets := (\<lambda>k. case kl_buckets kl k of
         None \<Rightarrow> None
       | Some b \<Rightarrow> if b_lastTime b < now - kl_ttl kl then None else Some b)\<rparr>)"

definition refill :: "KeyedLimiter \<Rightarrow> time \<Rightarrow> bucket \<Rightarrow> rat" where
  "refill kl now b =
     min (kl_burst kl) (b_tokens b + Seconds (now - b_lastTime b) * kl_rate kl)"

definition Allow :: "string \<Rightarrow> time \<Rightarrow> KeyedLimiter \<Rightarrow> (bool \<times> time) \<times> KeyedLimiter" where
  "Allow key now kl =
    (let b = (case kl_buckets kl key of
           None \<Rightarrow> \<lparr>b_tokens = kl_burst kl, b_lastTime = now\<rparr> | Some b \<Rightarrow> b);
         tokens = refill kl now b in
     if tokens \<ge> 1 then
       ((True, 0), maybeCleanup now (kl\<lparr>kl_buckets := (kl_buckets kl)(key \<mapsto>
          \<lparr>b_tokens = tokens - 1, b_lastTime = now\<rparr>)\<rparr>))
     else
       ((False, \<lfloor>(1 - tokens) / kl_rate kl * of_int Second\<rfloor>),
        maybeCleanup now (kl\<lparr>kl_buckets := (kl_buckets kl)(key \<mapsto>
          \<lparr>b_tokens = tokens, b_lastTime = now\<rparr>)\<rparr>)))"

section \<open>Middlewares (middleware.go)\<close>

text \<open>\<^verbatim>\<open>net.SplitHostPort\<close>: \<open>None\<close> is any of its errors.\<close>

definition index_of :: "char \<Rightarrow> string \<Rightarrow> nat option" where
  "index_of c s = (if c \<in> set s then Some (length (takeWhile (\<lambda>x. x \<noteq> c) s)) else None)"

definition last_index_of :: "char \<Rightarrow> string \<Rightarrow> nat option" where
  "last_index_of c s = map_option (\<lambda>i. length s - 1 - i) (index_of c (rev s))"

definition SplitHostPort :: "string \<Rightarrow> (string \<times> string) option" where
  "SplitHostPort s =
    (case last_index_of (CHR '':'') s of
       None \<Rightarrow> None
     | Some i \<Rightarrow>
       if hd s = CHR ''['' then
         (case index_of (CHR '']'') s of
            None \<Rightarrow> None
          | Some e \<Rightarrow>
            if e + 1 \<noteq> i then None
            else if CHR ''['' \<in> set (drop 1 s) \<or> CHR '']'' \<in> set (drop (e + 1) s) then None
            else Some (drop 1 (take e s), drop (i + 1) s))
       else if CHR '':'' \<in> set (take i s) then None
       else if CHR ''['' \<in> set s \<or> CHR '']'' \<in> set s then None
       else Some (take i s, drop (i + 1) s))"

definition clientIP :: "string \<Rightarrow> string" where
  "clientIP remoteAddr =
    (case SplitHostPort remoteAddr of None \<Rightarrow> remoteAddr | Some (host, _) \<Rightarrow> host)"

text \<open>The header \<^verbatim>\<open>Retry-After\<close> of a rejection and the message of its body.\<close>

definition retry_seconds :: "time \<Rightarrow> int" where
  "retry_seconds retryAfter = max 1 \<lceil>Seconds retryAfter\<rceil>"

definition rejectRateLimited :: "time \<Rightarrow> 'a response" where
  "rejectRateLimited retryAfter =
     ErrorBody StatusTooManyRequests ''rate_limited''
       (''Too many requests. Try again in '' @ decimal (retry_seconds retryAfter) @ '' seconds.'')"

text \<open>\<open>Inl\<close> is the rejection, \<open>Inr\<close> means that the next handler runs.\<close>

definition limit_by :: "string \<Rightarrow> time \<Rightarrow> KeyedLimiter \<Rightarrow> ('a response + unit) \<times> KeyedLimiter" where
  "limit_by key now kl =
    (case Allow key now kl of ((allowed, retryAfter), kl') \<Rightarrow>
       (if \<not> allowed then Inl (rejectRateLimited retryAfter) else Inr (), kl'))"

definition PerIPMiddleware ::
  "string \<Rightarrow> time \<Rightarrow> KeyedLimiter \<Rightarrow> ('a response + unit) \<times> KeyedLimiter" where
  "PerIPMiddleware remoteAddr = limit_by (clientIP remoteAddr)"

definition PerTenantMiddleware ::
  "id \<Rightarrow> time \<Rightarrow> KeyedLimiter \<Rightarrow> ('a response + unit) \<times> KeyedLimiter" where
  "PerTenantMiddleware tenantID now kl =
    (if tenantID = '''' then (Inr (), kl) else limit_by tenantID now kl)"

definition PerAgentMiddleware ::
  "id \<Rightarrow> time \<Rightarrow> KeyedLimiter \<Rightarrow> ('a response + unit) \<times> KeyedLimiter" where
  "PerAgentMiddleware agentID now kl =
    (if agentID = '''' then (Inr (), kl) else limit_by agentID now kl)"

section \<open>The abstraction\<close>

definition level :: "KeyedLimiter \<Rightarrow> string \<Rightarrow> time \<Rightarrow> rat" where
  "level kl key now =
    (case kl_buckets kl key of None \<Rightarrow> kl_burst kl | Some b \<Rightarrow> refill kl now b)"

text \<open>What every limiter the server builds satisfies: at least one token of burst, a positive
  rate, and an idle time long enough to refill a bucket; and what every call keeps.\<close>

definition limiter_ok :: "KeyedLimiter \<Rightarrow> bool" where
  "limiter_ok kl \<longleftrightarrow> 0 < kl_rate kl \<and> 1 \<le> kl_burst kl \<and> kl_burst kl \<le> Seconds (kl_ttl kl) * kl_rate kl
     \<and> (\<forall>k b. kl_buckets kl k = Some b \<longrightarrow> 0 \<le> b_tokens b)"

definition seen_until :: "time \<Rightarrow> KeyedLimiter \<Rightarrow> bool" where
  "seen_until now kl \<longleftrightarrow> (\<forall>k b. kl_buckets kl k = Some b \<longrightarrow> b_lastTime b \<le> now)"

lemma Seconds_mono: "s \<le> t \<Longrightarrow> Seconds s \<le> Seconds t"
  by (simp add: Seconds_def divide_right_mono)

lemma Seconds_nonneg: "0 \<le> t \<Longrightarrow> 0 \<le> Seconds t"
  by (simp add: Seconds_def)

lemma Seconds_diff: "Seconds (a - b) = Seconds a - Seconds b"
  by (simp add: Seconds_def diff_divide_distrib)

lemma maybeCleanup_config [simp]:
  "kl_rate (maybeCleanup now kl) = kl_rate kl" "kl_burst (maybeCleanup now kl) = kl_burst kl"
  "kl_ttl (maybeCleanup now kl) = kl_ttl kl"
  by (simp_all add: maybeCleanup_def Let_def)

lemma maybeCleanup_bucket:
  "kl_buckets (maybeCleanup now kl) k = Some b \<Longrightarrow> kl_buckets kl k = Some b"
  by (auto simp: maybeCleanup_def Let_def split: if_splits option.splits)

lemma maybeCleanup_evicted:
  "kl_buckets (maybeCleanup now kl) k = None \<Longrightarrow> kl_buckets kl k = Some b \<Longrightarrow>
     b_lastTime b < now - kl_ttl kl"
  by (auto simp: maybeCleanup_def Let_def split: if_splits)

text \<open>An evicted bucket was full.\<close>

lemma level_maybeCleanup:
  assumes ok: "limiter_ok kl" and "now \<le> t"
  shows "level (maybeCleanup now kl) k t = level kl k t"
proof (cases "kl_buckets (maybeCleanup now kl) k")
  case (Some b)
  then show ?thesis using maybeCleanup_bucket [OF Some] by (simp add: level_def refill_def)
next
  case None
  show ?thesis
  proof (cases "kl_buckets kl k")
    case (Some b)
    have "kl_ttl kl \<le> t - b_lastTime b"
      using maybeCleanup_evicted [OF None Some] assms(2) by simp
    then have "Seconds (kl_ttl kl) * kl_rate kl \<le> Seconds (t - b_lastTime b) * kl_rate kl"
      using ok by (intro mult_right_mono Seconds_mono) (simp_all add: limiter_ok_def)
    moreover have "0 \<le> b_tokens b" using ok Some by (auto simp: limiter_ok_def)
    moreover have "kl_burst kl \<le> Seconds (kl_ttl kl) * kl_rate kl" using ok by (simp add: limiter_ok_def)
    ultimately have "kl_burst kl \<le> b_tokens b + Seconds (t - b_lastTime b) * kl_rate kl"
      by linarith
    then show ?thesis using None Some by (simp add: level_def refill_def)
  qed (simp add: level_def None)
qed

lemma level_bounds:
  assumes "limiter_ok kl" "seen_until now kl" "now \<le> t"
  shows "0 \<le> level kl k t" "level kl k t \<le> kl_burst kl"
proof -
  show "0 \<le> level kl k t"
  proof (cases "kl_buckets kl k")
    case (Some b)
    have "0 \<le> Seconds (t - b_lastTime b) * kl_rate kl"
      using assms Some by (intro mult_nonneg_nonneg Seconds_nonneg)
        (force simp: seen_until_def limiter_ok_def)+
    moreover have "0 \<le> b_tokens b" "1 \<le> kl_burst kl" using assms Some by (auto simp: limiter_ok_def)
    ultimately show ?thesis using Some by (simp add: level_def refill_def)
  qed (use assms in \<open>simp add: level_def limiter_ok_def\<close>)
  show "level kl k t \<le> kl_burst kl"
    by (cases "kl_buckets kl k") (simp_all add: level_def refill_def)
qed

lemma level_later:
  assumes "limiter_ok kl" "t \<le> t'"
  shows "level kl k t' \<le> level kl k t + Seconds (t' - t) * kl_rate kl"
proof (cases "kl_buckets kl k")
  case None
  have "0 \<le> Seconds (t' - t) * kl_rate kl"
    using assms by (intro mult_nonneg_nonneg Seconds_nonneg) (simp_all add: limiter_ok_def)
  then show ?thesis using None by (simp add: level_def)
next
  case (Some b)
  have "0 \<le> Seconds (t' - t) * kl_rate kl"
    using assms by (intro mult_nonneg_nonneg Seconds_nonneg) (simp_all add: limiter_ok_def)
  then show ?thesis using Some
    by (simp add: level_def refill_def Seconds_diff left_diff_distrib min_def)
qed

text \<open>The bucket a call leaves behind, before the cleanup.\<close>

definition charged :: "string \<Rightarrow> time \<Rightarrow> KeyedLimiter \<Rightarrow> KeyedLimiter" where
  "charged key now kl = kl\<lparr>kl_buckets := (kl_buckets kl)(key \<mapsto>
     \<lparr>b_tokens = level kl key now - of_bool (1 \<le> level kl key now), b_lastTime = now\<rparr>)\<rparr>"

lemma level_now: 
  "(case kl_buckets kl key of None \<Rightarrow> refill kl now \<lparr>b_tokens = kl_burst kl, b_lastTime = now\<rparr>
    | Some b \<Rightarrow> refill kl now b) = level kl key now"
  by (simp add: level_def refill_def Seconds_def split: option.split)

lemma Allow_eq:
  "Allow key now kl =
    ((1 \<le> level kl key now,
      if 1 \<le> level kl key now then 0 else \<lfloor>(1 - level kl key now) / kl_rate kl * of_int Second\<rfloor>),
     maybeCleanup now (charged key now kl))"
proof (cases "kl_buckets kl key")
  case None
  have "refill kl now \<lparr>b_tokens = kl_burst kl, b_lastTime = now\<rparr> = level kl key now"
    using level_now [where kl = kl and key = key and now = now] None by simp
  then show ?thesis using None by (simp add: Allow_def charged_def Let_def)
next
  case (Some b)
  have "refill kl now b = level kl key now" using level_now [where kl = kl and key = key and now = now] Some by simp
  then show ?thesis using Some by (simp add: Allow_def charged_def Let_def)
qed

lemma level_upd:
  "level (kl\<lparr>kl_buckets := (kl_buckets kl)(key \<mapsto> b)\<rparr>) k t =
     (if k = key then refill kl t b else level kl k t)"
  by (simp add: level_def refill_def split: option.split)

lemma charged_ok:
  assumes "limiter_ok kl" "seen_until now kl"
  shows "limiter_ok (charged key now kl)"
  using assms level_bounds [where k = key, OF assms order_refl]
  by (auto simp: limiter_ok_def charged_def split: if_splits)

lemma Allow_keeps:
  assumes "limiter_ok kl" "seen_until now kl"
  shows "limiter_ok (snd (Allow key now kl))" "seen_until now (snd (Allow key now kl))"
    "kl_rate (snd (Allow key now kl)) = kl_rate kl" "kl_burst (snd (Allow key now kl)) = kl_burst kl"
proof -
  show "limiter_ok (snd (Allow key now kl))"
    using charged_ok [OF assms, of key]
    by (auto simp: Allow_eq limiter_ok_def dest: maybeCleanup_bucket)
  show "seen_until now (snd (Allow key now kl))"
    using assms(2) by (auto simp: Allow_eq seen_until_def charged_def dest!: maybeCleanup_bucket split: if_splits)
qed (simp_all add: Allow_eq charged_def)

lemma Allow_level:
  assumes "limiter_ok kl" "seen_until now kl" "now \<le> t"
  shows "level (snd (Allow key now kl)) k t =
    (if k = key then min (kl_burst kl)
       (level kl k now - of_bool (1 \<le> level kl k now) + Seconds (t - now) * kl_rate kl)
     else level kl k t)"
proof -
  have "level (snd (Allow key now kl)) k t = level (charged key now kl) k t"
    using level_maybeCleanup [OF charged_ok [OF assms(1,2)] assms(3)] by (simp add: Allow_eq)
  also have "\<dots> = (if k = key then min (kl_burst kl)
       (level kl k now - of_bool (1 \<le> level kl k now) + Seconds (t - now) * kl_rate kl)
     else level kl k t)"
    unfolding charged_def level_upd by (simp add: refill_def)
  finally show ?thesis .
qed

text \<open>C18: The limiter refines the bucket without eviction: a request is admitted exactly if the
  key has a token, it takes one token from this key and none from another, and the level grows
  with the rate up to the burst; the eviction of idle buckets is not observable.\<close>

theorem Allow_refines:
  assumes "limiter_ok kl" "seen_until now kl" "now \<le> t"
  shows "fst (fst (Allow key now kl)) = (1 \<le> level kl key now)
    \<and> level (snd (Allow key now kl)) k t =
        (if k = key then min (kl_burst kl)
           (level kl k now - of_bool (1 \<le> level kl k now) + Seconds (t - now) * kl_rate kl)
         else level kl k t)
    \<and> limiter_ok (snd (Allow key now kl)) \<and> seen_until now (snd (Allow key now kl))"
  using Allow_level [OF assms] Allow_keeps [OF assms(1,2)] by (simp add: Allow_eq)

text \<open>The limiter for addresses with the default settings: 60 requests per minute, burst 10.\<close>

definition per_ip_default :: KeyedLimiter where
  "per_ip_default = NewKeyedLimiter \<lparr>bc_Rate = 60 / 60, bc_Burst = 10\<rparr> (600 * Second)"

lemma per_ip_default_ok: "limiter_ok per_ip_default" "seen_until t per_ip_default"
  by (simp_all add: per_ip_default_def NewKeyedLimiter_def limiter_ok_def seen_until_def Seconds_def)

theorem Allow_refines_witness:
  "fst (fst (Allow ''10.0.0.1'' 0 per_ip_default)) \<and>
   level (snd (Allow ''10.0.0.1'' 0 per_ip_default)) ''10.0.0.1'' 0 = 9"
proof -
  have l: "level per_ip_default ''10.0.0.1'' 0 = 10"
    by (simp add: level_def per_ip_default_def NewKeyedLimiter_def)
  have b: "kl_burst per_ip_default = 10" by (simp add: per_ip_default_def NewKeyedLimiter_def)
  show ?thesis
    using Allow_refines [OF per_ip_default_ok order_refl, of "''10.0.0.1''" 0 "''10.0.0.1''"] l b
    by (simp add: Seconds_def)
qed

section \<open>The bound on admitted requests\<close>

fun run_requests :: "(string \<times> time) list \<Rightarrow> KeyedLimiter \<Rightarrow> bool list \<times> KeyedLimiter" where
  "run_requests [] kl = ([], kl)"
| "run_requests ((key, now) # rs) kl =
    (case Allow key now kl of ((allowed, _), kl1) \<Rightarrow>
     case run_requests rs kl1 of (as, kl2) \<Rightarrow> (allowed # as, kl2))"

definition admitted :: "string \<Rightarrow> (string \<times> time) list \<Rightarrow> KeyedLimiter \<Rightarrow> nat" where
  "admitted k rs kl = length (filter (\<lambda>((key, _), a). key = k \<and> a) (zip rs (fst (run_requests rs kl))))"

lemma admitted_Cons:
  "admitted k ((key, now) # rs) kl =
     of_bool (key = k \<and> 1 \<le> level kl key now) + admitted k rs (snd (Allow key now kl))"
  by (simp add: admitted_def Allow_eq case_prod_beta)

lemma admitted_level:
  assumes "limiter_ok kl" "seen_until t0 kl" "sorted (t0 # map snd rs)" "set rs \<noteq> {} \<longrightarrow> snd (last rs) \<le> t"
    "t0 \<le> t"
  shows "of_nat (admitted k rs kl) \<le> level kl k t0 + Seconds (t - t0) * kl_rate kl"
  using assms
proof (induction rs arbitrary: kl t0)
  case Nil
  have "0 \<le> Seconds (t - t0) * kl_rate kl"
    using Nil by (intro mult_nonneg_nonneg Seconds_nonneg) (simp_all add: limiter_ok_def)
  then show ?case using level_bounds(1) [where k = k, OF Nil(1,2) order_refl] by (simp add: admitted_def)
next
  case (Cons r rs)
  obtain key now where r: "r = (key, now)" by (cases r)
  let ?kl = "snd (Allow key now kl)"
  have now: "t0 \<le> now" and srt: "sorted (now # map snd rs)" using Cons.prems(3) by (simp_all add: r)
  have seen: "seen_until now kl" using Cons.prems(2) now unfolding seen_until_def by (meson order_trans)
  have nt: "now \<le> t"
    using Cons.prems(4) srt by (cases rs rule: rev_cases) (auto simp: r sorted_append)
  have "of_nat (admitted k rs ?kl) \<le> level ?kl k now + Seconds (t - now) * kl_rate ?kl"
    by (rule Cons.IH [OF Allow_keeps(1,2) [OF Cons.prems(1) seen] srt _ nt])
       (use Cons.prems(4) in \<open>auto simp: r split: if_splits\<close>)
  moreover have "kl_rate ?kl = kl_rate kl" by (rule Allow_keeps(3) [OF Cons.prems(1) seen])
  moreover have "level ?kl k now + of_bool (key = k \<and> 1 \<le> level kl key now) \<le> level kl k now"
    using Allow_level [OF Cons.prems(1) seen order_refl, of key k] by (auto simp: Seconds_def)
  moreover have "level kl k now \<le> level kl k t0 + Seconds (now - t0) * kl_rate kl"
    by (rule level_later [OF Cons.prems(1) now])
  moreover have "Seconds (t - t0) * kl_rate kl
      = Seconds (now - t0) * kl_rate kl + Seconds (t - now) * kl_rate kl"
    by (simp add: Seconds_diff left_diff_distrib)
  ultimately show ?case by (simp add: r admitted_Cons)
qed

text \<open>C19: In any sequence of requests of any clients between two times, a key is admitted at most
  its burst plus the rate times the elapsed time, from any state of the limiter.\<close>

theorem admitted_bound:
  assumes "limiter_ok kl" "seen_until t0 kl" "sorted (t0 # map snd rs @ [t])"
  shows "of_nat (admitted k rs kl) \<le> kl_burst kl + Seconds (t - t0) * kl_rate kl"
proof -
  have "of_nat (admitted k rs kl) \<le> level kl k t0 + Seconds (t - t0) * kl_rate kl"
    by (rule admitted_level [OF assms(1,2)])
       (use assms(3) in \<open>auto simp: sorted_append\<close>)
  also have "level kl k t0 \<le> kl_burst kl"
    by (rule level_bounds(2) [OF assms(1,2) order_refl])
  finally show ?thesis by simp
qed

theorem admitted_bound_witness:
  "of_nat (admitted ''a'' (map (\<lambda>i. (''a'', int i)) [0..<3]) per_ip_default) \<le> (11 :: rat)"
proof -
  have "sorted (0 # map snd (map (\<lambda>i. (''a'', int i)) [0..<3]) @ [1 * Second])"
    by (simp add: upt_rec)
  from admitted_bound [OF per_ip_default_ok this, of "''a''"] show ?thesis
    by (simp add: per_ip_default_def NewKeyedLimiter_def Seconds_def)
qed

text \<open>A rejected client that waits for the returned time, rounded up by a nanosecond, is
  admitted, whatever other clients did meanwhile.\<close>

theorem Allow_retry_succeeds:
  assumes "limiter_ok kl" "seen_until now kl" and rej: "Allow key now kl = ((False, wait), kl')"
    and others: "sorted (now # map snd rs @ [t])" "key \<notin> fst ` set rs" and later: "now + wait + 1 \<le> t"
  shows "fst (fst (Allow key t (snd (run_requests rs kl'))))"
proof -
  have l: "\<not> 1 \<le> level kl key now" and kl': "kl' = snd (Allow key now kl)"
    and wait: "wait = \<lfloor>(1 - level kl key now) / kl_rate kl * of_int Second\<rfloor>"
    using rej by (auto simp: Allow_eq split: if_splits)
  have rate: "0 < kl_rate kl" and burst: "1 \<le> kl_burst kl" using assms(1) by (simp_all add: limiter_ok_def)
  have "(1 - level kl key now) / kl_rate kl * of_int Second < of_int (wait + 1)"
    unfolding wait by linarith
  also have "\<dots> \<le> of_int (t - now)" using later by simp
  finally have "1 - level kl key now \<le> Seconds (t - now) * kl_rate kl"
    using rate by (simp add: Seconds_def field_simps)
  moreover have nt: "now \<le> t" using others(1) by (auto simp: sorted_append)
  ultimately have lv: "1 \<le> level kl' key t"
    using Allow_level [OF assms(1,2) nt, of key key] l burst by (simp add: kl')
  have "level (snd (run_requests rs v)) key t = level v key t"
    if "limiter_ok v" "seen_until s v" "sorted (s # map snd rs @ [t])" "key \<notin> fst ` set rs" for s v rs
    using that
  proof (induction rs arbitrary: s v)
    case (Cons r rs)
    obtain j n where r: "r = (j, n)" by (cases r)
    have n: "s \<le> n" "n \<le> t" and srt: "sorted (n # map snd rs @ [t])"
      using Cons.prems(3) by (auto simp: r sorted_append)
    have seen: "seen_until n v" using Cons.prems(2) n unfolding seen_until_def by (meson order_trans)
    have "level (snd (run_requests rs (snd (Allow j n v)))) key t = level (snd (Allow j n v)) key t"
      using Cons.prems(4) by (intro Cons.IH [OF Allow_keeps(1,2) [OF Cons.prems(1) seen] srt]) simp
    also have "\<dots> = level v key t"
      using Allow_level [OF Cons.prems(1) seen n(2), of j key] Cons.prems(4) by (auto simp: r)
    finally show ?case by (simp add: r case_prod_beta)
  qed simp
  from this [OF _ _ others] lv show ?thesis
    using Allow_keeps(1,2) [OF assms(1,2), of key] by (simp add: Allow_eq kl')
qed

definition spent_limiter :: KeyedLimiter where
  "spent_limiter = snd (Allow ''a'' 0 (NewKeyedLimiter \<lparr>bc_Rate = 1, bc_Burst = 1\<rparr> (600 * Second)))"

theorem Allow_retry_succeeds_witness:
  "\<not> fst (fst (Allow ''a'' 0 spent_limiter)) \<and>
   fst (fst (Allow ''a'' (Second + 1) (snd (run_requests [(''b'', 5)] (snd (Allow ''a'' 0 spent_limiter))))))"
proof -
  let ?kl = "NewKeyedLimiter \<lparr>bc_Rate = 1, bc_Burst = 1\<rparr> (600 * Second)"
  have ok: "limiter_ok ?kl" "seen_until 0 ?kl"
    by (simp_all add: NewKeyedLimiter_def limiter_ok_def seen_until_def Seconds_def)
  have sp: "limiter_ok spent_limiter" "seen_until 0 spent_limiter"
    unfolding spent_limiter_def by (rule Allow_keeps(1,2) [OF ok])+
  have l0: "level ?kl ''a'' 0 = 1" by (simp add: level_def NewKeyedLimiter_def)
  have l: "level spent_limiter ''a'' 0 = 0"
    using Allow_level [OF ok order_refl, of "''a''" "''a''"] l0
    by (simp add: spent_limiter_def Seconds_def NewKeyedLimiter_def)
  have r: "kl_rate spent_limiter = 1"
    using Allow_keeps(3) [OF ok, of "''a''"] by (simp add: spent_limiter_def NewKeyedLimiter_def)
  have a: "Allow ''a'' 0 spent_limiter = ((False, Second), snd (Allow ''a'' 0 spent_limiter))"
    by (simp add: Allow_eq l r)
  have "fst (fst (Allow ''a'' (Second + 1) (snd (run_requests [(''b'', 5)] (snd (Allow ''a'' 0 spent_limiter))))))"
    by (rule Allow_retry_succeeds [OF sp a]) simp_all
  with a show ?thesis by (metis fst_conv)
qed

section \<open>Addresses\<close>

lemma takeWhile_until: "c \<notin> set p \<Longrightarrow> takeWhile (\<lambda>x. x \<noteq> c) (p @ c # q) = p"
  by (induction p) auto

lemma last_index_of_append:
  "c \<notin> set p \<Longrightarrow> last_index_of c (h @ c # p) = Some (length h)"
  by (simp add: last_index_of_def index_of_def takeWhile_until)

text \<open>The key of an address with a port is its host, also for a bracketed IPv6 address.\<close>

lemma clientIP_host:
  assumes "set h \<inter> {CHR '':'', CHR ''['', CHR '']''} = {}" "set p \<inter> {CHR '':'', CHR ''['', CHR '']''} = {}"
    and "h \<noteq> []"
  shows "clientIP (h @ CHR '':'' # p) = h"
proof -
  have "hd (h @ CHR '':'' # p) \<noteq> CHR ''[''" using assms by (cases h) auto
  then show ?thesis
    using assms by (auto simp: clientIP_def SplitHostPort_def last_index_of_append)
qed

lemma clientIP_bracketed:
  assumes "set h \<inter> {CHR ''['', CHR '']''} = {}" "set p \<inter> {CHR '':'', CHR ''['', CHR '']''} = {}"
  shows "clientIP (CHR ''['' # h @ CHR '']'' # CHR '':'' # p) = h"
proof -
  have "last_index_of (CHR '':'') ((CHR ''['' # h @ [CHR '']'']) @ CHR '':'' # p) = Some (length h + 2)"
    using assms by (subst last_index_of_append) auto
  moreover have "index_of (CHR '']'') (CHR ''['' # h @ CHR '']'' # CHR '':'' # p) = Some (length h + 1)"
    using assms by (auto simp: index_of_def takeWhile_until)
  ultimately show ?thesis
    using assms by (auto simp: clientIP_def SplitHostPort_def)
qed

end
