(* ===== verification/Auth.thy ===== *)
theory Auth
  imports Statements Http Crypto RateLimit Samples
begin

text \<open>
  Who is calling: the middlewares of \<^verbatim>\<open>server/auth\<close> (API keys, single sign-on, client
  certificates, the tenant guard and the sanitizer of the forwarded certificate) and the permission
  check of \<^verbatim>\<open>server/rbac\<close>.

  A middleware returns \<open>Inl\<close> of its refusal or \<open>Inr\<close> of the context in which the
  next handler runs.  Third-party code is a parameter: the verifier of identity tokens, and the
  certificate library (PEM and ASN.1 decoding, chain verification).
\<close>

section \<open>Permissions (server/rbac)\<close>

definition AllPermissions :: "string list" where
  "AllPermissions =
    [''devices:read'', ''devices:write'', ''devices:revoke'',
     ''jobs:read'', ''jobs:create'', ''jobs:retry'',
     ''packages:deploy'',
     ''inventory:read'', ''inventory:request'',
     ''groups:read'', ''groups:write'',
     ''tags:read'', ''tags:write'',
     ''sites:read'', ''sites:write'',
     ''users:read'', ''users:write'',
     ''roles:read'', ''roles:write'',
     ''api_keys:read'', ''api_keys:write'',
     ''enrollment_tokens:write'',
     ''files:read'', ''files:write'',
     ''signing_keys:read'', ''signing_keys:write'',
     ''alerts:read'', ''alerts:write'',
     ''audit_log:read'',
     ''tenant:read'', ''tenant:write'',
     ''scheduled_jobs:read'', ''scheduled_jobs:write'',
     ''agent_versions:read'', ''agent_versions:write'',
     ''update_policies:read'', ''update_policies:write'',
     ''installers:read'', ''installers:write'']"

definition SuperAdminPermissions :: "string list" where
  "SuperAdminPermissions = AllPermissions"

definition TenantAdminPermissions :: "string list" where
  "TenantAdminPermissions =
    [''devices:read'', ''devices:write'', ''devices:revoke'',
     ''jobs:read'', ''jobs:create'', ''jobs:retry'',
     ''packages:deploy'',
     ''inventory:read'', ''inventory:request'',
     ''groups:read'', ''groups:write'',
     ''tags:read'', ''tags:write'',
     ''sites:read'', ''sites:write'',
     ''users:read'', ''users:write'',
     ''roles:read'', ''roles:write'',
     ''api_keys:read'', ''api_keys:write'',
     ''enrollment_tokens:write'',
     ''files:read'', ''files:write'',
     ''signing_keys:read'', ''signing_keys:write'',
     ''alerts:read'', ''alerts:write'',
     ''audit_log:read'',
     ''tenant:read'', ''tenant:write'',
     ''scheduled_jobs:read'', ''scheduled_jobs:write'',
     ''agent_versions:read'', ''agent_versions:write'',
     ''update_policies:read'', ''update_policies:write'',
     ''installers:read'', ''installers:write'']"

definition OperatorPermissions :: "string list" where
  "OperatorPermissions =
    [''devices:read'', ''devices:write'', ''devices:revoke'',
     ''jobs:read'', ''jobs:create'', ''jobs:retry'',
     ''packages:deploy'',
     ''inventory:read'', ''inventory:request'',
     ''groups:read'', ''groups:write'',
     ''tags:read'', ''tags:write'',
     ''sites:read'', ''sites:write'',
     ''enrollment_tokens:write'',
     ''files:read'', ''files:write'',
     ''signing_keys:read'', ''signing_keys:write'',
     ''alerts:read'', ''alerts:write'',
     ''scheduled_jobs:read'', ''scheduled_jobs:write'',
     ''agent_versions:read'', ''agent_versions:write'',
     ''update_policies:read'', ''update_policies:write'',
     ''installers:read'', ''installers:write'']"

definition TechnicianPermissions :: "string list" where
  "TechnicianPermissions =
    [''devices:read'', ''jobs:read'', ''jobs:create'', ''packages:deploy'', ''inventory:read'',
     ''inventory:request'', ''groups:read'', ''tags:read'', ''sites:read'']"

definition ViewerPermissions :: "string list" where
  "ViewerPermissions =
    [''devices:read'', ''jobs:read'', ''inventory:read'', ''groups:read'', ''tags:read'', ''sites:read'']"

fun hasPermission :: "string list \<Rightarrow> string \<Rightarrow> bool" where
  "hasPermission [] required = False"
| "hasPermission (p # ps) required = (if p = required then True else hasPermission ps required)"

definition Require :: "string \<Rightarrow> auth_context \<Rightarrow> 'a response + unit" where
  "Require permission ctx =
    (if ctx_IsAdmin ctx then Inr ()
     else if \<not> hasPermission (ctx_Permissions ctx) permission then
       Inl (ErrorBody StatusForbidden ''forbidden'' ''You do not have permission to perform this action'')
     else Inr ())"

fun in_set_all :: "string list \<Rightarrow> string list \<Rightarrow> bool" where
  "in_set_all have [] = True"
| "in_set_all have (p # ps) = (if p \<notin> set have then False else in_set_all have ps)"

definition PermissionsSubset :: "string list \<Rightarrow> string list \<Rightarrow> bool" where
  "PermissionsSubset caller requested = (requested = [] \<or> in_set_all caller requested)"

section \<open>Requests\<close>

text \<open>A certificate as far as the code reads it.\<close>

record x509_cert =
  x_CommonName :: string
  x_SerialNumber :: nat
  x_DNSNames :: "string list"
  x_NotBefore :: time
  x_NotAfter :: time
  x_ClientAuth :: bool

record http_request =
  rq_Authorization :: string
  rq_ClientCert :: string
  rq_RemoteAddr :: string
  rq_PeerCertificates :: "x509_cert list"

text \<open>The identity the middlewares attach.  An operator's request has the fields of
  \<open>auth_context\<close>; a request of an agent has its device as well.\<close>

record request_context = auth_context +
  ctx_AgentID :: id

definition no_identity :: request_context where
  "no_identity = \<lparr>ctx_TenantID = '''', ctx_UserID = '''', ctx_RoleID = '''', ctx_Permissions = [],
     ctx_Scope = None, ctx_IsAdmin = False, ctx_AgentID = ''''\<rparr>"

section \<open>API keys (server/auth/apikey.go)\<close>

definition extractBearerToken :: "http_request \<Rightarrow> string" where
  "extractBearerToken r =
    (if \<not> HasPrefix (rq_Authorization r) ''Bearer '' then ''''
     else TrimPrefix (rq_Authorization r) ''Bearer '')"

definition hashAPIKey :: "string \<Rightarrow> string" where
  "hashAPIKey raw = hex_encode (Sum256 (bytes_of raw))"

record authenticated_key =
  ak_ID :: id
  ak_TenantID :: id
  ak_UserID :: id
  ak_RoleID :: id
  ak_Scope :: "APIScope json option"
  ak_IsAdmin :: bool
  ak_ExpiresAt :: "time option"
  ak_Permissions :: "string list"

text \<open>\<^verbatim>\<open>SELECT ... FROM api_keys k LEFT JOIN roles r ON r.id = k.role_id WHERE k.key_hash = $1\<close>.
  The user and the role are scanned into plain strings, which fails on NULL; permissions that are
  not a list of strings fail to scan as well.\<close>

definition scan_api_key :: "db \<Rightarrow> api_key_row \<Rightarrow> db_error + authenticated_key" where
  "scan_api_key d k =
    (case (k_user_id k, k_role_id k) of
       (Some user, Some role) \<Rightarrow>
         (let perms = (case find_row (\<lambda>r. rl_id r = role) (db_roles d) of
                None \<Rightarrow> Some [] | Some r \<Rightarrow> decode (rl_permissions r)) in
          case perms of
            None \<Rightarrow> Inl ErrScan
          | Some ps \<Rightarrow> Inr \<lparr>ak_ID = k_id k, ak_TenantID = k_tenant_id k, ak_UserID = user,
              ak_RoleID = role, ak_Scope = k_scope k, ak_IsAdmin = k_is_admin k,
              ak_ExpiresAt = k_expires_at k, ak_Permissions = ps\<rparr>)
     | _ \<Rightarrow> Inl ErrScan)"

text \<open>A scope that does not decode is logged and read as the empty scope.\<close>

definition parse_scope :: "APIScope json option \<Rightarrow> APIScope option" where
  "parse_scope s = (case s of
     None \<Rightarrow> None
   | Some (Doc sc) \<Rightarrow> Some sc
   | Some Malformed \<Rightarrow> Some \<lparr>sc_GroupIDs = [], sc_TagIDs = [], sc_SiteIDs = [], sc_DeviceIDs = []\<rparr>)"

text \<open>The update of \<^verbatim>\<open>last_used_at\<close> runs in the background and its outcome is ignored; here it
  runs before the handler.\<close>

definition APIKeyMiddleware_Handler ::
  "http_request \<Rightarrow> request_context \<Rightarrow> world \<Rightarrow> ('a response + request_context) \<times> world" where
  "APIKeyMiddleware_Handler r ctx w =
    (if ctx_TenantID ctx \<noteq> '''' then (Inr ctx, w)
     else let raw = extractBearerToken r in
     if raw = '''' then
       (Inl (ErrorBody StatusUnauthorized ''authentication_required''
          ''Authorization: Bearer <api_key> header is required''), w)
     else case Query (\<lambda>d. case select_row (\<lambda>k. k_key_hash k = hashAPIKey raw) (db_api_keys d) of
              Inl e \<Rightarrow> Inl e | Inr k \<Rightarrow> scan_api_key d k) w of
       (Inl e, w1) \<Rightarrow>
         (Inl (if e = ErrNoRows
            then ErrorBody StatusUnauthorized ''invalid_api_key'' ''The provided API key is not valid''
            else ErrorBody StatusInternalServerError ''internal_error'' ''Internal server error''), w1)
     | (Inr key, w1) \<Rightarrow>
       (case Now w1 of (now, w2) \<Rightarrow>
        if (case ak_ExpiresAt key of None \<Rightarrow> False | Some t \<Rightarrow> t < now) then
          (Inl (ErrorBody StatusUnauthorized ''api_key_expired'' ''The API key has expired''), w2)
        else case Now w2 of (used, w3) \<Rightarrow>
          (Inr (ctx\<lparr>ctx_TenantID := ak_TenantID key, ctx_UserID := ak_UserID key,
               ctx_RoleID := ak_RoleID key, ctx_Permissions := ak_Permissions key,
               ctx_Scope := parse_scope (ak_Scope key), ctx_IsAdmin := ak_IsAdmin key\<rparr>),
           snd (Exec (update_api_keys (\<lambda>k. k_id k = ak_ID key)
             (\<lambda>k. k\<lparr>k_last_used_at := Some used\<rparr>)) w3))))"

section \<open>Tenant guard (server/auth/tenant.go)\<close>

definition RequireTenant :: "request_context \<Rightarrow> 'a response + request_context" where
  "RequireTenant ctx =
    (if ctx_TenantID ctx = '''' then
       Inl (ErrorBody StatusUnauthorized ''tenant_required'' ''Request must be associated with a tenant'')
     else Inr ctx)"

section \<open>Single sign-on (server/auth/oidc.go)\<close>

text \<open>The verifier checks an identity token and gives its subject; \<open>Some None\<close> is a token
  whose claims cannot be read.\<close>

type_synonym id_token_verifier = "string \<Rightarrow> string option option"

text \<open>The role of the user is scanned into a plain string, so a user without a role is an error.
  Permissions that do not decode are read as none.\<close>

definition OIDCMiddleware_Handler ::
  "id_token_verifier \<Rightarrow> http_request \<Rightarrow> request_context \<Rightarrow> world
     \<Rightarrow> ('a response + request_context) \<times> world" where
  "OIDCMiddleware_Handler verify r ctx w =
    (let token = extractBearerToken r in
     if token = '''' \<or> HasPrefix token ''sk_'' then (Inr ctx, w)
     else case verify token of
       None \<Rightarrow>
         (Inl (ErrorBody StatusUnauthorized ''invalid_token'' ''The provided OIDC token is not valid''), w)
     | Some None \<Rightarrow>
         (Inl (ErrorBody StatusInternalServerError ''internal_error'' ''Failed to process token claims''), w)
     | Some (Some subject) \<Rightarrow>
    (case Query (\<lambda>d. case select_row (\<lambda>u. u_SSOSubject u = Some subject) (db_users d) of
              Inl e \<Rightarrow> Inl e
            | Inr u \<Rightarrow> (case u_RoleID u of
                None \<Rightarrow> Inl ErrScan
              | Some role \<Rightarrow> Inr (u, role, case find_row (\<lambda>x. rl_id x = role) (db_roles d) of
                  None \<Rightarrow> [] | Some x \<Rightarrow> (case decode (rl_permissions x) of None \<Rightarrow> [] | Some ps \<Rightarrow> ps)))) w of
       (Inl e, w1) \<Rightarrow>
         (Inl (if e = ErrNoRows
            then ErrorBody StatusUnauthorized ''unknown_sso_user'' ''No user mapped to this SSO identity''
            else ErrorBody StatusInternalServerError ''internal_error'' ''Internal server error''), w1)
     | (Inr (u, role, perms), w1) \<Rightarrow>
         (Inr (ctx\<lparr>ctx_TenantID := u_TenantID u, ctx_UserID := u_ID u, ctx_RoleID := role,
            ctx_Permissions := perms\<rparr>), w1)))"

section \<open>Client certificates (server/auth/mtls.go, proxy.go)\<close>

text \<open>\<^verbatim>\<open>big.Int.Bytes\<close>: big-endian without leading zeros.\<close>

fun nat_bytes :: "nat \<Rightarrow> byte list" where
  "nat_bytes n = (if n = 0 then [] else nat_bytes (n div 256) @ [of_nat n])"

declare nat_bytes.simps [simp del]

definition serial_hex :: "nat \<Rightarrow> string" where
  "serial_hex n = hex_encode (nat_bytes n)"

text \<open>The certificate library: \<open>pem_certificate\<close> is PEM and ASN.1 decoding,
  \<open>chain_ok\<close> the verification of the chain against the configured pool for client
  authentication.\<close>

record cert_library =
  pem_certificate :: "string \<Rightarrow> x509_cert option"
  chain_ok :: "x509_cert \<Rightarrow> bool"

definition certFromHeader :: "cert_library \<Rightarrow> http_request \<Rightarrow> x509_cert option" where
  "certFromHeader lib r =
    (let raw = rq_ClientCert r in
     if raw = '''' then None
     else case pem_certificate lib (case QueryUnescape raw of None \<Rightarrow> raw | Some x \<Rightarrow> x) of
       None \<Rightarrow> None
     | Some cert \<Rightarrow> if chain_ok lib cert then Some cert else None)"

definition request_cert :: "cert_library option \<Rightarrow> http_request \<Rightarrow> x509_cert option" where
  "request_cert lib r =
    (case rq_PeerCertificates r of
       cert # _ \<Rightarrow> Some cert
     | [] \<Rightarrow> (case lib of None \<Rightarrow> None | Some l \<Rightarrow> certFromHeader l r))"

text \<open>The bodies of these refusals have a message and a reason.\<close>

definition mtls_error :: "nat \<Rightarrow> string \<Rightarrow> string \<Rightarrow> 'a response" where
  "mtls_error status msg reason = ErrorBody status reason msg"

text \<open>\<^verbatim>\<open>SELECT ... FROM devices d JOIN agent_certificates ac ON ac.device_id = d.id WHERE d.id = $1
  AND ac.serial_number = $2\<close>\<close>

definition device_certs :: "id \<Rightarrow> string \<Rightarrow> db \<Rightarrow> (device_row \<times> cert_row) list" where
  "device_certs agentID serial d =
     concat (map (\<lambda>dev. map (Pair dev)
         (filter (\<lambda>c. c_device_id c = d_id dev \<and> c_serial_number c = serial) (db_agent_certificates d)))
       (filter (\<lambda>dev. d_id dev = agentID) (db_devices d)))"

definition MTLSMiddleware_Handler ::
  "cert_library option \<Rightarrow> http_request \<Rightarrow> request_context \<Rightarrow> world
     \<Rightarrow> ('a response + request_context) \<times> world" where
  "MTLSMiddleware_Handler lib r ctx w =
    (case request_cert lib r of
       None \<Rightarrow> (Inl (mtls_error StatusUnauthorized ''client certificate required'' ''missing_cert''), w)
     | Some cert \<Rightarrow>
    (let agentID = x_CommonName cert in
     if agentID = '''' then
       (Inl (mtls_error StatusUnauthorized ''certificate missing agent identity'' ''no_agent_id''), w)
     else case Now w of (now, w1) \<Rightarrow>
     if now < x_NotBefore cert \<or> x_NotAfter cert < now then
       (Inl (mtls_error StatusUnauthorized ''certificate expired'' ''cert_expired''), w1)
     else case Query (\<lambda>d. select_row (\<lambda>_. True)
              (device_certs agentID (serial_hex (x_SerialNumber cert)) d)) w1 of
       (Inl e, w2) \<Rightarrow>
         (Inl (if e = ErrNoRows
            then mtls_error StatusUnauthorized ''unknown device or certificate'' ''unknown_device''
            else mtls_error StatusInternalServerError ''internal error'' ''''), w2)
     | (Inr (dev, c), w2) \<Rightarrow>
       (if c_revoked_at c \<noteq> None then
          (Inl (mtls_error StatusUnauthorized ''certificate revoked'' ''cert_revoked''), w2)
        else if d_status dev = DeviceStatusRevoked then
          (Inl (mtls_error StatusUnauthorized ''device revoked'' ''device_revoked''), w2)
        else (Inr (ctx\<lparr>ctx_AgentID := agentID, ctx_TenantID := d_tenant_id dev\<rparr>), w2))))"

text \<open>The sanitizer.  \<^verbatim>\<open>strings.TrimSpace\<close> is modelled on ASCII text.  Networks and addresses are those of \<^verbatim>\<open>net.ParseCIDR\<close> and
  \<^verbatim>\<open>net.ParseIP\<close>, which are parameters.\<close>

record ip_library =
  parse_cidr :: "string \<Rightarrow> nat option"
  parse_ip :: "string \<Rightarrow> nat option"
  network_contains :: "nat \<Rightarrow> nat \<Rightarrow> bool"

fun split_on :: "char \<Rightarrow> string \<Rightarrow> string list" where
  "split_on c [] = [[]]"
| "split_on c (x # xs) =
    (if x = c then [] # split_on c xs
     else (case split_on c xs of [] \<Rightarrow> [[x]] | y # ys \<Rightarrow> (x # y) # ys))"

definition is_space :: "char \<Rightarrow> bool" where
  "is_space c \<longleftrightarrow> (of_char c :: nat) \<in> {9, 10, 11, 12, 13, 32}"

definition TrimSpace :: "string \<Rightarrow> string" where
  "TrimSpace s = rev (dropWhile is_space (rev (dropWhile is_space s)))"

fun parse_networks :: "ip_library \<Rightarrow> string list \<Rightarrow> nat list option" where
  "parse_networks lib [] = Some []"
| "parse_networks lib (raw # rest) =
    (let c = TrimSpace raw in
     if c = '''' then parse_networks lib rest
     else case parse_cidr lib c of
       None \<Rightarrow> None
     | Some n \<Rightarrow> map_option ((#) n) (parse_networks lib rest))"

definition NewProxyCertSanitizer :: "ip_library \<Rightarrow> string \<Rightarrow> nat list option" where
  "NewProxyCertSanitizer lib cidrs = parse_networks lib (split_on (CHR '','') cidrs)"

definition isTrusted :: "ip_library \<Rightarrow> nat list \<Rightarrow> string \<Rightarrow> bool" where
  "isTrusted lib trusted remoteAddr =
    (case parse_ip lib (clientIP remoteAddr) of
       None \<Rightarrow> False
     | Some ip \<Rightarrow> list_ex (\<lambda>n. network_contains lib n ip) trusted)"

definition ProxyCertSanitizer_Handler :: "ip_library \<Rightarrow> nat list \<Rightarrow> http_request \<Rightarrow> http_request" where
  "ProxyCertSanitizer_Handler lib trusted r =
    (if rq_ClientCert r \<noteq> '''' \<and> \<not> isTrusted lib trusted (rq_RemoteAddr r)
     then r\<lparr>rq_ClientCert := ''''\<rparr> else r)"

section \<open>Roles\<close>

lemma in_set_all_iff [simp]: "in_set_all have ps \<longleftrightarrow> set ps \<subseteq> set have"
  by (induction ps) auto

lemma PermissionsSubset_iff: "PermissionsSubset caller requested \<longleftrightarrow> set requested \<subseteq> set caller"
  by (auto simp: PermissionsSubset_def)

lemma hasPermission_iff [simp]: "hasPermission ps p \<longleftrightarrow> p \<in> set ps"
  by (induction ps) auto

lemma Require_ok: "Require p ctx = Inr () \<longleftrightarrow> ctx_IsAdmin ctx \<or> p \<in> set (ctx_Permissions ctx)"
  by (simp add: Require_def)

text \<open>Each predefined role can do what the one below it can; a tenant administrator has every
  permission.\<close>

lemma role_hierarchy:
  "set ViewerPermissions \<subseteq> set TechnicianPermissions"
  "set TechnicianPermissions \<subseteq> set OperatorPermissions"
  "set OperatorPermissions \<subseteq> set TenantAdminPermissions"
  "TenantAdminPermissions = SuperAdminPermissions" "distinct AllPermissions"
  by (simp_all add: ViewerPermissions_def TechnicianPermissions_def OperatorPermissions_def
      TenantAdminPermissions_def SuperAdminPermissions_def AllPermissions_def)

section \<open>API keys\<close>

lemma scan_api_key_Inr:
  assumes "scan_api_key d k = Inr key"
  shows "ak_ID key = k_id k \<and> ak_TenantID key = k_tenant_id k \<and> k_user_id k = Some (ak_UserID key)
    \<and> k_role_id k = Some (ak_RoleID key) \<and> ak_Scope key = k_scope k \<and> ak_IsAdmin key = k_is_admin k
    \<and> ak_ExpiresAt key = k_expires_at k
    \<and> (\<forall>p \<in> set (ak_Permissions key). \<exists>x \<in> set (db_roles d).
         rl_id x = ak_RoleID key \<and> p \<in> set (the (decode (rl_permissions x))))"
proof -
  obtain user where user: "k_user_id k = Some user"
    using assms by (cases "k_user_id k") (simp_all add: scan_api_key_def)
  obtain role where role: "k_role_id k = Some role"
    using assms by (cases "k_role_id k") (simp_all add: scan_api_key_def user)
  show ?thesis
  proof (cases "find_row (\<lambda>r. rl_id r = role) (db_roles d)")
    case None
    then show ?thesis using assms by (auto simp: scan_api_key_def user role)
  next
    case (Some x)
    then have "x \<in> set (db_roles d)" "rl_id x = role" by (auto dest: find_row_SomeD)
    then show ?thesis using assms
      by (cases "decode (rl_permissions x)") (auto simp: scan_api_key_def user role Some Let_def)
  qed
qed

text \<open>C20: An operator's request passes the API key check only with the raw key of a stored,
  unexpired key, and it then acts for that key's tenant and user, with the permissions of the
  key's role, the key's scope and its administrator flag.\<close>

theorem apikey_sound:
  assumes "APIKeyMiddleware_Handler r no_identity w = (Inr ctx, w')"
  shows "\<exists>k \<in> set (db_api_keys (w_db w)).
      k_key_hash k = hashAPIKey (extractBearerToken r) \<and> extractBearerToken r \<noteq> ''''
    \<and> ctx_TenantID ctx = k_tenant_id k \<and> k_user_id k = Some (ctx_UserID ctx)
    \<and> k_role_id k = Some (ctx_RoleID ctx) \<and> ctx_IsAdmin ctx = k_is_admin k
    \<and> ctx_Scope ctx = parse_scope (k_scope k)
    \<and> (k_expires_at k = None \<or> w_clock w (w_ticks w) \<le> the (k_expires_at k))
    \<and> (\<forall>p \<in> set (ctx_Permissions ctx). \<exists>x \<in> set (db_roles (w_db w)).
         rl_id x = ctx_RoleID ctx \<and> p \<in> set (the (decode (rl_permissions x))))"
proof -
  let ?f = "\<lambda>d. case select_row (\<lambda>k. k_key_hash k = hashAPIKey (extractBearerToken r)) (db_api_keys d) of
      Inl e \<Rightarrow> Inl e | Inr k \<Rightarrow> scan_api_key d k"
  have raw: "extractBearerToken r \<noteq> ''''"
    using assms by (auto simp: APIKeyMiddleware_Handler_def no_identity_def Let_def)
  obtain q w1 where q: "Query ?f w = (q, w1)" by (rule prod.exhaust)
  obtain key where key: "q = Inr key"
    using assms raw by (cases q) (auto simp: APIKeyMiddleware_Handler_def no_identity_def Let_def q)
  from Query_Inr [OF q [unfolded key]] obtain k where
    k: "select_row (\<lambda>k. k_key_hash k = hashAPIKey (extractBearerToken r)) (db_api_keys (w_db w)) = Inr k"
    and scan: "scan_api_key (w_db w) k = Inr key" by (auto split: sum.splits)
  have clock: "w_clock w1 (w_ticks w1) = w_clock w (w_ticks w)"
    using Query_clock [of ?f w] q by simp
  have ctx: "ctx = no_identity\<lparr>ctx_TenantID := ak_TenantID key, ctx_UserID := ak_UserID key,
      ctx_RoleID := ak_RoleID key, ctx_Permissions := ak_Permissions key,
      ctx_Scope := parse_scope (ak_Scope key), ctx_IsAdmin := ak_IsAdmin key\<rparr>
    \<and> (ak_ExpiresAt key = None \<or> w_clock w (w_ticks w) \<le> the (ak_ExpiresAt key))"
    using assms raw clock
    by (auto simp: APIKeyMiddleware_Handler_def Let_def q key Now_def no_identity_def
        split: if_splits option.splits)
  from scan_api_key_Inr [OF scan] ctx raw select_row_Inr [OF k] show ?thesis
    by (intro bexI [of _ k]) simp_all
qed

definition sample_key_row :: api_key_row where
  "sample_key_row = \<lparr>k_id = ''k1'', k_tenant_id = ''t1'', k_user_id = Some ''u1'', k_name = ''ci'',
     k_key_hash = hashAPIKey ''sk_a'', k_role_id = Some ''r1'', k_scope = None, k_is_admin = False,
     k_last_used_at = None, k_expires_at = None, k_created_at = 0\<rparr>"

definition sample_role_row :: role_row where
  "sample_role_row = \<lparr>rl_id = ''r1'', rl_tenant_id = None, rl_name = ''Viewer'',
     rl_permissions = Doc ViewerPermissions, rl_is_custom = False\<rparr>"

definition sample_auth_world :: world where
  "sample_auth_world = (sample_world [])\<lparr>w_db := (sample_db [])\<lparr>db_roles := [sample_role_row],
     db_api_keys := [sample_key_row]\<rparr>\<rparr>"

definition sample_request :: http_request where
  "sample_request = \<lparr>rq_Authorization = ''Bearer sk_a'', rq_ClientCert = '''',
     rq_RemoteAddr = ''10.0.0.1:1'', rq_PeerCertificates = []\<rparr>"

theorem apikey_sound_witness:
  "\<exists>ctx w'. APIKeyMiddleware_Handler sample_request no_identity sample_auth_world
       = (Inr ctx :: unit response + request_context, w') \<and> ctx_TenantID ctx = ''t1'' \<and> extractBearerToken sample_request \<noteq> ''''"
proof -
  have raw: "extractBearerToken sample_request = ''sk_a''"
    by (simp add: extractBearerToken_def sample_request_def HasPrefix_def TrimPrefix_def)
  have f: "w_faults sample_auth_world = []" by (simp add: sample_auth_world_def sample_world_def)
  obtain ctx w' where r: "APIKeyMiddleware_Handler sample_request no_identity sample_auth_world
       = (Inr ctx :: unit response + request_context, w')"
    and t: "ctx_TenantID ctx = ''t1''"
    by (simp add: APIKeyMiddleware_Handler_def raw Query_no_fault f select_row_def scan_api_key_def
        sample_key_row_def sample_role_row_def no_identity_def sample_auth_world_def sample_world_def
        sample_db_def Now_def Let_def)
  from apikey_sound [OF r] t r show ?thesis by blast
qed

section \<open>Client certificates\<close>

lemma device_certs_mem:
  "(dev, c) \<in> set (device_certs agentID serial d) \<longleftrightarrow>
     dev \<in> set (db_devices d) \<and> d_id dev = agentID \<and> c \<in> set (db_agent_certificates d)
     \<and> c_device_id c = agentID \<and> c_serial_number c = serial"
  by (auto simp: device_certs_def)

lemma mtls_Inr:
  assumes "MTLSMiddleware_Handler lib r ctx w = (Inr ctx', w')"
  obtains cert dev c where "request_cert lib r = Some cert" "x_CommonName cert \<noteq> ''''"
    "x_NotBefore cert \<le> w_clock w (w_ticks w)" "w_clock w (w_ticks w) \<le> x_NotAfter cert"
    "dev \<in> set (db_devices (w_db w))" "d_id dev = x_CommonName cert" "d_status dev \<noteq> DeviceStatusRevoked"
    "c \<in> set (db_agent_certificates (w_db w))" "c_device_id c = d_id dev"
    "c_serial_number c = serial_hex (x_SerialNumber cert)" "c_revoked_at c = None"
    "ctx' = ctx\<lparr>ctx_AgentID := d_id dev, ctx_TenantID := d_tenant_id dev\<rparr>" "w_db w' = w_db w"
proof -
  obtain cert where cert: "request_cert lib r = Some cert"
    using assms by (cases "request_cert lib r") (auto simp: MTLSMiddleware_Handler_def)
  have cn: "x_CommonName cert \<noteq> ''''"
    using assms by (auto simp: MTLSMiddleware_Handler_def cert Let_def)
  obtain now w1 where now: "Now w = (now, w1)" by (cases "Now w")
  have n: "now = w_clock w (w_ticks w)" "w_db w1 = w_db w" using now by (auto simp: Now_def)
  have v: "x_NotBefore cert \<le> now" "now \<le> x_NotAfter cert"
    using assms cn by (auto simp: MTLSMiddleware_Handler_def cert Let_def now split: if_splits)
  let ?f = "\<lambda>d. select_row (\<lambda>_. True) (device_certs (x_CommonName cert) (serial_hex (x_SerialNumber cert)) d)"
  obtain q w2 where q: "Query ?f w1 = (q, w2)" by (rule prod.exhaust)
  obtain dev c where dc: "q = Inr (dev, c)"
    using assms cn v by (cases q) (auto simp: MTLSMiddleware_Handler_def cert Let_def now q)
  have m: "(dev, c) \<in> set (device_certs (x_CommonName cert) (serial_hex (x_SerialNumber cert)) (w_db w))"
    using Query_Inr [OF q [unfolded dc]] n by (auto dest: select_row_Inr)
  have "c_revoked_at c = None" "d_status dev \<noteq> DeviceStatusRevoked" "w' = w2"
    "ctx' = ctx\<lparr>ctx_AgentID := x_CommonName cert, ctx_TenantID := d_tenant_id dev\<rparr>"
    using assms cn v
    by (auto simp: MTLSMiddleware_Handler_def cert Let_def now q dc split: if_splits)
  with that cert cn v n m Query_same_db [OF q] show thesis
    unfolding device_certs_mem by force
qed


definition sample_x509 :: x509_cert where
  "sample_x509 = \<lparr>x_CommonName = ''d1'', x_SerialNumber = 258, x_DNSNames = [''d1''], x_NotBefore = 0,
     x_NotAfter = 1000 * Second, x_ClientAuth = True\<rparr>"

definition sample_cert_row :: cert_row where
  "sample_cert_row = \<lparr>c_id = ''c1'', c_device_id = ''d1'', c_serial_number = serial_hex 258,
     c_fingerprint = ''f'', c_issued_at = 0, c_expires_at = 1000 * Second, c_revoked_at = None,
     c_revocation_reason = None\<rparr>"

definition sample_agent_world :: world where
  "sample_agent_world = (sample_world [])\<lparr>w_db := (sample_db [])\<lparr>db_agent_certificates := [sample_cert_row]\<rparr>\<rparr>"


text \<open>A request from an address outside the trusted networks that presents no certificate in the
  TLS handshake is refused, whatever it puts into the forwarding header.\<close>

theorem forged_header_refused:
  assumes "\<not> isTrusted iplib trusted (rq_RemoteAddr r)" "rq_PeerCertificates r = []"
  shows "MTLSMiddleware_Handler lib (ProxyCertSanitizer_Handler iplib trusted r) ctx w
    = (Inl (mtls_error StatusUnauthorized ''client certificate required'' ''missing_cert''), w)"
  using assms
  by (simp add: MTLSMiddleware_Handler_def ProxyCertSanitizer_Handler_def request_cert_def
      certFromHeader_def Let_def split: option.split)

text \<open>Networks of the witness: one network, which holds the address 1 only.\<close>

definition sample_ip_library :: ip_library where
  "sample_ip_library = \<lparr>parse_cidr = (\<lambda>_. Some 0), parse_ip = (\<lambda>s. Some (if s = ''127.0.0.1'' then 1 else 2)),
     network_contains = (\<lambda>n ip. ip = 1)\<rparr>"

theorem forged_header_refused_witness:
  "\<not> isTrusted sample_ip_library [0] (rq_RemoteAddr sample_request) \<and>
   fst (MTLSMiddleware_Handler (Some \<lparr>pem_certificate = (\<lambda>_. Some sample_x509), chain_ok = (\<lambda>_. True)\<rparr>)
     (ProxyCertSanitizer_Handler sample_ip_library [0] (sample_request\<lparr>rq_ClientCert := ''pem''\<rparr>))
     no_identity sample_agent_world)
   = Inl (mtls_error StatusUnauthorized ''client certificate required'' ''missing_cert'')"
proof -
  have c: "clientIP (rq_RemoteAddr sample_request) \<noteq> ''127.0.0.1''"
    by (simp add: sample_request_def clientIP_def SplitHostPort_def last_index_of_def index_of_def)
  then have t: "\<not> isTrusted sample_ip_library [0] (rq_RemoteAddr sample_request)"
    by (simp add: isTrusted_def sample_ip_library_def)
  have p: "rq_PeerCertificates (sample_request\<lparr>rq_ClientCert := ''pem''\<rparr>) = []"
    by (simp add: sample_request_def)
  have t': "\<not> isTrusted sample_ip_library [0] (rq_RemoteAddr (sample_request\<lparr>rq_ClientCert := ''pem''\<rparr>))"
    using t by simp
  show ?thesis using t by (simp add: forged_header_refused [OF t' p])
qed

text \<open>The comment on the header says that it may hold the PEM text as it is.  Unless it contains a
  percent sign, such text is decoded all the same and loses every plus sign of its base64.\<close>

theorem raw_header_loses_plus:
  assumes "CHR ''%'' \<notin> set (rq_ClientCert r)" "rq_ClientCert r \<noteq> ''''"
  shows "certFromHeader lib r = (case pem_certificate lib
      (map (\<lambda>c. if c = CHR ''+'' then CHR '' '' else c) (rq_ClientCert r)) of
        None \<Rightarrow> None | Some cert \<Rightarrow> if chain_ok lib cert then Some cert else None)"
  using assms by (simp add: certFromHeader_def QueryUnescape_plus Let_def)

end
