(* ===== verification/Enrollment.thy ===== *)
theory Enrollment
  imports Auth Scope Quota
begin

text \<open>
  How a device joins: enrollment tokens (\<^verbatim>\<open>server/auth/enrollment.go\<close>,
  \<^verbatim>\<open>server/api/enrollment_tokens.go\<close>), the signing of certificate requests
  (\<^verbatim>\<open>server/pki/ca.go\<close>), and the enrollment and renewal endpoints
  (\<^verbatim>\<open>server/api/enroll.go\<close>, \<^verbatim>\<open>renew.go\<close>).

  The certificate authority's cryptography is the parameter \<open>pki_library\<close>: decoding of a
  request, the signature on a certificate, and the PEM encoding.  What goes into a certificate, its
  serial number and its fingerprint are computed here.
\<close>

section \<open>Signing (server/pki/ca.go)\<close>

datatype public_key = ECDSA string | RSA | Ed25519

record certificate_request =
  csr_PublicKey :: public_key
  csr_SignatureOK :: bool

record pki_library =
  pem_csr :: "string \<Rightarrow> certificate_request option"
  create_certificate :: "x509_cert \<Rightarrow> public_key \<Rightarrow> byte list option"
  pem_encode :: "byte list \<Rightarrow> string"
  ca_certificate :: "byte list"

datatype sign_error = BadRequest | BadSignature | BadKeyType | BadCurve string | SignFailed

definition validateAgentPublicKey :: "public_key \<Rightarrow> sign_error option" where
  "validateAgentPublicKey pub =
    (case pub of
       ECDSA curve \<Rightarrow> if curve \<noteq> ''P-256'' then Some (BadCurve curve) else None
     | _ \<Rightarrow> Some BadKeyType)"

text \<open>\<^verbatim>\<open>rand.Int(rand.Reader, 1 << 128)\<close>: sixteen bytes, big-endian, never rejected.\<close>

definition be_nat :: "byte list \<Rightarrow> nat" where
  "be_nat bs = foldl (\<lambda>n b. n * 256 + unat b) 0 bs"

definition randomSerial :: "world \<Rightarrow> nat \<times> world" where
  "randomSerial w = (case rand_Read 16 w of (bs, w1) \<Rightarrow> (be_nat bs, w1))"

definition agent_template :: "id \<Rightarrow> nat \<Rightarrow> time \<Rightarrow> time \<Rightarrow> x509_cert" where
  "agent_template agentID serial now validity =
     \<lparr>x_CommonName = agentID, x_SerialNumber = serial, x_DNSNames = [agentID], x_NotBefore = now,
      x_NotAfter = now + validity, x_ClientAuth = True\<rparr>"

record signed_cert =
  sg_PEM :: string
  sg_SerialHex :: string
  sg_Fingerprint :: string

definition SignCSR ::
  "pki_library \<Rightarrow> string \<Rightarrow> id \<Rightarrow> time \<Rightarrow> world \<Rightarrow> (sign_error + signed_cert) \<times> world" where
  "SignCSR lib csrPEM agentID validity w =
    (case pem_csr lib csrPEM of
       None \<Rightarrow> (Inl BadRequest, w)
     | Some csr \<Rightarrow>
    (if \<not> csr_SignatureOK csr then (Inl BadSignature, w)
     else case validateAgentPublicKey (csr_PublicKey csr) of
       Some e \<Rightarrow> (Inl e, w)
     | None \<Rightarrow>
    (case randomSerial w of (serial, w1) \<Rightarrow>
     case Now w1 of (now, w2) \<Rightarrow>
     case create_certificate lib (agent_template agentID serial now validity) (csr_PublicKey csr) of
       None \<Rightarrow> (Inl SignFailed, w2)
     | Some der \<Rightarrow>
       (Inr \<lparr>sg_PEM = pem_encode lib der, sg_SerialHex = serial_hex serial,
          sg_Fingerprint = hex_encode (Sum256 der)\<rparr>, w2))))"

definition CAChainPEM :: "pki_library \<Rightarrow> string" where
  "CAChainPEM lib = pem_encode lib (ca_certificate lib)"

section \<open>Tokens (server/auth/enrollment.go)\<close>

definition defaultTokenExpiry :: time where
  "defaultTokenExpiry = 24 * 3600 * Second"

definition generateRawToken :: "world \<Rightarrow> string \<times> world" where
  "generateRawToken w = (case rand_Read 32 w of (b, w1) \<Rightarrow> (hex_encode b, w1))"

definition hashToken :: "string \<Rightarrow> string" where
  "hashToken raw = hex_encode (Sum256 (bytes_of raw))"

definition token_row :: "EnrollmentToken \<Rightarrow> enrollment_token_row" where
  "token_row t =
     \<lparr>et_id = tok_ID t, et_tenant_id = tok_TenantID t, et_token_hash = tok_TokenHash t,
      et_created_by = tok_CreatedBy t, et_scope = map_option Doc (tok_Scope t), et_used_at = None,
      et_expires_at = tok_ExpiresAt t, et_created_at = tok_CreatedAt t\<rparr>"

definition CreateToken ::
  "id \<Rightarrow> id \<Rightarrow> APIScope option \<Rightarrow> time \<Rightarrow> world \<Rightarrow> (db_error + EnrollmentToken \<times> string) \<times> world" where
  "CreateToken tenantID createdBy scope expiry w =
    (let expiry' = (if expiry = 0 then defaultTokenExpiry else expiry) in
     case generateRawToken w of (raw, w1) \<Rightarrow>
     case Now w1 of (now, w2) \<Rightarrow>
     case newID ''enr'' w2 of (i, w3) \<Rightarrow>
     let token = \<lparr>tok_ID = i, tok_TenantID = tenantID, tok_TokenHash = hashToken raw,
           tok_CreatedBy = createdBy, tok_Scope = scope, tok_UsedAt = None,
           tok_ExpiresAt = now + expiry', tok_CreatedAt = now\<rparr> in
     case Exec (insert_token (token_row token)) w3 of
       (Inl e, w4) \<Rightarrow> (Inl e, w4)
     | (Inr _, w4) \<Rightarrow> (Inr (token, raw), w4))"

datatype token_error = TokenRefused | TokenQuery db_error | TokenScope

text \<open>The row as scanned; a scope that does not decode is an error.\<close>

definition scan_token :: "enrollment_token_row \<Rightarrow> token_error + EnrollmentToken" where
  "scan_token r =
    (let tok = (\<lambda>sc. \<lparr>tok_ID = et_id r, tok_TenantID = et_tenant_id r, tok_TokenHash = et_token_hash r,
          tok_CreatedBy = et_created_by r, tok_Scope = sc, tok_UsedAt = et_used_at r,
          tok_ExpiresAt = et_expires_at r, tok_CreatedAt = et_created_at r\<rparr>) in
     case et_scope r of
       None \<Rightarrow> Inr (tok None)
     | Some Malformed \<Rightarrow> Inl TokenScope
     | Some (Doc sc) \<Rightarrow> Inr (tok (Some sc)))"

definition token_usable :: "string \<Rightarrow> time \<Rightarrow> enrollment_token_row \<Rightarrow> bool" where
  "token_usable hash now r \<longleftrightarrow> et_token_hash r = hash \<and> et_used_at r = None \<and> now < et_expires_at r"

definition token_result ::
  "(db_error + enrollment_token_row) \<times> world \<Rightarrow> (token_error + EnrollmentToken) \<times> world" where
  "token_result x =
    (case x of
       (Inl e, w) \<Rightarrow> (Inl (if e = ErrNoRows then TokenRefused else TokenQuery e), w)
     | (Inr r, w) \<Rightarrow> (scan_token r, w))"

definition Peek :: "string \<Rightarrow> world \<Rightarrow> (token_error + EnrollmentToken) \<times> world" where
  "Peek rawToken w =
    (case Now w of (now, w1) \<Rightarrow>
      token_result (Query (\<lambda>d. select_row (token_usable (hashToken rawToken) now)
        (db_enrollment_tokens d)) w1))"

definition ValidateAndConsume :: "string \<Rightarrow> world \<Rightarrow> (token_error + EnrollmentToken) \<times> world" where
  "ValidateAndConsume rawToken w =
    (case Now w of (now, w1) \<Rightarrow>
      token_result (Exec (update_token_returning (token_usable (hashToken rawToken) now)
        (\<lambda>r. r\<lparr>et_used_at := Some now\<rparr>)) w1))"

section \<open>Enrollment (server/api/enroll.go)\<close>

definition defaultCertValidity :: time where
  "defaultCertValidity = 90 * 24 * 3600 * Second"

definition new_device_row :: "id \<Rightarrow> id \<Rightarrow> EnrollRequest \<Rightarrow> time \<Rightarrow> device_row" where
  "new_device_row deviceID tenantID req now =
     \<lparr>d_id = deviceID, d_tenant_id = tenantID, d_hostname = eq_Hostname req, d_os = eq_OS req,
      d_os_version = eq_OSVersion req, d_arch = eq_Arch req, d_agent_version = eq_AgentVersion req,
      d_status = DeviceStatusOnline, d_last_seen_at = None, d_registered_at = now,
      d_cdm_enabled = False, d_cdm_session_active = False, d_cdm_session_expires_at = None,
      d_sequence_last = 0\<rparr>"

definition new_cert_row :: "id \<Rightarrow> id \<Rightarrow> signed_cert \<Rightarrow> time \<Rightarrow> cert_row" where
  "new_cert_row certID deviceID sg now =
     \<lparr>c_id = certID, c_device_id = deviceID, c_serial_number = sg_SerialHex sg,
      c_fingerprint = sg_Fingerprint sg, c_issued_at = now, c_expires_at = now + defaultCertValidity,
      c_revoked_at = None, c_revocation_reason = None\<rparr>"

text \<open>The closure \<^verbatim>\<open>insert\<close> of \<^verbatim>\<open>applyScope\<close>.  Every error has the same
  consequence, so errors carry nothing.\<close>

definition apply_membership :: "membership \<Rightarrow> id \<Rightarrow> id \<Rightarrow> id \<Rightarrow> world \<Rightarrow> (unit + unit) \<times> world" where
  "apply_membership m deviceID tenantID i w =
    (case Exec (insert_member_if_owned m deviceID i tenantID) w of
       (Inl _, w1) \<Rightarrow> (Inl (), w1)
     | (Inr n, w1) \<Rightarrow>
       (if n = 0 then
          (case Query (\<lambda>d. Inr ((i, tenantID) \<in> set (owners m d))) w1 of
             (Inl _, w2) \<Rightarrow> (Inl (), w2)
           | (Inr ex, w2) \<Rightarrow> (if ex then Inr () else Inl (), w2))
        else (Inr (), w1)))"

definition applyScope :: "id \<Rightarrow> id \<Rightarrow> APIScope \<Rightarrow> world \<Rightarrow> (unit + unit) \<times> world" where
  "applyScope deviceID tenantID scope w =
    (case for_each (apply_membership Groups deviceID tenantID) (sc_GroupIDs scope) w of
       (Inl e, w1) \<Rightarrow> (Inl e, w1)
     | (Inr _, w1) \<Rightarrow>
    (case for_each (apply_membership Tags deviceID tenantID) (sc_TagIDs scope) w1 of
       (Inl e, w2) \<Rightarrow> (Inl e, w2)
     | (Inr _, w2) \<Rightarrow> for_each (apply_membership Sites deviceID tenantID) (sc_SiteIDs scope) w2))"

definition enroll_scope :: "id \<Rightarrow> EnrollmentToken \<Rightarrow> world \<Rightarrow> (unit + unit) \<times> world" where
  "enroll_scope deviceID token w =
    (case tok_Scope token of
       None \<Rightarrow> (Inr (), w)
     | Some sc \<Rightarrow> applyScope deviceID (tok_TenantID token) sc w)"

text \<open>The statements of the transaction.\<close>

definition enroll_tx ::
  "EnrollRequest \<Rightarrow> EnrollmentToken \<Rightarrow> id \<Rightarrow> time \<Rightarrow> signed_cert \<Rightarrow> world
     \<Rightarrow> (EnrollResponse response + unit) \<times> world" where
  "enroll_tx req token deviceID now sg w =
    (case Exec (insert_device (new_device_row deviceID (tok_TenantID token) req now)) w of
       (Inl _, w1) \<Rightarrow> (Inl (Error StatusInternalServerError ''failed to create device''), w1)
     | (Inr _, w1) \<Rightarrow>
    (case enroll_scope deviceID token w1 of
       (Inl _, w2) \<Rightarrow>
         (Inl (ErrorWithCode StatusBadRequest ''invalid_scope''
            ''token scope references unknown or cross-tenant resources''), w2)
     | (Inr _, w2) \<Rightarrow>
    (case newID ''crt'' w2 of (certID, w3) \<Rightarrow>
     case Exec (insert_cert (new_cert_row certID deviceID sg now)) w3 of
       (Inl _, w4) \<Rightarrow> (Inl (Error StatusInternalServerError ''failed to store certificate''), w4)
     | (Inr _, w4) \<Rightarrow> (Inr (), w4))))"

definition enroll_device ::
  "pki_library \<Rightarrow> bool \<Rightarrow> EnrollRequest \<Rightarrow> EnrollmentToken \<Rightarrow> world \<Rightarrow> EnrollResponse response \<times> world"
where
  "enroll_device lib audit req token w =
    (case newID ''dev'' w of (deviceID, w1) \<Rightarrow>
     case Now w1 of (now, w2) \<Rightarrow>
     case SignCSR lib (eq_CSR req) deviceID defaultCertValidity w2 of
       (Inl _, w3) \<Rightarrow> (Error StatusBadRequest ''invalid CSR'', w3)
     | (Inr sg, w3) \<Rightarrow>
    (case Transaction (Error StatusInternalServerError ''failed to enroll'')
            (Error StatusInternalServerError ''failed to enroll'')
            (enroll_tx req token deviceID now sg) w3 of
       (Inl resp, w4) \<Rightarrow> (resp, w4)
     | (Inr _, w4) \<Rightarrow>
       (JSON StatusOK \<lparr>er_AgentID = deviceID, er_Certificate = sg_PEM sg, er_CAChain = CAChainPEM lib,
          er_PollIntervalSeconds = 30\<rparr>,
        if audit then LogAction (tok_TenantID token) deviceID ActorTypeAgent ''device.enroll'' ''device''
          deviceID (Some [(''hostname'', eq_Hostname req), (''token_id'', tok_ID token),
            (''cert_serial'', sg_SerialHex sg)]) w4 else w4)))"

definition EnrollHandler_ServeHTTP ::
  "pki_library \<Rightarrow> Resolver \<Rightarrow> bool \<Rightarrow> string \<Rightarrow> EnrollRequest json \<Rightarrow> world
     \<Rightarrow> EnrollResponse response \<times> world" where
  "EnrollHandler_ServeHTTP lib quota audit meth body w =
    (if meth \<noteq> ''POST'' then (Error StatusMethodNotAllowed ''method not allowed'', w)
     else case body of
       Malformed \<Rightarrow> (Error StatusBadRequest ''invalid request body'', w)
     | Doc req \<Rightarrow>
    (if eq_EnrollmentToken req = '''' \<or> eq_CSR req = '''' \<or> eq_Hostname req = '''' then
       (Error StatusBadRequest ''enrollment_token, csr, and hostname are required'', w)
     else case ValidateAndConsume (eq_EnrollmentToken req) w of
       (Inl _, w1) \<Rightarrow> (Error StatusUnauthorized ''invalid or expired enrollment token'', w1)
     | (Inr token, w1) \<Rightarrow>
    (case Resolver_CheckDevices quota (tok_TenantID token) w1 of
       (Inl e, w2) \<Rightarrow>
         (case HandleQuotaError e of
            Some resp \<Rightarrow> (resp, w2)
          | None \<Rightarrow> (Error StatusInternalServerError ''failed to check quota'', w2))
     | (Inr _, w2) \<Rightarrow> enroll_device lib audit req token w2)))"

section \<open>Renewal (server/api/renew.go)\<close>

definition renew_tx ::
  "id \<Rightarrow> id \<Rightarrow> signed_cert \<Rightarrow> time \<Rightarrow> world \<Rightarrow> (RenewResponse response + nat) \<times> world" where
  "renew_tx agentID certID sg now w =
    (case Exec (insert_cert (new_cert_row certID agentID sg now)) w of
       (Inl _, w1) \<Rightarrow> (Inl (Error StatusInternalServerError ''failed to store certificate''), w1)
     | (Inr _, w1) \<Rightarrow>
    (case Exec (update_certs
            (\<lambda>c. c_device_id c = agentID \<and> c_id c \<noteq> certID \<and> c_revoked_at c = None)
            (\<lambda>c. c\<lparr>c_revoked_at := Some now, c_revocation_reason := Some ''superseded_by_renewal''\<rparr>)) w1 of
       (Inl _, w2) \<Rightarrow> (Inl (Error StatusInternalServerError ''failed to store certificate''), w2)
     | (Inr n, w2) \<Rightarrow> (Inr n, w2)))"

definition RenewHandler_ServeHTTP ::
  "pki_library \<Rightarrow> bool \<Rightarrow> string \<Rightarrow> request_context \<Rightarrow> RenewRequest json \<Rightarrow> world
     \<Rightarrow> RenewResponse response \<times> world" where
  "RenewHandler_ServeHTTP lib audit meth ctx body w =
    (if meth \<noteq> ''POST'' then (Error StatusMethodNotAllowed ''method not allowed'', w)
     else let agentID = ctx_AgentID ctx; tenantID = ctx_TenantID ctx in
     if agentID = '''' then (Error StatusUnauthorized ''agent identity required'', w)
     else case body of
       Malformed \<Rightarrow> (Error StatusBadRequest ''invalid request body'', w)
     | Doc req \<Rightarrow>
    (if rq_CSR req = '''' then (Error StatusBadRequest ''csr is required'', w)
     else case SignCSR lib (rq_CSR req) agentID defaultCertValidity w of
       (Inl _, w1) \<Rightarrow> (Error StatusBadRequest ''invalid CSR'', w1)
     | (Inr sg, w1) \<Rightarrow>
    (case Now w1 of (now, w2) \<Rightarrow>
     case newID ''crt'' w2 of (certID, w3) \<Rightarrow>
     case Transaction (Error StatusInternalServerError ''failed to store certificate'')
            (Error StatusInternalServerError ''failed to store certificate'')
            (renew_tx agentID certID sg now) w3 of
       (Inl resp, w4) \<Rightarrow> (resp, w4)
     | (Inr n, w4) \<Rightarrow>
       (JSON StatusOK \<lparr>rr_Certificate = sg_PEM sg, rr_CAChain = CAChainPEM lib\<rparr>,
        if audit then LogAction tenantID agentID ActorTypeAgent ''cert.renew'' ''agent_certificate'' certID
          (Some [(''cert_serial'', sg_SerialHex sg), (''superseded_certs'', decimal (int n)),
            (''revocation_reason'', ''superseded_by_renewal'')]) w4 else w4))))"

section \<open>Tokens for operators (server/api/enrollment_tokens.go)\<close>

record createTokenRequest =
  ctr_ExpiresInSeconds :: int
  ctr_Scope :: "APIScope option"

record createTokenResponse =
  ctp_ID :: id
  ctp_Token :: string
  ctp_ExpiresAt :: time
  ctp_Scope :: "APIScope option"

text \<open>The text of an error of the database driver is not modelled.\<close>

fun scope_error_message :: "scope_error \<Rightarrow> string" where
  "scope_error_message (NotInTenant tbl i) = tbl @ '' '' @ i @ '' not found in tenant''"
| "scope_error_message (ScopeQuery _) = ''database error''"

text \<open>An absent body is the zero request.\<close>

definition EnrollmentTokensHandler_Create ::
  "bool \<Rightarrow> auth_context \<Rightarrow> createTokenRequest json option \<Rightarrow> world \<Rightarrow> createTokenResponse response \<times> world"
where
  "EnrollmentTokensHandler_Create audit ctx body w =
    (case (case body of None \<Rightarrow> Doc \<lparr>ctr_ExpiresInSeconds = 0, ctr_Scope = None\<rparr> | Some b \<Rightarrow> b) of
       Malformed \<Rightarrow> (Error StatusBadRequest ''invalid request body'', w)
     | Doc req \<Rightarrow>
    (if \<not> ctx_IsAdmin ctx \<and> ctx_Scope ctx \<noteq> None \<and> \<not> ScopeIsSubset (ctx_Scope ctx) (ctr_Scope req) then
       (ErrorWithCode StatusForbidden ''scope_violation''
          ''enrollment token scope must be a subset of the API key's scope'', w)
     else case ValidateScopeTenant (ctx_TenantID ctx) (ctr_Scope req) w of
       (Inl e, w1) \<Rightarrow> (ErrorWithCode StatusBadRequest ''invalid_scope'' (scope_error_message e), w1)
     | (Inr _, w1) \<Rightarrow>
    (case CreateToken (ctx_TenantID ctx) (ctx_UserID ctx) (ctr_Scope req)
            (if ctr_ExpiresInSeconds req > 0 then ctr_ExpiresInSeconds req * Second else 24 * 3600 * Second) w1 of
       (Inl _, w2) \<Rightarrow> (Error StatusInternalServerError ''failed to create enrollment token'', w2)
     | (Inr (token, raw), w2) \<Rightarrow>
       (JSON StatusCreated \<lparr>ctp_ID = tok_ID token, ctp_Token = raw, ctp_ExpiresAt = tok_ExpiresAt token,
          ctp_Scope = tok_Scope token\<rparr>,
        if audit then LogAction (ctx_TenantID ctx) (ctx_UserID ctx) ActorTypeUser
          ''enrollment_token.create'' ''enrollment_token'' (tok_ID token) None w2 else w2))))"

record tokenListItem =
  tli_ID :: id
  tli_CreatedBy :: id
  tli_Scope :: "APIScope option"
  tli_UsedAt :: "time option"
  tli_ExpiresAt :: time
  tli_CreatedAt :: time

definition token_item :: "enrollment_token_row \<Rightarrow> tokenListItem" where
  "token_item r =
     \<lparr>tli_ID = et_id r, tli_CreatedBy = et_created_by r,
      tli_Scope = (case et_scope r of Some (Doc sc) \<Rightarrow> Some sc | _ \<Rightarrow> None),
      tli_UsedAt = et_used_at r, tli_ExpiresAt = et_expires_at r, tli_CreatedAt = et_created_at r\<rparr>"

definition EnrollmentTokensHandler_List :: "auth_context \<Rightarrow> world \<Rightarrow> tokenListItem list response \<times> world"
where
  "EnrollmentTokensHandler_List ctx w =
    (case Query (\<lambda>d. Inr (take 100 (sort_key (\<lambda>r. - et_created_at r)
             (filter (\<lambda>r. et_tenant_id r = ctx_TenantID ctx) (db_enrollment_tokens d))))) w of
       (Inl _, w1) \<Rightarrow> (Error StatusInternalServerError ''failed to list enrollment tokens'', w1)
     | (Inr rs, w1) \<Rightarrow> (JSON StatusOK (map token_item rs), w1))"

definition EnrollmentTokensHandler_Delete ::
  "bool \<Rightarrow> auth_context \<Rightarrow> id \<Rightarrow> world \<Rightarrow> unit response \<times> world" where
  "EnrollmentTokensHandler_Delete audit ctx tokenID =
     row_action audit ctx ''enrollment token not found'' ''failed to delete enrollment token''
       ''enrollment_token.delete'' ''enrollment_token'' tokenID
       (ExecRow (delete_tokens (\<lambda>r. et_id r = tokenID \<and> et_tenant_id r = ctx_TenantID ctx)))"

section \<open>Tokens are used once\<close>

lemma ValidateAndConsume_Inr:
  assumes "ValidateAndConsume raw w = (Inr tok, w1)"
  obtains r where "r \<in> set (db_enrollment_tokens (w_db w))"
    "token_usable (hashToken raw) (w_clock w (w_ticks w)) r"
    "scan_token (r\<lparr>et_used_at := Some (w_clock w (w_ticks w))\<rparr>) = Inr tok"
    "w_db w1 = (w_db w)\<lparr>db_enrollment_tokens :=
       update_rows (token_usable (hashToken raw) (w_clock w (w_ticks w)))
         (\<lambda>r. r\<lparr>et_used_at := Some (w_clock w (w_ticks w))\<rparr>) (db_enrollment_tokens (w_db w))\<rparr>"
proof -
  obtain now w0 where now: "Now w = (now, w0)" by (cases "Now w")
  have n: "now = w_clock w (w_ticks w)" "w_db w0 = w_db w" using now by (auto simp: Now_def)
  let ?s = "update_token_returning (token_usable (hashToken raw) now) (\<lambda>r. r\<lparr>et_used_at := Some now\<rparr>)"
  obtain q w2 where q: "Exec ?s w0 = (q, w2)" by (rule prod.exhaust)
  obtain r' where r': "q = Inr r'" and tok: "scan_token r' = Inr tok" and w1: "w1 = w2"
    using assms by (cases q) (auto simp: ValidateAndConsume_def now q token_result_def)
  from Exec_Inr [OF q [unfolded r']] obtain r where
    "find_row (token_usable (hashToken raw) now) (db_enrollment_tokens (w_db w)) = Some r"
    "r' = r\<lparr>et_used_at := Some now\<rparr>"
    "w_db w2 = (w_db w)\<lparr>db_enrollment_tokens :=
       update_rows (token_usable (hashToken raw) now) (\<lambda>r. r\<lparr>et_used_at := Some now\<rparr>)
         (db_enrollment_tokens (w_db w))\<rparr>"
    unfolding update_token_returning_def n(2) by (auto split: option.splits)
  with that tok w1 n(1) show thesis by (blast dest: find_row_SomeD)
qed

lemma scan_token_Inr:
  "scan_token r = Inr tok \<Longrightarrow> tok_ID tok = et_id r \<and> tok_TenantID tok = et_tenant_id r
     \<and> tok_Scope tok = (case et_scope r of Some (Doc sc) \<Rightarrow> Some sc | _ \<Rightarrow> None)"
  by (auto simp: scan_token_def Let_def split: option.splits json.splits)

lemma consume_spent:
  assumes "filter (\<lambda>r. et_token_hash r = hashToken raw \<and> et_used_at r = None)
      (db_enrollment_tokens (w_db w)) = []"
  shows "\<exists>e. fst (ValidateAndConsume raw w) = Inl e"
proof -
  obtain q w1 where q: "ValidateAndConsume raw w = (q, w1)" by (rule prod.exhaust)
  have "q \<noteq> Inr tok" for tok
  proof
    assume "q = Inr tok"
    then have "ValidateAndConsume raw w = (Inr tok, w1)" using q by simp
    then obtain r where "r \<in> set (db_enrollment_tokens (w_db w))"
      "token_usable (hashToken raw) (w_clock w (w_ticks w)) r" by (rule ValidateAndConsume_Inr)
    with assms show False by (auto simp: filter_empty_conv token_usable_def)
  qed
  then show ?thesis by (cases q) (auto simp: q)
qed


definition sample_token_row :: enrollment_token_row where
  "sample_token_row = \<lparr>et_id = ''enr1'', et_tenant_id = ''t1'', et_token_hash = hashToken ''secret'',
     et_created_by = ''u1'', et_scope = Some (Doc \<lparr>sc_GroupIDs = [''g1''], sc_TagIDs = [], sc_SiteIDs = [],
       sc_DeviceIDs = []\<rparr>), et_used_at = None, et_expires_at = 1000 * Second, et_created_at = 0\<rparr>"

definition sample_token_world :: world where
  "sample_token_world = (sample_world [])\<lparr>w_db := (sample_db [])\<lparr>db_enrollment_tokens := [sample_token_row]\<rparr>\<rparr>"


section \<open>Enrollment is all or nothing\<close>

text \<open>What the statements on memberships may do while a device is enrolled.\<close>

definition joins :: "id \<Rightarrow> id \<Rightarrow> db \<Rightarrow> db \<Rightarrow> bool" where
  "joins dev tenantID d d' \<longleftrightarrow>
     db_devices d' = db_devices d \<and> db_agent_certificates d' = db_agent_certificates d \<and>
     (\<forall>m. owners m d' = owners m d \<and> (\<exists>xs. members m d' = members m d @ xs \<and>
       list_all (\<lambda>x. fst x = dev \<and> (snd x, tenantID) \<in> set (owners m d)) xs))"

lemma joins_trans:
  assumes ab: "joins dev t a b" and bc: "joins dev t b c"
  shows "joins dev t a c"
proof -
  have "owners m c = owners m a \<and> (\<exists>xs. members m c = members m a @ xs \<and>
     list_all (\<lambda>x. fst x = dev \<and> (snd x, t) \<in> set (owners m a)) xs)" for m
  proof -
    from ab obtain xs where "members m b = members m a @ xs" "owners m b = owners m a"
      "list_all (\<lambda>x. fst x = dev \<and> (snd x, t) \<in> set (owners m a)) xs" unfolding joins_def by blast
    moreover from bc obtain ys where "members m c = members m b @ ys" "owners m c = owners m b"
      "list_all (\<lambda>x. fst x = dev \<and> (snd x, t) \<in> set (owners m b)) ys" unfolding joins_def by blast
    ultimately show ?thesis by (intro conjI exI [of _ "xs @ ys"]) simp_all
  qed
  with ab bc show ?thesis by (simp add: joins_def)
qed

interpretation joins: db_contract "joins dev tenantID" for dev tenantID
  by unfold_locales (simp add: joins_def, erule (1) joins_trans)

lemma joins_insert:
  assumes "insert_member_if_owned m dev i t d = Inr (n, d')"
  shows "joins dev t d d'"
proof (cases "d' = d")
  case True
  then show ?thesis by (simp add: joins.contract_refl)
next
  case False
  then have o: "(i, t) \<in> set (owners m d)" and d': "d' = set_members m (members m d @ [(dev, i)]) d"
    using assms by (simp_all add: insert_member_if_owned_def insert_member_def split: if_splits)
  show ?thesis using o by (simp add: d' joins_def)
qed

lemma apply_membership_after:
  assumes "joins dev t d (w_db w)"
  shows "joins dev t d (w_db (snd (apply_membership m dev t i w)))"
proof -
  have "joins dev t d (w_db (snd (Exec (insert_member_if_owned m dev i t) w)))"
    using assms by (rule joins.Exec_after) (rule joins_insert)
  then show ?thesis
    by (simp add: apply_membership_def case_prod_beta Query_db split: sum.split)
qed

lemma enroll_scope_after:
  assumes "joins dev (tok_TenantID token) d (w_db w)"
  shows "joins dev (tok_TenantID token) d (w_db (snd (enroll_scope dev token w)))"
proof (cases "tok_Scope token")
  case None
  with assms show ?thesis by (simp add: enroll_scope_def)
next
  case (Some sc)
  have "joins dev t d (w_db (snd (applyScope dev t sc w)))" if "joins dev t d (w_db w)" for t
    unfolding applyScope_def
    by (intro joins.after joins.for_each_after apply_membership_after that; assumption)
  from this [OF assms] show ?thesis by (simp add: enroll_scope_def Some)
qed

text \<open>What a committed enrollment adds: one device, one certificate of it, and memberships of it in
  groups, tags and sites of its tenant.\<close>

definition enrolled :: "device_row \<Rightarrow> cert_row \<Rightarrow> db \<Rightarrow> db \<Rightarrow> bool" where
  "enrolled dev c d d' \<longleftrightarrow>
     db_devices d' = db_devices d @ [dev] \<and> d_id dev \<notin> set (map d_id (db_devices d)) \<and>
     db_agent_certificates d' = db_agent_certificates d @ [c] \<and>
     c_device_id c = d_id dev \<and> c_revoked_at c = None \<and>
     c_serial_number c \<notin> set (map c_serial_number (db_agent_certificates d)) \<and>
     (\<forall>m. \<exists>xs. members m d' = members m d @ xs \<and>
       list_all (\<lambda>x. fst x = d_id dev \<and> (snd x, d_tenant_id dev) \<in> set (owners m d)) xs)"

lemma enroll_tx_Inr:
  assumes "enroll_tx req token dev now sg w = (Inr u, w')"
  obtains i where "enrolled (new_device_row dev (tok_TenantID token) req now)
    (new_cert_row i dev sg now) (w_db w) (w_db w')"
proof -
  let ?dev = "new_device_row dev (tok_TenantID token) req now"
  obtain q w1 where q: "Exec (insert_device ?dev) w = (q, w1)" by (rule prod.exhaust)
  then obtain u1 where q1: "Exec (insert_device ?dev) w = (Inr u1, w1)"
    using assms by (cases q) (auto simp: enroll_tx_def)
  obtain s w2 where s: "enroll_scope dev token w1 = (s, w2)" by (rule prod.exhaust)
  then obtain u2 where s1: "enroll_scope dev token w1 = (Inr u2, w2)"
    using assms by (cases s) (auto simp: enroll_tx_def q1)
  obtain i w3 where i: "newID ''crt'' w2 = (i, w3)" by (rule prod.exhaust)
  obtain c w4 where c: "Exec (insert_cert (new_cert_row i dev sg now)) w3 = (c, w4)" by (rule prod.exhaust)
  then obtain u3 where c1: "Exec (insert_cert (new_cert_row i dev sg now)) w3 = (Inr u3, w')"
    using assms by (cases c) (auto simp: enroll_tx_def q1 s1 i)
  have d3: "w_db w3 = w_db w2" using newID_db [of "''crt''" w2] i by simp
  have d1: "w_db w1 = (w_db w)\<lparr>db_devices := db_devices (w_db w) @ [?dev]\<rparr>"
      "dev \<notin> set (map d_id (db_devices (w_db w)))"
    using Exec_Inr [OF q1] by (auto simp: insert_device_def new_device_row_def)
  have j: "joins dev (tok_TenantID token) (w_db w1) (w_db w2)"
    using enroll_scope_after [of dev token "w_db w1" w1] s1 by (simp add: joins.contract_refl)
  have d4: "w_db w' = (w_db w2)\<lparr>db_agent_certificates :=
        db_agent_certificates (w_db w2) @ [new_cert_row i dev sg now]\<rparr>"
      "sg_SerialHex sg \<notin> set (map c_serial_number (db_agent_certificates (w_db w2)))"
    using Exec_Inr [OF c1] d3 by (auto simp: insert_cert_def new_cert_row_def)
  have o1: "owners m (w_db w1) = owners m (w_db w)" "members m (w_db w1) = members m (w_db w)" for m
    by (cases m; simp add: d1)+
  have o4: "members m (w_db w') = members m (w_db w2)" for m by (cases m; simp add: d4)
  have "enrolled ?dev (new_cert_row i dev sg now) (w_db w) (w_db w')"
    using d1 d4 j o1 o4 by (simp add: enrolled_def joins_def new_device_row_def new_cert_row_def)
  then show thesis by (rule that)
qed

lemma SignCSR_db: "w_db (snd (SignCSR lib csr i v w)) = w_db w"
  by (simp add: SignCSR_def randomSerial_def Now_def rand_Read_def split: option.split)

lemma SignCSR_Inr:
  assumes "SignCSR lib csr i v w = (Inr sg, w')"
  obtains serial now key der where
    "create_certificate lib (agent_template i serial now v) key = Some der"
    "sg_PEM sg = pem_encode lib der" "sg_SerialHex sg = serial_hex serial"
    "sg_Fingerprint sg = hex_encode (Sum256 der)" "key = ECDSA ''P-256''"
proof -
  obtain r where r: "pem_csr lib csr = Some r"
    using assms by (cases "pem_csr lib csr") (auto simp: SignCSR_def)
  obtain serial w1 where s: "randomSerial w = (serial, w1)" by (rule prod.exhaust)
  obtain now w2 where n: "Now w1 = (now, w2)" by (rule prod.exhaust)
  have k: "csr_PublicKey r = ECDSA ''P-256''" "csr_SignatureOK r"
    using assms by (auto simp: SignCSR_def r validateAgentPublicKey_def s n
        split: if_splits public_key.splits option.splits)
  obtain der where der: "create_certificate lib (agent_template i serial now v) (csr_PublicKey r) = Some der"
    using assms by (cases "create_certificate lib (agent_template i serial now v) (csr_PublicKey r)")
      (auto simp: SignCSR_def r s n k validateAgentPublicKey_def)
  then have "sg = \<lparr>sg_PEM = pem_encode lib der, sg_SerialHex = serial_hex serial,
      sg_Fingerprint = hex_encode (Sum256 der)\<rparr>"
    using assms by (simp add: SignCSR_def r s n k validateAgentPublicKey_def)
  with that [OF der] k show thesis by simp
qed

lemma enrolled_same:
  assumes "identity_tables d1 = identity_tables d" "\<And>m. owners m d1 = owners m d"
    and "enrolled dev c d1 d2" and "identity_tables d' = identity_tables d2"
  shows "enrolled dev c d d'"
  using assms(2,3) identity_tablesD [OF assms(1)] identity_tablesD [OF assms(4)]
  by (simp add: enrolled_def)

lemma enroll_tx_Inl: "enroll_tx req token dev now sg w = (Inl r, w') \<Longrightarrow> \<exists>s c m. r = ErrorBody s c m"
  by (auto simp: enroll_tx_def Error_def ErrorWithCode_def split: sum.splits prod.splits)

text \<open>The transaction: either it committed, and the reply says so unless it was lost, or nothing
  happened.\<close>

definition enroll_outcome ::
  "EnrollResponse response \<Rightarrow> (id \<Rightarrow> device_row \<Rightarrow> cert_row \<Rightarrow> bool) \<Rightarrow> db \<Rightarrow> db \<Rightarrow> bool" where
  "enroll_outcome resp Q d d' =
    (case resp of
       JSON _ x \<Rightarrow> (\<exists>dev c. enrolled dev c d d' \<and> d_id dev = er_AgentID x \<and> Q (er_Certificate x) dev c)
     | _ \<Rightarrow> identity_tables d' = identity_tables d \<or> (\<exists>dev c. enrolled dev c d d'))"

text \<open>The certificate in the reply is signed for the device and recorded for it.\<close>

definition certified :: "pki_library \<Rightarrow> id \<Rightarrow> string \<Rightarrow> device_row \<Rightarrow> cert_row \<Rightarrow> bool" where
  "certified lib tenantID pem dev c \<longleftrightarrow> d_tenant_id dev = tenantID \<and>
    (\<exists>serial now der. create_certificate lib (agent_template (d_id dev) serial now defaultCertValidity)
         (ECDSA ''P-256'') = Some der
       \<and> pem = pem_encode lib der \<and> c_serial_number c = serial_hex serial
       \<and> c_fingerprint c = hex_encode (Sum256 der) \<and> d_status dev = DeviceStatusOnline
       \<and> d_id dev \<noteq> '''')"

lemma newID_nonempty: "newID p w = (i, w') \<Longrightarrow> i \<noteq> ''''"
  by (auto simp: newID_def split: prod.splits)

lemma certifiedI:
  assumes "SignCSR lib csr (d_id dev) defaultCertValidity w = (Inr sg, w')"
    and "d_id dev \<noteq> ''''" "d_status dev = DeviceStatusOnline"
    and "c_serial_number c = sg_SerialHex sg" "c_fingerprint c = sg_Fingerprint sg"
  shows "certified lib (d_tenant_id dev) (sg_PEM sg) dev c"
proof -
  from assms(1) obtain serial now key der where
    "create_certificate lib (agent_template (d_id dev) serial now defaultCertValidity) key = Some der"
    "sg_PEM sg = pem_encode lib der" "sg_SerialHex sg = serial_hex serial"
    "sg_Fingerprint sg = hex_encode (Sum256 der)" "key = ECDSA ''P-256''" by (rule SignCSR_Inr)
  with assms(2-) show ?thesis
    unfolding certified_def by (intro conjI exI [of _ serial] exI [of _ now] exI [of _ der]) simp_all
qed

lemma enroll_device_outcome:
  assumes "enroll_device lib audit req token w = (resp, w')"
  shows "enroll_outcome resp (certified lib (tok_TenantID token)) (w_db w) (w_db w')"
proof -
  obtain i w1 where i: "newID ''dev'' w = (i, w1)" by (rule prod.exhaust)
  obtain now w2 where now: "Now w1 = (now, w2)" by (rule prod.exhaust)
  obtain q w3 where q: "SignCSR lib (eq_CSR req) i defaultCertValidity w2 = (q, w3)" by (rule prod.exhaust)
  have d3: "w_db w3 = w_db w"
    using newID_db [of "''dev''" w] Now_db [of w1] SignCSR_db [of lib "eq_CSR req" i defaultCertValidity w2]
    by (simp add: i now q)
  show ?thesis
  proof (cases q)
    case (Inl e)
    then have "resp = Error StatusBadRequest ''invalid CSR''" "w' = w3"
      using assms by (simp_all add: enroll_device_def i now q)
    then show ?thesis by (simp add: d3 enroll_outcome_def Error_def)
  next
    case sg: (Inr sg)
    let ?no = "Error StatusInternalServerError ''failed to enroll'' :: EnrollResponse response"
    let ?dev = "new_device_row i (tok_TenantID token) req now"
    obtain x w4 where x: "Transaction ?no ?no (enroll_tx req token i now sg) w3 = (x, w4)"
      by (rule prod.exhaust)
    show ?thesis
    proof (cases x)
      case (Inr u)
      obtain a b where a: "w_db a = w_db w3" and tx: "enroll_tx req token i now sg a = (Inr u, b)"
        and b: "w_db w4 = w_db b"
        by (rule Transaction_Inr [OF x [unfolded Inr]])
      from tx obtain cid where e: "enrolled ?dev (new_cert_row cid i sg now) (w_db a) (w_db b)"
        by (rule enroll_tx_Inr)
      obtain y where y: "resp = JSON StatusOK y" "er_AgentID y = i" "er_Certificate y = sg_PEM sg"
        using assms by (simp add: enroll_device_def i now q sg x Inr) force
      have "identity_tables (w_db w') = identity_tables (w_db w4)"
        using assms identity.LogAction_respects [where w = w4]
        by (auto simp: enroll_device_def i now q sg x Inr split: if_splits)
      with e have "enrolled ?dev (new_cert_row cid i sg now) (w_db w) (w_db w')"
        using enrolled_same [OF refl refl] by (simp add: a b d3)
      moreover have "certified lib (tok_TenantID token) (sg_PEM sg) ?dev (new_cert_row cid i sg now)"
        using certifiedI [of lib "eq_CSR req" ?dev w2 sg w3 "new_cert_row cid i sg now"] q newID_nonempty [OF i]
        by (simp add: sg new_device_row_def new_cert_row_def)
      moreover have "d_id ?dev = er_AgentID y" using y by (simp add: new_device_row_def)
      ultimately show ?thesis unfolding enroll_outcome_def y response.case by blast
    next
      case (Inl r)
      have w': "w' = w4" "resp = r" using assms by (simp_all add: enroll_device_def i now q sg x Inl)
      obtain s c m where "r = ErrorBody s c m"
        using Transaction_Inl [OF x [unfolded Inl]] enroll_tx_Inl by (fastforce simp: Error_def)
      moreover have "w_db w4 = w_db w \<or> (\<exists>dev c. enrolled dev c (w_db w) (w_db w4))"
        using Transaction_cases [OF x] enroll_tx_Inr d3 by metis
      ultimately show ?thesis using w' by (auto simp: enroll_outcome_def)
    qed
  qed
qed

lemma consume_identity:
  assumes "ValidateAndConsume raw w = (r, w1)"
  shows "identity_tables (w_db w1) = identity_tables (w_db w)" "owners m (w_db w1) = owners m (w_db w)"
proof -
  have upd: "identity_tables d' = identity_tables d \<and> owners m d' = owners m d"
    if "update_token_returning P f d = Inr (x, d')" for P f d x d'
    using that by (cases m) (auto simp: update_token_returning_def identity_tables_def split: option.splits)
  obtain now w0 where now: "Now w = (now, w0)" by (cases "Now w")
  then have d0: "w_db w0 = w_db w" using Now_db [of w] by simp
  let ?s = "update_token_returning (token_usable (hashToken raw) now) (\<lambda>r. r\<lparr>et_used_at := Some now\<rparr>)"
  obtain q w2 where q: "Exec ?s w0 = (q, w2)" by (rule prod.exhaust)
  have "w1 = w2" using assms by (cases q) (auto simp: ValidateAndConsume_def now q token_result_def)
  with Exec_cases [OF q] d0 upd
  show "identity_tables (w_db w1) = identity_tables (w_db w)" "owners m (w_db w1) = owners m (w_db w)"
    by metis+
qed

lemma enroll_outcome_from:
  assumes "identity_tables d1 = identity_tables d" "\<And>m. owners m d1 = owners m d"
    and "enroll_outcome resp Q d1 d'"
  shows "enroll_outcome resp Q d d'"
  using assms(3) enrolled_same [OF assms(1,2) _ refl] assms(1)
  by (cases resp) (fastforce simp: enroll_outcome_def)+

lemma HandleQuotaError_error: "HandleQuotaError e = Some r \<Longrightarrow> \<exists>s c m. r = ErrorBody s c m"
  by (auto simp: HandleQuotaError_def ErrorWithCode_def Error_def
      split: option.splits quota_error.splits)

text \<open>A request is refused before anything but the token is touched, or it reaches the signing with
  a token that was just consumed.\<close>

lemma enroll_request_cases:
  assumes "EnrollHandler_ServeHTTP lib quota audit meth body w = (resp, w')"
  shows "((\<exists>s c m. resp = ErrorBody s c m) \<and>
      (w' = w \<or> (\<exists>raw. w_db w' = w_db (snd (ValidateAndConsume raw w)))))
    \<or> (\<exists>req tok w1 w2. body = Doc req \<and> ValidateAndConsume (eq_EnrollmentToken req) w = (Inr tok, w1)
        \<and> w_db w2 = w_db w1 \<and> enroll_device lib audit req tok w2 = (resp, w'))"
proof (cases "meth = ''POST'' \<and> (\<exists>req. body = Doc req \<and> eq_EnrollmentToken req \<noteq> ''''
    \<and> eq_CSR req \<noteq> '''' \<and> eq_Hostname req \<noteq> '''')")
  case False
  then show ?thesis using assms
    by (cases body) (auto simp: EnrollHandler_ServeHTTP_def Error_def split: if_splits)
next
  case True
  then obtain req where b: "meth = ''POST''" "body = Doc req" "eq_EnrollmentToken req \<noteq> ''''"
    "eq_CSR req \<noteq> ''''" "eq_Hostname req \<noteq> ''''" by blast
  obtain v w1 where v: "ValidateAndConsume (eq_EnrollmentToken req) w = (v, w1)" by (rule prod.exhaust)
  show ?thesis
  proof (cases v)
    case (Inl e)
    then have "resp = Error StatusUnauthorized ''invalid or expired enrollment token''" "w' = w1"
      using assms by (simp_all add: EnrollHandler_ServeHTTP_def b v)
    then show ?thesis using v by (metis Error_def snd_conv)
  next
    case tok: (Inr tok)
    obtain q w2 where q: "Resolver_CheckDevices quota (tok_TenantID tok) w1 = (q, w2)" by (rule prod.exhaust)
    have d2: "w_db w2 = w_db w1" using CheckDevices_db [of quota "tok_TenantID tok" w1] q by simp
    show ?thesis
    proof (cases q)
      case (Inl e)
      have "\<exists>s c m. resp = ErrorBody s c m" "w' = w2"
        using assms by (cases "HandleQuotaError e :: EnrollResponse response option";
          auto simp: EnrollHandler_ServeHTTP_def b v tok q Inl Error_def dest: HandleQuotaError_error)+
      then show ?thesis using v d2 by (metis snd_conv)
    next
      case (Inr u)
      have "enroll_device lib audit req tok w2 = (resp, w')"
        using assms by (simp add: EnrollHandler_ServeHTTP_def b v tok q Inr)
      then show ?thesis using v tok d2 b by blast
    qed
  qed
qed

definition token_authorizes :: "EnrollRequest json \<Rightarrow> world \<Rightarrow> id \<Rightarrow> bool" where
  "token_authorizes body w tenantID \<longleftrightarrow>
    (\<exists>req r. body = Doc req \<and> r \<in> set (db_enrollment_tokens (w_db w)) \<and> et_tenant_id r = tenantID
       \<and> token_usable (hashToken (eq_EnrollmentToken req)) (w_clock w (w_ticks w)) r)"

lemma enroll_outcome_mono:
  "enroll_outcome resp Q d d' \<Longrightarrow> (\<And>pem dev c. Q pem dev c \<Longrightarrow> Q' pem dev c) \<Longrightarrow> enroll_outcome resp Q' d d'"
  by (cases resp; simp add: enroll_outcome_def; blast)

lemma enroll_request_outcome:
  assumes e: "EnrollHandler_ServeHTTP lib quota audit meth body w = (resp, w')"
  shows "enroll_outcome resp (\<lambda>pem dev c. \<exists>t. token_authorizes body w t \<and> certified lib t pem dev c)
    (w_db w) (w_db w')"
proof -
  let ?Q = "\<lambda>pem dev c. \<exists>t. token_authorizes body w t \<and> certified lib t pem dev c"
  from enroll_request_cases [OF e] have "enroll_outcome resp ?Q (w_db w) (w_db w')"
  proof (elim disjE conjE exE)
    fix s c m raw
    assume "resp = ErrorBody s c m" "w_db w' = w_db (snd (ValidateAndConsume raw w))"
    then show ?thesis
      by (simp add: enroll_outcome_def consume_identity(1) [OF surjective_pairing])
  next
    fix req tok w1 w2
    assume b: "body = Doc req" and v: "ValidateAndConsume (eq_EnrollmentToken req) w = (Inr tok, w1)"
      and d: "w_db w2 = w_db w1" and "enroll_device lib audit req tok w2 = (resp, w')"
    then have "enroll_outcome resp (certified lib (tok_TenantID tok)) (w_db w1) (w_db w')"
      using enroll_device_outcome by metis
    moreover have "token_authorizes body w (tok_TenantID tok)"
      using v b by (rule_tac ValidateAndConsume_Inr [OF v])
        (auto simp: token_authorizes_def dest!: scan_token_Inr)
    ultimately have "enroll_outcome resp ?Q (w_db w1) (w_db w')"
      by (blast intro: enroll_outcome_mono)
    then show ?thesis by (rule enroll_outcome_from [OF consume_identity [OF v]])
  qed (simp add: enroll_outcome_def)
  then show ?thesis .
qed

text \<open>C23: Enrollment is all or nothing, whatever statement fails.  A request that is answered with
  an identity has added exactly one device, new and in the tenant of an unused and unexpired token
  whose secret the request carries, one unrevoked certificate of that device, which is the one in the
  answer, and memberships of that device in groups, tags and sites of its own tenant.  Any other
  answer leaves devices, certificates and memberships as they were, unless only the acknowledgement
  of the commit was lost.\<close>

theorem enroll_atomic:
  "case EnrollHandler_ServeHTTP lib quota audit meth body w of (resp, w') \<Rightarrow>
     enroll_outcome resp (\<lambda>pem dev c. \<exists>t. token_authorizes body w t \<and> certified lib t pem dev c)
       (w_db w) (w_db w')"
  using enroll_request_outcome [OF surjective_pairing] by (simp add: case_prod_beta)

section \<open>An enrolled device is authenticated\<close>

lemma filter_key_single:
  assumes "k r \<notin> set (map k rs)"
  shows "filter (\<lambda>s. P s \<and> k s = k r) (rs @ [r]) = (if P r then [r] else [])"
proof -
  have "filter (\<lambda>s. P s \<and> k s = k r) rs = []" using assms by (induction rs) auto
  then show ?thesis by simp
qed

lemma enrolled_lookup:
  assumes "enrolled dev c d d'"
  shows "device_certs (d_id dev) (c_serial_number c) d' = [(dev, c)]"
proof -
  have "filter (\<lambda>s. d_id s = d_id dev) (db_devices d') = [dev]"
    using assms filter_key_single [of d_id dev "db_devices d" "\<lambda>_. True"] by (simp add: enrolled_def)
  moreover have "filter (\<lambda>s. c_device_id s = d_id dev \<and> c_serial_number s = c_serial_number c)
      (db_agent_certificates d') = [c]"
    using assms filter_key_single [of c_serial_number c _ "\<lambda>s. c_device_id s = d_id dev"]
    by (simp add: enrolled_def)
  ultimately show ?thesis by (simp add: device_certs_def)
qed

lemma mtls_accepts:
  assumes "request_cert lib r = Some cert" "x_CommonName cert \<noteq> ''''" "w_faults w = []"
    and "x_NotBefore cert \<le> w_clock w (w_ticks w)" "w_clock w (w_ticks w) \<le> x_NotAfter cert"
    and "device_certs (x_CommonName cert) (serial_hex (x_SerialNumber cert)) (w_db w) = [(dev, c)]"
    and "c_revoked_at c = None" "d_status dev \<noteq> DeviceStatusRevoked"
  shows "fst (MTLSMiddleware_Handler lib r ctx w)
    = Inr (ctx\<lparr>ctx_AgentID := x_CommonName cert, ctx_TenantID := d_tenant_id dev\<rparr>)"
  using assms
  by (simp add: MTLSMiddleware_Handler_def Let_def Now_def Query_no_fault select_row_def)

lemma certified_accepted:
  assumes e: "enrolled dev c d d'" and k: "certified lib t pem dev c"
  shows "\<exists>cert der. create_certificate lib cert (ECDSA ''P-256'') = Some der \<and> pem = pem_encode lib der
    \<and> x_NotAfter cert = x_NotBefore cert + defaultCertValidity
    \<and> (\<forall>clib r rest ctx w. rq_PeerCertificates r = cert # rest \<and> w_faults w = []
        \<and> db_devices (w_db w) = db_devices d' \<and> db_agent_certificates (w_db w) = db_agent_certificates d'
        \<and> x_NotBefore cert \<le> w_clock w (w_ticks w) \<and> w_clock w (w_ticks w) \<le> x_NotAfter cert \<longrightarrow>
        fst (MTLSMiddleware_Handler clib r ctx w)
          = Inr (ctx\<lparr>ctx_AgentID := d_id dev, ctx_TenantID := t\<rparr>))"
proof -
  from k obtain serial now der where s: "c_serial_number c = serial_hex serial" "pem = pem_encode lib der"
    "create_certificate lib (agent_template (d_id dev) serial now defaultCertValidity) (ECDSA ''P-256'') = Some der"
    and dev: "d_status dev = DeviceStatusOnline" "d_id dev \<noteq> ''''" "d_tenant_id dev = t"
    unfolding certified_def by blast
  let ?cert = "agent_template (d_id dev) serial now defaultCertValidity"
  have "fst (MTLSMiddleware_Handler clib r ctx w) = Inr (ctx\<lparr>ctx_AgentID := d_id dev, ctx_TenantID := t\<rparr>)"
    if "rq_PeerCertificates r = ?cert # rest" "w_faults w = []"
      "db_devices (w_db w) = db_devices d'" "db_agent_certificates (w_db w) = db_agent_certificates d'"
      "x_NotBefore ?cert \<le> w_clock w (w_ticks w)" "w_clock w (w_ticks w) \<le> x_NotAfter ?cert"
    for clib r rest ctx w
  proof -
    have "device_certs (d_id dev) (serial_hex serial) (w_db w) = [(dev, c)]"
      using enrolled_lookup [OF e] that(3,4) s(1) by (simp add: device_certs_def)
    then show ?thesis
      using mtls_accepts [of clib r ?cert w dev c ctx] that dev e
      by (simp add: request_cert_def agent_template_def enrolled_def DeviceStatusOnline_def
          DeviceStatusRevoked_def)
  qed
  moreover have "x_NotAfter ?cert = x_NotBefore ?cert + defaultCertValidity" by (simp add: agent_template_def)
  ultimately show ?thesis using s(2,3) by (intro exI [of _ ?cert] exI [of _ der]) blast
qed

text \<open>C24: The identity that an enrollment hands out works: the certificate in the answer was signed
  for the agent's key, and as long as devices and certificates stay as the enrollment left them a
  request with it during its ninety days is accepted as that agent, in the tenant of the token.\<close>

theorem enrolled_agent_authenticates:
  assumes "EnrollHandler_ServeHTTP lib quota audit meth body w = (JSON s x, w')"
  shows "\<exists>cert der t. create_certificate lib cert (ECDSA ''P-256'') = Some der
    \<and> er_Certificate x = pem_encode lib der \<and> token_authorizes body w t
    \<and> x_NotAfter cert = x_NotBefore cert + defaultCertValidity
    \<and> (\<forall>clib r rest ctx w2. rq_PeerCertificates r = cert # rest \<and> w_faults w2 = []
        \<and> db_devices (w_db w2) = db_devices (w_db w')
        \<and> db_agent_certificates (w_db w2) = db_agent_certificates (w_db w')
        \<and> x_NotBefore cert \<le> w_clock w2 (w_ticks w2) \<and> w_clock w2 (w_ticks w2) \<le> x_NotAfter cert \<longrightarrow>
        fst (MTLSMiddleware_Handler clib r ctx w2)
          = Inr (ctx\<lparr>ctx_AgentID := er_AgentID x, ctx_TenantID := t\<rparr>))"
proof -
  from enroll_request_outcome [OF assms] obtain dev c t where
    e: "enrolled dev c (w_db w) (w_db w')" "d_id dev = er_AgentID x" "token_authorizes body w t"
    and k: "certified lib t (er_Certificate x) dev c"
    unfolding enroll_outcome_def response.case by blast
  from certified_accepted [OF e(1) k] e(2,3) show ?thesis by metis
qed

definition sample_pki :: pki_library where
  "sample_pki = \<lparr>pem_csr = (\<lambda>s. if s = ''csr'' then Some \<lparr>csr_PublicKey = ECDSA ''P-256'', csr_SignatureOK = True\<rparr> else None),
     create_certificate = (\<lambda>c _. Some (bytes_of (x_CommonName c))), pem_encode = hex_encode, ca_certificate = []\<rparr>"

definition sample_enroll_request :: EnrollRequest where
  "sample_enroll_request = \<lparr>eq_EnrollmentToken = ''secret'', eq_CSR = ''csr'', eq_Hostname = ''h'', eq_OS = ''linux'',
     eq_OSVersion = ''1'', eq_Arch = ''amd64'', eq_AgentVersion = ''1''\<rparr>"

theorem enrolled_agent_authenticates_witness:
  "\<exists>x w' cert der. EnrollHandler_ServeHTTP sample_pki None False ''POST'' (Doc sample_enroll_request)
       sample_token_world = (JSON StatusOK x, w')
     \<and> create_certificate sample_pki cert (ECDSA ''P-256'') = Some der
     \<and> er_Certificate x = pem_encode sample_pki der"
proof -
  obtain x w' where r: "EnrollHandler_ServeHTTP sample_pki None False ''POST'' (Doc sample_enroll_request)
       sample_token_world = (JSON StatusOK x, w')"
    by (simp add: EnrollHandler_ServeHTTP_def sample_enroll_request_def ValidateAndConsume_def
        sample_token_world_def sample_world_def sample_db_def Now_def Exec_no_fault sample_pki_def
        update_token_returning_def sample_token_row_def token_usable_def token_result_def scan_token_def
        Let_def Resolver_CheckDevices_def enroll_device_def newID_def rand_Read_def SignCSR_def
        randomSerial_def validateAgentPublicKey_def Transaction_def next_outcome_def enroll_tx_def
        insert_device_def constrained_def new_device_row_def sample_device_def sample_tenant_def
        enroll_scope_def applyScope_def apply_membership_def insert_member_if_owned_def insert_member_def
        insert_cert_def new_cert_row_def)
  from enrolled_agent_authenticates [OF r] r show ?thesis by blast
qed

section \<open>Renewal\<close>

lemma filter_update_other:
  "(\<And>r. P r \<Longrightarrow> \<not> Q r \<and> \<not> Q (f r)) \<Longrightarrow> filter Q (update_rows P f rs) = filter Q rs"
  by (induction rs) auto

lemma filter_update_cleared:
  "(\<And>r. P r \<Longrightarrow> \<not> Q (f r)) \<Longrightarrow> (\<And>r. r \<in> set rs \<Longrightarrow> Q r \<Longrightarrow> P r) \<Longrightarrow> filter Q (update_rows P f rs) = []"
  by (induction rs) auto

lemma renew_tx_Inr:
  assumes "renew_tx agentID certID sg now w = (Inr n, w')"
  shows "filter (\<lambda>c. c_device_id c = agentID \<and> c_revoked_at c = None) (db_agent_certificates (w_db w'))
      = [new_cert_row certID agentID sg now]"
    and "filter (\<lambda>c. c_device_id c \<noteq> agentID) (db_agent_certificates (w_db w'))
      = filter (\<lambda>c. c_device_id c \<noteq> agentID) (db_agent_certificates (w_db w))"
    and "db_devices (w_db w') = db_devices (w_db w)"
proof -
  let ?new = "new_cert_row certID agentID sg now"
  let ?P = "\<lambda>c. c_device_id c = agentID \<and> c_id c \<noteq> certID \<and> c_revoked_at c = None"
  let ?f = "\<lambda>c. c\<lparr>c_revoked_at := Some now, c_revocation_reason := Some ''superseded_by_renewal''\<rparr>"
  let ?old = "db_agent_certificates (w_db w)"
  obtain q w1 where q: "Exec (insert_cert ?new) w = (q, w1)" by (rule prod.exhaust)
  then obtain u where q1: "Exec (insert_cert ?new) w = (Inr u, w1)"
    using assms by (cases q) (auto simp: renew_tx_def)
  obtain q2 w2 where "Exec (update_certs ?P ?f) w1 = (q2, w2)" by (rule prod.exhaust)
  then have q2: "Exec (update_certs ?P ?f) w1 = (Inr n, w')"
    using assms by (cases q2) (auto simp: renew_tx_def q1)
  have i: "certID \<notin> set (map c_id ?old)" and d1: "w_db w1 = (w_db w)\<lparr>db_agent_certificates := ?old @ [?new]\<rparr>"
    using Exec_Inr [OF q1] by (simp_all add: insert_cert_def new_cert_row_def)
  have d2: "w_db w' = (w_db w1)\<lparr>db_agent_certificates := update_rows ?P ?f (db_agent_certificates (w_db w1))\<rparr>"
    using Exec_Inr [OF q2] by (simp add: update_certs_def)
  have d: "db_devices (w_db w') = db_devices (w_db w)"
    and c: "db_agent_certificates (w_db w') = update_rows ?P ?f ?old @ [?new]"
    by (simp_all add: d1 d2 new_cert_row_def update_rows_def)
  have "filter (\<lambda>c. c_device_id c = agentID \<and> c_revoked_at c = None) (update_rows ?P ?f ?old) = []"
    by (rule filter_update_cleared) (use i in auto)
  then show "filter (\<lambda>c. c_device_id c = agentID \<and> c_revoked_at c = None)
      (db_agent_certificates (w_db w')) = [?new]"
    by (simp add: c new_cert_row_def)
  have "filter (\<lambda>c. c_device_id c \<noteq> agentID) (update_rows ?P ?f ?old)
      = filter (\<lambda>c. c_device_id c \<noteq> agentID) ?old"
    by (rule filter_update_other) simp
  then show "filter (\<lambda>c. c_device_id c \<noteq> agentID) (db_agent_certificates (w_db w'))
      = filter (\<lambda>c. c_device_id c \<noteq> agentID) ?old"
    by (simp add: c new_cert_row_def)
  show "db_devices (w_db w') = db_devices (w_db w)" by (rule d)
qed

lemma renew_JSON:
  assumes "RenewHandler_ServeHTTP lib audit meth ctx body w = (JSON s x, w')"
  obtains req sg certID now n w1 w3 w4 where "body = Doc req"
    "SignCSR lib (rq_CSR req) (ctx_AgentID ctx) defaultCertValidity w = (Inr sg, w1)"
    "rr_Certificate x = sg_PEM sg" "w_db w3 = w_db w"
    "renew_tx (ctx_AgentID ctx) certID sg now w3 = (Inr n, w4)"
    "identity_tables (w_db w') = identity_tables (w_db w4)"
proof -
  obtain req where b: "meth = ''POST''" "ctx_AgentID ctx \<noteq> ''''" "body = Doc req" "rq_CSR req \<noteq> ''''"
    using assms by (cases body) (auto simp: RenewHandler_ServeHTTP_def Let_def split: if_splits)
  obtain q w1 where q: "SignCSR lib (rq_CSR req) (ctx_AgentID ctx) defaultCertValidity w = (q, w1)"
    by (rule prod.exhaust)
  then obtain sg where sg: "q = Inr sg" using assms
    by (cases q) (auto simp: RenewHandler_ServeHTTP_def b)
  obtain now w2 where now: "Now w1 = (now, w2)" by (rule prod.exhaust)
  obtain certID w3 where i: "newID ''crt'' w2 = (certID, w3)" by (rule prod.exhaust)
  have d3: "w_db w3 = w_db w"
    using SignCSR_db [of lib "rq_CSR req" "ctx_AgentID ctx" defaultCertValidity w] Now_db [of w1]
      newID_db [of "''crt''" w2] by (simp add: q now i)
  let ?no = "Error StatusInternalServerError ''failed to store certificate'' :: RenewResponse response"
  obtain t w4 where t: "Transaction ?no ?no (renew_tx (ctx_AgentID ctx) certID sg now) w3 = (t, w4)"
    by (rule prod.exhaust)
  show thesis
  proof (cases t)
    case (Inl r)
    have "r = JSON s x" using assms by (simp add: RenewHandler_ServeHTTP_def Let_def b q sg now i t Inl)
    moreover have "renew_tx (ctx_AgentID ctx) certID sg now a \<noteq> (Inl (JSON s x), e)" for a e
      by (simp add: renew_tx_def case_prod_beta split: sum.split)
    ultimately show ?thesis using Transaction_Inl [OF t [unfolded Inl]] by auto
  next
    case (Inr n)
    obtain a e where "w_db a = w_db w3" "renew_tx (ctx_AgentID ctx) certID sg now a = (Inr n, e)"
      "w_db w4 = w_db e" by (rule Transaction_Inr [OF t [unfolded Inr]])
    moreover have "rr_Certificate x = sg_PEM sg"
      using assms by (auto simp: RenewHandler_ServeHTTP_def Let_def b q sg now i t Inr)
    moreover have "identity_tables (w_db w') = identity_tables (w_db w4)"
      using assms identity.LogAction_respects [where w = w4]
      by (auto simp: RenewHandler_ServeHTTP_def Let_def b q sg now i t Inr split: if_splits)
    ultimately show ?thesis using that [OF b(3) q [unfolded sg]] d3 by simp
  qed
qed

text \<open>A renewal that is answered with a certificate leaves the agent exactly one unrevoked
  certificate, the one in the answer; every earlier one is revoked, and neither devices nor the
  certificates of other agents change.\<close>

theorem renew_supersedes:
  assumes "RenewHandler_ServeHTTP lib audit meth ctx body w = (JSON s x, w')"
  shows "\<exists>c cert der.
     filter (\<lambda>c. c_device_id c = ctx_AgentID ctx \<and> c_revoked_at c = None) (db_agent_certificates (w_db w')) = [c]
     \<and> create_certificate lib cert (ECDSA ''P-256'') = Some der \<and> rr_Certificate x = pem_encode lib der
     \<and> x_CommonName cert = ctx_AgentID ctx \<and> c_serial_number c = serial_hex (x_SerialNumber cert)
     \<and> filter (\<lambda>c. c_device_id c \<noteq> ctx_AgentID ctx) (db_agent_certificates (w_db w'))
       = filter (\<lambda>c. c_device_id c \<noteq> ctx_AgentID ctx) (db_agent_certificates (w_db w))
     \<and> db_devices (w_db w') = db_devices (w_db w)"
proof -
  from assms obtain req sg certID now n w1 w3 w4 where
    "body = Doc req"
    and sg: "SignCSR lib (rq_CSR req) (ctx_AgentID ctx) defaultCertValidity w = (Inr sg, w1)"
    and x: "rr_Certificate x = sg_PEM sg" "w_db w3 = w_db w"
    and tx: "renew_tx (ctx_AgentID ctx) certID sg now w3 = (Inr n, w4)"
    and i: "identity_tables (w_db w') = identity_tables (w_db w4)" by (rule renew_JSON)
  from sg obtain serial t0 key der where
    "create_certificate lib (agent_template (ctx_AgentID ctx) serial t0 defaultCertValidity) key = Some der"
    "sg_PEM sg = pem_encode lib der" "sg_SerialHex sg = serial_hex serial" "key = ECDSA ''P-256''"
    by (rule SignCSR_Inr)
  with renew_tx_Inr [OF tx] identity_tablesD [OF i] x show ?thesis
    by (intro exI [of _ "new_cert_row certID (ctx_AgentID ctx) sg now"]
        exI [of _ "agent_template (ctx_AgentID ctx) serial t0 defaultCertValidity"] exI [of _ der])
      (simp add: new_cert_row_def agent_template_def)
qed

definition sample_renew_world :: world where
  "sample_renew_world = (sample_world [])\<lparr>w_db := (sample_db [])\<lparr>db_agent_certificates :=
     [sample_cert_row\<lparr>c_serial_number := ''old''\<rparr>]\<rparr>\<rparr>"

lemma hex_encode_even: "odd (length s) \<Longrightarrow> hex_encode bs \<noteq> s"
  using length_hex_encode [of bs] by auto

theorem renew_supersedes_witness:
  "\<exists>x w' c. RenewHandler_ServeHTTP sample_pki False ''POST'' (no_identity\<lparr>ctx_AgentID := ''d1''\<rparr>)
       (Doc \<lparr>rq_CSR = ''csr''\<rparr>) sample_renew_world = (JSON StatusOK x, w')
     \<and> filter (\<lambda>c. c_device_id c = ''d1'' \<and> c_revoked_at c = None) (db_agent_certificates (w_db w')) = [c]"
proof -
  have h: "hex_encode bs \<noteq> ''f''" "hex_encode bs \<noteq> ''old''" for bs
    by (simp_all add: hex_encode_even)
  have ctx: "ctx_AgentID (no_identity\<lparr>ctx_AgentID := ''d1''\<rparr>) = ''d1''" by simp
  obtain x w' where r: "RenewHandler_ServeHTTP sample_pki False ''POST'' (no_identity\<lparr>ctx_AgentID := ''d1''\<rparr>)
       (Doc \<lparr>rq_CSR = ''csr''\<rparr>) sample_renew_world = (JSON StatusOK x, w')"
    by (simp del: hex_encode.simps
        add: RenewHandler_ServeHTTP_def sample_renew_world_def sample_world_def sample_db_def Now_def
        Exec_no_fault sample_pki_def Let_def newID_def rand_Read_def SignCSR_def randomSerial_def
        validateAgentPublicKey_def Transaction_def next_outcome_def renew_tx_def insert_cert_def
        constrained_def new_cert_row_def sample_cert_row_def sample_device_def update_certs_def
        serial_hex_def h)
  from renew_supersedes [OF r] r show ?thesis unfolding ctx by blast
qed

end
