(* ===== verification/Fleet.thy ===== *)
theory Fleet
  imports Enrollment JobsAPI
begin

text \<open>
  Devices and how they are grouped: \<^verbatim>\<open>server/store/devices.go\<close>,
  \<^verbatim>\<open>groups.go\<close>, \<^verbatim>\<open>sites.go\<close>, \<^verbatim>\<open>tags.go\<close> and the
  endpoints of the same names under \<^verbatim>\<open>server/api\<close>, with the endpoints for the inventory,
  the rollback and the log shipments of a device.  Groups, sites and tags have the same shape, which
  is written once and instantiated with their tables and names.
\<close>

section \<open>Shapes the three share\<close>

definition get_row ::
  "('r \<Rightarrow> bool) \<Rightarrow> (db \<Rightarrow> 'r list) \<Rightarrow> world \<Rightarrow> (db_error + 'r option) \<times> world" where
  "get_row P tbl w =
    (case Query (\<lambda>d. select_row P (tbl d)) w of
       (Inl e, w1) \<Rightarrow> (if e = ErrNoRows then Inr None else Inl e, w1)
     | (Inr r, w1) \<Rightarrow> (Inr (Some r), w1))"

definition Exec_unit :: "'a stmt \<Rightarrow> world \<Rightarrow> (db_error + unit) \<times> world" where
  "Exec_unit f w = (case Exec f w of (Inl e, w1) \<Rightarrow> (Inl e, w1) | (Inr _, w1) \<Rightarrow> (Inr (), w1))"

text \<open>Rows of the tenant by name, and the one with an identifier.\<close>

definition in_tenant :: "id \<Rightarrow> id \<Rightarrow> 'r named_row_scheme \<Rightarrow> bool" where
  "in_tenant tenantID i r \<longleftrightarrow> n_id r = i \<and> n_tenant_id r = tenantID"

definition list_named ::
  "(db \<Rightarrow> 'r named_row_scheme list) \<Rightarrow> id \<Rightarrow> world \<Rightarrow> (db_error + 'r named_row_scheme list) \<times> world" where
  "list_named tbl tenantID =
     Query (\<lambda>d. Inr (sort_key n_name (filter (\<lambda>r. n_tenant_id r = tenantID) (tbl d))))"

text \<open>The scope check on an identifier, which an administrator's key skips.\<close>

definition scope_hides :: "string \<Rightarrow> auth_context \<Rightarrow> id \<Rightarrow> bool" where
  "scope_hides field ctx i \<longleftrightarrow> \<not> ctx_IsAdmin ctx \<and> \<not> IDInScopeField (ctx_Scope ctx) field i"

definition scope_bars_creation :: "string \<Rightarrow> auth_context \<Rightarrow> bool" where
  "scope_bars_creation field ctx \<longleftrightarrow> \<not> ctx_IsAdmin ctx \<and> ScopeHasField (ctx_Scope ctx) field"

definition scoped_list ::
  "string \<Rightarrow> auth_context \<Rightarrow> (db_error + 'r named_row_scheme list) \<times> world
     \<Rightarrow> 'r named_row_scheme list response \<times> world" where
  "scoped_list field ctx res =
    (case res of
       (Inl _, w) \<Rightarrow> (Error StatusInternalServerError (''failed to list '' @ field), w)
     | (Inr rs, w) \<Rightarrow>
       (JSON StatusOK
          (if \<not> ctx_IsAdmin ctx \<and> ScopeHasField (ctx_Scope ctx) field
           then filter (\<lambda>r. IDInScopeField (ctx_Scope ctx) field (n_id r)) rs else rs), w))"

definition get_named ::
  "string \<Rightarrow> string \<Rightarrow> (world \<Rightarrow> (db_error + 'r option) \<times> world) \<Rightarrow> auth_context \<Rightarrow> id \<Rightarrow> world
     \<Rightarrow> 'r response \<times> world" where
  "get_named field name get ctx i w =
    (if scope_hides field ctx i then (Error StatusNotFound (name @ '' not found''), w)
     else case get w of
       (Inl _, w1) \<Rightarrow> (Error StatusInternalServerError (''failed to get '' @ name), w1)
     | (Inr None, w1) \<Rightarrow> (Error StatusNotFound (name @ '' not found''), w1)
     | (Inr (Some r), w1) \<Rightarrow> (JSON StatusOK r, w1))"

definition create_named ::
  "string \<Rightarrow> string \<Rightarrow> string \<Rightarrow> bool \<Rightarrow> auth_context \<Rightarrow> 'req json \<Rightarrow> ('req \<Rightarrow> string)
     \<Rightarrow> (id \<Rightarrow> 'req \<Rightarrow> 'r) \<Rightarrow> ('r \<Rightarrow> unit stmt) \<Rightarrow> world \<Rightarrow> 'r response \<times> world" where
  "create_named field name prefix audit ctx body req_name row ins w =
    (if scope_bars_creation field ctx then
       (ErrorWithCode StatusForbidden ''scope_violation'' (''scoped keys cannot create new '' @ field), w)
     else case body of
       Malformed \<Rightarrow> (Error StatusBadRequest ''invalid request body'', w)
     | Doc req \<Rightarrow>
    (if req_name req = '''' then (Error StatusBadRequest ''name is required'', w)
     else case newID prefix w of (i, w1) \<Rightarrow>
     case Exec (ins (row i req)) w1 of
       (Inl _, w2) \<Rightarrow> (Error StatusInternalServerError (''failed to create '' @ name), w2)
     | (Inr _, w2) \<Rightarrow>
       (JSON StatusCreated (row i req),
        if audit then LogAction (ctx_TenantID ctx) (ctx_UserID ctx) ActorTypeUser (name @ ''.create'') name
          i (Some [(''name'', req_name req)]) w2 else w2)))"

definition update_named ::
  "string \<Rightarrow> string \<Rightarrow> bool \<Rightarrow> auth_context \<Rightarrow> id \<Rightarrow> 'req json \<Rightarrow> ('req \<Rightarrow> string)
     \<Rightarrow> ('req \<Rightarrow> world \<Rightarrow> (db_error + unit) \<times> world) \<Rightarrow> (world \<Rightarrow> (db_error + 'r option) \<times> world)
     \<Rightarrow> world \<Rightarrow> 'r option response \<times> world" where
  "update_named field name audit ctx i body req_name update get w =
    (if scope_hides field ctx i then (Error StatusNotFound (name @ '' not found''), w)
     else case body of
       Malformed \<Rightarrow> (Error StatusBadRequest ''invalid request body'', w)
     | Doc req \<Rightarrow>
    (if req_name req = '''' then (Error StatusBadRequest ''name is required'', w)
     else case update req w of
       (Inl _, w1) \<Rightarrow> (Error StatusNotFound (name @ '' not found''), w1)
     | (Inr _, w1) \<Rightarrow>
       (let w2 = (if audit then LogAction (ctx_TenantID ctx) (ctx_UserID ctx) ActorTypeUser
              (name @ ''.update'') name i None w1 else w1) in
        case get w2 of
          (Inl _, w3) \<Rightarrow> (JSON StatusOK None, w3)
        | (Inr r, w3) \<Rightarrow> (JSON StatusOK r, w3))))"

definition delete_named ::
  "string \<Rightarrow> string \<Rightarrow> bool \<Rightarrow> auth_context \<Rightarrow> id \<Rightarrow> (world \<Rightarrow> (db_error + unit) \<times> world)
     \<Rightarrow> world \<Rightarrow> unit response \<times> world" where
  "delete_named field name audit ctx i delete w =
    (if scope_hides field ctx i then (Error StatusNotFound (name @ '' not found''), w)
     else case delete w of
       (Inl _, w1) \<Rightarrow> (Error StatusNotFound (name @ '' not found''), w1)
     | (Inr _, w1) \<Rightarrow>
       (NoContent, if audit then LogAction (ctx_TenantID ctx) (ctx_UserID ctx) ActorTypeUser
          (name @ ''.delete'') name i None w1 else w1))"

text \<open>Members of a group or site.  Neither the statement nor the handlers look at the tenant.\<close>

definition list_members :: "membership \<Rightarrow> id \<Rightarrow> id \<Rightarrow> world \<Rightarrow> (db_error + device_row list) \<times> world" where
  "list_members m tenantID i =
     Query (\<lambda>d. Inr (sort_key d_hostname (filter (\<lambda>dev. (d_id dev, i) \<in> set (members m d)
        \<and> d_tenant_id dev = tenantID) (db_devices d))))"

definition add_members :: "membership \<Rightarrow> id \<Rightarrow> id list \<Rightarrow> world \<Rightarrow> (db_error + unit) \<times> world" where
  "add_members m i deviceIDs = for_each (\<lambda>dev. Exec_unit (insert_member m dev i)) deviceIDs"

definition members_response ::
  "string \<Rightarrow> (db_error + device_row list) \<times> world \<Rightarrow> device_row list response \<times> world" where
  "members_response name res =
    (case res of
       (Inl _, w) \<Rightarrow> (Error StatusInternalServerError (''failed to list '' @ name @ '' devices''), w)
     | (Inr ds, w) \<Rightarrow> (JSON StatusOK ds, w))"

definition add_named_devices ::
  "string \<Rightarrow> string \<Rightarrow> bool \<Rightarrow> auth_context \<Rightarrow> id \<Rightarrow> id list json
     \<Rightarrow> (id list \<Rightarrow> world \<Rightarrow> (db_error + unit) \<times> world) \<Rightarrow> world \<Rightarrow> unit response \<times> world" where
  "add_named_devices field name audit ctx i body add w =
    (if scope_hides field ctx i then (Error StatusNotFound (name @ '' not found''), w)
     else case body of
       Malformed \<Rightarrow> (Error StatusBadRequest ''invalid request body'', w)
     | Doc ids \<Rightarrow>
    (if ids = [] then (Error StatusBadRequest ''device_ids is required'', w)
     else case add ids w of
       (Inl _, w1) \<Rightarrow> (Error StatusInternalServerError (''failed to add devices to '' @ name), w1)
     | (Inr _, w1) \<Rightarrow>
       (NoContent, if audit then LogAction (ctx_TenantID ctx) (ctx_UserID ctx) ActorTypeUser
          (name @ ''.add_devices'') name i (Some [(''device_count'', decimal (int (length ids)))]) w1 else w1)))"

definition remove_named_device ::
  "string \<Rightarrow> string \<Rightarrow> bool \<Rightarrow> auth_context \<Rightarrow> id \<Rightarrow> id
     \<Rightarrow> (world \<Rightarrow> (db_error + unit) \<times> world) \<Rightarrow> world \<Rightarrow> unit response \<times> world" where
  "remove_named_device field name audit ctx i deviceID remove w =
    (if scope_hides field ctx i then (Error StatusNotFound (name @ '' not found''), w)
     else case remove w of
       (Inl _, w1) \<Rightarrow> (Error StatusInternalServerError (''failed to remove device from '' @ name), w1)
     | (Inr _, w1) \<Rightarrow>
       (NoContent, if audit then LogAction (ctx_TenantID ctx) (ctx_UserID ctx) ActorTypeUser
          (name @ ''.remove_device'') name i (Some [(''device_id'', deviceID)]) w1 else w1))"

section \<open>Groups (server/store/groups.go, server/api/groups.go)\<close>

definition ListGroups :: "id \<Rightarrow> world \<Rightarrow> (db_error + named_row list) \<times> world" where
  "ListGroups = list_named db_groups"

definition GetGroup :: "id \<Rightarrow> id \<Rightarrow> world \<Rightarrow> (db_error + named_row option) \<times> world" where
  "GetGroup tenantID groupID = get_row (in_tenant tenantID groupID) db_groups"

definition UpdateGroup :: "id \<Rightarrow> id \<Rightarrow> string \<Rightarrow> world \<Rightarrow> (db_error + unit) \<times> world" where
  "UpdateGroup tenantID groupID name =
     ExecRow (update_groups (in_tenant tenantID groupID) (\<lambda>r. r\<lparr>n_name := name\<rparr>))"

definition DeleteGroup :: "id \<Rightarrow> id \<Rightarrow> world \<Rightarrow> (db_error + unit) \<times> world" where
  "DeleteGroup tenantID groupID = ExecRow (delete_groups (in_tenant tenantID groupID))"

definition ListGroupDevices :: "id \<Rightarrow> id \<Rightarrow> world \<Rightarrow> (db_error + device_row list) \<times> world" where
  "ListGroupDevices = list_members Groups"

definition AddDevicesToGroup :: "id \<Rightarrow> id \<Rightarrow> id list \<Rightarrow> world \<Rightarrow> (db_error + unit) \<times> world" where
  "AddDevicesToGroup tenantID groupID deviceIDs = add_members Groups groupID deviceIDs"

definition RemoveDeviceFromGroup :: "id \<Rightarrow> id \<Rightarrow> id \<Rightarrow> world \<Rightarrow> (db_error + unit) \<times> world" where
  "RemoveDeviceFromGroup tenantID groupID deviceID = Exec_unit (delete_member Groups deviceID groupID)"

definition GroupsHandler_List :: "auth_context \<Rightarrow> world \<Rightarrow> named_row list response \<times> world" where
  "GroupsHandler_List ctx w = scoped_list ''groups'' ctx (ListGroups (ctx_TenantID ctx) w)"

definition GroupsHandler_Get :: "auth_context \<Rightarrow> id \<Rightarrow> world \<Rightarrow> named_row response \<times> world" where
  "GroupsHandler_Get ctx groupID =
     get_named ''groups'' ''group'' (GetGroup (ctx_TenantID ctx) groupID) ctx groupID"

text \<open>A request is its name.\<close>

definition GroupsHandler_Create ::
  "bool \<Rightarrow> auth_context \<Rightarrow> string json \<Rightarrow> world \<Rightarrow> named_row response \<times> world" where
  "GroupsHandler_Create audit ctx body =
     create_named ''groups'' ''group'' ''grp'' audit ctx body (\<lambda>name. name)
       (\<lambda>i name. \<lparr>n_id = i, n_tenant_id = ctx_TenantID ctx, n_name = name\<rparr>) insert_group"

definition GroupsHandler_Update ::
  "bool \<Rightarrow> auth_context \<Rightarrow> id \<Rightarrow> string json \<Rightarrow> world \<Rightarrow> named_row option response \<times> world" where
  "GroupsHandler_Update audit ctx groupID body =
     update_named ''groups'' ''group'' audit ctx groupID body (\<lambda>name. name)
       (UpdateGroup (ctx_TenantID ctx) groupID) (GetGroup (ctx_TenantID ctx) groupID)"

definition GroupsHandler_Delete :: "bool \<Rightarrow> auth_context \<Rightarrow> id \<Rightarrow> world \<Rightarrow> unit response \<times> world" where
  "GroupsHandler_Delete audit ctx groupID =
     delete_named ''groups'' ''group'' audit ctx groupID (DeleteGroup (ctx_TenantID ctx) groupID)"

definition GroupsHandler_ListDevices ::
  "auth_context \<Rightarrow> id \<Rightarrow> world \<Rightarrow> device_row list response \<times> world" where
  "GroupsHandler_ListDevices ctx groupID w =
     members_response ''group'' (ListGroupDevices (ctx_TenantID ctx) groupID w)"

definition GroupsHandler_AddDevices ::
  "bool \<Rightarrow> auth_context \<Rightarrow> id \<Rightarrow> id list json \<Rightarrow> world \<Rightarrow> unit response \<times> world" where
  "GroupsHandler_AddDevices audit ctx groupID body =
     add_named_devices ''groups'' ''group'' audit ctx groupID body (AddDevicesToGroup (ctx_TenantID ctx) groupID)"

definition GroupsHandler_RemoveDevice ::
  "bool \<Rightarrow> auth_context \<Rightarrow> id \<Rightarrow> id \<Rightarrow> world \<Rightarrow> unit response \<times> world" where
  "GroupsHandler_RemoveDevice audit ctx groupID deviceID =
     remove_named_device ''groups'' ''group'' audit ctx groupID deviceID
       (RemoveDeviceFromGroup (ctx_TenantID ctx) groupID deviceID)"

section \<open>Sites (server/store/sites.go, server/api/sites.go)\<close>

text \<open>A site as the queries return it has a location, possibly empty.\<close>

definition scan_site :: "site_row \<Rightarrow> site_row" where
  "scan_site r = r\<lparr>n_location := Some (case n_location r of None \<Rightarrow> '''' | Some l \<Rightarrow> l)\<rparr>"

record createSiteRequest =
  csr_Name :: string
  csr_Location :: string

definition ListSites :: "id \<Rightarrow> world \<Rightarrow> (db_error + site_row list) \<times> world" where
  "ListSites = list_named (\<lambda>d. map scan_site (db_sites d))"

definition GetSite :: "id \<Rightarrow> id \<Rightarrow> world \<Rightarrow> (db_error + site_row option) \<times> world" where
  "GetSite tenantID siteID = get_row (in_tenant tenantID siteID) (\<lambda>d. map scan_site (db_sites d))"

definition UpdateSite :: "id \<Rightarrow> id \<Rightarrow> string \<Rightarrow> string \<Rightarrow> world \<Rightarrow> (db_error + unit) \<times> world" where
  "UpdateSite tenantID siteID name location =
     ExecRow (update_sites (in_tenant tenantID siteID) (\<lambda>r. r\<lparr>n_name := name, n_location := Some location\<rparr>))"

definition DeleteSite :: "id \<Rightarrow> id \<Rightarrow> world \<Rightarrow> (db_error + unit) \<times> world" where
  "DeleteSite tenantID siteID = ExecRow (delete_sites (in_tenant tenantID siteID))"

definition ListSiteDevices :: "id \<Rightarrow> id \<Rightarrow> world \<Rightarrow> (db_error + device_row list) \<times> world" where
  "ListSiteDevices = list_members Sites"

definition AddDevicesToSite :: "id \<Rightarrow> id \<Rightarrow> id list \<Rightarrow> world \<Rightarrow> (db_error + unit) \<times> world" where
  "AddDevicesToSite tenantID siteID deviceIDs = add_members Sites siteID deviceIDs"

definition RemoveDeviceFromSite :: "id \<Rightarrow> id \<Rightarrow> id \<Rightarrow> world \<Rightarrow> (db_error + unit) \<times> world" where
  "RemoveDeviceFromSite tenantID siteID deviceID = Exec_unit (delete_member Sites deviceID siteID)"

definition SitesHandler_List :: "auth_context \<Rightarrow> world \<Rightarrow> site_row list response \<times> world" where
  "SitesHandler_List ctx w = scoped_list ''sites'' ctx (ListSites (ctx_TenantID ctx) w)"

definition SitesHandler_Get :: "auth_context \<Rightarrow> id \<Rightarrow> world \<Rightarrow> site_row response \<times> world" where
  "SitesHandler_Get ctx siteID =
     get_named ''sites'' ''site'' (GetSite (ctx_TenantID ctx) siteID) ctx siteID"

definition SitesHandler_Create ::
  "bool \<Rightarrow> auth_context \<Rightarrow> createSiteRequest json \<Rightarrow> world \<Rightarrow> site_row response \<times> world" where
  "SitesHandler_Create audit ctx body =
     create_named ''sites'' ''site'' ''sit'' audit ctx body csr_Name
       (\<lambda>i req. \<lparr>n_id = i, n_tenant_id = ctx_TenantID ctx, n_name = csr_Name req,
          n_location = Some (csr_Location req)\<rparr>) insert_site"

definition SitesHandler_Update ::
  "bool \<Rightarrow> auth_context \<Rightarrow> id \<Rightarrow> createSiteRequest json \<Rightarrow> world \<Rightarrow> site_row option response \<times> world" where
  "SitesHandler_Update audit ctx siteID body =
     update_named ''sites'' ''site'' audit ctx siteID body csr_Name
       (\<lambda>req. UpdateSite (ctx_TenantID ctx) siteID (csr_Name req) (csr_Location req))
       (GetSite (ctx_TenantID ctx) siteID)"

definition SitesHandler_Delete :: "bool \<Rightarrow> auth_context \<Rightarrow> id \<Rightarrow> world \<Rightarrow> unit response \<times> world" where
  "SitesHandler_Delete audit ctx siteID =
     delete_named ''sites'' ''site'' audit ctx siteID (DeleteSite (ctx_TenantID ctx) siteID)"

definition SitesHandler_ListDevices ::
  "auth_context \<Rightarrow> id \<Rightarrow> world \<Rightarrow> device_row list response \<times> world" where
  "SitesHandler_ListDevices ctx siteID w =
     members_response ''site'' (ListSiteDevices (ctx_TenantID ctx) siteID w)"

definition SitesHandler_AddDevices ::
  "bool \<Rightarrow> auth_context \<Rightarrow> id \<Rightarrow> id list json \<Rightarrow> world \<Rightarrow> unit response \<times> world" where
  "SitesHandler_AddDevices audit ctx siteID body =
     add_named_devices ''sites'' ''site'' audit ctx siteID body (AddDevicesToSite (ctx_TenantID ctx) siteID)"

definition SitesHandler_RemoveDevice ::
  "bool \<Rightarrow> auth_context \<Rightarrow> id \<Rightarrow> id \<Rightarrow> world \<Rightarrow> unit response \<times> world" where
  "SitesHandler_RemoveDevice audit ctx siteID deviceID =
     remove_named_device ''sites'' ''site'' audit ctx siteID deviceID
       (RemoveDeviceFromSite (ctx_TenantID ctx) siteID deviceID)"

section \<open>Tags (server/store/tags.go, server/api/tags.go)\<close>

definition ListTags :: "id \<Rightarrow> world \<Rightarrow> (db_error + named_row list) \<times> world" where
  "ListTags = list_named db_tags"

definition DeleteTag :: "id \<Rightarrow> id \<Rightarrow> world \<Rightarrow> (db_error + unit) \<times> world" where
  "DeleteTag tenantID tagID = ExecRow (delete_tags (in_tenant tenantID tagID))"

definition AddTagsToDevice :: "id \<Rightarrow> id \<Rightarrow> id list \<Rightarrow> world \<Rightarrow> (db_error + unit) \<times> world" where
  "AddTagsToDevice tenantID deviceID tagIDs =
     for_each (\<lambda>tagID. Exec_unit (insert_member Tags deviceID tagID)) tagIDs"

definition RemoveTagFromDevice :: "id \<Rightarrow> id \<Rightarrow> id \<Rightarrow> world \<Rightarrow> (db_error + unit) \<times> world" where
  "RemoveTagFromDevice tenantID deviceID tagID = Exec_unit (delete_member Tags deviceID tagID)"

definition TagsHandler_List :: "auth_context \<Rightarrow> world \<Rightarrow> named_row list response \<times> world" where
  "TagsHandler_List ctx w = scoped_list ''tags'' ctx (ListTags (ctx_TenantID ctx) w)"

definition TagsHandler_Create ::
  "bool \<Rightarrow> auth_context \<Rightarrow> string json \<Rightarrow> world \<Rightarrow> named_row response \<times> world" where
  "TagsHandler_Create audit ctx body =
     create_named ''tags'' ''tag'' ''tag'' audit ctx body (\<lambda>name. name)
       (\<lambda>i name. \<lparr>n_id = i, n_tenant_id = ctx_TenantID ctx, n_name = name\<rparr>) insert_tag"

definition TagsHandler_Delete :: "bool \<Rightarrow> auth_context \<Rightarrow> id \<Rightarrow> world \<Rightarrow> unit response \<times> world" where
  "TagsHandler_Delete audit ctx tagID =
     delete_named ''tags'' ''tag'' audit ctx tagID (DeleteTag (ctx_TenantID ctx) tagID)"

definition TagsHandler_AddToDevice ::
  "bool \<Rightarrow> auth_context \<Rightarrow> id \<Rightarrow> id list json \<Rightarrow> world \<Rightarrow> unit response \<times> world" where
  "TagsHandler_AddToDevice audit ctx deviceID body w =
    (case scope_refuses ctx deviceID w of (refused, w1) \<Rightarrow>
     if refused then (Error StatusNotFound ''device not found'', w1)
     else case body of
       Malformed \<Rightarrow> (Error StatusBadRequest ''invalid request body'', w1)
     | Doc tagIDs \<Rightarrow>
    (if tagIDs = [] then (Error StatusBadRequest ''tag_ids is required'', w1)
     else case AddTagsToDevice (ctx_TenantID ctx) deviceID tagIDs w1 of
       (Inl _, w2) \<Rightarrow> (Error StatusInternalServerError ''failed to add tags to device'', w2)
     | (Inr _, w2) \<Rightarrow>
       (NoContent, if audit then LogAction (ctx_TenantID ctx) (ctx_UserID ctx) ActorTypeUser
          ''tag.add_to_device'' ''device'' deviceID
          (Some [(''tag_count'', decimal (int (length tagIDs)))]) w2 else w2)))"

definition TagsHandler_RemoveFromDevice ::
  "bool \<Rightarrow> auth_context \<Rightarrow> id \<Rightarrow> id \<Rightarrow> world \<Rightarrow> unit response \<times> world" where
  "TagsHandler_RemoveFromDevice audit ctx deviceID tagID w =
    (case scope_refuses ctx deviceID w of (refused, w1) \<Rightarrow>
     if refused then (Error StatusNotFound ''device not found'', w1)
     else case RemoveTagFromDevice (ctx_TenantID ctx) deviceID tagID w1 of
       (Inl _, w2) \<Rightarrow> (Error StatusInternalServerError ''failed to remove tag from device'', w2)
     | (Inr _, w2) \<Rightarrow>
       (NoContent, if audit then LogAction (ctx_TenantID ctx) (ctx_UserID ctx) ActorTypeUser
          ''tag.remove_from_device'' ''device'' deviceID (Some [(''tag_id'', tagID)]) w2 else w2))"

section \<open>Devices (server/store/devices.go, server/api/devices.go)\<close>

text \<open>\<^verbatim>\<open>ILIKE\<close> on ASCII text: case is ignored, a percent sign stands for any text and an
  underscore for any character, and a backslash takes the next character literally.\<close>

definition lower :: "char \<Rightarrow> char" where
  "lower c = (let n = of_char c :: nat in if 65 \<le> n \<and> n \<le> 90 then char_of (n + 32) else c)"

function like :: "string \<Rightarrow> string \<Rightarrow> bool" where
  "like [] s \<longleftrightarrow> s = []"
| "like (p # ps) s \<longleftrightarrow>
    (if p = CHR ''%'' then like ps s \<or> (if s = [] then False else like (p # ps) (tl s))
     else if s = [] then False
     else if p = CHR ''_'' then like ps (tl s)
     else if p = CHR 0x5C then ps \<noteq> [] \<and> hd s = hd ps \<and> like (tl ps) (tl s)
     else hd s = p \<and> like ps (tl s))"
  by pat_completeness auto
termination
  by (relation "measure (\<lambda>(p, s). length p + length s)") (auto simp: neq_Nil_conv)

definition ilike :: "string \<Rightarrow> string \<Rightarrow> bool" where
  "ilike s pattern \<longleftrightarrow> like (map lower pattern) (map lower s)"

record DeviceFilters =
  df_Status :: string
  df_GroupID :: id
  df_TagID :: id
  df_SiteID :: id
  df_OS :: string
  df_Search :: string
  df_ScopeDeviceIDs :: "id list"

definition device_matches :: "id \<Rightarrow> DeviceFilters \<Rightarrow> db \<Rightarrow> device_row \<Rightarrow> bool" where
  "device_matches tenantID f d r \<longleftrightarrow>
     d_tenant_id r = tenantID
     \<and> (df_ScopeDeviceIDs f \<noteq> [] \<longrightarrow> d_id r \<in> set (df_ScopeDeviceIDs f))
     \<and> (df_GroupID f \<noteq> '''' \<longrightarrow> (d_id r, df_GroupID f) \<in> set (members Groups d))
     \<and> (df_TagID f \<noteq> '''' \<longrightarrow> (d_id r, df_TagID f) \<in> set (members Tags d))
     \<and> (df_SiteID f \<noteq> '''' \<longrightarrow> (d_id r, df_SiteID f) \<in> set (members Sites d))
     \<and> (df_OS f \<noteq> '''' \<longrightarrow> d_os r = df_OS f)
     \<and> (df_Search f \<noteq> '''' \<longrightarrow> ilike (d_hostname r) (''%'' @ df_Search f @ ''%''))
     \<and> (df_Status f \<noteq> '''' \<longrightarrow> d_status r = df_Status f)"

definition ListDevices :: "id \<Rightarrow> DeviceFilters \<Rightarrow> world \<Rightarrow> (db_error + device_row list) \<times> world" where
  "ListDevices tenantID f =
     Query (\<lambda>d. Inr (take 100 (sort_key (\<lambda>r. - d_registered_at r)
        (filter (device_matches tenantID f d) (db_devices d)))))"

definition tenant_device :: "id \<Rightarrow> id \<Rightarrow> device_row \<Rightarrow> bool" where
  "tenant_device tenantID deviceID r \<longleftrightarrow> d_id r = deviceID \<and> d_tenant_id r = tenantID"

text \<open>The names of the groups, tags and sites are left out when their query fails.\<close>

definition member_names ::
  "membership \<Rightarrow> (db \<Rightarrow> 'r named_row_scheme list) \<Rightarrow> id \<Rightarrow> world \<Rightarrow> string list \<times> world" where
  "member_names m tbl deviceID w =
    (case Query (\<lambda>d. Inr (map n_name (filter (\<lambda>r. (deviceID, n_id r) \<in> set (members m d)) (tbl d)))) w of
       (Inl _, w1) \<Rightarrow> ([], w1)
     | (Inr names, w1) \<Rightarrow> (names, w1))"

definition GetDevice :: "id \<Rightarrow> id \<Rightarrow> world \<Rightarrow> (db_error + Device option) \<times> world" where
  "GetDevice tenantID deviceID w =
    (case get_row (tenant_device tenantID deviceID) db_devices w of
       (Inl e, w1) \<Rightarrow> (Inl e, w1)
     | (Inr None, w1) \<Rightarrow> (Inr None, w1)
     | (Inr (Some r), w1) \<Rightarrow>
       (case member_names Groups db_groups deviceID w1 of (gs, w2) \<Rightarrow>
        case member_names Tags db_tags deviceID w2 of (ts, w3) \<Rightarrow>
        case member_names Sites db_sites deviceID w3 of (ss, w4) \<Rightarrow>
          (Inr (Some (device_row.extend r (Device.fields gs ts ss))), w4)))"

definition UpdateDevice :: "id \<Rightarrow> id \<Rightarrow> string \<Rightarrow> world \<Rightarrow> (db_error + unit) \<times> world" where
  "UpdateDevice tenantID deviceID hostname =
     ExecRow (update_devices (tenant_device tenantID deviceID) (\<lambda>r. r\<lparr>d_hostname := hostname\<rparr>))"

definition revocable_job :: "id \<Rightarrow> id \<Rightarrow> job_row \<Rightarrow> bool" where
  "revocable_job tenantID deviceID r \<longleftrightarrow> j_device_id r = deviceID \<and> j_tenant_id r = tenantID
     \<and> j_status r \<in> {JobStatusPending, JobStatusQueued, JobStatusDispatched}"

definition revoke_tx :: "id \<Rightarrow> id \<Rightarrow> string \<Rightarrow> world \<Rightarrow> (db_error + unit) \<times> world" where
  "revoke_tx tenantID deviceID reason w =
    (case Now w of (now, w0) \<Rightarrow>
     case ExecRow (update_devices (tenant_device tenantID deviceID)
            (\<lambda>r. r\<lparr>d_status := DeviceStatusRevoked\<rparr>)) w0 of
       (Inl e, w1) \<Rightarrow> (Inl e, w1)
     | (Inr _, w1) \<Rightarrow>
    (case Exec (update_certs (\<lambda>c. c_device_id c = deviceID \<and> c_revoked_at c = None)
            (\<lambda>c. c\<lparr>c_revoked_at := Some now, c_revocation_reason := Some reason\<rparr>)) w1 of
       (Inl e, w2) \<Rightarrow> (Inl e, w2)
     | (Inr _, w2) \<Rightarrow>
       Exec_unit (update_jobs (revocable_job tenantID deviceID)
         (\<lambda>r. r\<lparr>j_status := JobStatusCancelled\<rparr>)) w2))"

definition RevokeDevice :: "id \<Rightarrow> id \<Rightarrow> string \<Rightarrow> world \<Rightarrow> (db_error + unit) \<times> world" where
  "RevokeDevice tenantID deviceID reason =
     Transaction ErrConn ErrConn (revoke_tx tenantID deviceID reason)"

text \<open>A request without a body has no reason.\<close>

definition DevicesHandler_Revoke ::
  "bool \<Rightarrow> auth_context \<Rightarrow> id \<Rightarrow> string json option \<Rightarrow> world \<Rightarrow> unit response \<times> world" where
  "DevicesHandler_Revoke audit ctx deviceID body w =
    (let gone = ErrorWithCode StatusNotFound ''device_not_found'' ''Device not found or already revoked'' in
     case scope_refuses ctx deviceID w of (refused, w1) \<Rightarrow>
     if refused then (gone, w1)
     else case (case body of None \<Rightarrow> Doc '''' | Some b \<Rightarrow> b) of
       Malformed \<Rightarrow> (Error StatusBadRequest ''invalid request body'', w1)
     | Doc r \<Rightarrow>
    (let reason = (if r = '''' then ''operator_revoked'' else r) in
     case RevokeDevice (ctx_TenantID ctx) deviceID reason w1 of
       (Inl _, w2) \<Rightarrow> (gone, w2)
     | (Inr _, w2) \<Rightarrow>
       (NoContent, if audit then LogAction (ctx_TenantID ctx) (ctx_UserID ctx) ActorTypeUser
          ''device.revoke'' ''device'' deviceID (Some [(''reason'', reason)]) w2 else w2)))"

text \<open>The order in which the devices of the scope are listed in the query does not matter; here it
  is that of the identifiers.\<close>

definition DevicesHandler_List ::
  "auth_context \<Rightarrow> DeviceFilters \<Rightarrow> world \<Rightarrow> device_row list response \<times> world" where
  "DevicesHandler_List ctx q w =
    (let list = (\<lambda>ids v. case ListDevices (ctx_TenantID ctx) (q\<lparr>df_ScopeDeviceIDs := ids\<rparr>) v of
           (Inl _, v1) \<Rightarrow> (Error StatusInternalServerError ''failed to list devices'', v1)
         | (Inr ds, v1) \<Rightarrow> (JSON StatusOK ds, v1)) in
     if ctx_IsAdmin ctx \<or> ctx_Scope ctx = None then list [] w
     else case ResolveScope (ctx_TenantID ctx) (ctx_Scope ctx) w of
       (Inl _, w1) \<Rightarrow> (Error StatusInternalServerError ''failed to resolve scope'', w1)
     | (Inr allowed, w1) \<Rightarrow>
       (let ids = (case allowed of None \<Rightarrow> [] | Some S \<Rightarrow> sorted_list_of_set S) in
        if ids = [] then (JSON StatusOK [], w1) else list ids w1))"

definition DevicesHandler_Get :: "auth_context \<Rightarrow> id \<Rightarrow> world \<Rightarrow> Device response \<times> world" where
  "DevicesHandler_Get ctx deviceID w =
    (case scope_refuses ctx deviceID w of (refused, w1) \<Rightarrow>
     if refused then (Error StatusNotFound ''device not found'', w1)
     else case GetDevice (ctx_TenantID ctx) deviceID w1 of
       (Inl _, w2) \<Rightarrow> (Error StatusInternalServerError ''failed to get device'', w2)
     | (Inr None, w2) \<Rightarrow> (Error StatusNotFound ''device not found'', w2)
     | (Inr (Some dev), w2) \<Rightarrow> (JSON StatusOK dev, w2))"

text \<open>A request is its host name.\<close>

definition DevicesHandler_Update ::
  "auth_context \<Rightarrow> id \<Rightarrow> string json \<Rightarrow> world \<Rightarrow> Device response \<times> world" where
  "DevicesHandler_Update ctx deviceID body w =
    (case scope_refuses ctx deviceID w of (refused, w1) \<Rightarrow>
     if refused then (Error StatusNotFound ''device not found'', w1)
     else case body of
       Malformed \<Rightarrow> (Error StatusBadRequest ''invalid request body'', w1)
     | Doc hostname \<Rightarrow>
    (if hostname = '''' then (Error StatusBadRequest ''hostname is required'', w1)
     else case UpdateDevice (ctx_TenantID ctx) deviceID hostname w1 of
       (Inl _, w2) \<Rightarrow> (Error StatusNotFound ''device not found'', w2)
     | (Inr _, w2) \<Rightarrow>
    (case GetDevice (ctx_TenantID ctx) deviceID w2 of
       (Inr (Some dev), w3) \<Rightarrow> (JSON StatusOK dev, w3)
     | (_, w3) \<Rightarrow> (Error StatusInternalServerError ''failed to get updated device'', w3))))"

section \<open>Inventory, rollback and logs of a device\<close>

record inventoryResponse =
  ir_Hardware :: "hardware_row option"
  ir_Packages :: "Package list"
  ir_CollectedAt :: "time option"

definition InventoryHandler_GetDeviceInventory ::
  "auth_context \<Rightarrow> id \<Rightarrow> world \<Rightarrow> inventoryResponse response \<times> world" where
  "InventoryHandler_GetDeviceInventory ctx deviceID w =
    (case scope_refuses ctx deviceID w of (refused, w1) \<Rightarrow>
     if refused then (Error StatusNotFound ''device not found'', w1)
     else case Query (\<lambda>d. Inr (list_ex (tenant_device (ctx_TenantID ctx) deviceID) (db_devices d))) w1 of
       (Inl _, w2) \<Rightarrow> (Error StatusNotFound ''device not found'', w2)
     | (Inr ex, w2) \<Rightarrow>
    (if \<not> ex then (Error StatusNotFound ''device not found'', w2)
     else case get_row (\<lambda>_. True) (\<lambda>d. sort_key (\<lambda>h. - hw_collected_at h)
              (filter (\<lambda>h. hw_device_id h = deviceID) (db_inventory_hardware d))) w2 of
       (Inl _, w3) \<Rightarrow> (Error StatusInternalServerError ''failed to get hardware inventory'', w3)
     | (Inr hw, w3) \<Rightarrow>
    (case Query (\<lambda>d. Inr (sort_key p_Name (filter (\<lambda>p. p_DeviceID p = deviceID) (db_inventory_packages d)))) w3 of
       (Inl _, w4) \<Rightarrow> (Error StatusInternalServerError ''failed to get packages'', w4)
     | (Inr ps, w4) \<Rightarrow>
       (JSON StatusOK \<lparr>ir_Hardware = hw, ir_Packages = ps, ir_CollectedAt = map_option hw_collected_at hw\<rparr>, w4))))"

text \<open>\<^verbatim>\<open>json.Marshal\<close> of an object with one string, on ASCII text.\<close>

definition json_char :: "char \<Rightarrow> string" where
  "json_char c =
    (let n = of_char c :: nat; bs = char_of (92 :: nat) in
     if n = 34 \<or> n = 92 then [bs, c]
     else if n = 8 then [bs, CHR ''b''] else if n = 9 then [bs, CHR ''t'']
     else if n = 10 then [bs, CHR ''n''] else if n = 12 then [bs, CHR ''f'']
     else if n = 13 then [bs, CHR ''r'']
     else if n < 32 \<or> c = CHR ''<'' \<or> c = CHR ''>'' \<or> c = CHR ''&''
       then bs # ''u00'' @ hex_encode [of_nat n]
     else [c])"

definition json_string :: "string \<Rightarrow> string" where
  "json_string s = [CHR 0x22] @ concat (map json_char s) @ [CHR 0x22]"

definition json_field :: "string \<Rightarrow> string \<Rightarrow> string" where
  "json_field k v = ''{'' @ json_string k @ '':'' @ json_string v @ ''}''"

text \<open>The handler calls the audit log without a check for its absence.  The reply names the job.\<close>

definition DeviceRollbackHandler_Rollback ::
  "auth_context \<Rightarrow> id \<Rightarrow> string json \<Rightarrow> world \<Rightarrow> (id \<times> id) response \<times> world" where
  "DeviceRollbackHandler_Rollback ctx deviceID body w =
    (case body of
       Malformed \<Rightarrow> (Error StatusBadRequest ''invalid request body'', w)
     | Doc reason \<Rightarrow>
    (case Query (\<lambda>d. Inr (list_ex (tenant_device (ctx_TenantID ctx) deviceID) (db_devices d))) w of
       (Inl _, w1) \<Rightarrow> (Error StatusInternalServerError ''failed to verify device'', w1)
     | (Inr ex, w1) \<Rightarrow>
    (if \<not> ex then (Error StatusNotFound ''device not found'', w1)
     else case Now w1 of (now, w2) \<Rightarrow>
     case newID ''job'' w2 of (jobID, w3) \<Rightarrow>
     case Exec (insert_job (new_job_row (ctx_TenantID ctx) deviceID JobTypeAgentRollback
            (json_field ''reason'' reason) None (ctx_UserID ctx) now jobID)) w3 of
       (Inl _, w4) \<Rightarrow> (Error StatusInternalServerError ''failed to create rollback job'', w4)
     | (Inr _, w4) \<Rightarrow>
       (JSON StatusCreated (jobID, deviceID),
        LogAction (ctx_TenantID ctx) (ctx_UserID ctx) ActorTypeUser ''device.rollback'' ''device'' deviceID
          (Some [(''job_id'', jobID), (''reason'', reason)]) w4))))"

text \<open>Go's zero time, the first of January of year one.\<close>

definition zero_time :: time where
  "zero_time = - 62135596800 * Second"

definition validLogLevels :: "string list" where
  "validLogLevels = [''debug'', ''info'', ''warn'', ''error'']"

definition log_row :: "id \<Rightarrow> id \<Rightarrow> time \<Rightarrow> id \<Rightarrow> LogEntry \<Rightarrow> device_log_row" where
  "log_row tenantID agentID now i e =
     \<lparr>dl_id = i, dl_tenant_id = tenantID, dl_device_id = agentID,
      dl_timestamp = (if le_Timestamp e = zero_time then now else le_Timestamp e),
      dl_level = (if le_Level e \<in> set validLogLevels then le_Level e else ''info''),
      dl_message = le_Message e, dl_created_at = now\<rparr>"

definition store_log :: "id \<Rightarrow> id \<Rightarrow> time \<Rightarrow> LogEntry \<Rightarrow> world \<Rightarrow> (unit response + unit) \<times> world" where
  "store_log tenantID agentID now e w =
    (case newID ''dlg'' w of (i, w1) \<Rightarrow>
     case Exec (insert_device_log (log_row tenantID agentID now i e)) w1 of
       (Inl _, w2) \<Rightarrow> (Inl (Error StatusInternalServerError ''failed to store logs''), w2)
     | (Inr _, w2) \<Rightarrow> (Inr (), w2))"

text \<open>A shipment is the list of its entries; the agent it names is not read.\<close>

definition LogsHandler_Ingest ::
  "request_context \<Rightarrow> LogEntry list json \<Rightarrow> world \<Rightarrow> unit response \<times> world" where
  "LogsHandler_Ingest ctx body w =
    (let agentID = ctx_AgentID ctx; tenantID = ctx_TenantID ctx in
     if agentID = '''' \<or> tenantID = '''' then (Error StatusUnauthorized ''agent identity not found'', w)
     else case body of
       Malformed \<Rightarrow> (Error StatusBadRequest ''invalid request body'', w)
     | Doc entries \<Rightarrow>
    (if entries = [] then (NoContent, w)
     else if length entries > 1000 then (Error StatusBadRequest ''too many log entries (max 1000)'', w)
     else case Now w of (now, w1) \<Rightarrow>
     case Transaction (Error StatusInternalServerError ''failed to store logs'')
            (Error StatusInternalServerError ''failed to store logs'')
            (for_each (store_log tenantID agentID now) entries) w1 of
       (Inl resp, w2) \<Rightarrow> (resp, w2)
     | (Inr _, w2) \<Rightarrow> (NoContent, w2)))"

section \<open>Revocation\<close>

lemma Exec_unit_Inr: "Exec_unit f w = (Inr u, w') \<Longrightarrow> \<exists>x. f (w_db w) = Inr (x, w_db w')"
  by (auto simp: Exec_unit_def dest: Exec_Inr split: prod.splits sum.splits)

lemma ExecRow_Inr: "ExecRow f w = (Inr u, w') \<Longrightarrow> \<exists>n. n \<noteq> 0 \<and> f (w_db w) = Inr (n, w_db w')"
  by (auto simp: ExecRow_def dest: Exec_Inr split: prod.splits sum.splits if_splits)

definition revoked_at :: "id \<Rightarrow> id \<Rightarrow> time \<Rightarrow> string \<Rightarrow> db \<Rightarrow> db" where
  "revoked_at tenantID deviceID now reason d =
     d\<lparr>db_devices := update_rows (tenant_device tenantID deviceID)
         (\<lambda>r. r\<lparr>d_status := DeviceStatusRevoked\<rparr>) (db_devices d),
       db_agent_certificates := update_rows (\<lambda>c. c_device_id c = deviceID \<and> c_revoked_at c = None)
         (\<lambda>c. c\<lparr>c_revoked_at := Some now, c_revocation_reason := Some reason\<rparr>) (db_agent_certificates d),
       db_jobs := update_rows (revocable_job tenantID deviceID)
         (\<lambda>r. r\<lparr>j_status := JobStatusCancelled\<rparr>) (db_jobs d)\<rparr>"

lemma revoke_tx_Inr:
  assumes "revoke_tx t dev reason w = (Inr u, w')"
  shows "w_db w' = revoked_at t dev (w_clock w (w_ticks w)) reason (w_db w)"
    and "list_ex (tenant_device t dev) (db_devices (w_db w))"
proof -
  obtain now w0 where now: "Now w = (now, w0)" by (rule prod.exhaust)
  have n: "now = w_clock w (w_ticks w)" "w_db w0 = w_db w" using now by (auto simp: Now_def)
  let ?d = "update_devices (tenant_device t dev) (\<lambda>r. r\<lparr>d_status := DeviceStatusRevoked\<rparr>)"
  let ?c = "update_certs (\<lambda>c. c_device_id c = dev \<and> c_revoked_at c = None)
      (\<lambda>c. c\<lparr>c_revoked_at := Some now, c_revocation_reason := Some reason\<rparr>)"
  obtain q w1 where "ExecRow ?d w0 = (q, w1)" by (rule prod.exhaust)
  then have q: "ExecRow ?d w0 = (Inr (), w1)"
    using assms by (cases q) (auto simp: revoke_tx_def now)
  obtain q2 w2 where "Exec ?c w1 = (q2, w2)" by (rule prod.exhaust)
  then obtain m where q2: "Exec ?c w1 = (Inr m, w2)"
    using assms by (cases q2) (auto simp: revoke_tx_def now q)
  have q3: "Exec_unit (update_jobs (revocable_job t dev) (\<lambda>r. r\<lparr>j_status := JobStatusCancelled\<rparr>)) w2 = (Inr u, w')"
    using assms by (simp add: revoke_tx_def now q q2)
  obtain k where k: "k \<noteq> 0" "?d (w_db w) = Inr (k, w_db w1)" using ExecRow_Inr [OF q] n(2) by metis
  have d1: "w_db w1 = (w_db w)\<lparr>db_devices := update_rows (tenant_device t dev)
      (\<lambda>r. r\<lparr>d_status := DeviceStatusRevoked\<rparr>) (db_devices (w_db w))\<rparr>"
    using k(2) by (simp add: update_devices_Inr)
  have d2: "w_db w2 = (w_db w1)\<lparr>db_agent_certificates := update_rows (\<lambda>c. c_device_id c = dev \<and> c_revoked_at c = None)
      (\<lambda>c. c\<lparr>c_revoked_at := Some now, c_revocation_reason := Some reason\<rparr>) (db_agent_certificates (w_db w1))\<rparr>"
    using Exec_Inr [OF q2] by (simp add: update_certs_def)
  show "w_db w' = revoked_at t dev (w_clock w (w_ticks w)) reason (w_db w)"
    using Exec_unit_Inr [OF q3] n(1) by (simp add: update_jobs_Inr revoked_at_def d1 d2)
  show "list_ex (tenant_device t dev) (db_devices (w_db w))"
    using k by (auto simp: update_devices_Inr rows_affected_def list_ex_iff filter_empty_conv)
qed

interpretation everything: projection "\<lambda>d. d\<lparr>db_audit_log := []\<rparr>"
  by unfold_locales simp

lemma revoke_NoContent:
  assumes "DevicesHandler_Revoke audit ctx dev body w = (NoContent, w')"
  obtains now reason where
    "(w_db w')\<lparr>db_audit_log := []\<rparr> = (revoked_at (ctx_TenantID ctx) dev now reason (w_db w))\<lparr>db_audit_log := []\<rparr>"
    "list_ex (tenant_device (ctx_TenantID ctx) dev) (db_devices (w_db w))"
    "fst (scope_refuses ctx dev w) = False"
proof -
  obtain b w1 where s: "scope_refuses ctx dev w = (b, w1)" by (rule prod.exhaust)
  have d1: "w_db w1 = w_db w" using scope_refuses_db [of ctx dev w] s by simp
  have b: "\<not> b" using assms by (auto simp: DevicesHandler_Revoke_def Let_def s)
  define rq where "rq = (case body of None \<Rightarrow> Doc '''' | Some b \<Rightarrow> b)"
  obtain r where r: "rq = Doc r"
    using assms b by (cases rq) (auto simp: DevicesHandler_Revoke_def Let_def s simp flip: rq_def)
  let ?reason = "if r = '''' then ''operator_revoked'' else r"
  obtain q w2 where q: "RevokeDevice (ctx_TenantID ctx) dev ?reason w1 = (q, w2)" by (rule prod.exhaust)
  have q1: "q = Inr ()"
    using assms b by (cases q) (auto simp: DevicesHandler_Revoke_def Let_def s r q simp flip: rq_def)
  obtain v v' where v: "w_db v = w_db w1" "revoke_tx (ctx_TenantID ctx) dev ?reason v = (Inr (), v')" "w_db w2 = w_db v'"
    by (rule Transaction_Inr [OF q [unfolded RevokeDevice_def q1]])
  have "(w_db w')\<lparr>db_audit_log := []\<rparr> = (w_db w2)\<lparr>db_audit_log := []\<rparr>"
    using assms b everything.LogAction_respects [where w = w2]
    by (auto simp: DevicesHandler_Revoke_def Let_def s r q q1 split: if_splits simp flip: rq_def)
  with that [of "w_clock v (w_ticks v)" ?reason] revoke_tx_Inr [OF v(2)] v d1 b s show thesis by simp
qed

lemma mtls_live_cert:
  assumes "MTLSMiddleware_Handler lib r cx w = (Inr cx', w')"
  shows "\<exists>c \<in> set (db_agent_certificates (w_db w)). c_device_id c = ctx_AgentID cx' \<and> c_revoked_at c = None"
proof (rule mtls_Inr [OF assms])
  fix v :: device_row and c :: cert_row
  assume "c \<in> set (db_agent_certificates (w_db w))" "c_device_id c = d_id v" "c_revoked_at c = None"
    "cx' = cx\<lparr>ctx_AgentID := d_id v, ctx_TenantID := d_tenant_id v\<rparr>"
  then show ?thesis by (intro bexI [of _ c]) simp_all
qed



section \<open>Log shipments\<close>

lemma store_logs_Inr:
  assumes "for_each (store_log t a now) es w = (Inr u, w')"
  shows "\<exists>ids. length ids = length es \<and>
    db_device_logs (w_db w') = db_device_logs (w_db w) @ map2 (log_row t a now) ids es"
  using assms
proof (induction es arbitrary: w)
  case (Cons e es)
  obtain i w1 where i: "newID ''dlg'' w = (i, w1)" by (rule prod.exhaust)
  obtain q w2 where q: "Exec (insert_device_log (log_row t a now i e)) w1 = (q, w2)" by (rule prod.exhaust)
  obtain v where v: "q = Inr v" and rest: "for_each (store_log t a now) es w2 = (Inr u, w')"
  proof -
    have "store_log t a now e w = (case q of Inl _ \<Rightarrow> (Inl (Error StatusInternalServerError ''failed to store logs''), w2)
        | Inr _ \<Rightarrow> (Inr (), w2))"
      by (simp add: store_log_def i q split: sum.split)
    with Cons.prems that show thesis by (cases q) auto
  qed
  obtain ids where "length ids = length es"
    "db_device_logs (w_db w') = db_device_logs (w_db w2) @ map2 (log_row t a now) ids es"
    using Cons.IH [OF rest] by blast
  moreover have "db_device_logs (w_db w2) = db_device_logs (w_db w) @ [log_row t a now i e]"
    using Exec_Inr [OF q [unfolded v]] newID_db [of "''dlg''" w] i by (auto simp: insert_device_log_def)
  ultimately show ?case by (intro exI [of _ "i # ids"]) simp
qed simp

text \<open>What a shipment adds: the entries in order, each under a fresh identifier.\<close>

definition logs_added :: "request_context \<Rightarrow> time \<Rightarrow> LogEntry list json \<Rightarrow> db \<Rightarrow> db \<Rightarrow> bool" where
  "logs_added ctx now body d d' \<longleftrightarrow>
    (\<exists>es ids. body = Doc es \<and> length es \<le> 1000 \<and> length ids = length es \<and>
       db_device_logs d' = db_device_logs d @ map2 (log_row (ctx_TenantID ctx) (ctx_AgentID ctx) now) ids es)"

lemma ingest_transaction:
  assumes "Transaction e1 e2 (for_each (store_log t a now) es) w = (r, w')"
  shows "db_device_logs (w_db w') = db_device_logs (w_db w) \<or>
    (\<exists>ids. length ids = length es \<and>
       db_device_logs (w_db w') = db_device_logs (w_db w) @ map2 (log_row t a now) ids es)"
  using Transaction_cases [OF assms] store_logs_Inr by metis

text \<open>A log shipment is stored as a whole or not at all: an accepted one adds one row for each of
  its at most 1000 entries, in order, for the agent and the tenant of the certificate and with a known
  level; a refused one adds nothing, unless only the acknowledgement of the commit was lost.\<close>

theorem ingest_atomic:
  "case LogsHandler_Ingest ctx body w of (resp, w') \<Rightarrow>
     (case resp of
        NoContent \<Rightarrow> logs_added ctx (w_clock w (w_ticks w)) body (w_db w) (w_db w')
      | _ \<Rightarrow> db_device_logs (w_db w') = db_device_logs (w_db w)
          \<or> logs_added ctx (w_clock w (w_ticks w)) body (w_db w) (w_db w'))"
proof (cases "\<exists>es. body = Doc es \<and> es \<noteq> [] \<and> length es \<le> 1000 \<and> ctx_AgentID ctx \<noteq> '''' \<and> ctx_TenantID ctx \<noteq> ''''")
  case False
  then show ?thesis
    by (cases body) (auto simp: LogsHandler_Ingest_def Let_def Error_def logs_added_def)
next
  case True
  then obtain es where b: "body = Doc es" "es \<noteq> []" "length es \<le> 1000" "ctx_AgentID ctx \<noteq> ''''"
    "ctx_TenantID ctx \<noteq> ''''" by blast
  obtain now w1 where n: "Now w = (now, w1)" by (rule prod.exhaust)
  have now: "now = w_clock w (w_ticks w)" "w_db w1 = w_db w" using n by (auto simp: Now_def)
  let ?no = "Error StatusInternalServerError ''failed to store logs'' :: unit response"
  obtain r w2 where t: "Transaction ?no ?no (for_each (store_log (ctx_TenantID ctx) (ctx_AgentID ctx) now) es) w1 = (r, w2)"
    by (rule prod.exhaust)
  have l: "LogsHandler_Ingest ctx body w = (case r of Inl resp \<Rightarrow> (resp, w2) | Inr _ \<Rightarrow> (NoContent, w2))"
    using b by (simp add: LogsHandler_Ingest_def Let_def n t split: sum.split)
  show ?thesis
  proof (cases r)
    case (Inr u)
    obtain v v' where "w_db v = w_db w1" "for_each (store_log (ctx_TenantID ctx) (ctx_AgentID ctx) now) es v = (Inr u, v')"
      "w_db w2 = w_db v'" by (rule Transaction_Inr [OF t [unfolded Inr]])
    with store_logs_Inr b now have "logs_added ctx (w_clock w (w_ticks w)) body (w_db w) (w_db w2)"
      unfolding logs_added_def by metis
    then show ?thesis by (simp add: l Inr)
  next
    case (Inl resp)
    have "for_each (store_log t a n') xs v \<noteq> (Inl NoContent, v')" for t a n' xs v v'
      by (induction xs arbitrary: v) (auto simp: store_log_def split: sum.splits prod.splits)
    then have "resp \<noteq> NoContent" using Transaction_Inl [OF t [unfolded Inl]] by auto
    moreover have "db_device_logs (w_db w2) = db_device_logs (w_db w)
        \<or> logs_added ctx (w_clock w (w_ticks w)) body (w_db w) (w_db w2)"
      using ingest_transaction [OF t] b now by (auto simp: logs_added_def)
    ultimately show ?thesis by (simp add: l Inl split: response.split)
  qed
qed

end
