(* ===== verification/Admin.thy ===== *)
theory Admin
  imports Fleet
begin

text \<open>
  Tenants, users, roles and API keys: \<^verbatim>\<open>server/store/tenants.go\<close>,
  \<^verbatim>\<open>users.go\<close>, \<^verbatim>\<open>roles.go\<close>, \<^verbatim>\<open>apikeys.go\<close>, their
  endpoints under \<^verbatim>\<open>server/api\<close>, the listing of the audit log
  (\<^verbatim>\<open>server/api/auditlog.go\<close>) and the parsing of page parameters
  (\<^verbatim>\<open>server/api/middleware.go\<close>).
\<close>

section \<open>Pages (server/api/middleware.go, respond.go)\<close>

text \<open>\<^verbatim>\<open>strconv.Atoi\<close>: an optional sign and decimal digits, within 64 bits.\<close>

definition digit_value :: "char \<Rightarrow> nat option" where
  "digit_value c = (let n = of_char c :: nat in if 48 \<le> n \<and> n \<le> 57 then Some (n - 48) else None)"

fun digits_value :: "nat \<Rightarrow> string \<Rightarrow> nat option" where
  "digits_value acc [] = Some acc"
| "digits_value acc (c # cs) =
    (case digit_value c of None \<Rightarrow> None | Some d \<Rightarrow> digits_value (acc * 10 + d) cs)"

definition Atoi :: "string \<Rightarrow> int option" where
  "Atoi s =
    (let (neg, ds) = (case s of c # cs \<Rightarrow> if c = CHR ''-'' then (True, cs)
           else if c = CHR ''+'' then (False, cs) else (False, s) | [] \<Rightarrow> (False, [])) in
     if ds = [] then None
     else case digits_value 0 ds of
       None \<Rightarrow> None
     | Some n \<Rightarrow> (let v = (if neg then - int n else int n) in
         if - (2 ^ 63) \<le> v \<and> v < 2 ^ 63 then Some v else None))"

text \<open>The query parameters \<^verbatim>\<open>limit\<close> and \<^verbatim>\<open>cursor\<close>; an absent one is empty.\<close>

definition ParsePagination :: "string \<Rightarrow> string \<Rightarrow> nat \<times> string" where
  "ParsePagination limit_param cursor =
    (let n = (if limit_param = '''' then 50
           else case Atoi limit_param of None \<Rightarrow> 50 | Some m \<Rightarrow> if m > 0 then m else 50) in
     (nat (if n > 500 then 500 else n), cursor))"

record Pagination =
  pg_NextCursor :: string
  pg_HasMore :: bool
  pg_Limit :: nat

record 'a ListResponse =
  lr_Data :: "'a list"
  lr_Pagination :: Pagination

text \<open>One row more than the limit is fetched to see whether there is another page.\<close>

definition page_of :: "nat \<Rightarrow> ('a \<Rightarrow> string) \<Rightarrow> 'a list \<Rightarrow> 'a ListResponse" where
  "page_of n cursor_of rows =
    (let more = length rows > n; page = (if more then take n rows else rows) in
     \<lparr>lr_Data = page, lr_Pagination = \<lparr>pg_NextCursor = (if more \<and> page \<noteq> [] then cursor_of (last page) else ''''),
        pg_HasMore = more, pg_Limit = n\<rparr>\<rparr>)"

section \<open>Tenants (server/store/tenants.go, server/api/tenants.go)\<close>

record Tenant =
  tn_ID :: id
  tn_Name :: string
  tn_Slug :: string
  tn_Config :: "TenantConfig option"
  tn_CreatedAt :: time

definition empty_config :: TenantConfig where
  "empty_config = \<lparr>tc_DefaultPollIntervalSeconds = 0, tc_DefaultCertLifetimeDays = 0, tc_SSO = None,
     tc_Storage = None, tc_Quotas = None\<rparr>"

text \<open>A configuration that does not decode is read as the empty one.\<close>

definition scan_tenant :: "tenant_row \<Rightarrow> Tenant" where
  "scan_tenant r =
     \<lparr>tn_ID = t_id r, tn_Name = t_name r, tn_Slug = t_slug r,
      tn_Config = (case t_config r of None \<Rightarrow> None | Some Malformed \<Rightarrow> Some empty_config | Some (Doc c) \<Rightarrow> Some c),
      tn_CreatedAt = t_created_at r\<rparr>"

definition GetTenant :: "id \<Rightarrow> world \<Rightarrow> (db_error + Tenant option) \<times> world" where
  "GetTenant tenantID w =
    (case get_row (\<lambda>r. t_id r = tenantID) db_tenants w of
       (Inl e, w1) \<Rightarrow> (Inl e, w1)
     | (Inr r, w1) \<Rightarrow> (Inr (map_option scan_tenant r), w1))"

definition UpdateTenant :: "Tenant \<Rightarrow> world \<Rightarrow> (db_error + unit) \<times> world" where
  "UpdateTenant t =
     ExecRow (update_tenants (\<lambda>r. t_id r = tn_ID t)
       (\<lambda>r. r\<lparr>t_name := tn_Name t, t_config := map_option Doc (tn_Config t)\<rparr>))"

definition TenantHandler_Get :: "auth_context \<Rightarrow> world \<Rightarrow> Tenant response \<times> world" where
  "TenantHandler_Get ctx w =
    (case GetTenant (ctx_TenantID ctx) w of
       (Inl _, w1) \<Rightarrow> (Error StatusInternalServerError ''failed to get tenant'', w1)
     | (Inr None, w1) \<Rightarrow> (ErrorWithCode StatusNotFound ''tenant_not_found'' ''Tenant not found'', w1)
     | (Inr (Some t), w1) \<Rightarrow> (JSON StatusOK t, w1))"

record updateTenantRequest =
  utr_Name :: string
  utr_Config :: "TenantConfig option"

definition TenantHandler_Update ::
  "bool \<Rightarrow> auth_context \<Rightarrow> updateTenantRequest json \<Rightarrow> world \<Rightarrow> Tenant response \<times> world" where
  "TenantHandler_Update audit ctx body w =
    (case GetTenant (ctx_TenantID ctx) w of
       (Inr (Some t), w1) \<Rightarrow>
         (case body of
            Malformed \<Rightarrow> (Error StatusBadRequest ''invalid request body'', w1)
          | Doc req \<Rightarrow>
            (let t1 = (if utr_Name req \<noteq> '''' then t\<lparr>tn_Name := utr_Name req\<rparr> else t);
                 t2 = (case utr_Config req of None \<Rightarrow> t1 | Some c \<Rightarrow> t1\<lparr>tn_Config := Some c\<rparr>) in
             case UpdateTenant t2 w1 of
               (Inl _, w2) \<Rightarrow> (Error StatusInternalServerError ''failed to update tenant'', w2)
             | (Inr _, w2) \<Rightarrow>
               (JSON StatusOK t2, if audit then LogAction (ctx_TenantID ctx) (ctx_UserID ctx) ActorTypeUser
                  ''tenant.update'' ''tenant'' (ctx_TenantID ctx) None w2 else w2)))
     | (_, w1) \<Rightarrow> (Error StatusInternalServerError ''failed to get tenant'', w1))"

section \<open>Roles (server/store/roles.go, server/api/roles.go)\<close>

record Role =
  role_ID :: id
  role_TenantID :: id
  role_Name :: string
  role_Permissions :: "string list"
  role_IsCustom :: bool

text \<open>Permissions that are not a list of strings fail to scan.\<close>

definition scan_role :: "role_row \<Rightarrow> db_error + Role" where
  "scan_role r =
    (case rl_permissions r of
       Malformed \<Rightarrow> Inl ErrScan
     | Doc ps \<Rightarrow> Inr \<lparr>role_ID = rl_id r,
         role_TenantID = (case rl_tenant_id r of None \<Rightarrow> '''' | Some t \<Rightarrow> t),
         role_Name = rl_name r, role_Permissions = ps, role_IsCustom = rl_is_custom r\<rparr>)"

fun scan_all :: "('r \<Rightarrow> db_error + 'a) \<Rightarrow> 'r list \<Rightarrow> db_error + 'a list" where
  "scan_all f [] = Inr []"
| "scan_all f (r # rs) =
    (case f r of Inl e \<Rightarrow> Inl e
     | Inr x \<Rightarrow> (case scan_all f rs of Inl e \<Rightarrow> Inl e | Inr xs \<Rightarrow> Inr (x # xs)))"

definition visible_role :: "id \<Rightarrow> role_row \<Rightarrow> bool" where
  "visible_role tenantID r \<longleftrightarrow> rl_tenant_id r = None \<or> rl_tenant_id r = Some tenantID"

definition ListRoles :: "id \<Rightarrow> world \<Rightarrow> (db_error + Role list) \<times> world" where
  "ListRoles tenantID =
     Query (\<lambda>d. scan_all scan_role (sort_key rl_is_custom (sort_key rl_name
       (filter (visible_role tenantID) (db_roles d)))))"

definition GetRole :: "id \<Rightarrow> id \<Rightarrow> world \<Rightarrow> (db_error + Role option) \<times> world" where
  "GetRole tenantID roleID w =
    (case Query (\<lambda>d. case select_row (\<lambda>r. rl_id r = roleID \<and> visible_role tenantID r) (db_roles d) of
            Inl e \<Rightarrow> Inl e | Inr r \<Rightarrow> scan_role r) w of
       (Inl e, w1) \<Rightarrow> (if e = ErrNoRows then Inr None else Inl e, w1)
     | (Inr r, w1) \<Rightarrow> (Inr (Some r), w1))"

definition CreateRole :: "Role \<Rightarrow> world \<Rightarrow> (db_error + unit) \<times> world" where
  "CreateRole role = Exec (insert_role
     \<lparr>rl_id = role_ID role, rl_tenant_id = Some (role_TenantID role), rl_name = role_Name role,
      rl_permissions = Doc (role_Permissions role), rl_is_custom = True\<rparr>)"

definition custom_role :: "id \<Rightarrow> id \<Rightarrow> role_row \<Rightarrow> bool" where
  "custom_role tenantID roleID r \<longleftrightarrow> rl_id r = roleID \<and> rl_tenant_id r = Some tenantID \<and> rl_is_custom r"

definition UpdateRole :: "id \<Rightarrow> Role \<Rightarrow> world \<Rightarrow> (db_error + unit) \<times> world" where
  "UpdateRole tenantID role =
     ExecRow (update_roles (custom_role tenantID (role_ID role))
       (\<lambda>r. r\<lparr>rl_name := role_Name role, rl_permissions := Doc (role_Permissions role)\<rparr>))"

datatype delete_role_error = RoleInUse nat | RoleDelete db_error

definition DeleteRole :: "id \<Rightarrow> id \<Rightarrow> world \<Rightarrow> (delete_role_error + unit) \<times> world" where
  "DeleteRole tenantID roleID w =
    (case Query (\<lambda>d. Inr (rows_affected (\<lambda>u. u_RoleID u = Some roleID \<and> u_TenantID u = tenantID) (db_users d)
           + rows_affected (\<lambda>k. k_role_id k = Some roleID \<and> k_tenant_id k = tenantID) (db_api_keys d))) w of
       (Inl e, w1) \<Rightarrow> (Inl (RoleDelete e), w1)
     | (Inr count, w1) \<Rightarrow>
       (if count > 0 then (Inl (RoleInUse count), w1)
        else case ExecRow (delete_roles (custom_role tenantID roleID)) w1 of
          (Inl e, w2) \<Rightarrow> (Inl (RoleDelete e), w2)
        | (Inr _, w2) \<Rightarrow> (Inr (), w2)))"

text \<open>The text of an error of the driver is not modelled.\<close>

fun delete_role_message :: "delete_role_error \<Rightarrow> string" where
  "delete_role_message (RoleInUse n) =
     ''role is assigned to '' @ decimal (int n) @ '' users/keys and cannot be deleted''"
| "delete_role_message (RoleDelete e) =
     (if e = ErrNoRows then ''role not found or is a system role'' else ''database error'')"

definition RolesHandler_List :: "auth_context \<Rightarrow> world \<Rightarrow> Role list response \<times> world" where
  "RolesHandler_List ctx w =
    (case ListRoles (ctx_TenantID ctx) w of
       (Inl _, w1) \<Rightarrow> (Error StatusInternalServerError ''failed to list roles'', w1)
     | (Inr rs, w1) \<Rightarrow> (JSON StatusOK rs, w1))"

definition RolesHandler_Get :: "auth_context \<Rightarrow> id \<Rightarrow> world \<Rightarrow> Role response \<times> world" where
  "RolesHandler_Get ctx roleID w =
    (case GetRole (ctx_TenantID ctx) roleID w of
       (Inl _, w1) \<Rightarrow> (Error StatusInternalServerError ''failed to get role'', w1)
     | (Inr None, w1) \<Rightarrow> (ErrorWithCode StatusNotFound ''role_not_found'' ''No role with the given ID exists'', w1)
     | (Inr (Some r), w1) \<Rightarrow> (JSON StatusOK r, w1))"

record roleRequest =
  rr_Name :: string
  rr_Permissions :: "string list"

text \<open>The guard against granting more than the caller holds.\<close>

definition escalates :: "auth_context \<Rightarrow> string list \<Rightarrow> bool" where
  "escalates ctx perms \<longleftrightarrow> \<not> ctx_IsAdmin ctx \<and> \<not> PermissionsSubset (ctx_Permissions ctx) perms"

definition RolesHandler_Create ::
  "bool \<Rightarrow> auth_context \<Rightarrow> roleRequest json \<Rightarrow> world \<Rightarrow> Role response \<times> world" where
  "RolesHandler_Create audit ctx body w =
    (case body of
       Malformed \<Rightarrow> (Error StatusBadRequest ''invalid request body'', w)
     | Doc req \<Rightarrow>
    (if rr_Name req = '''' \<or> rr_Permissions req = [] then
       (Error StatusBadRequest ''name and permissions are required'', w)
     else if escalates ctx (rr_Permissions req) then
       (ErrorWithCode StatusForbidden ''permission_escalation'' ''cannot grant permissions you do not hold'', w)
     else case newID ''rol'' w of (i, w1) \<Rightarrow>
     let role = \<lparr>role_ID = i, role_TenantID = ctx_TenantID ctx, role_Name = rr_Name req,
           role_Permissions = rr_Permissions req, role_IsCustom = True\<rparr> in
     case CreateRole role w1 of
       (Inl _, w2) \<Rightarrow> (Error StatusInternalServerError ''failed to create role'', w2)
     | (Inr _, w2) \<Rightarrow>
       (JSON StatusCreated role, if audit then LogAction (ctx_TenantID ctx) (ctx_UserID ctx) ActorTypeUser
          ''role.create'' ''role'' i (Some [(''name'', rr_Name req)]) w2 else w2)))"

definition RolesHandler_Update ::
  "bool \<Rightarrow> auth_context \<Rightarrow> id \<Rightarrow> roleRequest json \<Rightarrow> world \<Rightarrow> Role response \<times> world" where
  "RolesHandler_Update audit ctx roleID body w =
    (case GetRole (ctx_TenantID ctx) roleID w of
       (Inl _, w1) \<Rightarrow> (Error StatusInternalServerError ''failed to get role'', w1)
     | (Inr None, w1) \<Rightarrow> (ErrorWithCode StatusNotFound ''role_not_found'' ''No role with the given ID exists'', w1)
     | (Inr (Some existing), w1) \<Rightarrow>
    (if \<not> role_IsCustom existing then
       (ErrorWithCode StatusForbidden ''system_role_immutable'' ''System roles cannot be modified'', w1)
     else case body of
       Malformed \<Rightarrow> (Error StatusBadRequest ''invalid request body'', w1)
     | Doc req \<Rightarrow>
    (let e1 = (if rr_Name req \<noteq> '''' then existing\<lparr>role_Name := rr_Name req\<rparr> else existing) in
     if rr_Permissions req \<noteq> [] \<and> escalates ctx (rr_Permissions req) then
       (ErrorWithCode StatusForbidden ''permission_escalation'' ''cannot grant permissions you do not hold'', w1)
     else let e2 = (if rr_Permissions req \<noteq> [] then e1\<lparr>role_Permissions := rr_Permissions req\<rparr> else e1) in
     case UpdateRole (ctx_TenantID ctx) e2 w1 of
       (Inl _, w2) \<Rightarrow> (Error StatusInternalServerError ''failed to update role'', w2)
     | (Inr _, w2) \<Rightarrow>
       (JSON StatusOK e2, if audit then LogAction (ctx_TenantID ctx) (ctx_UserID ctx) ActorTypeUser
          ''role.update'' ''role'' roleID None w2 else w2))))"

definition RolesHandler_Delete :: "bool \<Rightarrow> auth_context \<Rightarrow> id \<Rightarrow> world \<Rightarrow> unit response \<times> world" where
  "RolesHandler_Delete audit ctx roleID w =
    (case DeleteRole (ctx_TenantID ctx) roleID w of
       (Inl e, w1) \<Rightarrow> (ErrorWithCode StatusConflict ''role_in_use'' (delete_role_message e), w1)
     | (Inr _, w1) \<Rightarrow>
       (NoContent, if audit then LogAction (ctx_TenantID ctx) (ctx_UserID ctx) ActorTypeUser
          ''role.delete'' ''role'' roleID None w1 else w1))"

section \<open>Users (server/store/users.go, server/api/users.go)\<close>

definition ListUsers :: "id \<Rightarrow> string \<Rightarrow> nat \<Rightarrow> world \<Rightarrow> (db_error + User list) \<times> world" where
  "ListUsers tenantID cursor n =
     Query (\<lambda>d. Inr (take (n + 1) (sort_key (\<lambda>u. - u_CreatedAt u)
       (filter (\<lambda>u. u_TenantID u = tenantID \<and> (cursor = '''' \<or> u_ID u < cursor)) (db_users d)))))"

definition tenant_user :: "id \<Rightarrow> id \<Rightarrow> User \<Rightarrow> bool" where
  "tenant_user tenantID userID u \<longleftrightarrow> u_ID u = userID \<and> u_TenantID u = tenantID"

definition GetUser :: "id \<Rightarrow> id \<Rightarrow> world \<Rightarrow> (db_error + User option) \<times> world" where
  "GetUser tenantID userID = get_row (tenant_user tenantID userID) db_users"

definition UpdateUserRole :: "id \<Rightarrow> id \<Rightarrow> id \<Rightarrow> world \<Rightarrow> (db_error + unit) \<times> world" where
  "UpdateUserRole tenantID userID roleID =
     ExecRow (update_users (tenant_user tenantID userID) (\<lambda>u. u\<lparr>u_RoleID := Some roleID\<rparr>))"

definition SetUserSSOSubject :: "id \<Rightarrow> id \<Rightarrow> string \<Rightarrow> world \<Rightarrow> (db_error + unit) \<times> world" where
  "SetUserSSOSubject tenantID userID subject =
     ExecRow (update_users (tenant_user tenantID userID)
       (\<lambda>u. u\<lparr>u_SSOSubject := (if subject = '''' then None else Some subject)\<rparr>))"

definition DeactivateUser :: "id \<Rightarrow> id \<Rightarrow> world \<Rightarrow> (db_error + unit) \<times> world" where
  "DeactivateUser tenantID userID =
     ExecRow (update_users (tenant_user tenantID userID) (\<lambda>u. u\<lparr>u_RoleID := None\<rparr>))"

definition UsersHandler_List ::
  "auth_context \<Rightarrow> string \<Rightarrow> string \<Rightarrow> world \<Rightarrow> User ListResponse response \<times> world" where
  "UsersHandler_List ctx limit_param cursor_param w =
    (case ParsePagination limit_param cursor_param of (n, cursor) \<Rightarrow>
     case ListUsers (ctx_TenantID ctx) cursor n w of
       (Inl _, w1) \<Rightarrow> (Error StatusInternalServerError ''failed to list users'', w1)
     | (Inr users, w1) \<Rightarrow> (JSON StatusOK (page_of n u_ID users), w1))"

definition no_user :: "'a response" where
  "no_user = ErrorWithCode StatusNotFound ''user_not_found'' ''No user with the given ID exists''"

definition UsersHandler_Get :: "auth_context \<Rightarrow> id \<Rightarrow> world \<Rightarrow> User response \<times> world" where
  "UsersHandler_Get ctx userID w =
    (case GetUser (ctx_TenantID ctx) userID w of
       (Inl _, w1) \<Rightarrow> (Error StatusInternalServerError ''failed to get user'', w1)
     | (Inr None, w1) \<Rightarrow> (no_user, w1)
     | (Inr (Some u), w1) \<Rightarrow> (JSON StatusOK u, w1))"

record inviteUserRequest =
  iur_Email :: string
  iur_RoleID :: id

definition UsersHandler_Invite ::
  "bool \<Rightarrow> auth_context \<Rightarrow> inviteUserRequest json \<Rightarrow> world \<Rightarrow> User response \<times> world" where
  "UsersHandler_Invite audit ctx body w =
    (case body of
       Malformed \<Rightarrow> (Error StatusBadRequest ''invalid request body'', w)
     | Doc req \<Rightarrow>
    (if iur_Email req = '''' \<or> iur_RoleID req = '''' then
       (Error StatusBadRequest ''email and role_id are required'', w)
     else case newID ''usr'' w of (i, w1) \<Rightarrow>
     case Now w1 of (now, w2) \<Rightarrow>
     let user = \<lparr>u_ID = i, u_TenantID = ctx_TenantID ctx, u_Email = iur_Email req,
           u_RoleID = Some (iur_RoleID req), u_SSOSubject = None, u_CreatedAt = now\<rparr> in
     case Exec (insert_user user) w2 of
       (Inl _, w3) \<Rightarrow> (Error StatusInternalServerError ''failed to create user'', w3)
     | (Inr _, w3) \<Rightarrow>
       (JSON StatusCreated user, if audit then LogAction (ctx_TenantID ctx) (ctx_UserID ctx) ActorTypeUser
          ''user.invite'' ''user'' i (Some [(''email'', iur_Email req), (''role_id'', iur_RoleID req)]) w3
        else w3)))"

text \<open>The message of a failed update is the error's; that of the driver is not modelled.\<close>

definition user_error :: "db_error \<Rightarrow> 'a response" where
  "user_error e = ErrorWithCode StatusNotFound ''user_not_found''
     (if e = ErrNoRows then ''user not found'' else ''database error'')"

text \<open>A request is the role.  The guard against self-promotion comes first.\<close>

definition role_change_allowed ::
  "auth_context \<Rightarrow> id \<Rightarrow> id \<Rightarrow> world \<Rightarrow> (User option response + unit) \<times> world" where
  "role_change_allowed ctx userID roleID w =
    (if ctx_IsAdmin ctx then (Inr (), w)
     else if userID = ctx_UserID ctx then
       (Inl (ErrorWithCode StatusForbidden ''self_role_change'' ''cannot change your own role''), w)
     else case GetRole (ctx_TenantID ctx) roleID w of
       (Inl _, w1) \<Rightarrow> (Inl (Error StatusInternalServerError ''failed to load target role''), w1)
     | (Inr None, w1) \<Rightarrow>
       (Inl (ErrorWithCode StatusBadRequest ''role_not_found''
          ''the requested role does not exist in this tenant''), w1)
     | (Inr (Some role), w1) \<Rightarrow>
       (if \<not> PermissionsSubset (ctx_Permissions ctx) (role_Permissions role) then
          (Inl (ErrorWithCode StatusForbidden ''permission_escalation''
             ''cannot assign a role with more permissions than your own''), w1)
        else (Inr (), w1)))"

definition UsersHandler_Update ::
  "bool \<Rightarrow> auth_context \<Rightarrow> id \<Rightarrow> id json \<Rightarrow> world \<Rightarrow> User option response \<times> world" where
  "UsersHandler_Update audit ctx userID body w =
    (case body of
       Malformed \<Rightarrow> (Error StatusBadRequest ''invalid request body'', w)
     | Doc roleID \<Rightarrow>
    (if roleID = '''' then (Error StatusBadRequest ''role_id is required'', w)
     else case role_change_allowed ctx userID roleID w of
       (Inl resp, w1) \<Rightarrow> (resp, w1)
     | (Inr _, w1) \<Rightarrow>
    (case UpdateUserRole (ctx_TenantID ctx) userID roleID w1 of
       (Inl e, w2) \<Rightarrow> (user_error e, w2)
     | (Inr _, w2) \<Rightarrow>
       (let w3 = (if audit then LogAction (ctx_TenantID ctx) (ctx_UserID ctx) ActorTypeUser
              ''user.update_role'' ''user'' userID (Some [(''role_id'', roleID)]) w2 else w2) in
        case GetUser (ctx_TenantID ctx) userID w3 of
          (Inl _, w4) \<Rightarrow> (JSON StatusOK None, w4)
        | (Inr u, w4) \<Rightarrow> (JSON StatusOK u, w4)))))"

text \<open>A request is the subject.\<close>

definition UsersHandler_SetSSOSubject ::
  "bool \<Rightarrow> auth_context \<Rightarrow> id \<Rightarrow> string json \<Rightarrow> world \<Rightarrow> unit response \<times> world" where
  "UsersHandler_SetSSOSubject audit ctx userID body w =
    (case body of
       Malformed \<Rightarrow> (Error StatusBadRequest ''invalid request body'', w)
     | Doc raw \<Rightarrow>
    (let subject = TrimSpace raw in
     case SetUserSSOSubject (ctx_TenantID ctx) userID subject w of
       (Inl e, w1) \<Rightarrow>
         (if e = ErrUnique then ErrorWithCode StatusConflict ''sso_subject_taken''
            ''another user is already linked to this SSO subject''
          else if e = ErrNoRows then no_user
          else Error StatusInternalServerError ''failed to set sso subject'', w1)
     | (Inr _, w1) \<Rightarrow>
       (NoContent, if audit then LogAction (ctx_TenantID ctx) (ctx_UserID ctx) ActorTypeUser
          (if subject = '''' then ''user.unlink_sso'' else ''user.link_sso'') ''user'' userID
          (if subject = '''' then None else Some [(''sso_subject'', subject)]) w1 else w1)))"

definition UsersHandler_Deactivate :: "bool \<Rightarrow> auth_context \<Rightarrow> id \<Rightarrow> world \<Rightarrow> unit response \<times> world" where
  "UsersHandler_Deactivate audit ctx userID w =
    (case DeactivateUser (ctx_TenantID ctx) userID w of
       (Inl e, w1) \<Rightarrow> (user_error e, w1)
     | (Inr _, w1) \<Rightarrow>
       (NoContent, if audit then LogAction (ctx_TenantID ctx) (ctx_UserID ctx) ActorTypeUser
          ''user.deactivate'' ''user'' userID None w1 else w1))"

section \<open>API keys (server/store/apikeys.go, server/api/apikeys.go)\<close>

record APIKey =
  key_ID :: id
  key_TenantID :: id
  key_UserID :: id
  key_Name :: string
  key_KeyHash :: string
  key_RoleID :: id
  key_Scope :: "APIScope option"
  key_IsAdmin :: bool
  key_LastUsedAt :: "time option"
  key_ExpiresAt :: "time option"
  key_CreatedAt :: time

text \<open>The hash is not selected.  A key without a user or a role does not scan.\<close>

definition scan_key :: "api_key_row \<Rightarrow> db_error + APIKey" where
  "scan_key k =
    (case (k_user_id k, k_role_id k) of
       (Some user, Some role) \<Rightarrow>
         Inr \<lparr>key_ID = k_id k, key_TenantID = k_tenant_id k, key_UserID = user, key_Name = k_name k,
           key_KeyHash = '''', key_RoleID = role, key_Scope = parse_scope (k_scope k),
           key_IsAdmin = k_is_admin k, key_LastUsedAt = k_last_used_at k, key_ExpiresAt = k_expires_at k,
           key_CreatedAt = k_created_at k\<rparr>
     | _ \<Rightarrow> Inl ErrScan)"

definition ListAPIKeys :: "id \<Rightarrow> world \<Rightarrow> (db_error + APIKey list) \<times> world" where
  "ListAPIKeys tenantID =
     Query (\<lambda>d. scan_all scan_key (sort_key (\<lambda>k. - k_created_at k)
       (filter (\<lambda>k. k_tenant_id k = tenantID) (db_api_keys d))))"

definition key_row :: "APIKey \<Rightarrow> api_key_row" where
  "key_row k =
     \<lparr>k_id = key_ID k, k_tenant_id = key_TenantID k, k_user_id = Some (key_UserID k), k_name = key_Name k,
      k_key_hash = key_KeyHash k, k_role_id = Some (key_RoleID k), k_scope = map_option Doc (key_Scope k),
      k_is_admin = key_IsAdmin k, k_last_used_at = None, k_expires_at = key_ExpiresAt k,
      k_created_at = key_CreatedAt k\<rparr>"

definition CreateAPIKey :: "APIKey \<Rightarrow> world \<Rightarrow> (db_error + unit) \<times> world" where
  "CreateAPIKey k = Exec (insert_api_key (key_row k))"

definition tenant_key :: "id \<Rightarrow> id \<Rightarrow> api_key_row \<Rightarrow> bool" where
  "tenant_key tenantID keyID k \<longleftrightarrow> k_id k = keyID \<and> k_tenant_id k = tenantID"

definition GetAPIKey :: "id \<Rightarrow> id \<Rightarrow> world \<Rightarrow> (db_error + APIKey option) \<times> world" where
  "GetAPIKey tenantID keyID w =
    (case Query (\<lambda>d. case select_row (tenant_key tenantID keyID) (db_api_keys d) of
            Inl e \<Rightarrow> Inl e | Inr k \<Rightarrow> scan_key k) w of
       (Inl e, w1) \<Rightarrow> (if e = ErrNoRows then Inr None else Inl e, w1)
     | (Inr k, w1) \<Rightarrow> (Inr (Some k), w1))"

definition DeleteAPIKey :: "id \<Rightarrow> id \<Rightarrow> world \<Rightarrow> (db_error + unit) \<times> world" where
  "DeleteAPIKey tenantID keyID = ExecRow (delete_api_keys (tenant_key tenantID keyID))"

definition APIKeysHandler_List :: "auth_context \<Rightarrow> world \<Rightarrow> APIKey list response \<times> world" where
  "APIKeysHandler_List ctx w =
    (case ListAPIKeys (ctx_TenantID ctx) w of
       (Inl _, w1) \<Rightarrow> (Error StatusInternalServerError ''failed to list API keys'', w1)
     | (Inr ks, w1) \<Rightarrow> (JSON StatusOK ks, w1))"

record createAPIKeyRequest =
  cak_Name :: string
  cak_RoleID :: id
  cak_IsAdmin :: bool
  cak_Scope :: "APIScope option"
  cak_ExpiresAt :: "time option"

definition generateAPIKey :: "world \<Rightarrow> string \<times> world" where
  "generateAPIKey w = (case rand_Read 24 w of (b, w1) \<Rightarrow> (''sk_'' @ hex_encode b, w1))"

text \<open>The reply is the key with its secret.\<close>

definition create_key ::
  "bool \<Rightarrow> auth_context \<Rightarrow> createAPIKeyRequest \<Rightarrow> world \<Rightarrow> (APIKey \<times> string) response \<times> world" where
  "create_key audit ctx req w =
    (case generateAPIKey w of (raw, w1) \<Rightarrow>
     case newID ''key'' w1 of (i, w2) \<Rightarrow>
     case Now w2 of (now, w3) \<Rightarrow>
     let key = \<lparr>key_ID = i, key_TenantID = ctx_TenantID ctx, key_UserID = ctx_UserID ctx,
           key_Name = cak_Name req, key_KeyHash = hex_encode (Sum256 (bytes_of raw)),
           key_RoleID = cak_RoleID req, key_Scope = cak_Scope req, key_IsAdmin = cak_IsAdmin req,
           key_LastUsedAt = None, key_ExpiresAt = cak_ExpiresAt req, key_CreatedAt = now\<rparr> in
     case CreateAPIKey key w3 of
       (Inl _, w4) \<Rightarrow> (Error StatusInternalServerError ''failed to create API key'', w4)
     | (Inr _, w4) \<Rightarrow>
       (JSON StatusCreated (key, raw), if audit then LogAction (ctx_TenantID ctx) (ctx_UserID ctx) ActorTypeUser
          ''api_key.create'' ''api_key'' i (Some [(''name'', cak_Name req)]) w4 else w4))"

definition APIKeysHandler_Create ::
  "Resolver \<Rightarrow> bool \<Rightarrow> auth_context \<Rightarrow> createAPIKeyRequest json \<Rightarrow> world
     \<Rightarrow> (APIKey \<times> string) response \<times> world" where
  "APIKeysHandler_Create quota audit ctx body w =
    (case body of
       Malformed \<Rightarrow> (Error StatusBadRequest ''invalid request body'', w)
     | Doc req \<Rightarrow>
    (if cak_Name req = '''' then (Error StatusBadRequest ''name is required'', w)
     else if cak_IsAdmin req \<and> \<not> ctx_IsAdmin ctx then
       (Error StatusForbidden ''only admin keys can create admin keys'', w)
     else case Resolver_CheckAPIKeys quota (ctx_TenantID ctx) w of
       (Inl e, w1) \<Rightarrow>
         (case HandleQuotaError e of
            Some resp \<Rightarrow> (resp, w1)
          | None \<Rightarrow> (Error StatusInternalServerError ''failed to check quota'', w1))
     | (Inr _, w1) \<Rightarrow>
    (if cak_RoleID req = '''' then (Error StatusBadRequest ''role_id is required'', w1)
     else case GetRole (ctx_TenantID ctx) (cak_RoleID req) w1 of
       (Inl _, w2) \<Rightarrow> (Error StatusInternalServerError ''failed to load role'', w2)
     | (Inr None, w2) \<Rightarrow>
       (ErrorWithCode StatusBadRequest ''role_not_found'' ''role_id does not resolve to a role in this tenant'', w2)
     | (Inr (Some _), w2) \<Rightarrow> create_key audit ctx req w2)))"

definition no_key :: "'a response" where
  "no_key = ErrorWithCode StatusNotFound ''api_key_not_found'' ''No API key with the given ID exists''"

definition APIKeysHandler_Delete :: "bool \<Rightarrow> auth_context \<Rightarrow> id \<Rightarrow> world \<Rightarrow> unit response \<times> world" where
  "APIKeysHandler_Delete audit ctx keyID w =
    (case GetAPIKey (ctx_TenantID ctx) keyID w of
       (Inl _, w1) \<Rightarrow> (Error StatusInternalServerError ''failed to load api key'', w1)
     | (Inr None, w1) \<Rightarrow> (no_key, w1)
     | (Inr (Some target), w1) \<Rightarrow>
    (if key_IsAdmin target \<and> \<not> ctx_IsAdmin ctx then
       (ErrorWithCode StatusForbidden ''admin_key_protected'' ''only an admin key can revoke another admin key'', w1)
     else case DeleteAPIKey (ctx_TenantID ctx) keyID w1 of
       (Inl _, w2) \<Rightarrow> (no_key, w2)
     | (Inr _, w2) \<Rightarrow>
       (NoContent, if audit then LogAction (ctx_TenantID ctx) (ctx_UserID ctx) ActorTypeUser
          ''api_key.delete'' ''api_key'' keyID None w2 else w2)))"

section \<open>The audit log (server/api/auditlog.go)\<close>

definition string_of :: "byte list \<Rightarrow> string" where
  "string_of bs = map (\<lambda>b. char_of (unat b)) bs"

lemma string_of_bytes: "string_of (bytes_of s) = s"
  by (induction s) (simp_all add: string_of_def bytes_of_def unat_of_nat)

text \<open>The filters of a request.  A time that does not parse is ignored, as an absent one is.\<close>

record audit_filter =
  af_actor_id :: string
  af_actor_type :: string
  af_action :: string
  af_resource_type :: string
  af_resource_id :: string
  af_since :: "time option"
  af_until :: "time option"

definition audit_matches :: "id \<Rightarrow> audit_filter \<Rightarrow> string \<Rightarrow> AuditEntry \<Rightarrow> bool" where
  "audit_matches tenantID f after e \<longleftrightarrow>
     a_TenantID e = tenantID
     \<and> (af_actor_id f = '''' \<or> a_ActorID e = af_actor_id f)
     \<and> (af_actor_type f = '''' \<or> a_ActorType e = af_actor_type f)
     \<and> (af_action f = '''' \<or> a_Action e = af_action f)
     \<and> (af_resource_type f = '''' \<or> a_ResourceType e = af_resource_type f)
     \<and> (af_resource_id f = '''' \<or> a_ResourceID e = af_resource_id f)
     \<and> (case af_since f of None \<Rightarrow> True | Some t \<Rightarrow> t \<le> a_CreatedAt e)
     \<and> (case af_until f of None \<Rightarrow> True | Some t \<Rightarrow> a_CreatedAt e \<le> t)
     \<and> (after = '''' \<or> a_ID e < after)"

text \<open>\<^verbatim>\<open>ORDER BY created_at DESC, id DESC\<close>\<close>

definition newest_first :: "AuditEntry list \<Rightarrow> AuditEntry list" where
  "newest_first es = sort_key (\<lambda>e. - a_CreatedAt e) (rev (sort_key a_ID es))"

text \<open>A cursor that does not decode, or decodes to nothing, is ignored.\<close>

definition cursor_id :: "string \<Rightarrow> string" where
  "cursor_id cursor = (case base64_decode cursor of None \<Rightarrow> '''' | Some bs \<Rightarrow> string_of bs)"

definition AuditLogHandler_List ::
  "auth_context \<Rightarrow> audit_filter \<Rightarrow> string \<Rightarrow> string \<Rightarrow> world \<Rightarrow> AuditEntry ListResponse response \<times> world" where
  "AuditLogHandler_List ctx f limit_param cursor_param w =
    (if ctx_TenantID ctx = '''' then (Error StatusUnauthorized ''tenant not found'', w)
     else case ParsePagination limit_param cursor_param of (n, cursor) \<Rightarrow>
     case Query (\<lambda>d. Inr (take (n + 1) (newest_first
            (filter (audit_matches (ctx_TenantID ctx) f (cursor_id cursor)) (db_audit_log d))))) w of
       (Inl _, w1) \<Rightarrow> (Error StatusInternalServerError ''failed to query audit log'', w1)
     | (Inr es, w1) \<Rightarrow> (JSON StatusOK (page_of n (\<lambda>e. base64_encode (bytes_of (a_ID e))) es), w1))"

lemma cursor_roundtrip: "cursor_id (base64_encode (bytes_of i)) = i"
  by (simp add: cursor_id_def base64_roundtrip string_of_bytes)

section \<open>No escalation\<close>

lemma PermissionsSubset_mem:
  "PermissionsSubset caller requested \<Longrightarrow> p \<in> set requested \<Longrightarrow> p \<in> set caller"
  by (auto simp: PermissionsSubset_iff)

text \<open>A role is as it was, or grants no more than the caller holds.\<close>

definition roles_bounded :: "string list \<Rightarrow> db \<Rightarrow> db \<Rightarrow> bool" where
  "roles_bounded perms d d' \<longleftrightarrow>
    (\<forall>r' \<in> set (db_roles d').
       (\<exists>r \<in> set (db_roles d). rl_id r = rl_id r' \<and> rl_permissions r = rl_permissions r')
       \<or> (\<exists>ps. rl_permissions r' = Doc ps \<and> set ps \<subseteq> set perms))"

interpretation roles: audited_contract "roles_bounded perms" for perms
proof
  show "roles_bounded perms d d" for d by (auto simp: roles_bounded_def)
  show "roles_bounded perms a b \<Longrightarrow> roles_bounded perms b c \<Longrightarrow> roles_bounded perms a c" for a b c
    unfolding roles_bounded_def by (metis (no_types, lifting))
  show "insert_audit e d = Inr (x, d') \<Longrightarrow> roles_bounded perms d d'" for e d d' x
    by (auto simp: insert_audit_def roles_bounded_def)
qed

lemma roles_create_bounded:
  assumes "\<not> ctx_IsAdmin ctx"
  shows "roles_bounded (ctx_Permissions ctx) (w_db w) (w_db (snd (RolesHandler_Create audit ctx body w)))"
proof (cases "\<exists>req. body = Doc req \<and> \<not> escalates ctx (rr_Permissions req)")
  case False
  then show ?thesis
    by (cases body) (auto simp: RolesHandler_Create_def roles.contract_refl)
next
  case True
  then obtain req where b: "body = Doc req" and s: "set (rr_Permissions req) \<subseteq> set (ctx_Permissions ctx)"
    using assms by (auto simp: escalates_def PermissionsSubset_iff)
  have ins: "roles_bounded (ctx_Permissions ctx) d d'"
    if "insert_role \<lparr>rl_id = i, rl_tenant_id = t, rl_name = n, rl_permissions = Doc (rr_Permissions req),
        rl_is_custom = True\<rparr> d = Inr (x, d')" for i t n d x d'
    using that s by (auto simp: insert_role_def roles_bounded_def)
  show ?thesis
    unfolding RolesHandler_Create_def b json.case CreateRole_def Let_def Role.simps
    by (split if_split, intro conjI impI, simp add: roles.contract_refl)
      (split if_split, intro conjI impI, simp add: roles.contract_refl,
       intro roles.after roles.Exec_after refl, simp_all add: roles.contract_refl roles.LogAction_after ins)
qed

lemma LogAction_tables [simp]:
  "db_users (w_db (LogAction t a ty ac rt ri m w)) = db_users (w_db w)"
  "db_roles (w_db (LogAction t a ty ac rt ri m w)) = db_roles (w_db w)"
  "db_api_keys (w_db (LogAction t a ty ac rt ri m w)) = db_api_keys (w_db w)"
  "db_devices (w_db (LogAction t a ty ac rt ri m w)) = db_devices (w_db w)"
  using arg_cong [OF everything.LogAction_respects, where f = db_users, of t a ty ac rt ri m w]
    arg_cong [OF everything.LogAction_respects, where f = db_roles, of t a ty ac rt ri m w]
    arg_cong [OF everything.LogAction_respects, where f = db_api_keys, of t a ty ac rt ri m w]
    arg_cong [OF everything.LogAction_respects, where f = db_devices, of t a ty ac rt ri m w]
  by simp_all

lemma update_rows_cases:
  assumes "r' \<in> set (update_rows P f rs)"
  obtains r where "r \<in> set rs" "P r" "r' = f r" | "r' \<in> set rs" "\<not> P r'"
  using assms by (auto simp: update_rows_def split: if_splits)

lemma ExecRow_cases:
  "w_db (snd (ExecRow f w)) = w_db w \<or> (\<exists>x. f (w_db w) = Inr (x, w_db (snd (ExecRow f w))))"
proof -
  obtain r w1 where e: "Exec f w = (r, w1)" by (rule prod.exhaust)
  then have "snd (ExecRow f w) = w1" by (simp add: ExecRow_def split: sum.split)
  then show ?thesis using Exec_cases [OF e] by auto
qed

lemma get_row_db: "w_db (snd (get_row P tbl w)) = w_db w"
  unfolding get_row_def by (auto split: prod.split sum.split dest: Query_same_db)

lemma GetRole_db: "GetRole t i w = (r, w1) \<Longrightarrow> w_db w1 = w_db w"
  unfolding GetRole_def by (auto split: prod.splits sum.splits dest: Query_same_db)

lemma GetRole_Some:
  assumes "GetRole t i w = (Inr (Some role), w1)"
  obtains r ps where "r \<in> set (db_roles (w_db w))" "rl_id r = i" "visible_role t r"
    "rl_permissions r = Doc ps" "role_ID role = i" "role_Permissions role = ps"
proof -
  obtain q w2 where q: "Query (\<lambda>d. case select_row (\<lambda>r. rl_id r = i \<and> visible_role t r) (db_roles d) of
      Inl e \<Rightarrow> Inl e | Inr r \<Rightarrow> scan_role r) w = (q, w2)" by (rule prod.exhaust)
  from assms q have "q = Inr role" by (auto simp: GetRole_def split: sum.splits if_splits)
  from Query_Inr [OF q [unfolded this]] have "(case select_row (\<lambda>r. rl_id r = i \<and> visible_role t r) (db_roles (w_db w)) of
      Inl e \<Rightarrow> Inl e | Inr r \<Rightarrow> scan_role r) = Inr role"
    by (rule conjunct1)
  then obtain r where r: "select_row (\<lambda>r. rl_id r = i \<and> visible_role t r) (db_roles (w_db w)) = Inr r"
      "scan_role r = Inr role" by (auto split: sum.splits)
  then show thesis
    using that [of r] select_row_Inr [OF r(1)] by (auto simp: scan_role_def split: json.splits)
qed

lemma roles_update_bounded:
  assumes "\<not> ctx_IsAdmin ctx"
  shows "roles_bounded (ctx_Permissions ctx) (w_db w) (w_db (snd (RolesHandler_Update audit ctx roleID body w)))"
proof -
  obtain q w1 where q: "GetRole (ctx_TenantID ctx) roleID w = (q, w1)" by (rule prod.exhaust)
  note db1 = GetRole_db [OF q]
  show ?thesis
  proof (cases "\<exists>role req. q = Inr (Some role) \<and> body = Doc req \<and> role_IsCustom role
      \<and> \<not> (rr_Permissions req \<noteq> [] \<and> escalates ctx (rr_Permissions req))")
    case False
    then show ?thesis
      using db1 roles.contract_refl
      by (auto simp: RolesHandler_Update_def q Let_def split: sum.split option.split json.split)
  next
    case True
    then obtain role req where r: "q = Inr (Some role)" "body = Doc req" "role_IsCustom role"
      and s: "rr_Permissions req = [] \<or> set (rr_Permissions req) \<subseteq> set (ctx_Permissions ctx)"
      using assms by (auto simp: escalates_def PermissionsSubset_iff)
    obtain r0 ps where row: "r0 \<in> set (db_roles (w_db w))" "rl_id r0 = roleID" "rl_permissions r0 = Doc ps"
        "role_ID role = roleID" "role_Permissions role = ps"
      using GetRole_Some [OF q [unfolded r(1)]] by metis
    define e2 where "e2 = (let e1 = (if rr_Name req \<noteq> '''' then role\<lparr>role_Name := rr_Name req\<rparr> else role)
      in if rr_Permissions req \<noteq> [] then e1\<lparr>role_Permissions := rr_Permissions req\<rparr> else e1)"
    have e2: "role_ID e2 = roleID" "role_Permissions e2 = ps \<or> set (role_Permissions e2) \<subseteq> set (ctx_Permissions ctx)"
      using s row by (auto simp: e2_def Let_def)
    have up: "roles_bounded (ctx_Permissions ctx) (w_db w1) d'"
      if "update_roles (custom_role (ctx_TenantID ctx) (role_ID e2))
          (\<lambda>r. r\<lparr>rl_name := role_Name e2, rl_permissions := Doc (role_Permissions e2)\<rparr>) (w_db w1) = Inr (x, d')" for x d'
      using that e2 row db1
      by (auto simp: update_roles_def roles_bounded_def update_rows_def custom_role_def; blast)
    obtain u w2 where u: "UpdateRole (ctx_TenantID ctx) e2 w1 = (u, w2)" by (rule prod.exhaust)
    have "roles_bounded (ctx_Permissions ctx) (w_db w) (w_db (snd (UpdateRole (ctx_TenantID ctx) e2 w1)))"
      unfolding UpdateRole_def db1 [symmetric]
      by (rule roles.ExecRow_after) (rule roles.contract_refl, rule up)
    then have w2: "roles_bounded (ctx_Permissions ctx) (w_db w) (w_db w2)" by (simp add: u)
    have "snd (RolesHandler_Update audit ctx roleID body w) = w2 \<or>
      snd (RolesHandler_Update audit ctx roleID body w) = LogAction (ctx_TenantID ctx) (ctx_UserID ctx)
        ActorTypeUser ''role.update'' ''role'' roleID None w2"
      using True r u by (auto simp: RolesHandler_Update_def q e2_def Let_def split: sum.split)
    then show ?thesis using w2 roles.LogAction_after by metis
  qed
qed

text \<open>A user keeps the role, or is someone else and gets a role within the caller's permissions.\<close>

definition users_bounded :: "auth_context \<Rightarrow> db \<Rightarrow> db \<Rightarrow> bool" where
  "users_bounded ctx d d' \<longleftrightarrow>
    (\<forall>u' \<in> set (db_users d').
       (\<exists>u \<in> set (db_users d). u_ID u = u_ID u' \<and> u_RoleID u = u_RoleID u')
       \<or> u_ID u' \<noteq> ctx_UserID ctx
         \<and> (\<exists>r \<in> set (db_roles d). u_RoleID u' = Some (rl_id r) \<and> visible_role (ctx_TenantID ctx) r
             \<and> (\<exists>ps. rl_permissions r = Doc ps \<and> set ps \<subseteq> set (ctx_Permissions ctx))))"

lemma users_update_bounded:
  assumes "\<not> ctx_IsAdmin ctx"
  shows "users_bounded ctx (w_db w) (w_db (snd (UsersHandler_Update audit ctx userID body w)))"
proof (cases body)
  case (Doc roleID)
  obtain a w1 where a: "role_change_allowed ctx userID roleID w = (a, w1)" by (rule prod.exhaust)
  have db1: "w_db w1 = w_db w"
    using a assms by (auto simp: role_change_allowed_def split: if_splits prod.splits sum.splits option.splits dest: GetRole_db)
  obtain u w2 where u: "UpdateUserRole (ctx_TenantID ctx) userID roleID w1 = (u, w2)" by (rule prod.exhaust)
  show ?thesis
  proof (cases "roleID \<noteq> '''' \<and> a = Inr ()")
    case False
    then show ?thesis
      using db1 by (auto simp: UsersHandler_Update_def Doc a users_bounded_def split: sum.splits)
  next
    case True
    then obtain role where g: "GetRole (ctx_TenantID ctx) roleID w = (Inr (Some role), w1)"
      and me: "userID \<noteq> ctx_UserID ctx" and s: "set (role_Permissions role) \<subseteq> set (ctx_Permissions ctx)"
      using a assms by (auto simp: role_change_allowed_def PermissionsSubset_iff
          split: if_splits prod.splits sum.splits option.splits)
    obtain r ps where r: "r \<in> set (db_roles (w_db w))" "rl_id r = roleID" "visible_role (ctx_TenantID ctx) r"
        "rl_permissions r = Doc ps" "role_Permissions role = ps"
      using GetRole_Some [OF g] by metis
    have up: "users_bounded ctx (w_db w) d'"
      if "update_users (tenant_user (ctx_TenantID ctx) userID) (\<lambda>u. u\<lparr>u_RoleID := Some roleID\<rparr>) (w_db w) = Inr (x, d')" for x d'
    proof -
      have d': "db_users d' = update_rows (tenant_user (ctx_TenantID ctx) userID) (\<lambda>u. u\<lparr>u_RoleID := Some roleID\<rparr>)
          (db_users (w_db w))"
        using that by (auto simp: update_users_def Let_def split: if_splits)
      show ?thesis
        unfolding users_bounded_def d' using me r s
        by (intro ballI, elim update_rows_cases) (auto simp: tenant_user_def)
    qed
    have w2: "users_bounded ctx (w_db w) (w_db w2)"
    proof -
      have "w_db w2 = w_db w \<or> (\<exists>x. update_users (tenant_user (ctx_TenantID ctx) userID)
          (\<lambda>u. u\<lparr>u_RoleID := Some roleID\<rparr>) (w_db w) = Inr (x, w_db w2))"
        using ExecRow_cases [of "update_users (tenant_user (ctx_TenantID ctx) userID)
          (\<lambda>u. u\<lparr>u_RoleID := Some roleID\<rparr>)" w1] u unfolding UpdateUserRole_def by (simp add: db1)
      moreover have "users_bounded ctx (w_db w) (w_db w)" by (auto simp: users_bounded_def)
      ultimately show ?thesis using up by auto
    qed
    define w3 where "w3 = (if audit then LogAction (ctx_TenantID ctx) (ctx_UserID ctx) ActorTypeUser
              ''user.update_role'' ''user'' userID (Some [(''role_id'', roleID)]) w2 else w2)"
    have "db_users (w_db w3) = db_users (w_db w2)"
      by (simp add: w3_def)
    then have w3: "users_bounded ctx (w_db w) (w_db w3)" using w2 by (simp add: users_bounded_def)
    have "w_db (snd (UsersHandler_Update audit ctx userID body w)) \<in> {w_db w2, w_db w3}"
      using True a u get_row_db
      by (auto simp: UsersHandler_Update_def Doc w3_def Let_def GetUser_def case_prod_beta split: sum.split)
    then show ?thesis using w2 w3 by auto
  qed
qed (auto simp: UsersHandler_Update_def users_bounded_def)

text \<open>C26: A caller who is not an administrator hands out no permission the caller lacks: after a role
  is created or changed every role either grants what it granted before or only permissions of the
  caller, and after a change of a user's role every user has the role held before or is another user
  with a role within the caller's permissions.\<close>

theorem no_escalation:
  assumes "\<not> ctx_IsAdmin ctx"
  shows "roles_bounded (ctx_Permissions ctx) (w_db w) (w_db (snd (RolesHandler_Create audit ctx body w)))
    \<and> roles_bounded (ctx_Permissions ctx) (w_db w) (w_db (snd (RolesHandler_Update audit ctx roleID body w)))
    \<and> users_bounded ctx (w_db w) (w_db (snd (UsersHandler_Update audit ctx userID role w)))"
  by (intro conjI roles_create_bounded roles_update_bounded users_update_bounded assms)

definition sample_caller :: auth_context where
  "sample_caller = \<lparr>ctx_TenantID = ''t1'', ctx_UserID = ''u1'', ctx_RoleID = ''r1'',
     ctx_Permissions = [''devices:read'', ''roles:write''], ctx_Scope = None, ctx_IsAdmin = False\<rparr>"

theorem no_escalation_witness:
  "\<not> ctx_IsAdmin sample_caller \<and>
   roles_bounded [''devices:read'', ''roles:write''] (w_db (sample_world []))
     (w_db (snd (RolesHandler_Create False sample_caller
       (Doc \<lparr>rr_Name = ''x'', rr_Permissions = [''devices:read'']\<rparr>) (sample_world []))))"
  using no_escalation [of sample_caller "sample_world []" False "Doc \<lparr>rr_Name = ''x'', rr_Permissions = [''devices:read'']\<rparr>"]
  by (simp add: sample_caller_def)

text \<open>The invitation of a user and the creation of a key compare nothing: the same caller can invite
  a user, or make a key, with a role the caller could not assign.\<close>

definition sample_strong_world :: world where
  "sample_strong_world = (sample_world [])\<lparr>w_db := (sample_db [])\<lparr>db_roles :=
     [\<lparr>rl_id = ''r9'', rl_tenant_id = None, rl_name = ''Admin'', rl_permissions = Doc [''users:write''],
       rl_is_custom = False\<rparr>]\<rparr>\<rparr>"

lemma invite_escalates:
  "\<exists>u w'. UsersHandler_Invite False sample_caller (Doc \<lparr>iur_Email = ''e'', iur_RoleID = ''r9''\<rparr>) sample_strong_world
      = (JSON StatusCreated u, w') \<and> u_RoleID u = Some ''r9'' \<and> u \<in> set (db_users (w_db w'))
    \<and> \<not> users_bounded sample_caller (w_db sample_strong_world) (w_db w')"
  by (simp add: UsersHandler_Invite_def newID_def rand_Read_def Now_def sample_strong_world_def sample_world_def
      sample_db_def sample_caller_def Exec_no_fault insert_user_def constrained_def users_ok_def references_def
      sample_user_def sample_tenant_def users_bounded_def visible_role_def Let_def)

section \<open>Keys\<close>

lemma find_row_last: "\<forall>x \<in> set rs. \<not> P x \<Longrightarrow> P r \<Longrightarrow> find_row P (rs @ [r]) = Some r"
  by (induction rs) auto

text \<open>What a created key consists of.\<close>


lemma key_created:
  assumes "APIKeysHandler_Create quota audit ctx (Doc req) w = (JSON st (key, raw), w')"
  shows "cak_IsAdmin req \<longrightarrow> ctx_IsAdmin ctx"
    "\<exists>r ps. r \<in> set (db_roles (w_db w)) \<and> rl_id r = cak_RoleID req \<and> visible_role (ctx_TenantID ctx) r
       \<and> rl_permissions r = Doc ps"
    "key_TenantID key = ctx_TenantID ctx" "key_UserID key = ctx_UserID ctx"
    "key_KeyHash key = hashAPIKey raw" "key_RoleID key = cak_RoleID req" "key_Scope key = cak_Scope req"
    "key_IsAdmin key = cak_IsAdmin req" "key_ExpiresAt key = cak_ExpiresAt req" "HasPrefix raw ''sk_''"
    "db_api_keys (w_db w') = db_api_keys (w_db w) @ [key_row key]" "db_roles (w_db w') = db_roles (w_db w)"
proof -
  obtain q w1 where q: "Resolver_CheckAPIKeys quota (ctx_TenantID ctx) w = (q, w1)" by (rule prod.exhaust)
  obtain g w2 where g: "GetRole (ctx_TenantID ctx) (cak_RoleID req) w1 = (g, w2)" by (rule prod.exhaust)
  have guard: "cak_IsAdmin req \<longrightarrow> ctx_IsAdmin ctx" "\<exists>role. g = Inr (Some role)"
    "create_key audit ctx req w2 = (JSON st (key, raw), w')"
    using assms by (auto simp: APIKeysHandler_Create_def q g Error_def ErrorWithCode_def HandleQuotaError_def
        split: if_splits sum.splits option.splits quota_error.splits)
  have "w_db w1 = w_db w" using CheckAPIKeys_db [of quota "ctx_TenantID ctx" w] by (simp add: q)
  note db = this GetRole_db [OF g]
  obtain bs w3 where r: "rand_Read 24 w2 = (bs, w3)" by (rule prod.exhaust)
  obtain i w4 where i: "newID ''key'' w3 = (i, w4)" by (rule prod.exhaust)
  obtain now w5 where now: "Now w4 = (now, w5)" by (rule prod.exhaust)
  have db5: "w_db w5 = w_db w"
    using db rand_Read_db [of 24 w2] newID_db [of "''key''" w3] Now_db [of w4] r i now by simp
  obtain e w6 where e: "CreateAPIKey \<lparr>key_ID = i, key_TenantID = ctx_TenantID ctx, key_UserID = ctx_UserID ctx,
           key_Name = cak_Name req, key_KeyHash = hex_encode (Sum256 (bytes_of (''sk_'' @ hex_encode bs))),
           key_RoleID = cak_RoleID req, key_Scope = cak_Scope req, key_IsAdmin = cak_IsAdmin req,
           key_LastUsedAt = None, key_ExpiresAt = cak_ExpiresAt req, key_CreatedAt = now\<rparr> w5 = (e, w6)"
    by (rule prod.exhaust)
  have made: "e = Inr ()" "raw = ''sk_'' @ hex_encode bs"
     "key = \<lparr>key_ID = i, key_TenantID = ctx_TenantID ctx, key_UserID = ctx_UserID ctx,
           key_Name = cak_Name req, key_KeyHash = hex_encode (Sum256 (bytes_of (''sk_'' @ hex_encode bs))),
           key_RoleID = cak_RoleID req, key_Scope = cak_Scope req, key_IsAdmin = cak_IsAdmin req,
           key_LastUsedAt = None, key_ExpiresAt = cak_ExpiresAt req, key_CreatedAt = now\<rparr>"
     "w' = (if audit then LogAction (ctx_TenantID ctx) (ctx_UserID ctx) ActorTypeUser
          ''api_key.create'' ''api_key'' i (Some [(''name'', cak_Name req)]) w6 else w6)"
    using guard(3) e by (auto simp: create_key_def generateAPIKey_def r i now Let_def Error_def split: sum.splits)
  from Exec_Inr [OF e [unfolded CreateAPIKey_def made(1)]] made(3)
  have "w_db w6 = (w_db w)\<lparr>db_api_keys := db_api_keys (w_db w) @ [key_row key]\<rparr>"
    by (auto simp: insert_api_key_def db5)
  then show "db_api_keys (w_db w') = db_api_keys (w_db w) @ [key_row key]" "db_roles (w_db w') = db_roles (w_db w)"
    using made(4) by auto
  obtain role where role: "g = Inr (Some role)" using guard(2) by blast
  show "\<exists>r ps. r \<in> set (db_roles (w_db w)) \<and> rl_id r = cak_RoleID req \<and> visible_role (ctx_TenantID ctx) r
       \<and> rl_permissions r = Doc ps"
    by (rule GetRole_Some [OF g [unfolded role]]) (use db(1) in auto)
  show "cak_IsAdmin req \<longrightarrow> ctx_IsAdmin ctx" "key_TenantID key = ctx_TenantID ctx" "key_UserID key = ctx_UserID ctx"
    "key_KeyHash key = hashAPIKey raw" "key_RoleID key = cak_RoleID req" "key_Scope key = cak_Scope req"
    "key_IsAdmin key = cak_IsAdmin req" "key_ExpiresAt key = cak_ExpiresAt req" "HasPrefix raw ''sk_''"
    using guard(1) by (simp_all add: made(2,3) hashAPIKey_def HasPrefix_def)
qed

text \<open>C27: The secret returned when a key is created authenticates: as long as the key has not expired
  and no other key has the same hash, a request with the secret passes the key check, for the tenant
  and user who created the key, with the requested role, scope and administrator flag.\<close>

theorem created_key_authenticates:
  assumes "APIKeysHandler_Create quota audit ctx (Doc req) w = (JSON st (key, raw), w')"
    and "distinct (map rl_id (db_roles (w_db w)))"
    and "hashAPIKey raw \<notin> k_key_hash ` set (db_api_keys (w_db w))"
    and "rq_Authorization r = ''Bearer '' @ raw"
    and "w_db v = w_db w'" and "w_faults v = []"
    and "cak_ExpiresAt req = None \<or> w_clock v (w_ticks v) \<le> the (cak_ExpiresAt req)"
  shows "\<exists>c v'. APIKeyMiddleware_Handler r no_identity v = (Inr c, v')
    \<and> ctx_TenantID c = ctx_TenantID ctx \<and> ctx_UserID c = ctx_UserID ctx \<and> ctx_RoleID c = cak_RoleID req
    \<and> ctx_Scope c = cak_Scope req \<and> ctx_IsAdmin c = cak_IsAdmin req \<and> (ctx_IsAdmin c \<longrightarrow> ctx_IsAdmin ctx)"
proof -
  note key = key_created [OF assms(1)]
  obtain rr ps where row: "rr \<in> set (db_roles (w_db w))" "rl_id rr = cak_RoleID req" "rl_permissions rr = Doc ps"
    using key(2) by auto
  have raw: "extractBearerToken r = raw" "raw \<noteq> ''''"
    using assms(4) key(10) by (auto simp: extractBearerToken_def HasPrefix_def TrimPrefix_def)
  have sel: "select_row (\<lambda>k. k_key_hash k = hashAPIKey raw) (db_api_keys (w_db v)) = Inr (key_row key)"
  proof -
    have "find_row (\<lambda>k. k_key_hash k = hashAPIKey raw) (db_api_keys (w_db w) @ [key_row key]) = Some (key_row key)"
      using assms(3) key(5) by (intro find_row_last) (auto simp: key_row_def image_iff)
    then show ?thesis by (simp add: assms(5) key(11) select_row_def)
  qed
  have "find_row (\<lambda>x. rl_id x = cak_RoleID req) (db_roles (w_db v)) = Some rr"
    unfolding assms(5) key(12) using row(1,2) by (intro find_row_key [OF assms(2)]) simp_all
  then have scan: "scan_api_key (w_db v) (key_row key) = Inr \<lparr>ak_ID = key_ID key, ak_TenantID = ctx_TenantID ctx,
      ak_UserID = ctx_UserID ctx, ak_RoleID = cak_RoleID req, ak_Scope = map_option Doc (cak_Scope req),
      ak_IsAdmin = cak_IsAdmin req, ak_ExpiresAt = cak_ExpiresAt req, ak_Permissions = ps\<rparr>"
    using row(3) key by (simp add: scan_api_key_def key_row_def)
  show ?thesis
    using assms(6,7) raw sel scan key(1)
    by (auto simp: APIKeyMiddleware_Handler_def no_identity_def Query_no_fault Now_def Let_def parse_scope_def
        split: option.splits)
qed

definition sample_create_key :: "(APIKey \<times> string) response \<times> world" where
  "sample_create_key = APIKeysHandler_Create None False sample_caller
     (Doc \<lparr>cak_Name = ''ci'', cak_RoleID = ''r9'', cak_IsAdmin = False, cak_Scope = None, cak_ExpiresAt = None\<rparr>)
     sample_strong_world"

lemma sample_create_key_ok: "\<exists>key raw w'. sample_create_key = (JSON StatusCreated (key, raw), w') \<and> w_faults w' = []"
  by (simp add: sample_create_key_def APIKeysHandler_Create_def Resolver_CheckAPIKeys_def GetRole_def create_key_def
      generateAPIKey_def newID_def rand_Read_def Now_def sample_strong_world_def sample_world_def
      sample_db_def sample_caller_def Exec_no_fault Query_no_fault CreateAPIKey_def insert_api_key_def constrained_def
      select_row_def scan_role_def visible_role_def references_def key_row_def
      sample_user_def sample_tenant_def Let_def)

theorem created_key_authenticates_witness:
  "\<exists>key raw w' c v'. sample_create_key = (JSON StatusCreated (key, raw), w')
    \<and> APIKeyMiddleware_Handler (sample_request\<lparr>rq_Authorization := ''Bearer '' @ raw\<rparr>) no_identity w'
        = (Inr c :: unit response + request_context, v')
    \<and> ctx_TenantID c = ''t1'' \<and> ctx_RoleID c = ''r9''"
proof -
  obtain key raw w' where s: "sample_create_key = (JSON StatusCreated (key, raw), w')" "w_faults w' = []"
    using sample_create_key_ok by blast
  have "distinct (map rl_id (db_roles (w_db sample_strong_world)))"
    and "hashAPIKey raw \<notin> k_key_hash ` set (db_api_keys (w_db sample_strong_world))"
    by (simp_all add: sample_strong_world_def sample_world_def sample_db_def)
  from created_key_authenticates [OF s(1) [unfolded sample_create_key_def] this, of "sample_request\<lparr>rq_Authorization := ''Bearer '' @ raw\<rparr>" w']
  obtain c v' where "APIKeyMiddleware_Handler (sample_request\<lparr>rq_Authorization := ''Bearer '' @ raw\<rparr>) no_identity w'
        = (Inr c :: unit response + request_context, v')" "ctx_TenantID c = ''t1''" "ctx_RoleID c = ''r9''"
    using s(2) by (auto simp: sample_caller_def)
  with s(1) show ?thesis by blast
qed

interpretation admin_keys: projection "\<lambda>d. filter k_is_admin (db_api_keys d)"
  by unfold_locales simp

lemma admin_keys_insert:
  "insert_api_key (key_row k) d = Inr (x, d') \<Longrightarrow> \<not> key_IsAdmin k
     \<Longrightarrow> filter k_is_admin (db_api_keys d') = filter k_is_admin (db_api_keys d)"
  by (auto simp: insert_api_key_def key_row_def)

lemma create_key_admin_keys:
  assumes "\<not> cak_IsAdmin req"
  shows "filter k_is_admin (db_api_keys (w_db (snd (create_key audit ctx req w)))) = filter k_is_admin (db_api_keys (w_db w))"
proof -
  obtain raw w1 where r: "generateAPIKey w = (raw, w1)" by (rule prod.exhaust)
  have d1: "w_db w1 = w_db w" using r by (auto simp: generateAPIKey_def rand_Read_def)
  show ?thesis
    unfolding create_key_def r prod.case Let_def CreateAPIKey_def
    using assms d1
    by (intro admin_keys.after admin_keys.Exec_after refl) (simp_all add: admin_keys_insert admin_keys.LogAction_after)
qed

lemma filter_delete_key:
  assumes "distinct (map k rs)" "t \<in> set rs" "\<not> Q t" "\<forall>x. P x \<longrightarrow> k x = k t"
  shows "filter Q (delete_rows P rs) = filter Q rs"
proof -
  have "\<not> P x" if "x \<in> set rs" "Q x" for x
    using that assms distinct_key_eq [OF assms(1) that(1) assms(2)] by auto
  then show ?thesis by (auto simp: delete_rows_def intro: filter_cong)
qed

lemma GetAPIKey_Some:
  assumes "GetAPIKey t i w = (Inr (Some key), w1)"
  obtains k where "k \<in> set (db_api_keys (w_db w))" "tenant_key t i k" "k_is_admin k = key_IsAdmin key"
proof -
  obtain q w2 where q: "Query (\<lambda>d. case select_row (tenant_key t i) (db_api_keys d) of
      Inl e \<Rightarrow> Inl e | Inr k \<Rightarrow> scan_key k) w = (q, w2)" by (rule prod.exhaust)
  from assms q have "q = Inr key" by (auto simp: GetAPIKey_def split: sum.splits if_splits)
  from Query_Inr [OF q [unfolded this]] obtain k where
    k: "select_row (tenant_key t i) (db_api_keys (w_db w)) = Inr k" "scan_key k = Inr key"
    by (auto split: sum.splits)
  from select_row_Inr [OF k(1)] k(2) show thesis
    using that by (auto simp: scan_key_def split: option.splits)
qed

lemma GetAPIKey_db: "w_db (snd (GetAPIKey t i w)) = w_db w"
  unfolding GetAPIKey_def by (auto split: prod.split sum.split dest: Query_same_db)

lemma delete_key_admin_keys:
  assumes "\<not> ctx_IsAdmin ctx" and "distinct (map k_id (db_api_keys (w_db w)))"
  shows "filter k_is_admin (db_api_keys (w_db (snd (APIKeysHandler_Delete audit ctx keyID w))))
      = filter k_is_admin (db_api_keys (w_db w))"
proof -
  obtain g w1 where g: "GetAPIKey (ctx_TenantID ctx) keyID w = (g, w1)" by (rule prod.exhaust)
  have d1: "w_db w1 = w_db w" using GetAPIKey_db [of "ctx_TenantID ctx" keyID w] by (simp add: g)
  show ?thesis
  proof (cases "\<exists>key. g = Inr (Some key) \<and> \<not> key_IsAdmin key")
    case False
    then show ?thesis using assms(1) d1
      by (auto simp: APIKeysHandler_Delete_def g split: sum.splits option.splits)
  next
    case True
    then obtain key where key: "g = Inr (Some key)" "\<not> key_IsAdmin key" by blast
    obtain k where k: "k \<in> set (db_api_keys (w_db w))" "tenant_key (ctx_TenantID ctx) keyID k" "\<not> k_is_admin k"
      using GetAPIKey_Some [OF g [unfolded key(1)]] key(2) by metis
    have del: "filter k_is_admin (db_api_keys d') = filter k_is_admin (db_api_keys (w_db w1))"
      if "delete_api_keys (tenant_key (ctx_TenantID ctx) keyID) (w_db w1) = Inr (x, d')" for x d'
      using that filter_delete_key [OF assms(2) k(1), of k_is_admin] k(2,3) by (auto simp: delete_api_keys_def d1 tenant_key_def)
    show ?thesis
      unfolding APIKeysHandler_Delete_def g key(1) prod.case sum.case option.case DeleteAPIKey_def d1 [symmetric]
      using key(2)
      by (simp, intro admin_keys.after admin_keys.ExecRow_after refl) (simp_all add: del admin_keys.LogAction_after)
  qed
qed

lemma create_admin_keys:
  assumes "\<not> ctx_IsAdmin ctx"
  shows "filter k_is_admin (db_api_keys (w_db (snd (APIKeysHandler_Create quota audit ctx body w))))
      = filter k_is_admin (db_api_keys (w_db w))"
proof (cases body)
  case (Doc req)
  obtain q w1 where q: "Resolver_CheckAPIKeys quota (ctx_TenantID ctx) w = (q, w1)" by (rule prod.exhaust)
  have d1: "w_db w1 = w_db w" using CheckAPIKeys_db [of quota "ctx_TenantID ctx" w] by (simp add: q)
  obtain g w2 where g: "GetRole (ctx_TenantID ctx) (cak_RoleID req) w1 = (g, w2)" by (rule prod.exhaust)
  show ?thesis using assms d1 GetRole_db [OF g] create_key_admin_keys [of req audit ctx w2]
    by (auto simp: APIKeysHandler_Create_def Doc q g split: sum.split option.split)
qed (simp add: APIKeysHandler_Create_def)

text \<open>C28: Administrator keys are out of reach of a caller who is not an administrator: creating or
  deleting keys leaves the list of administrator keys as it was.\<close>

theorem admin_keys_guarded:
  assumes "\<not> ctx_IsAdmin ctx" and "distinct (map k_id (db_api_keys (w_db w)))"
  shows "filter k_is_admin (db_api_keys (w_db (snd (APIKeysHandler_Create quota audit ctx body w))))
      = filter k_is_admin (db_api_keys (w_db w))
    \<and> filter k_is_admin (db_api_keys (w_db (snd (APIKeysHandler_Delete audit ctx keyID w))))
      = filter k_is_admin (db_api_keys (w_db w))"
  using create_admin_keys [OF assms(1)] delete_key_admin_keys [OF assms] by (rule conjI)

theorem admin_keys_guarded_witness:
  "\<not> ctx_IsAdmin sample_caller \<and> filter k_is_admin (db_api_keys (w_db (snd (APIKeysHandler_Delete False sample_caller ''k1''
       ((sample_world [])\<lparr>w_db := (sample_db [])\<lparr>db_api_keys := [sample_key_row\<lparr>k_is_admin := True\<rparr>]\<rparr>\<rparr>)))))
     = [sample_key_row\<lparr>k_is_admin := True\<rparr>]"
  using admin_keys_guarded [of sample_caller "(sample_world [])\<lparr>w_db := (sample_db [])\<lparr>db_api_keys :=
      [sample_key_row\<lparr>k_is_admin := True\<rparr>]\<rparr>\<rparr>" None False Malformed "''k1''"]
  by (simp add: sample_caller_def sample_key_row_def)

section \<open>Pages of the audit log\<close>

text \<open>The cursor compares identifiers, which are random, while the order is by time: an entry whose
  identifier is larger than the last one of a page is on no later page.\<close>

definition sample_entry :: "id \<Rightarrow> time \<Rightarrow> AuditEntry" where
  "sample_entry i t = \<lparr>a_ID = i, a_TenantID = ''t1'', a_ActorID = ''u1'', a_ActorType = ActorTypeUser,
     a_Action = ''x'', a_ResourceType = ''y'', a_ResourceID = ''z'', a_Metadata = None, a_IPAddress = '''',
     a_CreatedAt = t\<rparr>"

definition sample_audit_world :: world where
  "sample_audit_world = (sample_world [])\<lparr>w_db := (sample_db [])\<lparr>db_audit_log :=
     [sample_entry ''aud_2'' 1, sample_entry ''aud_1'' 2]\<rparr>\<rparr>"

definition no_filter :: audit_filter where
  "no_filter = \<lparr>af_actor_id = '''', af_actor_type = '''', af_action = '''', af_resource_type = '''',
     af_resource_id = '''', af_since = None, af_until = None\<rparr>"

lemma audit_pages_lose_entry:
  "\<exists>c. fst (AuditLogHandler_List sample_caller no_filter ''1'' '''' sample_audit_world)
        = JSON StatusOK \<lparr>lr_Data = [sample_entry ''aud_1'' 2],
            lr_Pagination = \<lparr>pg_NextCursor = c, pg_HasMore = True, pg_Limit = 1\<rparr>\<rparr>
     \<and> fst (AuditLogHandler_List sample_caller no_filter ''1'' c sample_audit_world)
        = JSON StatusOK \<lparr>lr_Data = [], lr_Pagination = \<lparr>pg_NextCursor = '''', pg_HasMore = False, pg_Limit = 1\<rparr>\<rparr>"
proof (intro exI [of _ "base64_encode (bytes_of ''aud_1'')"] conjI)
  have p: "ParsePagination ''1'' c = (1, c)" for c
    by (simp add: ParsePagination_def Atoi_def digit_value_def Let_def)
  note defs = AuditLogHandler_List_def p Query_no_fault Let_def audit_matches_def newest_first_def page_of_def
    sample_audit_world_def sample_world_def sample_entry_def no_filter_def sample_caller_def
  have c: "cursor_id '''' = ''''" by (simp add: cursor_id_def base64_decode_def string_of_def)
  show "fst (AuditLogHandler_List sample_caller no_filter ''1'' '''' sample_audit_world)
        = JSON StatusOK \<lparr>lr_Data = [sample_entry ''aud_1'' 2],
            lr_Pagination = \<lparr>pg_NextCursor = base64_encode (bytes_of ''aud_1''), pg_HasMore = True, pg_Limit = 1\<rparr>\<rparr>"
    by (simp add: defs c)
  show "fst (AuditLogHandler_List sample_caller no_filter ''1'' (base64_encode (bytes_of ''aud_1'')) sample_audit_world)
        = JSON StatusOK \<lparr>lr_Data = [], lr_Pagination = \<lparr>pg_NextCursor = '''', pg_HasMore = False, pg_Limit = 1\<rparr>\<rparr>"
    by (simp add: defs cursor_roundtrip)
qed

end
