(* ===== verification/Files.thy ===== *)
theory Files
  imports Admin
begin

text \<open>
  Files and the keys that sign them: \<^verbatim>\<open>server/api/files.go\<close>,
  \<^verbatim>\<open>server/storage/storage.go\<close>, \<^verbatim>\<open>server/api/signingkeys.go\<close> and
  \<^verbatim>\<open>server/api/agent_signingkeys.go\<close>.

  The disk is a state of its own beside the database: the staging directories with the chunks of
  the uploads in progress, the stored files, and a schedule of the outcomes of its operations.
  PEM and PKIX decoding and the check of an Ed25519 signature are parameters.
\<close>

section \<open>Signing keys (server/api/signingkeys.go)\<close>

datatype pkix_key = Ed25519Key "byte list" | OtherKey

record signature_library =
  pem_Decode :: "string \<Rightarrow> byte list option"
  ParsePKIXPublicKey :: "byte list \<Rightarrow> pkix_key option"
  ed25519_Verify :: "byte list \<Rightarrow> byte list \<Rightarrow> byte list \<Rightarrow> bool"

text \<open>The block and the key.  The text of a parse error is not modelled.\<close>

definition parseEd25519PublicKeyPEM ::
  "signature_library \<Rightarrow> string \<Rightarrow> string + (byte list \<times> byte list)" where
  "parseEd25519PublicKeyPEM lib pem =
    (case pem_Decode lib pem of
       None \<Rightarrow> Inl ''invalid PEM data''
     | Some block \<Rightarrow>
       (case ParsePKIXPublicKey lib block of
          None \<Rightarrow> Inl ''invalid public key''
        | Some OtherKey \<Rightarrow> Inl ''key is not Ed25519''
        | Some (Ed25519Key pub) \<Rightarrow> Inr (block, pub)))"

definition validateEd25519PEM :: "signature_library \<Rightarrow> string \<Rightarrow> string + string" where
  "validateEd25519PEM lib pem =
    (case parseEd25519PublicKeyPEM lib pem of
       Inl e \<Rightarrow> Inl e
     | Inr (block, _) \<Rightarrow> Inr (''SHA256:'' @ hex_encode (Sum256 block)))"

record createSigningKeyRequest =
  csk_Name :: string
  csk_PublicKey :: string

text \<open>These handlers call the audit log without a check for its absence.\<close>

definition SigningKeysHandler_Create ::
  "signature_library \<Rightarrow> auth_context \<Rightarrow> createSigningKeyRequest json \<Rightarrow> world \<Rightarrow> SigningKey response \<times> world" where
  "SigningKeysHandler_Create lib ctx body w =
    (case body of
       Malformed \<Rightarrow> (Error StatusBadRequest ''invalid request body'', w)
     | Doc req \<Rightarrow>
    (if csk_Name req = '''' then (Error StatusBadRequest ''name is required'', w)
     else if csk_PublicKey req = '''' then (Error StatusBadRequest ''public_key is required'', w)
     else case validateEd25519PEM lib (csk_PublicKey req) of
       Inl e \<Rightarrow> (ErrorWithCode StatusBadRequest ''invalid_key'' e, w)
     | Inr fingerprint \<Rightarrow>
    (case Now w of (now, w1) \<Rightarrow>
     case newID ''sgk'' w1 of (i, w2) \<Rightarrow>
     let key = \<lparr>sk_ID = i, sk_TenantID = ctx_TenantID ctx, sk_Name = csk_Name req, sk_Algorithm = ''ed25519'',
           sk_PublicKey = csk_PublicKey req, sk_Fingerprint = fingerprint,
           sk_CreatedBy = Some (ctx_UserID ctx), sk_CreatedAt = now\<rparr> in
     case Exec (insert_signing_key key) w2 of
       (Inl _, w3) \<Rightarrow> (Error StatusInternalServerError ''failed to create signing key'', w3)
     | (Inr _, w3) \<Rightarrow>
       (JSON StatusCreated key, LogAction (ctx_TenantID ctx) (ctx_UserID ctx) ActorTypeUser
          ''signing_key.create'' ''signing_key'' i None w3))))"

text \<open>A key without a creator does not scan.\<close>

definition scan_signing_key :: "SigningKey \<Rightarrow> db_error + SigningKey" where
  "scan_signing_key k = (if sk_CreatedBy k = None then Inl ErrScan else Inr k)"

definition SigningKeysHandler_List :: "auth_context \<Rightarrow> world \<Rightarrow> SigningKey list response \<times> world" where
  "SigningKeysHandler_List ctx w =
    (case Query (\<lambda>d. Inr (sort_key (\<lambda>k. - sk_CreatedAt k)
            (filter (\<lambda>k. sk_TenantID k = ctx_TenantID ctx) (db_signing_keys d)))) w of
       (Inl _, w1) \<Rightarrow> (Error StatusInternalServerError ''failed to list signing keys'', w1)
     | (Inr ks, w1) \<Rightarrow>
       (case scan_all scan_signing_key ks of
          Inl _ \<Rightarrow> (Error StatusInternalServerError ''failed to read signing keys'', w1)
        | Inr keys \<Rightarrow> (JSON StatusOK keys, w1)))"

definition tenant_signing_key :: "id \<Rightarrow> id \<Rightarrow> SigningKey \<Rightarrow> bool" where
  "tenant_signing_key tenantID keyID k \<longleftrightarrow> sk_ID k = keyID \<and> sk_TenantID k = tenantID"

definition SigningKeysHandler_Delete :: "auth_context \<Rightarrow> id \<Rightarrow> world \<Rightarrow> unit response \<times> world" where
  "SigningKeysHandler_Delete ctx keyID w =
    (case Query (\<lambda>d. Inr (rows_affected (\<lambda>f. f_signature_key_id f = Some keyID
            \<and> f_tenant_id f = ctx_TenantID ctx) (db_files d))) w of
       (Inl _, w1) \<Rightarrow> (Error StatusInternalServerError ''failed to check key references'', w1)
     | (Inr n, w1) \<Rightarrow>
    (if n > 0 then
       (ErrorWithCode StatusConflict ''key_in_use''
          (''signing key is referenced by '' @ decimal (int n) @ '' file(s)''), w1)
     else case ExecRow (delete_signing_keys (tenant_signing_key (ctx_TenantID ctx) keyID)) w1 of
       (Inl e, w2) \<Rightarrow>
         (if e = ErrNoRows then Error StatusNotFound ''signing key not found''
          else Error StatusInternalServerError ''failed to delete signing key'', w2)
     | (Inr _, w2) \<Rightarrow>
       (NoContent, LogAction (ctx_TenantID ctx) (ctx_UserID ctx) ActorTypeUser
          ''signing_key.delete'' ''signing_key'' keyID None w2)))"

text \<open>The reply is the public key (\<^verbatim>\<open>server/api/agent_signingkeys.go\<close>).\<close>

definition AgentSigningKeysHandler_Get :: "request_context \<Rightarrow> id \<Rightarrow> world \<Rightarrow> string response \<times> world" where
  "AgentSigningKeysHandler_Get ctx keyID w =
    (if ctx_TenantID ctx = '''' then (Error StatusUnauthorized ''tenant not resolved'', w)
     else case Query (\<lambda>d. select_row (tenant_signing_key (ctx_TenantID ctx) keyID) (db_signing_keys d)) w of
       (Inl e, w1) \<Rightarrow>
         (if e = ErrNoRows then Error StatusNotFound ''signing key not found''
          else Error StatusInternalServerError ''failed to fetch signing key'', w1)
     | (Inr k, w1) \<Rightarrow> (JSON StatusOK (sk_PublicKey k), w1))"

section \<open>The disk\<close>

text \<open>An operation succeeds, is refused, or breaks off after so many bytes.  An exhausted schedule
  means that every further operation succeeds.\<close>

datatype disk_outcome = DiskOk | Refused | Partial nat

record disk =
  dk_staged :: "id \<Rightarrow> (int \<Rightarrow> byte list option) option"
  dk_files :: "id \<Rightarrow> byte list option"
  dk_outcomes :: "disk_outcome list"

definition next_disk :: "disk \<Rightarrow> disk_outcome \<times> disk" where
  "next_disk k = (case dk_outcomes k of [] \<Rightarrow> (DiskOk, k) | x # xs \<Rightarrow> (x, k\<lparr>dk_outcomes := xs\<rparr>))"

text \<open>\<^verbatim>\<open>os.MkdirAll\<close> of a staging directory, whose error the caller ignores.\<close>

definition MkdirAll :: "id \<Rightarrow> disk \<Rightarrow> disk" where
  "MkdirAll i k =
    (case next_disk k of (oc, k1) \<Rightarrow>
     if oc = DiskOk \<and> dk_staged k1 i = None
     then k1\<lparr>dk_staged := (dk_staged k1)(i \<mapsto> (\<lambda>_. None))\<rparr> else k1)"

text \<open>\<^verbatim>\<open>os.WriteFile\<close> of a chunk truncates the file first; it fails without the
  directory.\<close>

definition WriteFile :: "id \<Rightarrow> int \<Rightarrow> byte list \<Rightarrow> disk \<Rightarrow> bool \<times> disk" where
  "WriteFile i n data k =
    (case next_disk k of (oc, k1) \<Rightarrow>
     case dk_staged k1 i of
       None \<Rightarrow> (False, k1)
     | Some dir \<Rightarrow>
       (case oc of
          DiskOk \<Rightarrow> (True, k1\<lparr>dk_staged := (dk_staged k1)(i \<mapsto> dir(n \<mapsto> data))\<rparr>)
        | Refused \<Rightarrow> (False, k1)
        | Partial m \<Rightarrow> (False, k1\<lparr>dk_staged := (dk_staged k1)(i \<mapsto> dir(n \<mapsto> take m data))\<rparr>)))"

definition ReadFile :: "id \<Rightarrow> int \<Rightarrow> disk \<Rightarrow> byte list option \<times> disk" where
  "ReadFile i n k =
    (case next_disk k of (oc, k1) \<Rightarrow>
     (if oc = DiskOk then (case dk_staged k1 i of None \<Rightarrow> None | Some dir \<Rightarrow> dir n) else None, k1))"

definition RemoveAll :: "id \<Rightarrow> disk \<Rightarrow> disk" where
  "RemoveAll i k =
    (case next_disk k of (oc, k1) \<Rightarrow>
     if oc = DiskOk then k1\<lparr>dk_staged := (dk_staged k1)(i := None)\<rparr> else k1)"

section \<open>The local backend (server/storage/storage.go)\<close>

text \<open>The identifiers that serve as keys have no separators.\<close>

definition LocalBackend_path :: "string \<Rightarrow> id \<Rightarrow> string" where
  "LocalBackend_path baseDir key = baseDir @ ''/'' @ key"

text \<open>\<^verbatim>\<open>Save\<close> copies a pipe into the file; this is the end of it, when the
  writer has closed the pipe or has given it an error.  A copy that fails removes the file.\<close>

definition LocalBackend_Save_end :: "disk_outcome \<Rightarrow> id \<Rightarrow> byte list option \<Rightarrow> disk \<Rightarrow> bool \<times> disk" where
  "LocalBackend_Save_end oc key data k =
    (case (oc, data) of
       (Refused, _) \<Rightarrow> (False, k)
     | (_, None) \<Rightarrow> (False, k\<lparr>dk_files := (dk_files k)(key := None)\<rparr>)
     | (DiskOk, Some bs) \<Rightarrow> (True, k\<lparr>dk_files := (dk_files k)(key \<mapsto> bs)\<rparr>)
     | (Partial n, Some bs) \<Rightarrow>
       (if length bs < n then (True, k\<lparr>dk_files := (dk_files k)(key \<mapsto> bs)\<rparr>)
        else (False, k\<lparr>dk_files := (dk_files k)(key := None)\<rparr>)))"

definition LocalBackend_Open :: "id \<Rightarrow> disk \<Rightarrow> byte list option \<times> disk" where
  "LocalBackend_Open key k =
    (case next_disk k of (oc, k1) \<Rightarrow> (if oc = DiskOk then dk_files k1 key else None, k1))"

definition LocalBackend_Delete :: "id \<Rightarrow> disk \<Rightarrow> disk" where
  "LocalBackend_Delete key k =
    (case next_disk k of (oc, k1) \<Rightarrow>
     if oc = DiskOk then k1\<lparr>dk_files := (dk_files k1)(key := None)\<rparr> else k1)"

definition LocalBackend_URL :: "id \<Rightarrow> string" where
  "LocalBackend_URL key = ''/v1/files/data/'' @ key"

section \<open>Uploads (server/api/files.go)\<close>

text \<open>What the handler was built with: the directory of the backend, the quotas, the database's
  \<^verbatim>\<open>->>\<close> operator on the payload of a job, and the signature library.\<close>

record FilesHandler =
  fh_baseDir :: string
  fh_quota :: Resolver
  fh_json_text :: "string \<Rightarrow> string \<Rightarrow> string option"
  fh_signatures :: signature_library

definition defaultChunkSize :: int where
  "defaultChunkSize = 5 * 1024 * 1024"

definition uploadExpiry :: duration where
  "uploadExpiry = 24 * Hour"

text \<open>\<^verbatim>\<open>math.Ceil\<close> of the quotient in \<^verbatim>\<open>float64\<close>, which is exact for sizes
  below \<^verbatim>\<open>2^52\<close>.\<close>

definition total_chunks :: "int \<Rightarrow> int" where
  "total_chunks sizeBytes = - ((- sizeBytes) div defaultChunkSize)"

definition nullIfEmpty :: "string \<Rightarrow> string option" where
  "nullIfEmpty s = (if s = '''' then None else Some s)"

record initiateUploadRequest =
  iu_Filename :: string
  iu_SizeBytes :: int
  iu_SHA256 :: string
  iu_Signature :: string
  iu_SignatureKeyID :: string
  iu_MIMEType :: string

record initiateUploadResponse =
  iur_FileID :: id
  iur_UploadID :: id
  iur_ChunkSizeBytes :: int
  iur_TotalChunks :: int
  iur_UploadedChunks :: "int list"
  iur_ExpiresAt :: time

definition new_file_row :: "auth_context \<Rightarrow> initiateUploadRequest \<Rightarrow> time \<Rightarrow> id \<Rightarrow> file_row" where
  "new_file_row ctx req now fileID =
     \<lparr>f_id = fileID, f_tenant_id = ctx_TenantID ctx, f_filename = iu_Filename req,
      f_size_bytes = iu_SizeBytes req, f_sha256 = iu_SHA256 req, f_signature = nullIfEmpty (iu_Signature req),
      f_signature_key_id = nullIfEmpty (iu_SignatureKeyID req), f_signature_verified = False,
      f_mime_type = Some (iu_MIMEType req), f_storage_backend = ''local'', f_storage_path = '''',
      f_created_by = Some (ctx_UserID ctx), f_created_at = now\<rparr>"

definition new_upload_row :: "id \<Rightarrow> int \<Rightarrow> time \<Rightarrow> id \<Rightarrow> id \<Rightarrow> file_upload_row" where
  "new_upload_row tenantID totalChunks now fileID uploadID =
     \<lparr>up_id = uploadID, up_file_id = fileID, up_tenant_id = tenantID, up_chunk_size_bytes = defaultChunkSize,
      up_total_chunks = totalChunks, up_uploaded_chunks = [], up_completed_at = None,
      up_expires_at = now + uploadExpiry, up_created_at = now\<rparr>"

text \<open>The column of the number of chunks has 32 bits.\<close>

definition initiate_tx ::
  "auth_context \<Rightarrow> initiateUploadRequest \<Rightarrow> time \<Rightarrow> id \<Rightarrow> id \<Rightarrow> world
     \<Rightarrow> (initiateUploadResponse response + unit) \<times> world" where
  "initiate_tx ctx req now fileID uploadID w =
    (case Exec (insert_file (new_file_row ctx req now fileID)) w of
       (Inl _, w1) \<Rightarrow> (Inl (Error StatusInternalServerError ''failed to create file record''), w1)
     | (Inr _, w1) \<Rightarrow>
    (let totalChunks = total_chunks (iu_SizeBytes req) in
     case Exec (\<lambda>d. if totalChunks \<ge> 2 ^ 31 then Inl ErrScan
            else insert_upload (new_upload_row (ctx_TenantID ctx) totalChunks now fileID uploadID) d) w1 of
       (Inl _, w2) \<Rightarrow> (Inl (Error StatusInternalServerError ''failed to create upload session''), w2)
     | (Inr _, w2) \<Rightarrow> (Inr (), w2)))"

definition FilesHandler_InitiateUpload ::
  "FilesHandler \<Rightarrow> auth_context \<Rightarrow> initiateUploadRequest json \<Rightarrow> disk \<Rightarrow> world
     \<Rightarrow> initiateUploadResponse response \<times> disk \<times> world" where
  "FilesHandler_InitiateUpload h ctx body k w =
    (case body of
       Malformed \<Rightarrow> (Error StatusBadRequest ''invalid request body'', k, w)
     | Doc req \<Rightarrow>
    (if iu_Filename req = '''' \<or> iu_SizeBytes req \<le> 0 \<or> iu_SHA256 req = '''' then
       (Error StatusBadRequest ''filename, size_bytes, and sha256 are required'', k, w)
     else case Resolver_CheckFileSize (fh_quota h) (ctx_TenantID ctx) (iu_SizeBytes req) w of
       (Inl e, w1) \<Rightarrow>
         (case HandleQuotaError e of
            Some resp \<Rightarrow> (resp, k, w1)
          | None \<Rightarrow> (Error StatusInternalServerError ''failed to check quota'', k, w1))
     | (Inr _, w1) \<Rightarrow>
    (case Now w1 of (now, w2) \<Rightarrow>
     case newID ''fil'' w2 of (fileID, w3) \<Rightarrow>
     case newID ''upl'' w3 of (uploadID, w4) \<Rightarrow>
     case Transaction (Error StatusInternalServerError ''failed to initiate upload'')
            (Error StatusInternalServerError ''failed to initiate upload'')
            (initiate_tx ctx req now fileID uploadID) w4 of
       (Inl resp, w5) \<Rightarrow> (resp, k, w5)
     | (Inr _, w5) \<Rightarrow>
       (JSON StatusCreated \<lparr>iur_FileID = fileID, iur_UploadID = uploadID, iur_ChunkSizeBytes = defaultChunkSize,
          iur_TotalChunks = total_chunks (iu_SizeBytes req), iur_UploadedChunks = [],
          iur_ExpiresAt = now + uploadExpiry\<rparr>,
        MkdirAll uploadID k, w5))))"

definition open_upload :: "id \<Rightarrow> id \<Rightarrow> file_upload_row \<Rightarrow> bool" where
  "open_upload tenantID uploadID u \<longleftrightarrow> up_id u = uploadID \<and> up_tenant_id u = tenantID \<and> up_completed_at u = None"

record chunkResponse =
  cr_ChunkIndex :: int
  cr_Received :: bool
  cr_UploadedChunks :: "int list"
  cr_RemainingChunks :: int

abbreviation StatusGone :: nat where "StatusGone \<equiv> 410"

text \<open>\<^verbatim>\<open>array_append(array_remove(uploaded_chunks, $1), $1)\<close>\<close>

definition mark_chunk :: "int \<Rightarrow> time \<Rightarrow> file_upload_row \<Rightarrow> file_upload_row" where
  "mark_chunk n now u =
     u\<lparr>up_uploaded_chunks := filter (\<lambda>x. x \<noteq> n) (up_uploaded_chunks u) @ [n],
       up_expires_at := now + uploadExpiry\<rparr>"

text \<open>The body is the bytes of the request; a reader that is one byte over its limit fails.  The
  last query only refreshes the list; its error is ignored.\<close>

definition FilesHandler_UploadChunk ::
  "auth_context \<Rightarrow> id \<Rightarrow> string \<Rightarrow> string \<Rightarrow> byte list \<Rightarrow> disk \<Rightarrow> world \<Rightarrow> chunkResponse response \<times> disk \<times> world" where
  "FilesHandler_UploadChunk ctx uploadID chunkIndexStr expectedHash body k w =
    (case Atoi chunkIndexStr of
       None \<Rightarrow> (Error StatusBadRequest ''invalid chunk_index'', k, w)
     | Some chunkIndex \<Rightarrow>
    (case Query (\<lambda>d. select_row (open_upload (ctx_TenantID ctx) uploadID) (db_file_uploads d)) w of
       (Inl _, w1) \<Rightarrow> (Error StatusNotFound ''upload session not found or already completed'', k, w1)
     | (Inr u, w1) \<Rightarrow>
    (case Now w1 of (now, w2) \<Rightarrow>
     if now > up_expires_at u then (Error StatusGone ''upload session expired'', k, w2)
     else if chunkIndex < 0 \<or> chunkIndex \<ge> up_total_chunks u then
       (Error StatusBadRequest (''chunk_index must be 0-'' @ decimal (up_total_chunks u - 1)), k, w2)
     else if int (length body) > defaultChunkSize + 1 then
       (Error StatusBadRequest ''chunk exceeds maximum size'', k, w2)
     else if expectedHash \<noteq> '''' \<and> hex_encode (Sum256 body) \<noteq> expectedHash then
       (ErrorWithCode StatusBadRequest ''checksum_mismatch'' ''chunk SHA-256 does not match'', k, w2)
     else case WriteFile uploadID chunkIndex body k of (ok, k1) \<Rightarrow>
     if \<not> ok then (Error StatusInternalServerError ''failed to write chunk'', k1, w2)
     else case Now w2 of (now2, w3) \<Rightarrow>
     case Exec (update_uploads (\<lambda>r. up_id r = uploadID) (mark_chunk chunkIndex now2)) w3 of
       (Inl _, w4) \<Rightarrow> (Error StatusInternalServerError ''failed to update upload session'', k1, w4)
     | (Inr _, w4) \<Rightarrow>
    (case Query (\<lambda>d. select_row (\<lambda>r. up_id r = uploadID) (db_file_uploads d)) w4 of (q, w5) \<Rightarrow>
     let uploaded = (case q of Inl _ \<Rightarrow> up_uploaded_chunks u | Inr r \<Rightarrow> up_uploaded_chunks r) in
     (JSON StatusOK \<lparr>cr_ChunkIndex = chunkIndex, cr_Received = True, cr_UploadedChunks = uploaded,
        cr_RemainingChunks = up_total_chunks u - int (length uploaded)\<rparr>, k1, w5)))))"

record uploadStatusResponse =
  us_UploadID :: id
  us_FileID :: id
  us_TotalChunks :: int
  us_UploadedChunks :: "int list"
  us_ExpiresAt :: time

definition FilesHandler_UploadStatus ::
  "auth_context \<Rightarrow> id \<Rightarrow> world \<Rightarrow> uploadStatusResponse response \<times> world" where
  "FilesHandler_UploadStatus ctx uploadID w =
    (case Query (\<lambda>d. select_row (open_upload (ctx_TenantID ctx) uploadID) (db_file_uploads d)) w of
       (Inl _, w1) \<Rightarrow> (Error StatusNotFound ''upload session not found'', w1)
     | (Inr u, w1) \<Rightarrow>
       (JSON StatusOK \<lparr>us_UploadID = up_id u, us_FileID = up_file_id u, us_TotalChunks = up_total_chunks u,
          us_UploadedChunks = up_uploaded_chunks u, us_ExpiresAt = up_expires_at u\<rparr>, w1))"

text \<open>The file of a row, as the queries scan it: a NULL does not go into a string.  The columns are
  read in order, so that the fields before the first NULL are set.\<close>

record File =
  file_ID :: id
  file_TenantID :: id
  file_Filename :: string
  file_SizeBytes :: int
  file_SHA256 :: string
  file_Signature :: string
  file_SignatureKeyID :: string
  file_SignatureVerified :: bool
  file_MIMEType :: string
  file_StorageBackend :: string
  file_StoragePath :: string
  file_CreatedBy :: string
  file_CreatedAt :: time

definition zero_file :: File where
  "zero_file = \<lparr>file_ID = '''', file_TenantID = '''', file_Filename = '''', file_SizeBytes = 0, file_SHA256 = '''',
     file_Signature = '''', file_SignatureKeyID = '''', file_SignatureVerified = False, file_MIMEType = '''',
     file_StorageBackend = '''', file_StoragePath = '''', file_CreatedBy = '''', file_CreatedAt = zero_time\<rparr>"

definition read_file :: "file_row \<Rightarrow> db_error option \<times> File" where
  "read_file r =
    (let f1 = zero_file\<lparr>file_ID := f_id r, file_TenantID := f_tenant_id r, file_Filename := f_filename r,
           file_SizeBytes := f_size_bytes r, file_SHA256 := f_sha256 r\<rparr> in
     case f_signature r of None \<Rightarrow> (Some ErrScan, f1) | Some sig \<Rightarrow>
    (let f2 = f1\<lparr>file_Signature := sig\<rparr> in
     case f_signature_key_id r of None \<Rightarrow> (Some ErrScan, f2) | Some key \<Rightarrow>
    (let f3 = f2\<lparr>file_SignatureKeyID := key, file_SignatureVerified := f_signature_verified r\<rparr> in
     case f_mime_type r of None \<Rightarrow> (Some ErrScan, f3) | Some mime \<Rightarrow>
    (let f4 = f3\<lparr>file_MIMEType := mime, file_StorageBackend := f_storage_backend r,
           file_StoragePath := f_storage_path r\<rparr> in
     case f_created_by r of None \<Rightarrow> (Some ErrScan, f4) | Some user \<Rightarrow>
       (None, f4\<lparr>file_CreatedBy := user, file_CreatedAt := f_created_at r\<rparr>)))))"

definition scan_file :: "file_row \<Rightarrow> db_error + File" where
  "scan_file r = (case read_file r of (None, f) \<Rightarrow> Inr f | (Some e, _) \<Rightarrow> Inl e)"

text \<open>The chunks are read in order and written into the pipe that \<^verbatim>\<open>Save\<close> reads.  Once
  \<^verbatim>\<open>Save\<close> has failed nobody reads the pipe, and the next write to it waits forever.
  \<open>taken\<close> is what the pipe has carried so far.\<close>

definition pipe_accepts :: "disk_outcome \<Rightarrow> byte list \<Rightarrow> byte list \<Rightarrow> bool" where
  "pipe_accepts oc taken data =
    (case oc of
       DiskOk \<Rightarrow> True
     | Refused \<Rightarrow> False
     | Partial n \<Rightarrow> (if data = [] then length taken < n else length taken + length data \<le> n))"

datatype assembly = Piped "byte list" | Unreadable | Blocked

fun assemble :: "disk_outcome \<Rightarrow> id \<Rightarrow> nat \<Rightarrow> int \<Rightarrow> byte list \<Rightarrow> disk \<Rightarrow> assembly \<times> disk" where
  "assemble oc uploadID 0 i taken k = (Piped taken, k)"
| "assemble oc uploadID (Suc m) i taken k =
    (case ReadFile uploadID i k of
       (None, k1) \<Rightarrow> (Unreadable, k1)
     | (Some data, k1) \<Rightarrow>
       (if pipe_accepts oc taken data then assemble oc uploadID m (i + 1) (taken @ data) k1
        else (Blocked, k1)))"

datatype verify_error = SignatureInvalid string | VerifyFailed

definition FilesHandler_verifyFileSignature ::
  "signature_library \<Rightarrow> id \<Rightarrow> id \<Rightarrow> byte list \<Rightarrow> world \<Rightarrow> (verify_error + bool) \<times> world" where
  "FilesHandler_verifyFileSignature lib tenantID fileID digest w =
    (let invalid = ''signature does not verify against registered key'' in
     case Query (\<lambda>d. select_row (\<lambda>f. f_id f = fileID \<and> f_tenant_id f = tenantID) (db_files d)) w of
       (Inl _, w1) \<Rightarrow> (Inl VerifyFailed, w1)
     | (Inr f, w1) \<Rightarrow>
    (case (f_signature f, f_signature_key_id f) of
       (Some sigB64, Some keyID) \<Rightarrow>
        (if sigB64 = '''' \<or> keyID = '''' then (Inr False, w1)
         else case Query (\<lambda>d. select_row (tenant_signing_key tenantID keyID) (db_signing_keys d)) w1 of
           (Inl e, w2) \<Rightarrow>
             (if e = ErrNoRows then Inl (SignatureInvalid (invalid @ '': signing key not found''))
              else Inl VerifyFailed, w2)
         | (Inr key, w2) \<Rightarrow>
           (case parseEd25519PublicKeyPEM lib (sk_PublicKey key) of
              Inl _ \<Rightarrow> (Inl VerifyFailed, w2)
            | Inr (_, pub) \<Rightarrow>
              (case base64_decode sigB64 of
                 None \<Rightarrow> (Inl (SignatureInvalid (invalid @ '': signature is not valid base64'')), w2)
               | Some sig \<Rightarrow>
                 (if \<not> ed25519_Verify lib pub digest sig then (Inl (SignatureInvalid invalid), w2)
                  else (Inr True, w2)))))
     | _ \<Rightarrow> (Inr False, w1)))"

text \<open>The checks on the assembled file, and the record of the result, whose errors are ignored.\<close>

definition finish_upload ::
  "FilesHandler \<Rightarrow> auth_context \<Rightarrow> id \<Rightarrow> id \<Rightarrow> string \<Rightarrow> byte list \<Rightarrow> disk \<Rightarrow> world
     \<Rightarrow> File response \<times> disk \<times> world" where
  "finish_upload h ctx uploadID fileID expectedSHA data k w =
    (let digest = Sum256 data in
     if hex_encode digest \<noteq> expectedSHA then
       (ErrorWithCode StatusBadRequest ''checksum_mismatch''
          ''assembled file SHA-256 does not match expected hash'', LocalBackend_Delete fileID k, w)
     else case FilesHandler_verifyFileSignature (fh_signatures h) (ctx_TenantID ctx) fileID digest w of
       (Inl (SignatureInvalid e), w1) \<Rightarrow>
         (ErrorWithCode StatusBadRequest ''signature_invalid'' e, LocalBackend_Delete fileID k, w1)
     | (Inl VerifyFailed, w1) \<Rightarrow>
         (Error StatusInternalServerError ''failed to verify file signature'', LocalBackend_Delete fileID k, w1)
     | (Inr verified, w1) \<Rightarrow>
    (case Now w1 of (now, w2) \<Rightarrow>
     let w3 = snd (Exec (update_files (\<lambda>f. f_id f = fileID)
           (\<lambda>f. f\<lparr>f_storage_path := LocalBackend_path (fh_baseDir h) fileID, f_signature_verified := verified\<rparr>)) w2);
         w4 = snd (Exec (update_uploads (\<lambda>u. up_id u = uploadID) (\<lambda>u. u\<lparr>up_completed_at := Some now\<rparr>)) w3);
         k1 = RemoveAll uploadID k;
         w5 = LogAction (ctx_TenantID ctx) (ctx_UserID ctx) ActorTypeUser ''file.upload'' ''file'' fileID None w4 in
     case Query (\<lambda>d. select_row (\<lambda>f. f_id f = fileID) (db_files d)) w5 of
       (Inl _, w6) \<Rightarrow> (JSON StatusOK zero_file, k1, w6)
     | (Inr f, w6) \<Rightarrow> (JSON StatusOK (snd (read_file f)), k1, w6)))"

text \<open>\<open>None\<close> is a request that never returns.  The row of the file has its hash; a query for it
  that fails leaves the expected hash empty.\<close>

definition FilesHandler_CompleteUpload ::
  "FilesHandler \<Rightarrow> auth_context \<Rightarrow> id \<Rightarrow> disk \<Rightarrow> world \<Rightarrow> (File response \<times> disk \<times> world) option" where
  "FilesHandler_CompleteUpload h ctx uploadID k w =
    (case Query (\<lambda>d. select_row (open_upload (ctx_TenantID ctx) uploadID) (db_file_uploads d)) w of
       (Inl _, w1) \<Rightarrow> Some (Error StatusNotFound ''upload session not found or already completed'', k, w1)
     | (Inr u, w1) \<Rightarrow>
    (if int (length (up_uploaded_chunks u)) \<noteq> up_total_chunks u then
       Some (ErrorWithCode StatusBadRequest ''incomplete_upload'' (''uploaded '' @
         decimal (int (length (up_uploaded_chunks u))) @ '' of '' @ decimal (up_total_chunks u) @ '' chunks''), k, w1)
     else case Query (\<lambda>d. select_row (\<lambda>f. f_id f = up_file_id u) (db_files d)) w1 of (q, w2) \<Rightarrow>
     let expectedSHA = (case q of Inl _ \<Rightarrow> '''' | Inr f \<Rightarrow> f_sha256 f) in
     case next_disk k of (oc, k0) \<Rightarrow>
     case assemble oc uploadID (nat (up_total_chunks u)) 0 [] k0 of
       (Blocked, _) \<Rightarrow> None
     | (Unreadable, k1) \<Rightarrow>
       Some (Error StatusInternalServerError ''failed to read chunk'',
         snd (LocalBackend_Save_end oc (up_file_id u) None k1), w2)
     | (Piped data, k1) \<Rightarrow>
       (case LocalBackend_Save_end oc (up_file_id u) (Some data) k1 of (saved, k2) \<Rightarrow>
        if \<not> saved then Some (Error StatusInternalServerError ''failed to store file'', k2, w2)
        else Some (finish_upload h ctx uploadID (up_file_id u) expectedSHA data k2 w2))))"

section \<open>Files\<close>

definition FilesHandler_ListFiles ::
  "auth_context \<Rightarrow> string \<Rightarrow> string \<Rightarrow> string \<Rightarrow> world \<Rightarrow> File ListResponse response \<times> world" where
  "FilesHandler_ListFiles ctx search limit_param cursor_param w =
    (case ParsePagination limit_param cursor_param of (n, cursor) \<Rightarrow>
     case Query (\<lambda>d. Inr (take (n + 1) (sort_key (\<lambda>f. - f_created_at f) (rev (sort_key f_id
            (filter (\<lambda>f. f_tenant_id f = ctx_TenantID ctx
               \<and> (search = '''' \<or> ilike (f_filename f) (''%'' @ search @ ''%''))
               \<and> (cursor = '''' \<or> f_id f < cursor)) (db_files d))))))) w of
       (Inl _, w1) \<Rightarrow> (Error StatusInternalServerError ''failed to list files'', w1)
     | (Inr rows, w1) \<Rightarrow>
       (case scan_all scan_file rows of
          Inl _ \<Rightarrow> (Error StatusInternalServerError ''failed to read files'', w1)
        | Inr files \<Rightarrow> (JSON StatusOK (page_of n file_ID files), w1)))"

definition tenant_file :: "id \<Rightarrow> id \<Rightarrow> file_row \<Rightarrow> bool" where
  "tenant_file tenantID fileID f \<longleftrightarrow> f_id f = fileID \<and> f_tenant_id f = tenantID"

definition get_file :: "id \<Rightarrow> id \<Rightarrow> world \<Rightarrow> (db_error + File) \<times> world" where
  "get_file tenantID fileID =
     Query (\<lambda>d. case select_row (tenant_file tenantID fileID) (db_files d) of Inl e \<Rightarrow> Inl e | Inr f \<Rightarrow> scan_file f)"

definition FilesHandler_GetFile :: "auth_context \<Rightarrow> id \<Rightarrow> world \<Rightarrow> File response \<times> world" where
  "FilesHandler_GetFile ctx fileID w =
    (case get_file (ctx_TenantID ctx) fileID w of
       (Inl _, w1) \<Rightarrow> (Error StatusNotFound ''file not found'', w1)
     | (Inr f, w1) \<Rightarrow> (JSON StatusOK f, w1))"

text \<open>Jobs that still transfer the file.\<close>

definition transfers_file :: "FilesHandler \<Rightarrow> id \<Rightarrow> id \<Rightarrow> job_row \<Rightarrow> bool" where
  "transfers_file h tenantID fileID j \<longleftrightarrow>
     j_tenant_id j = tenantID \<and> j_type j = JobTypeFileTransfer
     \<and> j_status j \<notin> {JobStatusCompleted, JobStatusFailed, JobStatusTimedOut, JobStatusCancelled}
     \<and> fh_json_text h (j_payload j) ''file_id'' = Some fileID"

definition FilesHandler_DeleteFile ::
  "FilesHandler \<Rightarrow> auth_context \<Rightarrow> id \<Rightarrow> disk \<Rightarrow> world \<Rightarrow> unit response \<times> disk \<times> world" where
  "FilesHandler_DeleteFile h ctx fileID k w =
    (case Query (\<lambda>d. Inr (rows_affected (transfers_file h (ctx_TenantID ctx) fileID) (db_jobs d))) w of (q, w1) \<Rightarrow>
     let active = (case q of Inl _ \<Rightarrow> 0 | Inr n \<Rightarrow> n) in
     if active > 0 then
       (ErrorWithCode StatusConflict ''file_in_use''
          (''file is referenced by '' @ decimal (int active) @ '' active job(s)''), k, w1)
     else case Query (\<lambda>d. select_row (tenant_file (ctx_TenantID ctx) fileID) (db_files d)) w1 of
       (Inl _, w2) \<Rightarrow> (Error StatusNotFound ''file not found'', k, w2)
     | (Inr f, w2) \<Rightarrow>
    (case ExecRow (delete_files (tenant_file (ctx_TenantID ctx) fileID)) w2 of
       (Inl e, w3) \<Rightarrow>
         (if e = ErrNoRows then Error StatusNotFound ''file not found''
          else Error StatusInternalServerError ''failed to delete file'', k, w3)
     | (Inr _, w3) \<Rightarrow>
       (NoContent, if f_storage_path f \<noteq> '''' then LocalBackend_Delete fileID k else k,
        LogAction (ctx_TenantID ctx) (ctx_UserID ctx) ActorTypeUser ''file.delete'' ''file'' fileID None w3)))"

record fileDownloadResponse =
  fd_URL :: string
  fd_SizeBytes :: int
  fd_ChunkSizeBytes :: int
  fd_TotalChunks :: int
  fd_SHA256 :: string
  fd_Signature :: string
  fd_SignatureKeyID :: string
  fd_ExpiresAt :: time

definition FilesHandler_Download ::
  "request_context \<Rightarrow> id \<Rightarrow> world \<Rightarrow> fileDownloadResponse response \<times> world" where
  "FilesHandler_Download ctx fileID w =
    (case get_file (ctx_TenantID ctx) fileID w of
       (Inl _, w1) \<Rightarrow> (Error StatusNotFound ''file not found'', w1)
     | (Inr f, w1) \<Rightarrow>
    (if file_Signature f \<noteq> '''' \<and> \<not> file_SignatureVerified f then
       (ErrorWithCode StatusConflict ''signature_unverified''
          ''file has a stored signature that was not verified server-side'', w1)
     else case Now w1 of (now, w2) \<Rightarrow>
       (JSON StatusOK \<lparr>fd_URL = LocalBackend_URL fileID, fd_SizeBytes = file_SizeBytes f,
          fd_ChunkSizeBytes = defaultChunkSize, fd_TotalChunks = total_chunks (file_SizeBytes f),
          fd_SHA256 = file_SHA256 f, fd_Signature = file_Signature f,
          fd_SignatureKeyID = file_SignatureKeyID f, fd_ExpiresAt = now + 5 * Minute\<rparr>, w2)))"

text \<open>The bytes of a stored file.  There is no check of who asks.\<close>

definition FilesHandler_ServeFileData :: "id \<Rightarrow> disk \<Rightarrow> byte list response \<times> disk" where
  "FilesHandler_ServeFileData fileID k =
    (case LocalBackend_Open fileID k of
       (None, k1) \<Rightarrow> (Error StatusNotFound ''file data not found'', k1)
     | (Some data, k1) \<Rightarrow> (JSON StatusOK data, k1))"

section \<open>Sessions stay well formed\<close>

text \<open>A session lists a chunk once and only chunks it has.\<close>

definition uploads_wf :: "db \<Rightarrow> bool" where
  "uploads_wf d \<longleftrightarrow> distinct (map up_id (db_file_uploads d))
     \<and> (\<forall>u \<in> set (db_file_uploads d). distinct (up_uploaded_chunks u)
          \<and> set (up_uploaded_chunks u) \<subseteq> {0..<up_total_chunks u})"

interpretation uploads: invariant uploads_wf
  by unfold_locales (simp add: uploads_wf_def)

lemma uploads_wf_same: "db_file_uploads d' = db_file_uploads d \<Longrightarrow> uploads_wf d' = uploads_wf d"
  by (simp add: uploads_wf_def)

lemma uploads_wf_insert:
  "insert_upload r d = Inr (x, d') \<Longrightarrow> up_uploaded_chunks r = [] \<Longrightarrow> preserves uploads_wf d d'"
  by (auto simp: insert_upload_def uploads_wf_def preserves_def)


lemma uploads_wf_update:
  assumes "update_uploads P f d = Inr (x, d')" and "\<And>u. up_id (f u) = up_id u"
    and "\<And>u. u \<in> set (db_file_uploads d) \<Longrightarrow> P u \<Longrightarrow> distinct (up_uploaded_chunks u)
      \<Longrightarrow> set (up_uploaded_chunks u) \<subseteq> {0..<up_total_chunks u}
      \<Longrightarrow> distinct (up_uploaded_chunks (f u)) \<and> set (up_uploaded_chunks (f u)) \<subseteq> {0..<up_total_chunks (f u)}"
  shows "preserves uploads_wf d d'"
proof (rule preservesI)
  assume wf: "uploads_wf d"
  have d': "db_file_uploads d' = update_rows P f (db_file_uploads d)"
    using assms(1) by (auto simp: update_uploads_def)
  have "distinct (up_uploaded_chunks u) \<and> set (up_uploaded_chunks u) \<subseteq> {0..<up_total_chunks u}"
    if "u \<in> set (update_rows P f (db_file_uploads d))" for u
    using that
  proof (rule update_rows_cases)
    fix r assume "r \<in> set (db_file_uploads d)" "P r" "u = f r"
    then show ?thesis using assms(3) [of r] wf by (simp add: uploads_wf_def)
  next
    assume "u \<in> set (db_file_uploads d)"
    then show ?thesis using wf by (simp add: uploads_wf_def)
  qed
  then show "uploads_wf d'"
    using wf by (simp add: uploads_wf_def d' map_update_rows assms(2))
qed

lemma uploads_wf_complete:
  "update_uploads P (\<lambda>u. u\<lparr>up_completed_at := t\<rparr>) d = Inr (x, d') \<Longrightarrow> preserves uploads_wf d d'"
  by (erule uploads_wf_update) simp_all

lemma uploads_wf_delete_files: "delete_files P d = Inr (x, d') \<Longrightarrow> preserves uploads_wf d d'"
  by (auto simp: delete_files_def uploads_wf_def preserves_def delete_rows_def Let_def distinct_map_filter split: if_splits)

lemma uploads_wf_files:
  "insert_file r d = Inr (x, d') \<Longrightarrow> preserves uploads_wf d d'"
  "update_files P f d = Inr (y, d') \<Longrightarrow> preserves uploads_wf d d'"
  by (auto simp: insert_file_def update_files_def uploads_wf_def preserves_def)

lemma initiate_tx_wf:
  assumes "preserves uploads_wf d (w_db v)"
  shows "preserves uploads_wf d (w_db (snd (initiate_tx ctx req now fileID uploadID v)))"
  unfolding initiate_tx_def Let_def
  by (intro uploads.after uploads.Exec_after assms)
    (auto simp: uploads_wf_files new_upload_row_def split: if_splits intro: uploads_wf_insert)

lemma CheckFileSize_db: "w_db (snd (Resolver_CheckFileSize q t n w)) = w_db w"
  by (simp add: Resolver_CheckFileSize_def case_prod_beta Effective_db split: sum.split)

lemma initiate_wf:
  "preserves uploads_wf (w_db w) (w_db (snd (snd (FilesHandler_InitiateUpload h ctx body k w))))"
proof (cases body)
  case (Doc req)
  obtain q w1 where q: "Resolver_CheckFileSize (fh_quota h) (ctx_TenantID ctx) (iu_SizeBytes req) w = (q, w1)"
    by (rule prod.exhaust)
  obtain now w2 where now: "Now w1 = (now, w2)" by (rule prod.exhaust)
  obtain f w3 where f: "newID ''fil'' w2 = (f, w3)" by (rule prod.exhaust)
  obtain u w4 where u: "newID ''upl'' w3 = (u, w4)" by (rule prod.exhaust)
  let ?e = "Error StatusInternalServerError ''failed to initiate upload'' :: initiateUploadResponse response"
  obtain t w5 where t: "Transaction ?e ?e (initiate_tx ctx req now f u) w4 = (t, w5)" by (rule prod.exhaust)
  have d: "w_db w1 = w_db w" "w_db w4 = w_db w"
    using CheckFileSize_db [of "fh_quota h" "ctx_TenantID ctx" "iu_SizeBytes req" w] q
      Now_db [of w1] newID_db [of "''fil''" w2] newID_db [of "''upl''" w3] now f u by simp_all
  have "preserves uploads_wf (w_db w) (w_db (snd (Transaction ?e ?e (initiate_tx ctx req now f u) w4)))"
    by (intro uploads.Transaction_after initiate_tx_wf) (simp add: d uploads.contract_refl)
  then show ?thesis
    using uploads.contract_refl [of "w_db w"]
    by (auto simp: FilesHandler_InitiateUpload_def Doc q now f u t d Let_def split: sum.split option.split)
qed (simp add: FilesHandler_InitiateUpload_def uploads.contract_refl)

lemma chunk_update_wf:
  assumes "uploads_wf d" "u \<in> set (db_file_uploads d)" "up_id u = i" "0 \<le> n" "n < up_total_chunks u"
    and "update_uploads (\<lambda>r. up_id r = i) (mark_chunk n now) d = Inr (x, d')"
  shows "uploads_wf d'"
proof -
  have "preserves uploads_wf d d'"
    using assms(6)
  proof (rule uploads_wf_update)
    show "up_id (mark_chunk n now v) = up_id v" for v by (simp add: mark_chunk_def)
    show "distinct (up_uploaded_chunks (mark_chunk n now v))
        \<and> set (up_uploaded_chunks (mark_chunk n now v)) \<subseteq> {0..<up_total_chunks (mark_chunk n now v)}"
      if "v \<in> set (db_file_uploads d)" "up_id v = i" "distinct (up_uploaded_chunks v)"
        "set (up_uploaded_chunks v) \<subseteq> {0..<up_total_chunks v}" for v
    proof -
      have "distinct (map up_id (db_file_uploads d))" using assms(1) by (simp add: uploads_wf_def)
      then have "v = u" using distinct_key_eq that(1,2) assms(2,3) by metis
      then show ?thesis using that(3,4) assms(4,5) by (auto simp: mark_chunk_def)
    qed
  qed
  then show ?thesis using assms(1) by (simp add: preserves_def)
qed

text \<open>What a chunk upload does when it answers with a chunk.\<close>

lemma chunk_wf:
  "preserves uploads_wf (w_db w) (w_db (snd (snd (FilesHandler_UploadChunk ctx uploadID s hash body k w))))"
proof (rule preservesI)
  assume wf: "uploads_wf (w_db w)"
  obtain q w1 where q: "Query (\<lambda>d. select_row (open_upload (ctx_TenantID ctx) uploadID) (db_file_uploads d)) w = (q, w1)"
    by (rule prod.exhaust)
  have d1: "w_db w1 = w_db w" using q by (rule Query_same_db)
  obtain now w2 where now: "Now w1 = (now, w2)" by (rule prod.exhaust)
  obtain now2 w3 where now2: "Now w2 = (now2, w3)" by (rule prod.exhaust)
  have d3: "w_db w2 = w_db w" "w_db w3 = w_db w" using Now_db [of w1] Now_db [of w2] now now2 d1 by simp_all
  show "uploads_wf (w_db (snd (snd (FilesHandler_UploadChunk ctx uploadID s hash body k w))))"
  proof (cases "\<exists>n u. Atoi s = Some n \<and> q = Inr u \<and> \<not> n < 0 \<and> \<not> up_total_chunks u \<le> n")
    case False
    then show ?thesis
      using wf d1 d3 by (auto simp: FilesHandler_UploadChunk_def q now split: option.split sum.split)
  next
    case True
    then obtain n u where n: "Atoi s = Some n" "q = Inr u" "0 \<le> n" "n < up_total_chunks u" by force
    from Query_Inr [OF q [unfolded n(2)]] have u: "u \<in> set (db_file_uploads (w_db w))" "up_id u = uploadID"
      by (auto dest: select_row_Inr simp: open_upload_def)
    obtain e w4 where e: "Exec (update_uploads (\<lambda>r. up_id r = uploadID) (mark_chunk n now2)) w3 = (e, w4)"
      by (rule prod.exhaust)
    have w4: "uploads_wf (w_db w4)"
      using Exec_cases [OF e] wf d3 chunk_update_wf [OF wf u n(3,4)] by auto
    show ?thesis
      using wf d1 d3 w4
      by (auto simp: FilesHandler_UploadChunk_def q now now2 n e Query_db Let_def case_prod_beta split: sum.split)
  qed
qed

lemma finish_upload_wf:
  "preserves uploads_wf (w_db w) (w_db (snd (snd (finish_upload h ctx uploadID fileID sha data k w))))"
proof -
  let ?v = "FilesHandler_verifyFileSignature (fh_signatures h) (ctx_TenantID ctx) fileID (Sum256 data) w"
  obtain v w1 where v: "?v = (v, w1)" by (rule prod.exhaust)
  have "w_db (snd ?v) = w_db w"
    by (simp add: FilesHandler_verifyFileSignature_def Let_def case_prod_beta Query_db split: sum.split option.split)
  then have d1: "w_db w1 = w_db w" by (simp add: v)
  obtain now w2 where now: "Now w1 = (now, w2)" by (rule prod.exhaust)
  have d2: "w_db w2 = w_db w" using Now_db [of w1] now d1 by simp
  have "preserves uploads_wf (w_db w) (w_db (LogAction t a ty ac rt ri m
     (snd (Exec (update_uploads (\<lambda>u. up_id u = uploadID) (\<lambda>u. u\<lparr>up_completed_at := Some now\<rparr>))
       (snd (Exec (update_files (\<lambda>f. f_id f = fileID) g) w2))))))" for t a ty ac rt ri m g
    by (intro uploads.LogAction_after uploads.Exec_after)
      (auto simp: d2 uploads.contract_refl uploads_wf_files intro: uploads_wf_complete)
  then show ?thesis
    using d1 uploads.contract_refl [of "w_db w"]
    by (auto simp: finish_upload_def Let_def v now case_prod_beta Query_db split: sum.split verify_error.split)
qed

text \<open>An answer to the completion of an upload comes before the file is assembled, or from the
  checks on the assembled file.\<close>

lemma complete_cases:
  assumes "FilesHandler_CompleteUpload h ctx uploadID k w = Some (r, k', w')"
  obtains (early) "w_db w' = w_db w" "\<And>st f. r \<noteq> JSON st f"
  | (checked) u sha w2 oc k0 k1 data k2 where
      "select_row (open_upload (ctx_TenantID ctx) uploadID) (db_file_uploads (w_db w)) = Inr u"
      "int (length (up_uploaded_chunks u)) = up_total_chunks u"
      "sha = '''' \<or> (\<exists>f. select_row (\<lambda>f. f_id f = up_file_id u) (db_files (w_db w)) = Inr f \<and> sha = f_sha256 f)"
      "w_db w2 = w_db w" "next_disk k = (oc, k0)"
      "assemble oc uploadID (nat (up_total_chunks u)) 0 [] k0 = (Piped data, k1)"
      "LocalBackend_Save_end oc (up_file_id u) (Some data) k1 = (True, k2)"
      "finish_upload h ctx uploadID (up_file_id u) sha data k2 w2 = (r, k', w')"
proof -
  obtain q w1 where q: "Query (\<lambda>d. select_row (open_upload (ctx_TenantID ctx) uploadID) (db_file_uploads d)) w = (q, w1)"
    by (rule prod.exhaust)
  have d1: "w_db w1 = w_db w" using q by (rule Query_same_db)
  show thesis
  proof (cases "\<exists>u. q = Inr u \<and> int (length (up_uploaded_chunks u)) = up_total_chunks u")
    case False
    then show thesis
      using assms d1 by (intro early) (auto simp: FilesHandler_CompleteUpload_def q split: sum.splits)
  next
    case True
    then obtain u where u: "q = Inr u" "int (length (up_uploaded_chunks u)) = up_total_chunks u" by blast
    note row = Query_Inr [OF q [unfolded u(1)], THEN conjunct1]
    obtain q2 w2 where q2: "Query (\<lambda>d. select_row (\<lambda>f. f_id f = up_file_id u) (db_files d)) w1 = (q2, w2)"
      by (rule prod.exhaust)
    have d2: "w_db w2 = w_db w" using Query_same_db [OF q2] d1 by simp
    obtain oc k0 where oc: "next_disk k = (oc, k0)" by (rule prod.exhaust)
    obtain a k1 where a: "assemble oc uploadID (nat (up_total_chunks u)) 0 [] k0 = (a, k1)" by (rule prod.exhaust)
    show thesis
    proof (cases "\<exists>data k2. a = Piped data \<and> LocalBackend_Save_end oc (up_file_id u) (Some data) k1 = (True, k2)")
      case False
      then show thesis
        using assms d2 by (intro early)
          (auto simp: FilesHandler_CompleteUpload_def q u q2 oc a Let_def split: assembly.splits prod.splits if_splits)
    next
      case True
      then obtain data k2 where p: "a = Piped data" "LocalBackend_Save_end oc (up_file_id u) (Some data) k1 = (True, k2)"
        by blast
      have sha: "(case q2 of Inl _ \<Rightarrow> '''' | Inr f \<Rightarrow> f_sha256 f) = '''' \<or>
          (\<exists>f. select_row (\<lambda>f. f_id f = up_file_id u) (db_files (w_db w)) = Inr f
             \<and> (case q2 of Inl _ \<Rightarrow> '''' | Inr f \<Rightarrow> f_sha256 f) = f_sha256 f)"
      proof (cases q2)
        case (Inr f)
        from Query_Inr [OF q2 [unfolded Inr]] Inr show ?thesis by (simp add: d1)
      qed simp
      show thesis
        using assms row u q2 d2 oc a p
        by (intro checked [OF row u(2) sha d2 oc a [unfolded p(1)] p(2)])
          (simp add: FilesHandler_CompleteUpload_def q Let_def)
    qed
  qed
qed

lemma complete_wf:
  assumes "FilesHandler_CompleteUpload h ctx uploadID k w = Some (r, k', w')"
  shows "preserves uploads_wf (w_db w) (w_db w')"
  using assms
proof (cases rule: complete_cases)
  case early
  then show ?thesis by (simp add: uploads.contract_refl)
next
  case (checked u sha w2 oc k0 k1 data k2)
  from finish_upload_wf [of w2 h ctx uploadID "up_file_id u" sha data k2] checked(4,8) show ?thesis by simp
qed

lemma delete_wf:
  "preserves uploads_wf (w_db w) (w_db (snd (snd (FilesHandler_DeleteFile h ctx fileID k w))))"
proof -
  obtain q w1 where q: "Query (\<lambda>d. Inr (rows_affected (transfers_file h (ctx_TenantID ctx) fileID) (db_jobs d))) w = (q, w1)"
    by (rule prod.exhaust)
  obtain q2 w2 where q2: "Query (\<lambda>d. select_row (tenant_file (ctx_TenantID ctx) fileID) (db_files d)) w1 = (q2, w2)"
    by (rule prod.exhaust)
  have d: "w_db w1 = w_db w" "w_db w2 = w_db w" using Query_same_db [OF q] Query_same_db [OF q2] by simp_all
  obtain e w3 where e: "ExecRow (delete_files (tenant_file (ctx_TenantID ctx) fileID)) w2 = (e, w3)"
    by (rule prod.exhaust)
  have "preserves uploads_wf (w_db w) (w_db (snd (ExecRow (delete_files (tenant_file (ctx_TenantID ctx) fileID)) w2)))"
    by (rule uploads.ExecRow_after) (auto simp: d uploads.contract_refl intro: uploads_wf_delete_files)
  then have w3: "preserves uploads_wf (w_db w) (w_db w3)" by (simp add: e)
  then show ?thesis
    using d uploads.contract_refl [of "w_db w"] uploads.LogAction_after [OF w3]
    by (auto simp: FilesHandler_DeleteFile_def q q2 e Let_def split: sum.split)
qed

text \<open>C29: The sessions of uploads stay well formed: whatever request is handled, and whatever the
  database and the disk do, session identifiers stay unique and a session lists each received chunk
  once and only chunks the file has.\<close>

theorem upload_sessions_wf:
  assumes "uploads_wf (w_db w)"
  shows "uploads_wf (w_db (snd (snd (FilesHandler_InitiateUpload h ctx body k w))))
    \<and> uploads_wf (w_db (snd (snd (FilesHandler_UploadChunk ctx uploadID s hash data k w))))
    \<and> (FilesHandler_CompleteUpload h ctx uploadID k w = Some (r, k', w') \<longrightarrow> uploads_wf (w_db w'))
    \<and> uploads_wf (w_db (snd (snd (FilesHandler_DeleteFile h ctx fileID k w))))"
  using assms initiate_wf [of w h ctx body k] chunk_wf [of w ctx uploadID s hash data k]
    complete_wf [of h ctx uploadID k w r k' w'] delete_wf [of w h ctx fileID k]
  by (simp add: preserves_def)

section \<open>What is stored\<close>

definition staged_chunk :: "disk \<Rightarrow> id \<Rightarrow> int \<Rightarrow> byte list option" where
  "staged_chunk k uploadID n = (case dk_staged k uploadID of None \<Rightarrow> None | Some dir \<Rightarrow> dir n)"

lemma next_disk_state:
  "next_disk k = (oc, k1) \<Longrightarrow> dk_staged k1 = dk_staged k \<and> dk_files k1 = dk_files k"
  by (auto simp: next_disk_def split: list.splits)

lemma ReadFile_Some:
  assumes "ReadFile i n k = (Some data, k1)"
  shows "staged_chunk k i n = Some data" "dk_staged k1 = dk_staged k" "dk_files k1 = dk_files k"
proof -
  obtain oc k0 where oc: "next_disk k = (oc, k0)" by (rule prod.exhaust)
  show "staged_chunk k i n = Some data" "dk_staged k1 = dk_staged k" "dk_files k1 = dk_files k"
    using assms next_disk_state [OF oc] by (auto simp: ReadFile_def oc staged_chunk_def split: if_splits)
qed

lemma assemble_Piped:
  assumes "assemble oc uploadID m i taken k = (Piped data, k1)"
  shows "\<exists>cs. map (\<lambda>j. staged_chunk k uploadID (i + int j)) [0..<m] = map Some cs \<and> data = taken @ concat cs"
  using assms
proof (induction m arbitrary: i taken k)
  case (Suc m)
  obtain r k2 where r: "ReadFile uploadID i k = (r, k2)" by (rule prod.exhaust)
  obtain c where c: "r = Some c" using Suc.prems by (cases r) (simp_all add: r)
  note read = ReadFile_Some [OF r [unfolded c]]
  have "assemble oc uploadID m (i + 1) (taken @ c) k2 = (Piped data, k1)"
    using Suc.prems by (simp add: r c split: if_splits)
  from Suc.IH [OF this] obtain cs where
    cs: "map (\<lambda>j. staged_chunk k2 uploadID (i + 1 + int j)) [0..<m] = map Some cs" "data = (taken @ c) @ concat cs"
    by blast
  have "[0..<Suc m] = 0 # map Suc [0..<m]" by (simp add: map_Suc_upt upt_conv_Cons del: upt_Suc)
  moreover have "staged_chunk k2 uploadID = staged_chunk k uploadID" using read(2) by (simp add: staged_chunk_def fun_eq_iff)
  ultimately have "map (\<lambda>j. staged_chunk k uploadID (i + int j)) [0..<Suc m] = map Some (c # cs)"
    using cs(1) read(1) by (simp add: comp_def ac_simps del: upt_Suc)
  then show ?case using cs(2) by (intro exI [of _ "c # cs"]) simp
qed simp

lemma uploaded_all:
  assumes "uploads_wf d" "u \<in> set (db_file_uploads d)" "int (length (up_uploaded_chunks u)) = up_total_chunks u"
  shows "set (up_uploaded_chunks u) = {0..<up_total_chunks u}"
proof (rule card_subset_eq)
  show "finite {0..<up_total_chunks u}" by simp
  show "set (up_uploaded_chunks u) \<subseteq> {0..<up_total_chunks u}" using assms(1,2) by (simp add: uploads_wf_def)
  have "card (set (up_uploaded_chunks u)) = length (up_uploaded_chunks u)"
    using assms(1,2) by (simp add: uploads_wf_def distinct_card)
  then show "card (set (up_uploaded_chunks u)) = card {0..<up_total_chunks u}" using assms(3) by simp
qed

definition signature_ok :: "signature_library \<Rightarrow> id \<Rightarrow> db \<Rightarrow> file_row \<Rightarrow> byte list \<Rightarrow> bool" where
  "signature_ok lib tenantID d f digest \<longleftrightarrow>
    (case (f_signature f, f_signature_key_id f) of
       (Some s, Some i) \<Rightarrow> s = '''' \<or> i = '''' \<or>
         (\<exists>key \<in> set (db_signing_keys d). \<exists>block pub sig. sk_ID key = i \<and> sk_TenantID key = tenantID
            \<and> parseEd25519PublicKeyPEM lib (sk_PublicKey key) = Inr (block, pub)
            \<and> base64_decode s = Some sig \<and> ed25519_Verify lib pub digest sig)
     | _ \<Rightarrow> True)"

lemma verify_Inr:
  assumes "FilesHandler_verifyFileSignature lib tenantID fileID digest w = (Inr b, w')"
  obtains f where "f \<in> set (db_files (w_db w))" "f_id f = fileID" "f_tenant_id f = tenantID"
    "signature_ok lib tenantID (w_db w) f digest"
proof -
  obtain q w1 where q: "Query (\<lambda>d. select_row (\<lambda>f. f_id f = fileID \<and> f_tenant_id f = tenantID) (db_files d)) w = (q, w1)"
    by (rule prod.exhaust)
  obtain f where f: "q = Inr f"
    using assms by (cases q) (simp_all add: FilesHandler_verifyFileSignature_def q)
  from Query_Inr [OF q [unfolded f]] have row: "f \<in> set (db_files (w_db w))" "f_id f = fileID" "f_tenant_id f = tenantID"
    and d1: "w_db w1 = w_db w" by (auto dest: select_row_Inr)
  have "signature_ok lib tenantID (w_db w) f digest"
  proof (cases "\<exists>s i. f_signature f = Some s \<and> f_signature_key_id f = Some i \<and> s \<noteq> '''' \<and> i \<noteq> ''''")
    case False
    then show ?thesis by (auto simp: signature_ok_def split: option.split)
  next
    case True
    then obtain s i where s: "f_signature f = Some s" "f_signature_key_id f = Some i" "s \<noteq> ''''" "i \<noteq> ''''" by blast
    obtain q2 w2 where q2: "Query (\<lambda>d. select_row (tenant_signing_key tenantID i) (db_signing_keys d)) w1 = (q2, w2)"
      by (rule prod.exhaust)
    obtain key where key: "q2 = Inr key"
      using assms s by (cases q2) (auto simp: FilesHandler_verifyFileSignature_def q f q2 split: if_splits)
    from Query_Inr [OF q2 [unfolded key]] d1 have k: "key \<in> set (db_signing_keys (w_db w))" "sk_ID key = i" "sk_TenantID key = tenantID"
      by (auto dest: select_row_Inr simp: tenant_signing_key_def)
    obtain block pub where p: "parseEd25519PublicKeyPEM lib (sk_PublicKey key) = Inr (block, pub)"
      using assms s by (auto simp: FilesHandler_verifyFileSignature_def q f q2 key Let_def split: sum.splits)
    obtain sig where "base64_decode s = Some sig" "ed25519_Verify lib pub digest sig"
      using assms s by (auto simp: FilesHandler_verifyFileSignature_def q f q2 key p Let_def split: option.splits if_splits)
    with k p s show ?thesis by (auto simp: signature_ok_def)
  qed
  with row that show thesis by blast
qed

lemma finish_upload_JSON:
  assumes "finish_upload h ctx uploadID fileID sha data k w = (JSON st x, k', w')"
  shows "hex_encode (Sum256 data) = sha" "dk_files k' = dk_files k"
    "\<exists>f. f \<in> set (db_files (w_db w)) \<and> f_id f = fileID \<and> f_tenant_id f = ctx_TenantID ctx
       \<and> signature_ok (fh_signatures h) (ctx_TenantID ctx) (w_db w) f (Sum256 data)"
proof -
  show sha: "hex_encode (Sum256 data) = sha"
    using assms by (auto simp: finish_upload_def Let_def split: if_splits)
  obtain v w1 where v: "FilesHandler_verifyFileSignature (fh_signatures h) (ctx_TenantID ctx) fileID (Sum256 data) w = (v, w1)"
    by (rule prod.exhaust)
  obtain b where b: "v = Inr b"
    using assms sha by (cases v) (auto simp: finish_upload_def Let_def v split: verify_error.splits)
  from verify_Inr [OF v [unfolded b]]
  show "\<exists>f. f \<in> set (db_files (w_db w)) \<and> f_id f = fileID \<and> f_tenant_id f = ctx_TenantID ctx
       \<and> signature_ok (fh_signatures h) (ctx_TenantID ctx) (w_db w) f (Sum256 data)" by blast
  have "k' = RemoveAll uploadID k"
    using assms sha by (auto simp: finish_upload_def Let_def v b split: prod.splits sum.splits)
  then show "dk_files k' = dk_files k"
    by (auto simp: RemoveAll_def split: prod.split dest: next_disk_state)
qed

lemma Save_end_True:
  "LocalBackend_Save_end oc key (Some data) k = (True, k') \<Longrightarrow> dk_files k' key = Some data"
  by (auto simp: LocalBackend_Save_end_def split: disk_outcome.splits if_splits)


lemma LogAction_uploads [simp]:
  "db_file_uploads (w_db (LogAction t a ty ac rt ri m w)) = db_file_uploads (w_db w)"
  using arg_cong [OF everything.LogAction_respects, where f = db_file_uploads, of t a ty ac rt ri m w] by simp

lemma assemble_no_fault:
  assumes "dk_outcomes k = []" and "map (\<lambda>j. staged_chunk k uploadID (i + int j)) [0..<m] = map Some cs"
  shows "assemble DiskOk uploadID m i taken k = (Piped (taken @ concat cs), k)"
  using assms(2)
proof (induction m arbitrary: i taken cs)
  case (Suc m)
  have up: "[0..<Suc m] = 0 # map Suc [0..<m]" by (simp add: map_Suc_upt upt_conv_Cons del: upt_Suc)
  from Suc.prems obtain c cs' where cs: "cs = c # cs'" "staged_chunk k uploadID i = Some c"
      "map (\<lambda>j. staged_chunk k uploadID (i + 1 + int j)) [0..<m] = map Some cs'"
    unfolding up by (cases cs) (auto simp: comp_def ac_simps)
  have "ReadFile uploadID i k = (Some c, k)"
    using cs(2) assms(1) by (simp add: ReadFile_def next_disk_def staged_chunk_def)
  then show ?case using Suc.IH [OF cs(3)] by (simp add: cs(1) pipe_accepts_def)
qed simp

lemma complete_no_fault:
  assumes "w_faults w = []" and "dk_outcomes k = []"
    and "select_row (open_upload (ctx_TenantID ctx) uploadID) (db_file_uploads (w_db w)) = Inr u"
    and "int (length (up_uploaded_chunks u)) = up_total_chunks u"
    and "map (\<lambda>j. staged_chunk k uploadID (int j)) [0..<nat (up_total_chunks u)] = map Some cs"
    and "distinct (map f_id (db_files (w_db w)))" and "f \<in> set (db_files (w_db w))" and "f_id f = up_file_id u"
    and "f_tenant_id f = ctx_TenantID ctx" and "f_signature f = None"
    and "f_sha256 f = hex_encode (Sum256 (concat cs))"
  shows "\<exists>x k' w'. FilesHandler_CompleteUpload h ctx uploadID k w = Some (JSON StatusOK x, k', w')
    \<and> (\<forall>v. select_row (open_upload (ctx_TenantID ctx) uploadID) (db_file_uploads (w_db w')) \<noteq> Inr v)"
proof -
  have row: "select_row (\<lambda>f. f_id f = up_file_id u) (db_files (w_db w)) = Inr f"
      "select_row (\<lambda>g. f_id g = up_file_id u \<and> f_tenant_id g = ctx_TenantID ctx) (db_files (w_db w)) = Inr f"
    using find_row_key [OF assms(6,7), of "\<lambda>f. f_id f = up_file_id u"] assms(8,9)
      find_row_key [OF assms(6,7), of "\<lambda>g. f_id g = up_file_id u \<and> f_tenant_id g = ctx_TenantID ctx"]
    by (simp_all add: select_row_def)
  have nd: "next_disk k = (DiskOk, k)" using assms(2) by (simp add: next_disk_def)
  have as: "assemble DiskOk uploadID (nat (up_total_chunks u)) 0 [] k = (Piped (concat cs), k)"
    using assemble_no_fault [OF assms(2), of uploadID 0 "nat (up_total_chunks u)" cs "[]"] assms(5) by simp
  define w2 where "w2 = snd (Now w)"
  define now where "now = fst (Now w)"
  have now: "Now w = (now, w2)" by (simp add: w2_def now_def)
  have f2: "w_faults w2 = []" "w_db w2 = w_db w" using assms(1) by (simp_all add: w2_def)
  have ver: "FilesHandler_verifyFileSignature (fh_signatures h) (ctx_TenantID ctx) (up_file_id u) dg w = (Inr False, w)" for dg
    using assms(10) row(2) by (simp add: FilesHandler_verifyFileSignature_def Query_no_fault assms(1))
  define w3 where "w3 = snd (Exec (update_files (\<lambda>f. f_id f = up_file_id u)
    (\<lambda>g. g\<lparr>f_storage_path := LocalBackend_path (fh_baseDir h) (up_file_id u), f_signature_verified := False\<rparr>)) w2)"
  define w4 where "w4 = snd (Exec (update_uploads (\<lambda>v. up_id v = uploadID) (\<lambda>v. v\<lparr>up_completed_at := Some now\<rparr>)) w3)"
  define w5 where "w5 = LogAction (ctx_TenantID ctx) (ctx_UserID ctx) ActorTypeUser ''file.upload'' ''file'' (up_file_id u) None w4"
  have up4: "db_file_uploads (w_db w4) = update_rows (\<lambda>v. up_id v = uploadID) (\<lambda>v. v\<lparr>up_completed_at := Some now\<rparr>) (db_file_uploads (w_db w))"
    using f2 by (simp add: w4_def w3_def Exec_no_fault update_files_def update_uploads_def)
  have "\<not> open_upload (ctx_TenantID ctx) uploadID (if up_id v = uploadID then v\<lparr>up_completed_at := Some now\<rparr> else v)" for v
    by (simp add: open_upload_def)
  then have "\<not> open_upload (ctx_TenantID ctx) uploadID v" if "v \<in> set (db_file_uploads (w_db w4))" for v
    using that unfolding up4 update_rows_def set_map by blast
  then have closed: "select_row (open_upload (ctx_TenantID ctx) uploadID) (db_file_uploads (w_db w5)) \<noteq> Inr v" for v
    by (auto simp: w5_def dest: select_row_Inr)
  obtain q w6 where q: "Query (\<lambda>d. select_row (\<lambda>f. f_id f = up_file_id u) (db_files d)) w5 = (q, w6)" by (rule prod.exhaust)
  have "finish_upload h ctx uploadID (up_file_id u) (f_sha256 f) (concat cs) (k\<lparr>dk_files := (dk_files k)(up_file_id u \<mapsto> concat cs)\<rparr>) w
    = (JSON StatusOK (case q of Inl _ \<Rightarrow> zero_file | Inr g \<Rightarrow> snd (read_file g)),
       RemoveAll uploadID (k\<lparr>dk_files := (dk_files k)(up_file_id u \<mapsto> concat cs)\<rparr>), w6)"
    unfolding finish_upload_def Let_def assms(11) ver now prod.case sum.case
    unfolding w3_def [symmetric] w4_def [symmetric] w5_def [symmetric]
    by (simp add: q split: sum.split)
  then have "FilesHandler_CompleteUpload h ctx uploadID k w
    = Some (JSON StatusOK (case q of Inl _ \<Rightarrow> zero_file | Inr g \<Rightarrow> snd (read_file g)),
       RemoveAll uploadID (k\<lparr>dk_files := (dk_files k)(up_file_id u \<mapsto> concat cs)\<rparr>), w6)"
    using assms(3,4) row(1) by (simp add: FilesHandler_CompleteUpload_def Query_no_fault assms(1) nd as LocalBackend_Save_end_def)
  then show ?thesis using closed Query_same_db [OF q] by auto
qed


text \<open>A file of one chunk, announced with its hash and not signed.\<close>

definition sample_library :: signature_library where
  "sample_library = \<lparr>pem_Decode = (\<lambda>s. Some (bytes_of s)), ParsePKIXPublicKey = (\<lambda>b. Some (Ed25519Key b)),
     ed25519_Verify = (\<lambda>pub d s. s = pub @ d)\<rparr>"

definition sample_handler :: FilesHandler where
  "sample_handler = \<lparr>fh_baseDir = ''/data'', fh_quota = None, fh_json_text = (\<lambda>_ _. None), fh_signatures = sample_library\<rparr>"

definition sample_file :: file_row where
  "sample_file = \<lparr>f_id = ''f1'', f_tenant_id = ''t1'', f_filename = ''a'', f_size_bytes = 1,
     f_sha256 = hex_encode (Sum256 [7]), f_signature = None, f_signature_key_id = None, f_signature_verified = False,
     f_mime_type = Some '''', f_storage_backend = ''local'', f_storage_path = '''', f_created_by = Some ''u1'',
     f_created_at = 0\<rparr>"

definition sample_upload :: file_upload_row where
  "sample_upload = \<lparr>up_id = ''up1'', up_file_id = ''f1'', up_tenant_id = ''t1'', up_chunk_size_bytes = defaultChunkSize,
     up_total_chunks = 1, up_uploaded_chunks = [0], up_completed_at = None, up_expires_at = 10 ^ 15, up_created_at = 0\<rparr>"

definition sample_files_world :: world where
  "sample_files_world = (sample_world [])\<lparr>w_db := (sample_db [])\<lparr>db_files := [sample_file],
     db_file_uploads := [sample_upload]\<rparr>\<rparr>"

definition sample_disk :: "disk_outcome list \<Rightarrow> disk" where
  "sample_disk ocs = \<lparr>dk_staged = [''up1'' \<mapsto> [0 \<mapsto> [7]]], dk_files = (\<lambda>_. None), dk_outcomes = ocs\<rparr>"

lemma sample_upload_open:
  "select_row (open_upload (ctx_TenantID sample_caller) ''up1'') (db_file_uploads (w_db sample_files_world)) = Inr sample_upload"
  by (simp add: sample_files_world_def sample_world_def sample_upload_def sample_caller_def select_row_def open_upload_def)

lemma sample_uploads_wf: "uploads_wf (w_db sample_files_world)"
  by (simp add: uploads_wf_def sample_files_world_def sample_world_def sample_upload_def)

theorem upload_sessions_wf_witness:
  "uploads_wf (w_db sample_files_world) \<and>
   uploads_wf (w_db (snd (snd (FilesHandler_UploadChunk sample_caller ''up1'' ''0'' '''' [1] (sample_disk []) sample_files_world))))"
  using upload_sessions_wf [OF sample_uploads_wf, of sample_handler sample_caller Malformed "sample_disk []" "''up1''" "''0''" "''''" "[1]"]
    sample_uploads_wf by blast



text \<open>Once the backend has failed, the request waits for a reader that is gone.\<close>

lemma complete_blocks:
  "FilesHandler_CompleteUpload sample_handler sample_caller ''up1'' (sample_disk [Refused]) sample_files_world = None"
  using sample_upload_open
  by (simp add: FilesHandler_CompleteUpload_def Query_no_fault next_disk_def sample_disk_def ReadFile_def pipe_accepts_def
      sample_files_world_def sample_world_def sample_upload_def)

text \<open>A file uploaded without a signature is on no list and cannot be fetched: its NULL signature
  does not scan.\<close>

lemma unsigned_file_unreadable:
  assumes "distinct (map f_id (db_files (w_db w)))" "f \<in> set (db_files (w_db w))" "f_signature f = None"
    "f_tenant_id f = ctx_TenantID ctx"
  shows "fst (FilesHandler_GetFile ctx (f_id f) w) = Error StatusNotFound ''file not found''"
    and "ctx_TenantID actx = ctx_TenantID ctx
      \<Longrightarrow> fst (FilesHandler_Download actx (f_id f) w) = Error StatusNotFound ''file not found''"
proof -
  have row: "select_row (tenant_file (ctx_TenantID ctx) (f_id f)) (db_files (w_db w)) = Inr f"
    using find_row_key [OF assms(1,2), of "tenant_file (ctx_TenantID ctx) (f_id f)"] assms(4)
    by (simp add: select_row_def tenant_file_def)
  obtain q w1 where q: "get_file (ctx_TenantID ctx) (f_id f) w = (q, w1)" by (rule prod.exhaust)
  have "q \<noteq> Inr x" for x
  proof
    assume "q = Inr x"
    from Query_Inr [OF q [unfolded get_file_def this]] row show False
      by (simp add: scan_file_def read_file_def assms(3))
  qed
  then obtain e where "q = Inl e" by (cases q) auto
  then show "fst (FilesHandler_GetFile ctx (f_id f) w) = Error StatusNotFound ''file not found''"
    and "ctx_TenantID actx = ctx_TenantID ctx
      \<Longrightarrow> fst (FilesHandler_Download actx (f_id f) w) = Error StatusNotFound ''file not found''"
    by (simp_all add: FilesHandler_GetFile_def FilesHandler_Download_def q)
qed

end
