(* ===== verification/Versions.thy ===== *)
theory Versions
  imports Files
begin

text \<open>
  Releases of the agent: the registry of versions, their rollouts and the policies for automatic
  updates (\<^verbatim>\<open>server/store/agent_versions.go\<close>, \<^verbatim>\<open>rollouts.go\<close>,
  \<^verbatim>\<open>update_policies.go\<close> and their endpoints), the installers
  (\<^verbatim>\<open>server/api/installers.go\<close>) and the scripts that install an agent
  (\<^verbatim>\<open>server/api/install_script.go\<close>).
\<close>

section \<open>Statements\<close>

definition insert_version :: "agent_version_row \<Rightarrow> unit stmt" where
  "insert_version r d =
    constrained (av_id r \<notin> set (map av_id (db_agent_versions d))
        \<and> av_version r \<notin> set (map av_version (db_agent_versions d))) True
      (d\<lparr>db_agent_versions := db_agent_versions d @ [r]\<rparr>)"

definition insert_binary :: "AgentVersionBinary \<Rightarrow> unit stmt" where
  "insert_binary b d =
    constrained (avb_ID b \<notin> set (map avb_ID (db_version_binaries d))
        \<and> (avb_AgentVersionID b, avb_OS b, avb_Arch b)
            \<notin> set (map (\<lambda>x. (avb_AgentVersionID x, avb_OS x, avb_Arch x)) (db_version_binaries d)))
      (avb_AgentVersionID b \<in> set (map av_id (db_agent_versions d))
        \<and> avb_FileID b \<in> set (map f_id (db_files d))
        \<and> avb_SignatureKeyID b \<in> set (map sk_ID (db_signing_keys d)))
      (d\<lparr>db_version_binaries := db_version_binaries d @ [b]\<rparr>)"

definition update_versions ::
  "(agent_version_row \<Rightarrow> bool) \<Rightarrow> (agent_version_row \<Rightarrow> agent_version_row) \<Rightarrow> nat stmt" where
  "update_versions P f d =
     Inr (rows_affected P (db_agent_versions d),
          d\<lparr>db_agent_versions := update_rows P f (db_agent_versions d)\<rparr>)"

definition insert_rollout :: "Rollout \<Rightarrow> unit stmt" where
  "insert_rollout r d =
    constrained (ro_ID r \<notin> set (map ro_ID (db_rollouts d))
        \<and> (ro_AgentVersionID r, ro_TenantID r) \<notin> set (map (\<lambda>x. (ro_AgentVersionID x, ro_TenantID x)) (db_rollouts d)))
      (ro_AgentVersionID r \<in> set (map av_id (db_agent_versions d)) \<and> ro_TenantID r \<in> set (map t_id (db_tenants d)))
      (d\<lparr>db_rollouts := db_rollouts d @ [r]\<rparr>)"

definition update_rollouts :: "(Rollout \<Rightarrow> bool) \<Rightarrow> (Rollout \<Rightarrow> Rollout) \<Rightarrow> nat stmt" where
  "update_rollouts P f d =
     Inr (rows_affected P (db_rollouts d), d\<lparr>db_rollouts := update_rows P f (db_rollouts d)\<rparr>)"

text \<open>\<^verbatim>\<open>ON CONFLICT (tenant_id, group_id) DO UPDATE\<close>: two NULL groups are not in
  conflict.\<close>

definition upsert_policy :: "update_policy_row \<Rightarrow> unit stmt" where
  "upsert_policy r d =
    (let same = (\<lambda>x. pol_tenant_id x = pol_tenant_id r \<and> pol_group_id r \<noteq> None \<and> pol_group_id x = pol_group_id r) in
     if list_ex same (db_update_policies d) then
       Inr ((), d\<lparr>db_update_policies := update_rows same
         (\<lambda>x. r\<lparr>pol_id := pol_id x\<rparr>) (db_update_policies d)\<rparr>)
     else constrained (pol_id r \<notin> set (map pol_id (db_update_policies d)))
       (pol_tenant_id r \<in> set (map t_id (db_tenants d)) \<and> references (pol_group_id r) (map n_id (db_groups d)))
       (d\<lparr>db_update_policies := db_update_policies d @ [r]\<rparr>))"

definition delete_policies :: "(update_policy_row \<Rightarrow> bool) \<Rightarrow> nat stmt" where
  "delete_policies P d =
     Inr (rows_affected P (db_update_policies d),
          d\<lparr>db_update_policies := delete_rows P (db_update_policies d)\<rparr>)"

definition insert_installer :: "installer_row \<Rightarrow> unit stmt" where
  "insert_installer r d =
    constrained (ins_id r \<notin> set (map ins_id (db_installers d))
        \<and> (ins_version r, ins_os r, ins_arch r)
            \<notin> set (map (\<lambda>x. (ins_version x, ins_os x, ins_arch x)) (db_installers d)))
      (ins_file_id r \<in> set (map f_id (db_files d)) \<and> ins_signature_key_id r \<in> set (map sk_ID (db_signing_keys d)))
      (d\<lparr>db_installers := db_installers d @ [r]\<rparr>)"

text \<open>An INT column takes 32 bits.\<close>

definition int4 :: "int \<Rightarrow> bool" where
  "int4 n \<longleftrightarrow> - (2 ^ 31) \<le> n \<and> n < 2 ^ 31"

section \<open>Versions (server/store/agent_versions.go)\<close>

abbreviation ChannelStable :: string where "ChannelStable \<equiv> ''stable''"
abbreviation ChannelBeta :: string where "ChannelBeta \<equiv> ''beta''"
abbreviation ChannelCanary :: string where "ChannelCanary \<equiv> ''canary''"

record AgentVersion =
  ver_ID :: id
  ver_Version :: string
  ver_Channel :: string
  ver_Changelog :: string
  ver_Yanked :: bool
  ver_YankReason :: string
  ver_Binaries :: "AgentVersionBinary list"
  ver_CreatedAt :: time

text \<open>The reason for yanking is NULL until a version is yanked, and does not scan then.\<close>

definition scan_version :: "agent_version_row \<Rightarrow> db_error + AgentVersion" where
  "scan_version r =
    (case (av_changelog r, av_yank_reason r) of
       (Some changelog, Some reason) \<Rightarrow>
         Inr \<lparr>ver_ID = av_id r, ver_Version = av_version r, ver_Channel = av_channel r, ver_Changelog = changelog,
           ver_Yanked = av_yanked r, ver_YankReason = reason, ver_Binaries = [], ver_CreatedAt = av_created_at r\<rparr>
     | _ \<Rightarrow> Inl ErrScan)"

definition getVersionBinaries :: "id \<Rightarrow> world \<Rightarrow> (db_error + AgentVersionBinary list) \<times> world" where
  "getVersionBinaries versionID =
     Query (\<lambda>d. Inr (filter (\<lambda>b. avb_AgentVersionID b = versionID) (db_version_binaries d)))"

definition load_version ::
  "(db \<Rightarrow> db_error + agent_version_row) \<Rightarrow> world \<Rightarrow> (db_error + AgentVersion option) \<times> world" where
  "load_version select w =
    (case Query (\<lambda>d. case select d of Inl e \<Rightarrow> Inl e | Inr r \<Rightarrow> scan_version r) w of
       (Inl e, w1) \<Rightarrow> (if e = ErrNoRows then Inr None else Inl e, w1)
     | (Inr v, w1) \<Rightarrow>
       (case getVersionBinaries (ver_ID v) w1 of
          (Inl e, w2) \<Rightarrow> (Inl e, w2)
        | (Inr bs, w2) \<Rightarrow> (Inr (Some (v\<lparr>ver_Binaries := bs\<rparr>)), w2)))"

definition GetAgentVersion :: "string \<Rightarrow> world \<Rightarrow> (db_error + AgentVersion option) \<times> world" where
  "GetAgentVersion version = load_version (\<lambda>d. select_row (\<lambda>r. av_version r = version) (db_agent_versions d))"

definition GetAgentVersionByID :: "id \<Rightarrow> world \<Rightarrow> (db_error + AgentVersion option) \<times> world" where
  "GetAgentVersionByID i = load_version (\<lambda>d. select_row (\<lambda>r. av_id r = i) (db_agent_versions d))"

definition GetLatestAgentVersion :: "string \<Rightarrow> world \<Rightarrow> (db_error + AgentVersion option) \<times> world" where
  "GetLatestAgentVersion channel =
     load_version (\<lambda>d. select_row (\<lambda>_. True) (sort_key (\<lambda>r. - av_created_at r)
       (filter (\<lambda>r. av_channel r = channel \<and> \<not> av_yanked r) (db_agent_versions d))))"

definition version_row :: "AgentVersion \<Rightarrow> agent_version_row" where
  "version_row v = \<lparr>av_id = ver_ID v, av_version = ver_Version v, av_channel = ver_Channel v,
     av_changelog = Some (ver_Changelog v), av_yanked = False, av_yank_reason = None, av_created_at = ver_CreatedAt v\<rparr>"

definition create_version_tx :: "AgentVersion \<Rightarrow> world \<Rightarrow> (db_error + unit) \<times> world" where
  "create_version_tx v w =
    (case Exec (insert_version (version_row v)) w of
       (Inl e, w1) \<Rightarrow> (Inl e, w1)
     | (Inr _, w1) \<Rightarrow> for_each (\<lambda>b. Exec (insert_binary (b\<lparr>avb_AgentVersionID := ver_ID v\<rparr>))) (ver_Binaries v) w1)"

definition CreateAgentVersion :: "AgentVersion \<Rightarrow> world \<Rightarrow> (db_error + unit) \<times> world" where
  "CreateAgentVersion v = Transaction ErrConn ErrConn (create_version_tx v)"

text \<open>The binaries of the listed versions, one query each.\<close>

fun load_binaries :: "AgentVersion list \<Rightarrow> world \<Rightarrow> (db_error + AgentVersion list) \<times> world" where
  "load_binaries [] w = (Inr [], w)"
| "load_binaries (v # vs) w =
    (case getVersionBinaries (ver_ID v) w of
       (Inl e, w1) \<Rightarrow> (Inl e, w1)
     | (Inr bs, w1) \<Rightarrow>
       (case load_binaries vs w1 of
          (Inl e, w2) \<Rightarrow> (Inl e, w2)
        | (Inr rest, w2) \<Rightarrow> (Inr (v\<lparr>ver_Binaries := bs\<rparr> # rest), w2)))"

definition ListAgentVersions ::
  "string \<Rightarrow> string \<Rightarrow> nat \<Rightarrow> world \<Rightarrow> (db_error + AgentVersion list) \<times> world" where
  "ListAgentVersions channel cursor n w =
    (case Query (\<lambda>d. scan_all scan_version (take n (sort_key (\<lambda>r. - av_created_at r)
            (filter (\<lambda>r. (channel = '''' \<or> av_channel r = channel) \<and> (cursor = '''' \<or> av_id r < cursor))
              (db_agent_versions d))))) w of
       (Inl e, w1) \<Rightarrow> (Inl e, w1)
     | (Inr vs, w1) \<Rightarrow> load_binaries vs w1)"

definition YankAgentVersion :: "string \<Rightarrow> string \<Rightarrow> world \<Rightarrow> (db_error + unit) \<times> world" where
  "YankAgentVersion version reason =
     ExecRow (update_versions (\<lambda>r. av_version r = version) (\<lambda>r. r\<lparr>av_yanked := True, av_yank_reason := Some reason\<rparr>))"

section \<open>Version endpoints (server/api/agent_versions.go)\<close>

record publishVersionBinaryIn =
  pvb_OS :: string
  pvb_Arch :: string
  pvb_FileID :: id
  pvb_SHA256 :: string
  pvb_Signature :: string
  pvb_SignatureKeyID :: id

record publishVersionRequest =
  pv_Version :: string
  pv_Channel :: string
  pv_Changelog :: string
  pv_Binaries :: "publishVersionBinaryIn list"

definition valid_channel :: "string \<Rightarrow> bool" where
  "valid_channel c \<longleftrightarrow> c = ChannelStable \<or> c = ChannelBeta \<or> c = ChannelCanary"

definition binary_complete :: "publishVersionBinaryIn \<Rightarrow> bool" where
  "binary_complete b \<longleftrightarrow> pvb_OS b \<noteq> '''' \<and> pvb_Arch b \<noteq> '''' \<and> pvb_FileID b \<noteq> '''' \<and> pvb_SHA256 b \<noteq> ''''
     \<and> pvb_Signature b \<noteq> '''' \<and> pvb_SignatureKeyID b \<noteq> ''''"

fun new_binaries :: "id \<Rightarrow> publishVersionBinaryIn list \<Rightarrow> world \<Rightarrow> AgentVersionBinary list \<times> world" where
  "new_binaries v [] w = ([], w)"
| "new_binaries v (b # bs) w =
    (case newID ''avb'' w of (i, w1) \<Rightarrow>
     case new_binaries v bs w1 of (rest, w2) \<Rightarrow>
       (\<lparr>avb_ID = i, avb_AgentVersionID = v, avb_OS = pvb_OS b, avb_Arch = pvb_Arch b, avb_FileID = pvb_FileID b,
         avb_SHA256 = pvb_SHA256 b, avb_Signature = pvb_Signature b, avb_SignatureKeyID = pvb_SignatureKeyID b\<rparr> # rest, w2))"

definition AgentVersionsHandler_Create ::
  "auth_context \<Rightarrow> publishVersionRequest json \<Rightarrow> world \<Rightarrow> AgentVersion response \<times> world" where
  "AgentVersionsHandler_Create ctx body w =
    (case body of
       Malformed \<Rightarrow> (Error StatusBadRequest ''invalid request body'', w)
     | Doc req \<Rightarrow>
    (if pv_Version req = '''' then (Error StatusBadRequest ''version is required'', w)
     else if pv_Channel req = '''' then (Error StatusBadRequest ''channel is required'', w)
     else if \<not> valid_channel (pv_Channel req) then
       (Error StatusBadRequest ''channel must be stable, beta, or canary'', w)
     else if pv_Binaries req = [] then (Error StatusBadRequest ''at least one binary is required'', w)
     else if \<not> list_all binary_complete (pv_Binaries req) then
       (Error StatusBadRequest
          ''each binary requires os, arch, file_id, sha256, signature, and signature_key_id'', w)
     else case GetAgentVersion (pv_Version req) w of
       (Inl _, w1) \<Rightarrow> (Error StatusInternalServerError ''failed to check version'', w1)
     | (Inr (Some _), w1) \<Rightarrow> (ErrorWithCode StatusConflict ''version_exists'' ''version already exists'', w1)
     | (Inr None, w1) \<Rightarrow>
    (case Now w1 of (now, w2) \<Rightarrow>
     case newID ''avg'' w2 of (i, w3) \<Rightarrow>
     case new_binaries i (pv_Binaries req) w3 of (bs, w4) \<Rightarrow>
     let v = \<lparr>ver_ID = i, ver_Version = pv_Version req, ver_Channel = pv_Channel req, ver_Changelog = pv_Changelog req,
           ver_Yanked = False, ver_YankReason = '''', ver_Binaries = bs, ver_CreatedAt = now\<rparr> in
     case CreateAgentVersion v w4 of
       (Inl _, w5) \<Rightarrow> (Error StatusInternalServerError ''failed to publish version'', w5)
     | (Inr _, w5) \<Rightarrow>
       (JSON StatusCreated v, LogAction (ctx_TenantID ctx) (ctx_UserID ctx) ActorTypeUser
          ''agent_version.publish'' ''agent_version'' i
          (Some [(''version'', pv_Version req), (''channel'', pv_Channel req)]) w5))))"

definition AgentVersionsHandler_List ::
  "string \<Rightarrow> string \<Rightarrow> string \<Rightarrow> world \<Rightarrow> AgentVersion ListResponse response \<times> world" where
  "AgentVersionsHandler_List channel limit_param cursor_param w =
    (case ParsePagination limit_param cursor_param of (n, cursor) \<Rightarrow>
     case ListAgentVersions channel cursor (n + 1) w of
       (Inl _, w1) \<Rightarrow> (Error StatusInternalServerError ''failed to list versions'', w1)
     | (Inr vs, w1) \<Rightarrow> (JSON StatusOK (page_of n ver_ID vs), w1))"

definition AgentVersionsHandler_Get :: "string \<Rightarrow> world \<Rightarrow> AgentVersion response \<times> world" where
  "AgentVersionsHandler_Get version w =
    (case GetAgentVersion version w of
       (Inl _, w1) \<Rightarrow> (Error StatusInternalServerError ''failed to get version'', w1)
     | (Inr None, w1) \<Rightarrow> (Error StatusNotFound ''version not found'', w1)
     | (Inr (Some v), w1) \<Rightarrow> (JSON StatusOK v, w1))"

text \<open>A request is its reason.\<close>

definition AgentVersionsHandler_Yank :: "auth_context \<Rightarrow> string \<Rightarrow> string json \<Rightarrow> world \<Rightarrow> unit response \<times> world" where
  "AgentVersionsHandler_Yank ctx version body w =
    (case body of
       Malformed \<Rightarrow> (Error StatusBadRequest ''invalid request body'', w)
     | Doc reason \<Rightarrow>
    (case YankAgentVersion version reason w of
       (Inl _, w1) \<Rightarrow> (Error StatusNotFound ''version not found'', w1)
     | (Inr _, w1) \<Rightarrow>
       (NoContent, LogAction (ctx_TenantID ctx) (ctx_UserID ctx) ActorTypeUser
          ''agent_version.yank'' ''agent_version'' version (Some [(''reason'', reason)]) w1)))"

section \<open>Rollouts (server/store/rollouts.go, server/api/rollouts.go)\<close>

abbreviation RolloutStatusInProgress :: string where "RolloutStatusInProgress \<equiv> ''in_progress''"
abbreviation RolloutStatusPaused :: string where "RolloutStatusPaused \<equiv> ''paused''"
abbreviation RolloutStatusCompleted :: string where "RolloutStatusCompleted \<equiv> ''completed''"
abbreviation RolloutStatusAborted :: string where "RolloutStatusAborted \<equiv> ''aborted''"

text \<open>The counters and the time of the last batch start at the defaults of their columns.\<close>

definition CreateRollout :: "Rollout \<Rightarrow> world \<Rightarrow> (db_error + unit) \<times> world" where
  "CreateRollout r =
     Exec (insert_rollout (r\<lparr>ro_CurrentBatch := 0, ro_UpdatedDevices := 0, ro_RolledBackDevices := 0,
       ro_LastBatchAt := None\<rparr>))"

definition GetRollout :: "id \<Rightarrow> id \<Rightarrow> world \<Rightarrow> (db_error + Rollout option) \<times> world" where
  "GetRollout agentVersionID tenantID =
     get_row (\<lambda>r. ro_AgentVersionID r = agentVersionID \<and> ro_TenantID r = tenantID) db_rollouts"

definition GetRolloutByID :: "id \<Rightarrow> world \<Rightarrow> (db_error + Rollout option) \<times> world" where
  "GetRolloutByID i = get_row (\<lambda>r. ro_ID r = i) db_rollouts"

definition UpdateRolloutStatus :: "id \<Rightarrow> string \<Rightarrow> world \<Rightarrow> (db_error + unit) \<times> world" where
  "UpdateRolloutStatus i status = ExecRow (update_rollouts (\<lambda>r. ro_ID r = i) (\<lambda>r. r\<lparr>ro_Status := status\<rparr>))"

definition UpdateRolloutBatch :: "id \<Rightarrow> int \<Rightarrow> int \<Rightarrow> time option \<Rightarrow> world \<Rightarrow> (db_error + unit) \<times> world" where
  "UpdateRolloutBatch i batch updated lastBatch =
     Exec_unit (update_rollouts (\<lambda>r. ro_ID r = i)
       (\<lambda>r. r\<lparr>ro_CurrentBatch := batch, ro_UpdatedDevices := updated, ro_LastBatchAt := lastBatch\<rparr>))"

definition IncrementRollbackCount :: "id \<Rightarrow> world \<Rightarrow> (db_error + unit) \<times> world" where
  "IncrementRollbackCount i =
     Exec_unit (update_rollouts (\<lambda>r. ro_ID r = i) (\<lambda>r. r\<lparr>ro_RolledBackDevices := ro_RolledBackDevices r + 1\<rparr>))"

definition ListActiveRollouts :: "world \<Rightarrow> (db_error + Rollout list) \<times> world" where
  "ListActiveRollouts = Query (\<lambda>d. Inr (filter (\<lambda>r. ro_Status r = RolloutStatusInProgress) (db_rollouts d)))"

text \<open>The look-up that all four endpoints start with.\<close>

definition find_rollout :: "auth_context \<Rightarrow> string \<Rightarrow> world \<Rightarrow> ('a response + Rollout) \<times> world" where
  "find_rollout ctx version w =
    (case GetAgentVersion version w of
       (Inl _, w1) \<Rightarrow> (Inl (Error StatusInternalServerError ''failed to look up version''), w1)
     | (Inr None, w1) \<Rightarrow> (Inl (Error StatusNotFound ''version not found''), w1)
     | (Inr (Some v), w1) \<Rightarrow>
       (case GetRollout (ver_ID v) (ctx_TenantID ctx) w1 of
          (Inl _, w2) \<Rightarrow> (Inl (Error StatusInternalServerError ''failed to get rollout''), w2)
        | (Inr None, w2) \<Rightarrow> (Inl (Error StatusNotFound ''no rollout found for this version''), w2)
        | (Inr (Some r), w2) \<Rightarrow> (Inr r, w2)))"

definition RolloutsHandler_GetStatus :: "auth_context \<Rightarrow> string \<Rightarrow> world \<Rightarrow> Rollout response \<times> world" where
  "RolloutsHandler_GetStatus ctx version w =
    (case find_rollout ctx version w of
       (Inl resp, w1) \<Rightarrow> (resp, w1)
     | (Inr r, w1) \<Rightarrow> (JSON StatusOK r, w1))"

text \<open>The switch on the new status.\<close>

definition rollout_conflict :: "string \<Rightarrow> string \<Rightarrow> string option" where
  "rollout_conflict old new =
    (if new = RolloutStatusPaused then
       (if old \<noteq> RolloutStatusInProgress then Some ''can only pause an in-progress rollout'' else None)
     else if new = RolloutStatusInProgress then
       (if old \<noteq> RolloutStatusPaused then Some ''can only resume a paused rollout'' else None)
     else if new = RolloutStatusAborted then
       (if old \<noteq> RolloutStatusInProgress \<and> old \<noteq> RolloutStatusPaused
        then Some ''can only abort an active or paused rollout'' else None)
     else None)"

definition RolloutsHandler_updateRolloutStatus ::
  "auth_context \<Rightarrow> string \<Rightarrow> string \<Rightarrow> string \<Rightarrow> world \<Rightarrow> unit response \<times> world" where
  "RolloutsHandler_updateRolloutStatus ctx version newStatus action w =
    (case find_rollout ctx version w of
       (Inl resp, w1) \<Rightarrow> (resp, w1)
     | (Inr r, w1) \<Rightarrow>
    (case rollout_conflict (ro_Status r) newStatus of
       Some msg \<Rightarrow> (ErrorWithCode StatusConflict ''invalid_state'' msg, w1)
     | None \<Rightarrow>
    (case UpdateRolloutStatus (ro_ID r) newStatus w1 of
       (Inl _, w2) \<Rightarrow> (Error StatusInternalServerError ''failed to update rollout'', w2)
     | (Inr _, w2) \<Rightarrow>
       (NoContent, LogAction (ctx_TenantID ctx) (ctx_UserID ctx) ActorTypeUser action ''rollout'' (ro_ID r)
          (Some [(''version'', version), (''new_status'', newStatus)]) w2))))"

definition RolloutsHandler_Pause :: "auth_context \<Rightarrow> string \<Rightarrow> world \<Rightarrow> unit response \<times> world" where
  "RolloutsHandler_Pause ctx version =
     RolloutsHandler_updateRolloutStatus ctx version RolloutStatusPaused ''rollout.pause''"

definition RolloutsHandler_Resume :: "auth_context \<Rightarrow> string \<Rightarrow> world \<Rightarrow> unit response \<times> world" where
  "RolloutsHandler_Resume ctx version =
     RolloutsHandler_updateRolloutStatus ctx version RolloutStatusInProgress ''rollout.resume''"

definition RolloutsHandler_Abort :: "auth_context \<Rightarrow> string \<Rightarrow> world \<Rightarrow> unit response \<times> world" where
  "RolloutsHandler_Abort ctx version =
     RolloutsHandler_updateRolloutStatus ctx version RolloutStatusAborted ''rollout.abort''"

section \<open>Update policies (server/store/update_policies.go, server/api/update_policies.go)\<close>

record AgentUpdatePolicy =
  aup_ID :: id
  aup_TenantID :: id
  aup_GroupID :: id
  aup_Enabled :: bool
  aup_Channel :: string
  aup_Schedule :: string
  aup_RolloutStrategy :: string
  aup_RolloutBatchPercent :: int
  aup_RolloutBatchIntervalMinutes :: int

definition policy_row :: "AgentUpdatePolicy \<Rightarrow> update_policy_row" where
  "policy_row p = \<lparr>pol_id = aup_ID p, pol_tenant_id = aup_TenantID p, pol_group_id = nullIfEmpty (aup_GroupID p),
     pol_enabled = aup_Enabled p, pol_channel = aup_Channel p, pol_schedule = nullIfEmpty (aup_Schedule p),
     pol_rollout_strategy = aup_RolloutStrategy p, pol_batch_percent = aup_RolloutBatchPercent p,
     pol_batch_interval_minutes = aup_RolloutBatchIntervalMinutes p\<rparr>"

definition scan_policy :: "update_policy_row \<Rightarrow> AgentUpdatePolicy" where
  "scan_policy r = \<lparr>aup_ID = pol_id r, aup_TenantID = pol_tenant_id r,
     aup_GroupID = (case pol_group_id r of None \<Rightarrow> '''' | Some g \<Rightarrow> g), aup_Enabled = pol_enabled r,
     aup_Channel = pol_channel r, aup_Schedule = (case pol_schedule r of None \<Rightarrow> '''' | Some s \<Rightarrow> s),
     aup_RolloutStrategy = pol_rollout_strategy r, aup_RolloutBatchPercent = pol_batch_percent r,
     aup_RolloutBatchIntervalMinutes = pol_batch_interval_minutes r\<rparr>"

definition UpsertUpdatePolicy :: "AgentUpdatePolicy \<Rightarrow> world \<Rightarrow> (db_error + unit) \<times> world" where
  "UpsertUpdatePolicy p =
     Exec (\<lambda>d. if int4 (aup_RolloutBatchPercent p) \<and> int4 (aup_RolloutBatchIntervalMinutes p)
       then upsert_policy (policy_row p) d else Inl ErrScan)"

definition GetUpdatePolicy :: "id \<Rightarrow> id \<Rightarrow> world \<Rightarrow> (db_error + AgentUpdatePolicy option) \<times> world" where
  "GetUpdatePolicy tenantID groupID w =
    (case get_row (\<lambda>r. pol_tenant_id r = tenantID \<and> pol_group_id r = nullIfEmpty groupID) db_update_policies w of
       (Inl e, w1) \<Rightarrow> (Inl e, w1)
     | (Inr r, w1) \<Rightarrow> (Inr (map_option scan_policy r), w1))"

definition ListUpdatePolicies :: "id \<Rightarrow> world \<Rightarrow> (db_error + AgentUpdatePolicy list) \<times> world" where
  "ListUpdatePolicies tenantID =
     Query (\<lambda>d. Inr (map scan_policy (sort_key (\<lambda>r. case pol_group_id r of None \<Rightarrow> [] | Some g \<Rightarrow> [g])
       (filter (\<lambda>r. pol_tenant_id r = tenantID) (db_update_policies d)))))"

definition DeleteUpdatePolicy :: "id \<Rightarrow> id \<Rightarrow> world \<Rightarrow> (db_error + unit) \<times> world" where
  "DeleteUpdatePolicy tenantID policyID =
     ExecRow (delete_policies (\<lambda>r. pol_id r = policyID \<and> pol_tenant_id r = tenantID))"

fun first_policy :: "id \<Rightarrow> id list \<Rightarrow> world \<Rightarrow> (db_error + AgentUpdatePolicy option) \<times> world" where
  "first_policy tenantID [] w = GetUpdatePolicy tenantID '''' w"
| "first_policy tenantID (g # gs) w =
    (case GetUpdatePolicy tenantID g w of
       (Inl e, w1) \<Rightarrow> (Inl e, w1)
     | (Inr (Some p), w1) \<Rightarrow> (Inr (Some p), w1)
     | (Inr None, w1) \<Rightarrow> first_policy tenantID gs w1)"

definition GetEffectiveUpdatePolicy ::
  "id \<Rightarrow> id list \<Rightarrow> world \<Rightarrow> (db_error + AgentUpdatePolicy option) \<times> world" where
  "GetEffectiveUpdatePolicy = first_policy"

record upsertPolicyRequest =
  upr_GroupID :: id
  upr_Enabled :: "bool option"
  upr_Channel :: string
  upr_Schedule :: string
  upr_RolloutStrategy :: string
  upr_RolloutBatchPercent :: "int option"
  upr_RolloutBatchIntervalMinutes :: "int option"

definition or_default :: "'a \<Rightarrow> 'a option \<Rightarrow> 'a" where
  "or_default x y = (case y of None \<Rightarrow> x | Some z \<Rightarrow> z)"

definition UpdatePoliciesHandler_Upsert ::
  "auth_context \<Rightarrow> upsertPolicyRequest json \<Rightarrow> world \<Rightarrow> AgentUpdatePolicy response \<times> world" where
  "UpdatePoliciesHandler_Upsert ctx body w =
    (case body of
       Malformed \<Rightarrow> (Error StatusBadRequest ''invalid request body'', w)
     | Doc req \<Rightarrow>
    (let channel = (if upr_Channel req = '''' then ChannelStable else upr_Channel req);
         strategy = (if upr_RolloutStrategy req = '''' then ''gradual'' else upr_RolloutStrategy req) in
     if \<not> valid_channel channel then (Error StatusBadRequest ''channel must be stable, beta, or canary'', w)
     else if strategy \<noteq> ''immediate'' \<and> strategy \<noteq> ''gradual'' then
       (Error StatusBadRequest ''rollout_strategy must be immediate or gradual'', w)
     else case newID ''aup'' w of (i, w1) \<Rightarrow>
     let p = \<lparr>aup_ID = i, aup_TenantID = ctx_TenantID ctx, aup_GroupID = upr_GroupID req,
           aup_Enabled = or_default True (upr_Enabled req), aup_Channel = channel, aup_Schedule = upr_Schedule req,
           aup_RolloutStrategy = strategy, aup_RolloutBatchPercent = or_default 10 (upr_RolloutBatchPercent req),
           aup_RolloutBatchIntervalMinutes = or_default 60 (upr_RolloutBatchIntervalMinutes req)\<rparr> in
     case UpsertUpdatePolicy p w1 of
       (Inl _, w2) \<Rightarrow> (Error StatusInternalServerError ''failed to save policy'', w2)
     | (Inr _, w2) \<Rightarrow>
       (JSON StatusOK p, LogAction (ctx_TenantID ctx) (ctx_UserID ctx) ActorTypeUser
          ''update_policy.upsert'' ''update_policy'' i
          (Some [(''group_id'', upr_GroupID req), (''channel'', channel)]) w2)))"

definition UpdatePoliciesHandler_List :: "auth_context \<Rightarrow> world \<Rightarrow> AgentUpdatePolicy list response \<times> world" where
  "UpdatePoliciesHandler_List ctx w =
    (case ListUpdatePolicies (ctx_TenantID ctx) w of
       (Inl _, w1) \<Rightarrow> (Error StatusInternalServerError ''failed to list policies'', w1)
     | (Inr ps, w1) \<Rightarrow> (JSON StatusOK ps, w1))"

definition UpdatePoliciesHandler_Delete :: "auth_context \<Rightarrow> id \<Rightarrow> world \<Rightarrow> unit response \<times> world" where
  "UpdatePoliciesHandler_Delete ctx policyID w =
    (case DeleteUpdatePolicy (ctx_TenantID ctx) policyID w of
       (Inl _, w1) \<Rightarrow> (Error StatusNotFound ''policy not found'', w1)
     | (Inr _, w1) \<Rightarrow>
       (NoContent, LogAction (ctx_TenantID ctx) (ctx_UserID ctx) ActorTypeUser
          ''update_policy.delete'' ''update_policy'' policyID None w1))"

section \<open>Installers (server/api/installers.go)\<close>

definition isValidOS :: "string \<Rightarrow> bool" where
  "isValidOS os \<longleftrightarrow> os = ''linux'' \<or> os = ''windows''"

definition isValidArch :: "string \<Rightarrow> string \<Rightarrow> bool" where
  "isValidArch os arch =
    (if os = ''linux'' then arch = ''amd64'' \<or> arch = ''arm64''
     else if os = ''windows'' then arch = ''amd64'' else False)"

record installerListItem =
  ili_ID :: id
  ili_OS :: string
  ili_Arch :: string
  ili_Version :: string
  ili_Channel :: string
  ili_SHA256 :: string
  ili_SignatureKeyID :: id
  ili_DownloadURL :: string
  ili_ReleasedAt :: time
  ili_Yanked :: bool
  ili_YankReason :: "string option"

definition installer_item :: "installer_row \<Rightarrow> installerListItem" where
  "installer_item r = \<lparr>ili_ID = ins_id r, ili_OS = ins_os r, ili_Arch = ins_arch r, ili_Version = ins_version r,
     ili_Channel = ins_channel r, ili_SHA256 = ins_sha256 r, ili_SignatureKeyID = ins_signature_key_id r,
     ili_DownloadURL = ''/v1/installers/'' @ ins_os r @ ''/'' @ ins_arch r @ ''/'' @ ins_version r,
     ili_ReleasedAt = ins_released_at r, ili_Yanked = ins_yanked r, ili_YankReason = ins_yank_reason r\<rparr>"

definition InstallersHandler_List :: "world \<Rightarrow> installerListItem list response \<times> world" where
  "InstallersHandler_List w =
    (case Query (\<lambda>d. Inr (map installer_item (take 100 (sort_key (\<lambda>r. - ins_released_at r)
            (filter (\<lambda>r. \<not> ins_yanked r) (db_installers d)))))) w of
       (Inl _, w1) \<Rightarrow> (Error StatusInternalServerError ''failed to list installers'', w1)
     | (Inr items, w1) \<Rightarrow> (JSON StatusOK items, w1))"

record createInstallerRequest =
  cir_Version :: string
  cir_Channel :: string
  cir_OS :: string
  cir_Arch :: string
  cir_FileID :: id
  cir_SHA256 :: string
  cir_Signature :: string
  cir_SignatureKeyID :: id

text \<open>The reply is the new row.\<close>

definition InstallersHandler_Create ::
  "bool \<Rightarrow> auth_context \<Rightarrow> createInstallerRequest json \<Rightarrow> world \<Rightarrow> installer_row response \<times> world" where
  "InstallersHandler_Create audit ctx body w =
    (case body of
       Malformed \<Rightarrow> (Error StatusBadRequest ''invalid request body'', w)
     | Doc req \<Rightarrow>
    (if cir_Version req = '''' \<or> cir_Channel req = '''' \<or> cir_OS req = '''' \<or> cir_Arch req = '''' then
       (Error StatusBadRequest ''version, channel, os, and arch are required'', w)
     else if cir_FileID req = '''' \<or> cir_SHA256 req = '''' \<or> cir_Signature req = '''' \<or> cir_SignatureKeyID req = '''' then
       (Error StatusBadRequest ''file_id, sha256, signature, and signature_key_id are required'', w)
     else if \<not> isValidOS (cir_OS req) then (Error StatusBadRequest ''invalid os: must be linux or windows'', w)
     else if \<not> isValidArch (cir_OS req) (cir_Arch req) then (Error StatusBadRequest ''invalid arch for os'', w)
     else case Query (\<lambda>d. Inr (list_ex (tenant_file (ctx_TenantID ctx) (cir_FileID req)) (db_files d))) w of (q, w1) \<Rightarrow>
     if q \<noteq> Inr True then (Error StatusBadRequest ''file_id does not reference an existing file'', w1)
     else case Query (\<lambda>d. Inr (list_ex (tenant_signing_key (ctx_TenantID ctx) (cir_SignatureKeyID req))
            (db_signing_keys d))) w1 of (q2, w2) \<Rightarrow>
     if q2 \<noteq> Inr True then
       (Error StatusBadRequest ''signature_key_id does not reference an existing signing key'', w2)
     else case newID ''ins'' w2 of (i, w3) \<Rightarrow>
     case Now w3 of (now, w4) \<Rightarrow>
     let row = \<lparr>ins_id = i, ins_version = cir_Version req, ins_channel = cir_Channel req, ins_os = cir_OS req,
           ins_arch = cir_Arch req, ins_file_id = cir_FileID req, ins_sha256 = cir_SHA256 req,
           ins_signature = cir_Signature req, ins_signature_key_id = cir_SignatureKeyID req,
           ins_released_at = now, ins_yanked = False, ins_yank_reason = None\<rparr> in
     case Exec (insert_installer row) w4 of
       (Inl e, w5) \<Rightarrow>
         (if e = ErrUnique then Error StatusConflict ''installer already exists for this version/os/arch''
          else Error StatusInternalServerError ''failed to create installer'', w5)
     | (Inr _, w5) \<Rightarrow>
       (JSON StatusCreated row, if audit then LogAction (ctx_TenantID ctx) (ctx_UserID ctx) ActorTypeUser
          ''installer.create'' ''installer'' i
          (Some [(''version'', cir_Version req), (''os'', cir_OS req), (''arch'', cir_Arch req)]) w5 else w5)))"

definition installerFilename :: "string \<Rightarrow> string \<Rightarrow> string \<Rightarrow> string" where
  "installerFilename os arch version =
    (if os = ''windows'' then ''agent-windows-'' @ arch @ ''-'' @ version @ ''.msi''
     else ''agent-'' @ os @ ''-'' @ arch @ ''-'' @ version @ ''.tar.gz'')"

text \<open>The query for a key asks for \<^verbatim>\<open>revoked_at IS NULL\<close>, a column that
  \<^verbatim>\<open>api_keys\<close> does not have: the statement fails, and only the token is left.\<close>

definition checkInstallerAuth :: "http_request \<Rightarrow> world \<Rightarrow> ('a response + unit) \<times> world" where
  "checkInstallerAuth r w =
    (let bearer = rq_Authorization r in
     if bearer = '''' then
       (Inl (Error StatusUnauthorized ''authentication required: provide an API key or enrollment token''), w)
     else
    (let token = TrimPrefix bearer ''Bearer '';
         (known, w1) = (if HasPrefix token ''sk_''
            then case Query (\<lambda>d. Inl ErrScan :: db_error + bool) w of (q, v) \<Rightarrow> (q = Inr True, v)
            else (False, w)) in
     if known then (Inr (), w1)
     else case Peek token w1 of
       (Inr _, w2) \<Rightarrow> (Inr (), w2)
     | (Inl _, w2) \<Rightarrow> (Inl (Error StatusUnauthorized ''invalid API key or enrollment token''), w2)))"

definition lookupInstaller ::
  "string \<Rightarrow> string \<Rightarrow> string \<Rightarrow> world \<Rightarrow> ('a response + installer_row) \<times> world" where
  "lookupInstaller os arch version w =
    (case Query (\<lambda>d. select_row (\<lambda>r. ins_os r = os \<and> ins_arch r = arch \<and> ins_version r = version \<and> \<not> ins_yanked r)
            (db_installers d)) w of
       (Inl e, w1) \<Rightarrow>
         (Inl (if e = ErrNoRows then Error StatusNotFound ''installer not found''
           else Error StatusInternalServerError ''failed to look up installer''), w1)
     | (Inr r, w1) \<Rightarrow> (Inr r, w1))"

text \<open>A reply of the name and the bytes of the file.\<close>

definition InstallersHandler_serveFile :: "id \<Rightarrow> string \<Rightarrow> disk \<Rightarrow> (string \<times> byte list) response \<times> disk" where
  "InstallersHandler_serveFile fileID filename k =
    (case LocalBackend_Open fileID k of
       (None, k1) \<Rightarrow> (Error StatusInternalServerError ''failed to retrieve installer file'', k1)
     | (Some data, k1) \<Rightarrow> (JSON StatusOK (filename, data), k1))"

definition InstallersHandler_Download ::
  "http_request \<Rightarrow> string \<Rightarrow> string \<Rightarrow> string \<Rightarrow> disk \<Rightarrow> world \<Rightarrow> (string \<times> byte list) response \<times> disk \<times> world" where
  "InstallersHandler_Download r os arch version k w =
    (case checkInstallerAuth r w of
       (Inl resp, w1) \<Rightarrow> (resp, k, w1)
     | (Inr _, w1) \<Rightarrow>
    (case lookupInstaller os arch version w1 of
       (Inl resp, w2) \<Rightarrow> (resp, k, w2)
     | (Inr rec, w2) \<Rightarrow>
       (case InstallersHandler_serveFile (ins_file_id rec) (installerFilename os arch (ins_version rec)) k of
          (resp, k1) \<Rightarrow> (resp, k1, w2))))"

definition stable_installer :: "string \<Rightarrow> string \<Rightarrow> db \<Rightarrow> db_error + installer_row" where
  "stable_installer os arch d =
     select_row (\<lambda>_. True) (sort_key (\<lambda>r. - ins_released_at r)
       (filter (\<lambda>r. ins_os r = os \<and> ins_arch r = arch \<and> ins_channel r = ChannelStable \<and> \<not> ins_yanked r)
         (db_installers d)))"

definition InstallersHandler_DownloadLatest ::
  "http_request \<Rightarrow> string \<Rightarrow> string \<Rightarrow> disk \<Rightarrow> world \<Rightarrow> (string \<times> byte list) response \<times> disk \<times> world" where
  "InstallersHandler_DownloadLatest r os arch k w =
    (case checkInstallerAuth r w of
       (Inl resp, w1) \<Rightarrow> (resp, k, w1)
     | (Inr _, w1) \<Rightarrow>
    (case Query (stable_installer os arch) w1 of
       (Inl e, w2) \<Rightarrow>
         (if e = ErrNoRows then Error StatusNotFound ''no stable installer available for this platform''
          else Error StatusInternalServerError ''failed to look up installer'', k, w2)
     | (Inr rec, w2) \<Rightarrow>
       (case InstallersHandler_serveFile (ins_file_id rec) (installerFilename os arch (ins_version rec)) k of
          (resp, k1) \<Rightarrow> (resp, k1, w2))))"

definition InstallersHandler_Checksum ::
  "http_request \<Rightarrow> string \<Rightarrow> string \<Rightarrow> string \<Rightarrow> world \<Rightarrow> string response \<times> world" where
  "InstallersHandler_Checksum r os arch version w =
    (case checkInstallerAuth r w of
       (Inl resp, w1) \<Rightarrow> (resp, w1)
     | (Inr _, w1) \<Rightarrow>
    (case lookupInstaller os arch version w1 of
       (Inl resp, w2) \<Rightarrow> (resp, w2)
     | (Inr rec, w2) \<Rightarrow>
       (JSON StatusOK (ins_sha256 rec @ ''  '' @ installerFilename os arch (ins_version rec) @ [CHR 0x0A]), w2)))"

text \<open>The key identifier, a header, and the signature.\<close>

definition InstallersHandler_Signature ::
  "http_request \<Rightarrow> string \<Rightarrow> string \<Rightarrow> string \<Rightarrow> world \<Rightarrow> (id \<times> string) response \<times> world" where
  "InstallersHandler_Signature r os arch version w =
    (case checkInstallerAuth r w of
       (Inl resp, w1) \<Rightarrow> (resp, w1)
     | (Inr _, w1) \<Rightarrow>
    (case lookupInstaller os arch version w1 of
       (Inl resp, w2) \<Rightarrow> (resp, w2)
     | (Inr rec, w2) \<Rightarrow> (JSON StatusOK (ins_signature_key_id rec, ins_signature rec), w2)))"

section \<open>Install scripts (server/api/install_script.go)\<close>

text \<open>What of a request the public address of the server is derived from.\<close>

record base_request =
  br_TLS :: bool
  br_ForwardedProto :: string
  br_ForwardedHost :: string
  br_Host :: string

fun TrimRight :: "char \<Rightarrow> string \<Rightarrow> string" where
  "TrimRight c s = rev (dropWhile (\<lambda>x. x = c) (rev s))"

definition serverBaseURL :: "base_request \<Rightarrow> string" where
  "serverBaseURL r =
    (let scheme = (if br_TLS r then ''https'' else if br_ForwardedProto r \<noteq> '''' then br_ForwardedProto r else ''http'');
         host = (if br_ForwardedHost r \<noteq> '''' then br_ForwardedHost r else br_Host r) in
     TrimRight (CHR ''/'') (scheme @ ''://'' @ host))"

definition scriptExt :: "string \<Rightarrow> string" where
  "scriptExt os = (if os = ''windows'' then ''ps1'' else ''sh'')"

definition text_lines :: "string list \<Rightarrow> string" where
  "text_lines ls = concat (map (\<lambda>l. l @ [CHR 0x0A]) ls)"

definition generateLinuxScript :: "string \<Rightarrow> string \<Rightarrow> installer_row \<Rightarrow> string" where
  \<open>generateLinuxScript baseURL token inst = text_lines
     [
      ''#!/usr/bin/env bash'',
      ''# Moebius Agent '' @ [CHR 0xE2, CHR 0x80, CHR 0x94] @ '' Generated Install Script'',
      ''# Platform: linux/'' @ ins_arch inst @ ''  Version: '' @ ins_version inst,
      ''# This script was generated by the Moebius management server.'',
      ''# The enrollment token is embedded below and will be consumed on first check-in.'',
      [],
      ''set -euo pipefail'',
      [],
      ''RED='' @ [CHR 0x27] @ [CHR 0x5C] @ ''033[0;31m'; GREEN='' @ [CHR 0x27] @ [CHR 0x5C] @ ''033[0;32m'; NC='' @ [CHR 0x27] @ [CHR 0x5C] @ ''033[0m'' @ [CHR 0x27],
      ''info()  { echo -e "${GREEN}[INFO]${NC}  $*"; }'',
      ''error() { echo -e "${RED}[ERROR]${NC} $*" >&2; }'',
      ''fatal() { error "$@"; exit 1; }'',
      [],
      ''# Must be root.'',
      ''if ['' @ ''[ $EUID -ne 0 ]'' @ '']; then'',
      ''    fatal "This script must be run as root (use sudo)"'',
      ''fi'',
      [],
      ''WORK_DIR=$(mktemp -d)'',
      ''trap 'rm -rf "$WORK_DIR"' EXIT'',
      ''cd "$WORK_DIR"'',
      [],
      ''SERVER="'' @ baseURL @ ''"'',
      ''VERSION="'' @ ins_version inst @ ''"'',
      ''EXPECTED_SHA256="'' @ ins_sha256 inst @ ''"'',
      ''ENROLLMENT_TOKEN="'' @ token @ ''"'',
      [],
      ''info "Downloading installer (linux/'' @ ins_arch inst @ '' v${VERSION})..."'',
      ''curl -fsSL -o installer.tar.gz '' @ [CHR 0x5C],
      ''    "${SERVER}/v1/installers/linux/'' @ ins_arch inst @ ''/${VERSION}" '' @ [CHR 0x5C],
      ''    -H "Authorization: Bearer ${ENROLLMENT_TOKEN}"'',
      [],
      ''info "Downloading checksum..."'',
      ''curl -fsSL -o installer.tar.gz.sha256 '' @ [CHR 0x5C],
      ''    "${SERVER}/v1/installers/linux/'' @ ins_arch inst @ ''/${VERSION}/checksum" '' @ [CHR 0x5C],
      ''    -H "Authorization: Bearer ${ENROLLMENT_TOKEN}"'',
      [],
      ''info "Downloading signature..."'',
      ''curl -fsSL -o installer.tar.gz.sig '' @ [CHR 0x5C],
      ''    "${SERVER}/v1/installers/linux/'' @ ins_arch inst @ ''/${VERSION}/signature" '' @ [CHR 0x5C],
      ''    -H "Authorization: Bearer ${ENROLLMENT_TOKEN}"'',
      [],
      ''# Verify SHA-256 checksum.'',
      ''info "Verifying checksum..."'',
      ''ACTUAL_SHA256=$(sha256sum installer.tar.gz | awk '{print $1}')'',
      ''if ['' @ ''[ "$ACTUAL_SHA256" != "$EXPECTED_SHA256" ]'' @ '']; then'',
      ''    fatal "Checksum mismatch! Expected: ${EXPECTED_SHA256}  Got: ${ACTUAL_SHA256}"'',
      ''fi'',
      ''info "Checksum verified."'',
      [],
      ''# Extract tarball.'',
      ''info "Extracting installer..."'',
      ''tar xzf installer.tar.gz'',
      [],
      ''# Make binary executable.'',
      ''chmod +x moebius-agent'',
      [],
      ''# Run the agent install subcommand with the embedded enrollment token.'',
      ''info "Running installer..."'',
      ''./moebius-agent install '' @ [CHR 0x5C],
      ''    --enrollment-token "$ENROLLMENT_TOKEN" '' @ [CHR 0x5C],
      ''    --server-url "$SERVER"'',
      [],
      ''info "Done."'']\<close>

definition generateWindowsScript :: "string \<Rightarrow> string \<Rightarrow> installer_row \<Rightarrow> string" where
  \<open>generateWindowsScript baseURL token inst = text_lines
     [
      ''# Moebius Agent '' @ [CHR 0xE2, CHR 0x80, CHR 0x94] @ '' Generated Install Script'',
      ''# Platform: windows/'' @ ins_arch inst @ ''  Version: '' @ ins_version inst,
      ''# This script was generated by the Moebius management server.'',
      ''# The enrollment token is embedded below and will be consumed on first check-in.'',
      ''# Run as Administrator: powershell -NoProfile -ExecutionPolicy Bypass -File install.ps1'',
      [],
      ''$ErrorActionPreference = 'Stop'' @ [CHR 0x27],
      [],
      ''$Server       = '' @ [CHR 0x27] @ baseURL @ [CHR 0x27],
      ''$Version      = '' @ [CHR 0x27] @ ins_version inst @ [CHR 0x27],
      ''$ExpectedHash = '' @ [CHR 0x27] @ ins_sha256 inst @ [CHR 0x27],
      ''$Token        = '' @ [CHR 0x27] @ token @ [CHR 0x27],
      [],
      ''function Write-Status($msg) { Write-Host "[INFO]  $msg" -ForegroundColor Green }'',
      ''function Write-Err($msg)    { Write-Host "[ERROR] $msg" -ForegroundColor Red }'',
      [],
      ''# Must be Administrator.'',
      ''$identity = [Security.Principal.WindowsIdentity]::GetCurrent()'',
      ''$principal = New-Object Security.Principal.WindowsPrincipal($identity)'',
      ''if (-not $principal.IsInRole([Security.Principal.WindowsBuiltInRole]::Administrator)) {'',
      ''    Write-Err 'This script must be run as Administrator'' @ [CHR 0x27],
      ''    exit 1'',
      ''}'',
      [],
      ''$WorkDir = Join-Path $env:TEMP ('moebius-install-' + (Get-Random))'',
      ''New-Item -ItemType Directory -Path $WorkDir -Force | Out-Null'',
      [],
      ''try {'',
      ''    $headers = @'' @ ''{ 'Authorization' = "Bearer $Token" }'',
      [],
      ''    Write-Status 'Downloading installer (windows/'' @ ins_arch inst @ '' v'' @ ins_version inst @ '')...'' @ [CHR 0x27],
      ''    $msiPath = Join-Path $WorkDir 'agent-windows-'' @ ins_arch inst @ ''-'' @ ins_version inst @ ''.msi'' @ [CHR 0x27],
      ''    Invoke-WebRequest -UseBasicParsing -Uri "$Server/v1/installers/windows/'' @ ins_arch inst @ ''/$Version" -Headers $headers -OutFile $msiPath'',
      [],
      ''    Write-Status 'Downloading checksum...'' @ [CHR 0x27],
      ''    $checksumPath = Join-Path $WorkDir 'checksum.sha256'' @ [CHR 0x27],
      ''    Invoke-WebRequest -UseBasicParsing -Uri "$Server/v1/installers/windows/'' @ ins_arch inst @ ''/$Version/checksum" -Headers $headers -OutFile $checksumPath'',
      [],
      ''    Write-Status 'Downloading signature...'' @ [CHR 0x27],
      ''    $sigPath = Join-Path $WorkDir 'installer.msi.sig'' @ [CHR 0x27],
      ''    Invoke-WebRequest -UseBasicParsing -Uri "$Server/v1/installers/windows/'' @ ins_arch inst @ ''/$Version/signature" -Headers $headers -OutFile $sigPath'',
      [],
      ''    # Verify SHA-256 checksum.'',
      ''    Write-Status 'Verifying checksum...'' @ [CHR 0x27],
      ''    $actualHash = (Get-FileHash $msiPath -Algorithm SHA256).Hash.ToLower()'',
      ''    if ($actualHash -ne $ExpectedHash) {'',
      ''        Write-Err "Checksum mismatch! Expected: $ExpectedHash  Got: $actualHash"'',
      ''        exit 1'',
      ''    }'',
      ''    Write-Status 'Checksum verified.'' @ [CHR 0x27],
      [],
      ''    # Run MSI installer silently with enrollment token and server URL.'',
      ''    Write-Status 'Running MSI installer...'' @ [CHR 0x27],
      ''    $msiArgs = "/i `"$msiPath`" /quiet ENROLLMENT_TOKEN=$Token SERVER_URL=$Server"'',
      ''    $proc = Start-Process msiexec.exe -ArgumentList $msiArgs -Wait -PassThru'',
      ''    if ($proc.ExitCode -ne 0) {'',
      ''        Write-Err "MSI installer failed with exit code $($proc.ExitCode)"'',
      ''        exit $proc.ExitCode'',
      ''    }'',
      [],
      ''    Write-Status 'Installation complete.'' @ [CHR 0x27],
      [],
      ''    # Wait for service to start.'',
      ''    Write-Status 'Waiting for agent service to start (up to 30s)...'' @ [CHR 0x27],
      ''    for ($i = 0; $i -lt 30; $i++) {'',
      ''        $svc = Get-Service -Name MoebiusAgent -ErrorAction SilentlyContinue'',
      ''        if ($svc -and $svc.Status -eq 'Running') {'',
      ''            Write-Status 'Agent service is running.'' @ [CHR 0x27],
      ''            break'',
      ''        }'',
      ''        Start-Sleep -Seconds 1'',
      ''    }'',
      [],
      ''    Write-Status 'Done.'' @ [CHR 0x27],
      ''}'',
      ''finally {'',
      ''    Remove-Item -Recurse -Force $WorkDir -ErrorAction SilentlyContinue'',
      ''}'']\<close>

definition latestInstaller :: "string \<Rightarrow> string \<Rightarrow> world \<Rightarrow> (db_error + installer_row) \<times> world" where
  "latestInstaller os arch = Query (stable_installer os arch)"

text \<open>The reply is the name of the file and the script.\<close>

definition InstallScriptHandler_ServeInstallScript ::
  "base_request \<Rightarrow> string \<Rightarrow> string \<Rightarrow> string \<Rightarrow> world \<Rightarrow> (string \<times> string) response \<times> world" where
  "InstallScriptHandler_ServeInstallScript r os arch rawToken w =
    (if \<not> isValidOS os then (Error StatusBadRequest ''invalid os: must be linux or windows'', w)
     else if \<not> isValidArch os arch then (Error StatusBadRequest ''invalid arch for os'', w)
     else if rawToken = '''' then (Error StatusUnauthorized ''enrollment token required: ?token=<token>'', w)
     else case Peek rawToken w of
       (Inl _, w1) \<Rightarrow> (Error StatusUnauthorized ''enrollment token invalid, already used, or expired'', w1)
     | (Inr _, w1) \<Rightarrow>
    (case latestInstaller os arch w1 of
       (Inl _, w2) \<Rightarrow> (Error StatusNotFound ''no installer available for this platform'', w2)
     | (Inr inst, w2) \<Rightarrow>
       (JSON StatusOK (''install-'' @ os @ ''-'' @ arch @ ''.'' @ scriptExt os,
          if os = ''linux'' then generateLinuxScript (serverBaseURL r) rawToken inst
          else generateWindowsScript (serverBaseURL r) rawToken inst), w2)))"

record installCommandResponse =
  icr_Command :: string
  icr_ExpiresAt :: time
  icr_TokenID :: id

definition install_command :: "string \<Rightarrow> string \<Rightarrow> string \<Rightarrow> string" where
  \<open>install_command os arch baseURL =
    (if os = ''linux'' then
       ''curl -fsSL '' @ [CHR 0x27] @ baseURL @ ''/v1/install/linux/'' @ arch @ ''?token=<ENROLLMENT_TOKEN>' | sudo bash''
     else ''powershell -NoProfile -ExecutionPolicy Bypass -Command "& { iwr -UseBasicParsing '' @ [CHR 0x27] @ baseURL
       @ ''/v1/install/windows/'' @ arch @ ''?token=<ENROLLMENT_TOKEN>' | iex }"'')\<close>

text \<open>A request is the operating system and the architecture.\<close>

definition InstallScriptHandler_GenerateInstallCommand ::
  "auth_context \<Rightarrow> base_request \<Rightarrow> id \<Rightarrow> (string \<times> string) json \<Rightarrow> world
     \<Rightarrow> installCommandResponse response \<times> world" where
  "InstallScriptHandler_GenerateInstallCommand ctx r tokenID body w =
    (case body of
       Malformed \<Rightarrow> (Error StatusBadRequest ''invalid request body'', w)
     | Doc (os, arch) \<Rightarrow>
    (if \<not> isValidOS os then (Error StatusBadRequest ''invalid os: must be linux or windows'', w)
     else if \<not> isValidArch os arch then (Error StatusBadRequest ''invalid arch for os'', w)
     else case Query (\<lambda>d. select_row (\<lambda>t. et_id t = tokenID \<and> et_tenant_id t = ctx_TenantID ctx \<and> et_used_at t = None)
            (db_enrollment_tokens d)) w of
       (Inl e, w1) \<Rightarrow>
         (if e = ErrNoRows then Error StatusNotFound ''enrollment token not found, already used, or expired''
          else Error StatusInternalServerError ''failed to look up enrollment token'', w1)
     | (Inr t, w1) \<Rightarrow>
       (JSON StatusOK \<lparr>icr_Command = install_command os arch (serverBaseURL r), icr_ExpiresAt = et_expires_at t,
          icr_TokenID = tokenID\<rparr>, w1)))"

section \<open>Tokens open the installers\<close>

lemma Peek_db: "w_db (snd (Peek raw w)) = w_db w"
  by (simp add: Peek_def token_result_def case_prod_beta Query_db split: sum.split)

lemma Peek_Inr:
  assumes "Peek raw w = (Inr t, w')"
  obtains r where "r \<in> set (db_enrollment_tokens (w_db w))" "token_usable (hashToken raw) (w_clock w (w_ticks w)) r"
proof -
  obtain now w1 where now: "Now w = (now, w1)" by (rule prod.exhaust)
  then have n: "now = w_clock w (w_ticks w)" "w_db w1 = w_db w" by (auto simp: Now_def)
  obtain q w2 where q: "Query (\<lambda>d. select_row (token_usable (hashToken raw) now) (db_enrollment_tokens d)) w1 = (q, w2)"
    by (rule prod.exhaust)
  obtain r where r: "q = Inr r" using assms by (cases q) (auto simp: Peek_def now q token_result_def)
  from Query_Inr [OF q [unfolded r]] n that show thesis by (auto dest: select_row_Inr)
qed

lemma stable_installer_newest:
  assumes "stable_installer os arch d = Inr i"
  shows "i \<in> set (db_installers d)" "ins_os i = os" "ins_arch i = arch" "ins_channel i = ChannelStable" "\<not> ins_yanked i"
    "\<forall>x \<in> set (db_installers d). ins_os x = os \<and> ins_arch x = arch \<and> ins_channel x = ChannelStable \<and> \<not> ins_yanked x
       \<longrightarrow> ins_released_at x \<le> ins_released_at i"
proof -
  let ?fs = "filter (\<lambda>r. ins_os r = os \<and> ins_arch r = arch \<and> ins_channel r = ChannelStable \<and> \<not> ins_yanked r) (db_installers d)"
  obtain xs where xs: "sort_key (\<lambda>r. - ins_released_at r) ?fs = i # xs"
    using assms by (cases "sort_key (\<lambda>r. - ins_released_at r) ?fs") (auto simp: stable_installer_def select_row_def)
  have set: "set ?fs = set (i # xs)" using arg_cong [OF xs, of set] by simp
  have "sorted (map (\<lambda>r. - ins_released_at r) (i # xs))"
    using sorted_sort_key [of "\<lambda>r. - ins_released_at r" ?fs] xs by simp
  then have "ins_released_at x \<le> ins_released_at i" if "x \<in> set ?fs" for x
    using that unfolding set by auto
  moreover have "i \<in> set ?fs" unfolding set by simp
  ultimately show "i \<in> set (db_installers d)" "ins_os i = os" "ins_arch i = arch" "ins_channel i = ChannelStable" "\<not> ins_yanked i"
    "\<forall>x \<in> set (db_installers d). ins_os x = os \<and> ins_arch x = arch \<and> ins_channel x = ChannelStable \<and> \<not> ins_yanked x
       \<longrightarrow> ins_released_at x \<le> ins_released_at i" by auto
qed

text \<open>C32: An install script is handed out only for an enrollment token that is unused and unexpired,
  and it installs the newest stable installer of the platform that has not been yanked: the script
  is the template for the platform with that installer's hash and version and with the token.\<close>

theorem install_script_sound:
  assumes "InstallScriptHandler_ServeInstallScript r os arch raw w = (JSON st (filename, script), w')"
  shows "(\<exists>t \<in> set (db_enrollment_tokens (w_db w)). token_usable (hashToken raw) (w_clock w (w_ticks w)) t)
    \<and> (\<exists>i \<in> set (db_installers (w_db w)). ins_os i = os \<and> ins_arch i = arch \<and> ins_channel i = ChannelStable \<and> \<not> ins_yanked i
        \<and> (\<forall>x \<in> set (db_installers (w_db w)). ins_os x = os \<and> ins_arch x = arch \<and> ins_channel x = ChannelStable
             \<and> \<not> ins_yanked x \<longrightarrow> ins_released_at x \<le> ins_released_at i)
        \<and> script = (if os = ''linux'' then generateLinuxScript else generateWindowsScript) (serverBaseURL r) raw i)
    \<and> w_db w' = w_db w"
proof -
  obtain p w1 where p: "Peek raw w = (p, w1)" by (rule prod.exhaust)
  obtain q w2 where q: "latestInstaller os arch w1 = (q, w2)" by (rule prod.exhaust)
  have d1: "w_db w1 = w_db w" using Peek_db [of raw w] p by simp
  have res: "\<exists>t i. p = Inr t \<and> q = Inr i
      \<and> script = (if os = ''linux'' then generateLinuxScript else generateWindowsScript) (serverBaseURL r) raw i \<and> w' = w2"
    using assms by (auto simp: InstallScriptHandler_ServeInstallScript_def p q split: if_splits sum.splits)
  then obtain t i where t: "p = Inr t" "q = Inr i"
      "script = (if os = ''linux'' then generateLinuxScript else generateWindowsScript) (serverBaseURL r) raw i" "w' = w2" by blast
  obtain tr where tok: "tr \<in> set (db_enrollment_tokens (w_db w))" "token_usable (hashToken raw) (w_clock w (w_ticks w)) tr"
    using p t(1) Peek_Inr by blast
  from Query_Inr [OF q [unfolded latestInstaller_def t(2)]] have s: "stable_installer os arch (w_db w) = Inr i"
    and d2: "w_db w2 = w_db w" using d1 by simp_all
  show ?thesis using tok stable_installer_newest [OF s] t(3,4) d2 by blast
qed

text \<open>An API key opens no installer: with the key alone the request is refused, whatever keys the
  database holds.\<close>

lemma key_opens_no_installer:
  assumes "rq_Authorization r = ''Bearer '' @ key" "HasPrefix key ''sk_''"
    and "\<forall>t \<in> set (db_enrollment_tokens (w_db w)). et_token_hash t \<noteq> hashToken key"
  shows "fst (InstallersHandler_Download r os arch version k w) = Error StatusUnauthorized ''invalid API key or enrollment token''"
proof -
  let ?q = "Query (\<lambda>d. Inl ErrScan :: db_error + bool) w"
  obtain q w1 where q: "?q = (q, w1)" by (rule prod.exhaust)
  have q': "q \<noteq> Inr True" using Query_Inr [of _ w True w1] q by auto
  have d1: "w_db w1 = w_db w" using q by (rule Query_same_db)
  obtain p w2 where p: "Peek key w1 = (p, w2)" by (rule prod.exhaust)
  have "p \<noteq> Inr t" for t
    using assms(3) d1 p Peek_Inr [of key w1 t w2] by (auto simp: token_usable_def)
  then obtain e where e: "p = Inl e" by (cases p) auto
  have "TrimPrefix (rq_Authorization r) ''Bearer '' = key" "rq_Authorization r \<noteq> ''''"
    using assms(1) by (simp_all add: TrimPrefix_def HasPrefix_def)
  then have "checkInstallerAuth r w
      = (Inl (Error StatusUnauthorized ''invalid API key or enrollment token'' :: (string \<times> byte list) response), w2)"
    using assms(2) q q' p e by (simp add: checkInstallerAuth_def Let_def)
  then show ?thesis by (simp add: InstallersHandler_Download_def)
qed

section \<open>Versions and policies\<close>

text \<open>A version that has not been yanked cannot be read back: its reason is NULL.\<close>

lemma unyanked_version_unreadable:
  assumes "distinct (map av_version (db_agent_versions (w_db w)))" "r \<in> set (db_agent_versions (w_db w))"
    "av_yank_reason r = None"
  shows "fst (AgentVersionsHandler_Get (av_version r) w) = Error StatusInternalServerError ''failed to get version''"
proof -
  have row: "select_row (\<lambda>x. av_version x = av_version r) (db_agent_versions (w_db w)) = Inr r"
    using find_row_key [OF assms(1,2), of "\<lambda>x. av_version x = av_version r"] by (simp add: select_row_def)
  let ?f = "\<lambda>d. case select_row (\<lambda>x. av_version x = av_version r) (db_agent_versions d) of
      Inl e \<Rightarrow> Inl e | Inr r \<Rightarrow> scan_version r"
  obtain q w1 where q: "Query ?f w = (q, w1)" by (rule prod.exhaust)
  have f: "?f (w_db w) = Inl ErrScan"
    using assms(3) by (simp add: row scan_version_def split: option.split)
  have "q = Inl ErrScan \<or> q = Inl ErrConn"
    using q unfolding Query_def Exec_def
    by (auto simp: row scan_version_def assms(3) next_outcome_def split: outcome.splits list.splits option.splits)
  then show ?thesis
    by (auto simp: AgentVersionsHandler_Get_def GetAgentVersion_def load_version_def q)
qed

text \<open>A second default policy of a tenant is added beside the first.\<close>

lemma default_policy_duplicated:
  assumes "pol_group_id r = None" "pol_id r \<notin> set (map pol_id (db_update_policies d))" "pol_tenant_id r \<in> set (map t_id (db_tenants d))"
  shows "upsert_policy r d = Inr ((), d\<lparr>db_update_policies := db_update_policies d @ [r]\<rparr>)"
  using assms by (simp add: upsert_policy_def constrained_def references_def list_ex_iff)

section \<open>Rollouts move along their states\<close>

inductive rollout_step :: "string \<Rightarrow> string \<Rightarrow> bool" where
  pause: "rollout_step RolloutStatusInProgress RolloutStatusPaused"
| resume: "rollout_step RolloutStatusPaused RolloutStatusInProgress"
| abort_active: "rollout_step RolloutStatusInProgress RolloutStatusAborted"
| abort_paused: "rollout_step RolloutStatusPaused RolloutStatusAborted"

inductive_cases rollout_step_from_aborted: "rollout_step RolloutStatusAborted s"
inductive_cases rollout_step_from_completed: "rollout_step RolloutStatusCompleted s"

lemma rollout_conflict_step:
  "rollout_conflict old new = None \<Longrightarrow> new \<in> {RolloutStatusPaused, RolloutStatusInProgress, RolloutStatusAborted}
     \<Longrightarrow> rollout_step old new"
  by (auto simp: rollout_conflict_def intro: rollout_step.intros split: if_splits)

text \<open>What a request may do to the rollouts: one of the tenant's takes a step, all else stays.\<close>

definition rollouts_moved :: "id \<Rightarrow> db \<Rightarrow> db \<Rightarrow> bool" where
  "rollouts_moved tenantID d d' \<longleftrightarrow>
     list_all2 (\<lambda>r r'. r' = r \<or> ro_TenantID r = tenantID \<and> (\<exists>s. r' = r\<lparr>ro_Status := s\<rparr> \<and> rollout_step (ro_Status r) s))
       (db_rollouts d) (db_rollouts d')"

lemma rollouts_moved_refl: "db_rollouts d' = db_rollouts d \<Longrightarrow> rollouts_moved t d d'"
  by (simp add: rollouts_moved_def list_all2_refl)

lemma get_row_Some:
  assumes "get_row P tbl w = (Inr (Some r), w1)"
  shows "r \<in> set (tbl (w_db w))" "P r"
proof -
  obtain q w2 where q: "Query (\<lambda>d. select_row P (tbl d)) w = (q, w2)" by (rule prod.exhaust)
  have "q = Inr r" using assms by (auto simp: get_row_def q split: sum.splits if_splits)
  from Query_Inr [OF q [unfolded this]] show "r \<in> set (tbl (w_db w))" "P r" by (auto dest: select_row_Inr)
qed

lemma load_version_db: "w_db (snd (load_version s w)) = w_db w"
  by (simp add: load_version_def getVersionBinaries_def case_prod_beta Query_db split: sum.split)

lemma find_rollout_db: "w_db (snd (find_rollout ctx version w)) = w_db w"
  by (simp add: find_rollout_def GetAgentVersion_def GetRollout_def case_prod_beta load_version_db get_row_db
      split: sum.split option.split)

lemma find_rollout_Inr:
  assumes "find_rollout ctx version w = (Inr r, w1)"
  shows "r \<in> set (db_rollouts (w_db w))" "ro_TenantID r = ctx_TenantID ctx"
proof -
  obtain v w2 where v: "GetAgentVersion version w = (v, w2)" by (rule prod.exhaust)
  have d2: "w_db w2 = w_db w" using load_version_db v by (metis GetAgentVersion_def snd_conv)
  obtain ver where ver: "v = Inr (Some ver)"
    using assms by (auto simp: find_rollout_def v split: sum.splits option.splits)
  obtain g w3 where g: "GetRollout (ver_ID ver) (ctx_TenantID ctx) w2 = (g, w3)" by (rule prod.exhaust)
  have "g = Inr (Some r)" using assms by (auto simp: find_rollout_def v ver g split: sum.splits option.splits)
  from get_row_Some [OF g [unfolded GetRollout_def this]] d2
  show "r \<in> set (db_rollouts (w_db w))" "ro_TenantID r = ctx_TenantID ctx" by simp_all
qed

lemma update_status_moved:
  assumes "new \<in> {RolloutStatusPaused, RolloutStatusInProgress, RolloutStatusAborted}"
    and "distinct (map ro_ID (db_rollouts (w_db w)))"
  shows "rollouts_moved (ctx_TenantID ctx) (w_db w)
    (w_db (snd (RolloutsHandler_updateRolloutStatus ctx version new action w)))"
proof -
  obtain f w1 where f: "find_rollout ctx version w = (f :: unit response + Rollout, w1)" by (rule prod.exhaust)
  have d1: "w_db w1 = w_db w" using find_rollout_db f by (metis snd_conv)
  show ?thesis
  proof (cases "\<exists>r. f = Inr r \<and> rollout_conflict (ro_Status r) new = None")
    case False
    then show ?thesis
      using d1 by (intro rollouts_moved_refl)
        (auto simp: RolloutsHandler_updateRolloutStatus_def f split: sum.split option.split)
  next
    case True
    then obtain r where r: "f = Inr r" "rollout_conflict (ro_Status r) new = None" by blast
    note row = find_rollout_Inr [OF f [unfolded r(1)]]
    note step = rollout_conflict_step [OF r(2) assms(1)]
    obtain u w2 where u: "UpdateRolloutStatus (ro_ID r) new w1 = (u, w2)" by (rule prod.exhaust)
    have "db_rollouts (w_db w2) = db_rollouts (w_db w)
        \<or> db_rollouts (w_db w2) = update_rows (\<lambda>x. ro_ID x = ro_ID r) (\<lambda>x. x\<lparr>ro_Status := new\<rparr>) (db_rollouts (w_db w))"
      using ExecRow_cases [of "update_rollouts (\<lambda>x. ro_ID x = ro_ID r) (\<lambda>x. x\<lparr>ro_Status := new\<rparr>)" w1] u
      unfolding UpdateRolloutStatus_def by (auto simp: d1 update_rollouts_def dest!: sym [of _ "w_db w2"])
    moreover have "list_all2 (\<lambda>x x'. x' = x \<or> ro_TenantID x = ctx_TenantID ctx
          \<and> (\<exists>s. x' = x\<lparr>ro_Status := s\<rparr> \<and> rollout_step (ro_Status x) s)) (db_rollouts (w_db w))
        (update_rows (\<lambda>x. ro_ID x = ro_ID r) (\<lambda>x. x\<lparr>ro_Status := new\<rparr>) (db_rollouts (w_db w)))"
    proof -
      have "x = r" if "x \<in> set (db_rollouts (w_db w))" "ro_ID x = ro_ID r" for x
        using distinct_key_eq [OF assms(2) that(1) row(1) that(2)] .
      then show ?thesis
        using row(2) step unfolding update_rows_def list_all2_map2 by (intro list.rel_refl_strong) auto
    qed
    ultimately have w2: "rollouts_moved (ctx_TenantID ctx) (w_db w) (w_db w2)"
      by (auto simp: rollouts_moved_def list_all2_refl)
    have "db_rollouts (w_db (LogAction t a ty ac rt ri m w2)) = db_rollouts (w_db w2)" for t a ty ac rt ri m
      using arg_cong [OF everything.LogAction_respects, where f = db_rollouts, of t a ty ac rt ri m w2] by simp
    then show ?thesis
      using w2 by (auto simp: RolloutsHandler_updateRolloutStatus_def f r u rollouts_moved_def split: sum.split)
  qed
qed

text \<open>C33: A rollout moves only along the edges of its state machine: a request to pause, resume or
  abort changes at most the status of a rollout of the caller's tenant, from in progress to paused
  and back or to aborted; an aborted or completed rollout never changes again.\<close>

theorem rollout_transitions:
  assumes "distinct (map ro_ID (db_rollouts (w_db w)))"
    and "w' \<in> {snd (RolloutsHandler_Pause ctx version w), snd (RolloutsHandler_Resume ctx version w),
               snd (RolloutsHandler_Abort ctx version w)}"
  shows "rollouts_moved (ctx_TenantID ctx) (w_db w) (w_db w')
    \<and> list_all2 (\<lambda>r r'. ro_Status r = RolloutStatusAborted \<or> ro_Status r = RolloutStatusCompleted \<longrightarrow> r' = r)
        (db_rollouts (w_db w)) (db_rollouts (w_db w'))"
proof -
  have m: "rollouts_moved (ctx_TenantID ctx) (w_db w) (w_db w')"
    using assms(2) update_status_moved [OF _ assms(1)]
    by (auto simp: RolloutsHandler_Pause_def RolloutsHandler_Resume_def RolloutsHandler_Abort_def)
  then have "list_all2 (\<lambda>r r'. ro_Status r = RolloutStatusAborted \<or> ro_Status r = RolloutStatusCompleted \<longrightarrow> r' = r)
        (db_rollouts (w_db w)) (db_rollouts (w_db w'))"
    unfolding rollouts_moved_def
    by (rule list_all2_mono) (auto elim: rollout_step.cases)
  with m show ?thesis by blast
qed

definition sample_rollout :: Rollout where
  "sample_rollout = \<lparr>ro_ID = ''ro1'', ro_AgentVersionID = ''v1'', ro_TenantID = ''t1'', ro_Status = RolloutStatusInProgress,
     ro_Strategy = ''gradual'', ro_BatchPercent = 10, ro_BatchIntervalMinutes = 60, ro_CurrentBatch = 0, ro_TotalDevices = 2,
     ro_UpdatedDevices = 0, ro_RolledBackDevices = 0, ro_Seed = 0, ro_LastBatchAt = None, ro_CreatedAt = 0\<rparr>"

definition sample_rollout_world :: world where
  "sample_rollout_world = (sample_world [])\<lparr>w_db := (sample_db [])\<lparr>db_rollouts := [sample_rollout],
     db_agent_versions := [\<lparr>av_id = ''v1'', av_version = ''1.0'', av_channel = ChannelStable, av_changelog = Some '''',
       av_yanked = True, av_yank_reason = Some ''x'', av_created_at = 0\<rparr>]\<rparr>\<rparr>"

theorem rollout_transitions_witness:
  "rollouts_moved (ctx_TenantID sample_caller) (w_db sample_rollout_world) (w_db (snd (RolloutsHandler_Pause sample_caller ''1.0'' sample_rollout_world)))
   \<and> db_rollouts (w_db (snd (RolloutsHandler_Pause sample_caller ''1.0'' sample_rollout_world)))
       = [sample_rollout\<lparr>ro_Status := RolloutStatusPaused\<rparr>]"
proof
  have d: "distinct (map ro_ID (db_rollouts (w_db sample_rollout_world)))"
    by (simp add: sample_rollout_world_def sample_world_def)
  show "rollouts_moved (ctx_TenantID sample_caller) (w_db sample_rollout_world) (w_db (snd (RolloutsHandler_Pause sample_caller ''1.0'' sample_rollout_world)))"
    using rollout_transitions [OF d, of _ sample_caller "''1.0''"] by blast
  have log: "db_rollouts (w_db (LogAction t a ty ac rt ri m w)) = db_rollouts (w_db w)" for t a ty ac rt ri m w
    using arg_cong [OF everything.LogAction_respects, where f = db_rollouts, of t a ty ac rt ri m w] by simp
  show "db_rollouts (w_db (snd (RolloutsHandler_Pause sample_caller ''1.0'' sample_rollout_world)))
       = [sample_rollout\<lparr>ro_Status := RolloutStatusPaused\<rparr>]"
    by (simp add: RolloutsHandler_Pause_def RolloutsHandler_updateRolloutStatus_def find_rollout_def GetAgentVersion_def
        load_version_def getVersionBinaries_def GetRollout_def get_row_def Query_no_fault select_row_def scan_version_def
        sample_rollout_world_def sample_world_def sample_rollout_def sample_caller_def sample_db_def rollout_conflict_def
        UpdateRolloutStatus_def ExecRow_def Exec_no_fault update_rollouts_def rows_affected_def log)
qed

definition sample_installer :: installer_row where
  "sample_installer = \<lparr>ins_id = ''i1'', ins_version = ''1.0'', ins_channel = ChannelStable, ins_os = ''linux'', ins_arch = ''amd64'',
     ins_file_id = ''f1'', ins_sha256 = ''ab'', ins_signature = ''s'', ins_signature_key_id = ''k'', ins_released_at = 0,
     ins_yanked = False, ins_yank_reason = None\<rparr>"

definition sample_installer_world :: world where
  "sample_installer_world = (sample_world [])\<lparr>w_db := (sample_db [])\<lparr>db_installers := [sample_installer],
     db_enrollment_tokens := [sample_token_row]\<rparr>\<rparr>"

definition sample_base :: base_request where
  "sample_base = \<lparr>br_TLS = True, br_ForwardedProto = '''', br_ForwardedHost = '''', br_Host = ''m.example''\<rparr>"

theorem install_script_sound_witness:
  "\<exists>w'. InstallScriptHandler_ServeInstallScript sample_base ''linux'' ''amd64'' ''secret'' sample_installer_world
      = (JSON StatusOK (''install-linux-amd64.sh'', generateLinuxScript (serverBaseURL sample_base) ''secret'' sample_installer), w')
    \<and> w_db w' = w_db sample_installer_world"
proof -
  obtain w' where r: "InstallScriptHandler_ServeInstallScript sample_base ''linux'' ''amd64'' ''secret'' sample_installer_world
      = (JSON StatusOK (''install-linux-amd64.sh'', generateLinuxScript (serverBaseURL sample_base) ''secret'' sample_installer), w')"
    by (simp add: InstallScriptHandler_ServeInstallScript_def isValidOS_def isValidArch_def Peek_def Now_def Query_no_fault
        sample_installer_world_def sample_world_def select_row_def sample_token_row_def token_usable_def token_result_def
        scan_token_def latestInstaller_def stable_installer_def sample_installer_def scriptExt_def Let_def)
  show ?thesis using install_script_sound [OF r] r by blast
qed

end
