(* ===== verification/Host.thy ===== *)
theory Host
  imports Prelude
begin

text \<open>The machine the agent runs on, as far as the agent's packages use it: its clock (\<open>time.Now\<close>), its
  random source (\<open>crypto/rand\<close>) and the outcomes of its file operations.  Files that hold one JSON document
  are values of \<open>'a json option\<close>, and files that hold one JSON document per line are lists of chunks, so that
  a torn write shows in what a later read returns.  The theory also has the pieces the two audit logs of
  the agent share (agent/cdm/audit.go and agent/localaudit/audit.go).\<close>

section \<open>Clock, random source and file operations\<close>

text \<open>How a file operation ends: as asked for, without touching the file, with only so many bytes written, or
  with all of the data written and an error all the same (for a line: without its line break).\<close>

datatype io_outcome = IODone | IORefused | IOTorn nat | IOLate

record host =
  h_clock :: "nat \<Rightarrow> time"
  h_ticks :: nat
  h_rand :: "nat \<Rightarrow> byte"
  h_drawn :: nat
  h_io :: "io_outcome list"

definition host_now :: "host \<Rightarrow> time \<times> host" where
  "host_now h = (h_clock h (h_ticks h), h\<lparr>h_ticks := Suc (h_ticks h)\<rparr>)"

definition host_rand :: "nat \<Rightarrow> host \<Rightarrow> byte list \<times> host" where
  "host_rand n h = (map (h_rand h) [h_drawn h..<h_drawn h + n], h\<lparr>h_drawn := h_drawn h + n\<rparr>)"

definition next_io :: "host \<Rightarrow> io_outcome \<times> host" where
  "next_io h = (case h_io h of [] \<Rightarrow> (IODone, h) | i # is \<Rightarrow> (i, h\<lparr>h_io := is\<rparr>))"

lemma next_io_clock [simp]: "h_clock (snd (next_io h)) = h_clock h" "h_ticks (snd (next_io h)) = h_ticks h"
  by (simp_all add: next_io_def split: list.split)

lemma next_io_no_fault [simp]: "h_io h = [] \<Longrightarrow> next_io h = (IODone, h)"
  by (simp add: next_io_def)

section \<open>Files that hold one document\<close>

text \<open>\<open>os.WriteFile\<close> truncates the file before it writes, so a torn write leaves what no decoder accepts.\<close>

definition write_doc :: "'a \<Rightarrow> 'a json option \<Rightarrow> host \<Rightarrow> bool \<times> 'a json option \<times> host" where
  "write_doc x old h =
    (case next_io h of
       (IODone, h1) \<Rightarrow> (True, Some (Doc x), h1)
     | (IORefused, h1) \<Rightarrow> (False, old, h1)
     | (IOTorn n, h1) \<Rightarrow> (False, Some Malformed, h1)
     | (IOLate, h1) \<Rightarrow> (False, Some (Doc x), h1))"

text \<open>Reading: the outer \<open>None\<close> is an error other than a missing file.\<close>

definition read_doc :: "'a json option \<Rightarrow> host \<Rightarrow> 'a json option option \<times> host" where
  "read_doc file h = (case next_io h of (IODone, h1) \<Rightarrow> (Some file, h1) | (_, h1) \<Rightarrow> (None, h1))"

section \<open>Files that hold one document per line\<close>

text \<open>The content of such a file: whole encodings, pieces of encodings and line breaks.  An encoding of
  \<open>encoding/json\<close> holds no raw line break, and neither a piece nor two encodings in one line decode.\<close>

datatype 'e chunk = Encoded 'e | Fragment | Newline

definition append_line :: "'e \<Rightarrow> 'e chunk list \<Rightarrow> host \<Rightarrow> 'e chunk list \<times> host" where
  "append_line e file h =
    (case next_io h of
       (IODone, h1) \<Rightarrow> (file @ [Encoded e, Newline], h1)
     | (IORefused, h1) \<Rightarrow> (file, h1)
     | (IOTorn n, h1) \<Rightarrow> (file @ [Fragment], h1)
     | (IOLate, h1) \<Rightarrow> (file @ [Encoded e], h1))"

text \<open>The loop of \<open>splitLines\<close>: the line read so far, and what follows.\<close>

fun split_from :: "'e chunk list \<Rightarrow> 'e chunk list \<Rightarrow> 'e chunk list list" where
  "split_from line [] = (if line = [] then [] else [line])"
| "split_from line (Newline # cs) = line # split_from [] cs"
| "split_from line (c # cs) = split_from (line @ [c]) cs"

definition splitLines :: "'e chunk list \<Rightarrow> 'e chunk list list" where
  "splitLines data = split_from [] data"

fun decode_line :: "'e chunk list \<Rightarrow> 'e option" where
  "decode_line [Encoded e] = Some e"
| "decode_line _ = None"

definition read_lines :: "int \<Rightarrow> 'e chunk list \<Rightarrow> 'e list" where
  "read_lines limit data =
    (let ls = filter (\<lambda>l. l \<noteq> []) (splitLines data);
         all = List.map_filter decode_line ls;
         kept = (if limit > 0 \<and> int (length all) > limit then drop (length all - nat limit) all else all) in
     rev kept)"

lemma split_from_lines:
  assumes "\<And>c. c \<in> set line \<Longrightarrow> c \<noteq> Newline"
  shows "split_from line (concat (map (\<lambda>e. [Encoded e, Newline]) es) @ cs) =
    (case es of [] \<Rightarrow> split_from line cs
      | e # es' \<Rightarrow> (line @ [Encoded e]) # map (\<lambda>e. [Encoded e]) es' @ split_from [] cs)"
  by (induction es arbitrary: line) (auto split: list.split)

lemma read_lines_whole:
  "read_lines limit (concat (map (\<lambda>e. [Encoded e, Newline]) es)) =
    rev (if limit > 0 \<and> int (length es) > limit then drop (length es - nat limit) es else es)"
proof -
  have "splitLines (concat (map (\<lambda>e. [Encoded e, Newline]) es)) = map (\<lambda>e. [Encoded e]) es"
    using split_from_lines [of "[]" es "[]"] by (cases es) (simp_all add: splitLines_def)
  moreover have "List.map_filter decode_line (map (\<lambda>e. [Encoded e]) es) = es"
    by (induction es) (simp_all add: List.map_filter_simps)
  moreover have "filter (\<lambda>l. l \<noteq> []) (map (\<lambda>e. [Encoded e]) es) = map (\<lambda>e. [Encoded e]) es"
    by (induction es) simp_all
  ultimately show ?thesis by (simp add: read_lines_def Let_def)
qed

end
