(* ===== verification/CDM.thy ===== *)
theory CDM
  imports Host
begin

text \<open>Customer device mode on the agent (agent/cdm/cdm.go and agent/cdm/audit.go): the manager's state with its
  file and audit log, every operation of the manager, and the machine they form together with restarts of
  the agent.  The mutex of the manager makes its operations atomic; they are functions of the manager and
  the host.\<close>

section \<open>State and audit log\<close>

record State =
  st_Enabled :: bool
  st_SessionActive :: bool
  st_SessionExpiresAt :: "time option"
  st_SessionGrantedBy :: string
  st_SessionGrantedAt :: "time option"

definition zero_State :: State where
  "zero_State = \<lparr>st_Enabled = False, st_SessionActive = False, st_SessionExpiresAt = None,
     st_SessionGrantedBy = '''', st_SessionGrantedAt = None\<rparr>"

text \<open>The field \<open>Duration\<close> holds the duration itself, where the code writes its text.\<close>

record CDMAuditEntry =
  cae_Timestamp :: time
  cae_Action :: string
  cae_Actor :: string
  cae_OldState :: string
  cae_NewState :: string
  cae_Duration :: "duration option"
  cae_ExpiresAt :: "time option"
  cae_JobID :: string
  cae_JobType :: string

definition cdm_entry :: "string \<Rightarrow> string \<Rightarrow> CDMAuditEntry" where
  "cdm_entry action actor = \<lparr>cae_Timestamp = 0, cae_Action = action, cae_Actor = actor, cae_OldState = '''',
     cae_NewState = '''', cae_Duration = None, cae_ExpiresAt = None, cae_JobID = '''', cae_JobType = ''''\<rparr>"

text \<open>The audit log is the content of its file; \<open>None\<close> is the nil logger.\<close>

record Manager =
  m_state :: State
  m_file :: "State json option"
  m_auditLog :: "CDMAuditEntry chunk list option"

definition AuditLog_Write :: "CDMAuditEntry \<Rightarrow> Manager \<Rightarrow> host \<Rightarrow> Manager \<times> host" where
  "AuditLog_Write entry m h =
    (case m_auditLog m of
       None \<Rightarrow> (m, h)
     | Some log \<Rightarrow>
       (case host_now h of (now, h1) \<Rightarrow>
         (case append_line (entry\<lparr>cae_Timestamp := now\<rparr>) log h1 of (log', h2) \<Rightarrow>
           (m\<lparr>m_auditLog := Some log'\<rparr>, h2))))"

definition AuditLog_LogJobExecution :: "id \<Rightarrow> string \<Rightarrow> string \<Rightarrow> Manager \<Rightarrow> host \<Rightarrow> Manager \<times> host" where
  "AuditLog_LogJobExecution jobID jobType actor =
     AuditLog_Write ((cdm_entry ''cdm.job.executed'' actor)\<lparr>cae_JobID := jobID, cae_JobType := jobType\<rparr>)"

text \<open>Reading: \<open>None\<close> is an error of the file.\<close>

definition AuditLog_Read :: "int \<Rightarrow> CDMAuditEntry chunk list \<Rightarrow> host \<Rightarrow> CDMAuditEntry list option \<times> host" where
  "AuditLog_Read limit log h =
    (case next_io h of (IODone, h1) \<Rightarrow> (Some (read_lines limit log), h1) | (_, h1) \<Rightarrow> (None, h1))"

section \<open>The manager\<close>

definition persistLocked :: "Manager \<Rightarrow> host \<Rightarrow> bool \<times> Manager \<times> host" where
  "persistLocked m h =
    (case write_doc (m_state m) (m_file m) h of (ok, file, h1) \<Rightarrow> (ok, m\<lparr>m_file := file\<rparr>, h1))"

definition end_session :: "State \<Rightarrow> State" where
  "end_session s = s\<lparr>st_SessionActive := False, st_SessionExpiresAt := None, st_SessionGrantedBy := '''',
     st_SessionGrantedAt := None\<rparr>"

definition checkExpiryLocked :: "Manager \<Rightarrow> host \<Rightarrow> Manager \<times> host" where
  "checkExpiryLocked m h =
    (if \<not> st_SessionActive (m_state m) then (m, h)
     else case st_SessionExpiresAt (m_state m) of
       None \<Rightarrow> (m, h)
     | Some expires \<Rightarrow>
       (case host_now h of (now, h1) \<Rightarrow>
         if now > expires then
           (case persistLocked (m\<lparr>m_state := end_session (m_state m)\<rparr>) h1 of (_, m1, h2) \<Rightarrow>
              AuditLog_Write (cdm_entry ''cdm.session.expired'' (st_SessionGrantedBy (m_state m))) m1 h2)
         else (m, h1)))"

definition Manager_Enabled :: "Manager \<Rightarrow> bool" where
  "Manager_Enabled m = st_Enabled (m_state m)"

definition Manager_SessionActive :: "Manager \<Rightarrow> host \<Rightarrow> bool \<times> Manager \<times> host" where
  "Manager_SessionActive m h =
    (case checkExpiryLocked m h of (m1, h1) \<Rightarrow> (st_SessionActive (m_state m1), m1, h1))"

definition Manager_SessionExpiresAt :: "Manager \<Rightarrow> time option" where
  "Manager_SessionExpiresAt m = st_SessionExpiresAt (m_state m)"

definition Manager_Snapshot :: "Manager \<Rightarrow> host \<Rightarrow> State \<times> Manager \<times> host" where
  "Manager_Snapshot m h = (case checkExpiryLocked m h of (m1, h1) \<Rightarrow> (m_state m1, m1, h1))"

definition Manager_CanExecuteJob :: "Manager \<Rightarrow> host \<Rightarrow> bool \<times> Manager \<times> host" where
  "Manager_CanExecuteJob m h =
    (case checkExpiryLocked m h of (m1, h1) \<Rightarrow>
      (if \<not> st_Enabled (m_state m1) then (True, m1, h1) else (st_SessionActive (m_state m1), m1, h1)))"

definition stateLabel :: "bool \<Rightarrow> bool \<Rightarrow> string" where
  "stateLabel enabled sessionActive =
    (if \<not> enabled then ''disabled'' else if sessionActive then ''enabled+session'' else ''enabled'')"

text \<open>An operation returns an error text, or none.\<close>

definition Manager_Enable :: "string \<Rightarrow> Manager \<Rightarrow> host \<Rightarrow> (string + unit) \<times> Manager \<times> host" where
  "Manager_Enable actor m h =
    (let old = st_Enabled (m_state m) in
     case persistLocked (m\<lparr>m_state := (m_state m)\<lparr>st_Enabled := True\<rparr>\<rparr>) h of
       (False, m1, h1) \<Rightarrow> (Inl ''write'', m1\<lparr>m_state := (m_state m1)\<lparr>st_Enabled := old\<rparr>\<rparr>, h1)
     | (True, m1, h1) \<Rightarrow>
       (if \<not> old then
          (case AuditLog_Write ((cdm_entry ''cdm.enable'' actor)\<lparr>cae_OldState := ''disabled'', cae_NewState := ''enabled''\<rparr>) m1 h1 of
             (m2, h2) \<Rightarrow> (Inr (), m2, h2))
        else (Inr (), m1, h1)))"

definition Manager_Disable :: "string \<Rightarrow> Manager \<Rightarrow> host \<Rightarrow> (string + unit) \<times> Manager \<times> host" where
  "Manager_Disable actor m h =
    (let old = st_Enabled (m_state m); hadSession = st_SessionActive (m_state m) in
     case persistLocked (m\<lparr>m_state := (end_session (m_state m))\<lparr>st_Enabled := False\<rparr>\<rparr>) h of
       (False, m1, h1) \<Rightarrow> (Inl ''write'', m1, h1)
     | (True, m1, h1) \<Rightarrow>
       (if old then
          (case AuditLog_Write ((cdm_entry ''cdm.disable'' actor)\<lparr>cae_OldState := stateLabel old hadSession,
               cae_NewState := ''disabled''\<rparr>) m1 h1 of
             (m2, h2) \<Rightarrow> (Inr (), m2, h2))
        else (Inr (), m1, h1)))"

definition Manager_GrantSession :: "string \<Rightarrow> duration \<Rightarrow> Manager \<Rightarrow> host \<Rightarrow> (string + unit) \<times> Manager \<times> host" where
  "Manager_GrantSession actor duration m h =
    (if \<not> st_Enabled (m_state m) then (Inl ''CDM is not enabled'', m, h)
     else case host_now h of (now, h1) \<Rightarrow>
       (let expires = now + duration in
        case persistLocked (m\<lparr>m_state := (m_state m)\<lparr>st_SessionActive := True, st_SessionExpiresAt := Some expires,
               st_SessionGrantedBy := actor, st_SessionGrantedAt := Some now\<rparr>\<rparr>) h1 of
          (False, m1, h2) \<Rightarrow> (Inl ''write'', m1, h2)
        | (True, m1, h2) \<Rightarrow>
          (case AuditLog_Write ((cdm_entry ''cdm.session.grant'' actor)\<lparr>cae_Duration := Some duration,
               cae_ExpiresAt := Some expires\<rparr>) m1 h2 of
             (m2, h3) \<Rightarrow> (Inr (), m2, h3))))"

definition Manager_RevokeSession :: "string \<Rightarrow> Manager \<Rightarrow> host \<Rightarrow> (string + unit) \<times> Manager \<times> host" where
  "Manager_RevokeSession actor m h =
    (if \<not> st_SessionActive (m_state m) then (Inl ''no active session to revoke'', m, h)
     else case persistLocked (m\<lparr>m_state := end_session (m_state m)\<rparr>) h of
       (False, m1, h1) \<Rightarrow> (Inl ''write'', m1, h1)
     | (True, m1, h1) \<Rightarrow>
       (case AuditLog_Write (cdm_entry ''cdm.session.revoke'' actor) m1 h1 of (m2, h2) \<Rightarrow> (Inr (), m2, h2)))"

text \<open>\<open>None\<close> is the error that keeps the agent from starting.\<close>

definition Manager_New ::
  "State json option \<Rightarrow> CDMAuditEntry chunk list option \<Rightarrow> host \<Rightarrow> Manager option \<times> host" where
  "Manager_New file auditLog h =
    (case read_doc file h of
       (None, h1) \<Rightarrow> (None, h1)
     | (Some (Some Malformed), h1) \<Rightarrow> (None, h1)
     | (Some (Some (Doc s)), h1) \<Rightarrow>
         (case checkExpiryLocked \<lparr>m_state = s, m_file = file, m_auditLog = auditLog\<rparr> h1 of (m, h2) \<Rightarrow> (Some m, h2))
     | (Some None, h1) \<Rightarrow>
         (case checkExpiryLocked \<lparr>m_state = zero_State, m_file = file, m_auditLog = auditLog\<rparr> h1 of (m, h2) \<Rightarrow> (Some m, h2)))"

section \<open>The machine\<close>

text \<open>A run of the agent's customer device mode, under any outcomes of the file operations and with any time
  passing between the operations.  The list holds the grants since the last revocation or switching off
  that was reported as done.\<close>

inductive cdm_reach :: "(time \<times> duration) list \<Rightarrow> Manager \<Rightarrow> host \<Rightarrow> bool" where
  start: "Manager_New None log h = (Some m, h') \<Longrightarrow> cdm_reach [] m h'"
| restart: "cdm_reach G m h \<Longrightarrow> Manager_New (m_file m) (m_auditLog m) h = (Some m', h') \<Longrightarrow> cdm_reach G m' h'"
| enable: "cdm_reach G m h \<Longrightarrow> Manager_Enable actor m h = (r, m', h') \<Longrightarrow> cdm_reach G m' h'"
| disable: "cdm_reach G m h \<Longrightarrow> Manager_Disable actor m h = (r, m', h') \<Longrightarrow>
    cdm_reach (if r = Inr () then [] else G) m' h'"
| grant: "cdm_reach G m h \<Longrightarrow> Manager_GrantSession actor d m h = (r, m', h') \<Longrightarrow>
    cdm_reach (if st_Enabled (m_state m) then (fst (host_now h), d) # G else G) m' h'"
| revoke: "cdm_reach G m h \<Longrightarrow> Manager_RevokeSession actor m h = (r, m', h') \<Longrightarrow>
    cdm_reach (if r = Inr () then [] else G) m' h'"
| expire: "cdm_reach G m h \<Longrightarrow> checkExpiryLocked m h = (m', h') \<Longrightarrow> cdm_reach G m' h'"
| job: "cdm_reach G m h \<Longrightarrow> AuditLog_LogJobExecution jobID jobType actor m h = (m', h') \<Longrightarrow> cdm_reach G m' h'"
| elapse: "cdm_reach G m h \<Longrightarrow> cdm_reach G m h'"

definition state_ok :: "(time \<times> duration) list \<Rightarrow> State \<Rightarrow> bool" where
  "state_ok G s =
    (if st_SessionActive s
     then st_Enabled s \<and> (\<exists>(t, d) \<in> set G. st_SessionGrantedAt s = Some t \<and> st_SessionExpiresAt s = Some (t + d))
     else st_SessionExpiresAt s = None \<and> st_SessionGrantedBy s = '''' \<and> st_SessionGrantedAt s = None)"

definition file_ok :: "(time \<times> duration) list \<Rightarrow> Manager \<Rightarrow> bool" where
  "file_ok G m = (\<forall>s. m_file m = Some (Doc s) \<longrightarrow> state_ok G s)"

definition manager_ok :: "(time \<times> duration) list \<Rightarrow> Manager \<Rightarrow> bool" where
  "manager_ok G m = (state_ok G (m_state m) \<and> file_ok G m)"

lemma file_ok_state [simp]: "file_ok G (m\<lparr>m_state := s\<rparr>) = file_ok G m"
  by (simp add: file_ok_def)

lemma state_ok_mono: "state_ok G s \<Longrightarrow> set G \<subseteq> set G' \<Longrightarrow> state_ok G' s"
  by (auto simp: state_ok_def split: if_splits)

lemma manager_ok_mono: "manager_ok G m \<Longrightarrow> set G \<subseteq> set G' \<Longrightarrow> manager_ok G' m"
  by (auto simp: manager_ok_def file_ok_def intro: state_ok_mono)

lemma state_ok_ended [simp]: "state_ok G (end_session s)" "state_ok G ((end_session s)\<lparr>st_Enabled := b\<rparr>)"
  by (simp_all add: state_ok_def end_session_def)

lemma state_ok_zero [simp]: "state_ok G zero_State"
  by (simp add: state_ok_def zero_State_def)

lemma persist_ok:
  assumes "persistLocked m h = (ok, m', h')" and "state_ok G (m_state m)" and "file_ok G m"
  shows "m_state m' = m_state m \<and> manager_ok G m'"
  using assms by (auto simp: persistLocked_def write_doc_def manager_ok_def file_ok_def split: prod.splits io_outcome.splits)

lemma persist_done:
  "persistLocked m h = (True, m', h') \<Longrightarrow> m_state m' = m_state m \<and> m_file m' = Some (Doc (m_state m))"
  by (auto simp: persistLocked_def write_doc_def split: prod.splits io_outcome.splits)

lemma AuditLog_Write_state:
  "AuditLog_Write e m h = (m', h') \<Longrightarrow> m_state m' = m_state m \<and> m_file m' = m_file m"
  by (auto simp: AuditLog_Write_def split: option.splits prod.splits)

lemma AuditLog_Write_ok [simp]: "manager_ok G (fst (AuditLog_Write e m h)) = manager_ok G m"
  using AuditLog_Write_state [of e m h "fst (AuditLog_Write e m h)" "snd (AuditLog_Write e m h)"]
  by (simp add: manager_ok_def file_ok_def)

lemma AuditLog_Write_eq: "AuditLog_Write e m h = (m', h') \<Longrightarrow> manager_ok G m' = manager_ok G m"
  by (metis AuditLog_Write_ok fst_conv)

lemma checkExpiry_ok:
  assumes "checkExpiryLocked m h = (m', h')" and "manager_ok G m"
  shows "manager_ok G m'"
proof -
  obtain now h1 where n: "host_now h = (now, h1)" by (rule prod.exhaust)
  obtain ok m1 h2 where p: "persistLocked (m\<lparr>m_state := end_session (m_state m)\<rparr>) h1 = (ok, m1, h2)"
    by (metis prod_cases3)
  have "manager_ok G m1" using persist_ok [OF p, of G] assms(2) by (simp add: manager_ok_def)
  then show ?thesis using assms unfolding checkExpiryLocked_def
    by (auto simp: n p AuditLog_Write_eq [of _ m1 _ m'] split: if_splits option.splits)
qed

lemma New_ok:
  assumes "Manager_New file log h = (Some m, h')" and "\<And>s. file = Some (Doc s) \<Longrightarrow> state_ok G s"
  shows "manager_ok G m"
proof -
  have "manager_ok G \<lparr>m_state = s, m_file = file, m_auditLog = log\<rparr>"
    if "s = zero_State \<or> file = Some (Doc s)" for s
    using that assms(2) by (auto simp: manager_ok_def file_ok_def)
  then have c: "manager_ok G m" if "s = zero_State \<or> file = Some (Doc s)"
    and "checkExpiryLocked \<lparr>m_state = s, m_file = file, m_auditLog = log\<rparr> h1 = (m, h')" for s h1
    using that checkExpiry_ok by blast
  obtain f h1 where "read_doc file h = (f, h1)" and "f = None \<or> f = Some file"
    by (cases "next_io h"; cases "fst (next_io h)") (auto simp: read_doc_def)
  then show ?thesis using assms(1) c
    by (auto simp: Manager_New_def split: prod.splits option.splits json.splits)
qed

lemma Enable_ok:
  assumes "Manager_Enable actor m h = (r, m', h')" and "manager_ok G m"
  shows "manager_ok G m'"
proof -
  obtain ok m1 h1 where p: "persistLocked (m\<lparr>m_state := (m_state m)\<lparr>st_Enabled := True\<rparr>\<rparr>) h = (ok, m1, h1)"
    by (metis prod_cases3)
  have s: "state_ok G ((m_state m)\<lparr>st_Enabled := True\<rparr>)" "state_ok G (m_state m)"
    using assms(2) by (auto simp: manager_ok_def state_ok_def split: if_splits)
  have "m_state m1 = (m_state m)\<lparr>st_Enabled := True\<rparr> \<and> manager_ok G m1"
    using persist_ok [OF p, of G] s assms(2) by (simp add: manager_ok_def)
  then have m1: "manager_ok G m1" "(m_state m1)\<lparr>st_Enabled := st_Enabled (m_state m)\<rparr> = m_state m" by simp_all
  have "manager_ok G (m1\<lparr>m_state := m_state m\<rparr>)" using m1(1) s(2) by (simp add: manager_ok_def)
  then show ?thesis using assms(1) m1
    by (auto simp: Manager_Enable_def Let_def p AuditLog_Write_eq [of _ m1 _ m'] split: bool.splits if_splits prod.splits)
qed

lemma Disable_ok:
  assumes "Manager_Disable actor m h = (r, m', h')" and "manager_ok G m"
  shows "manager_ok (if r = Inr () then [] else G) m'"
proof -
  let ?m = "m\<lparr>m_state := (end_session (m_state m))\<lparr>st_Enabled := False\<rparr>\<rparr>"
  obtain ok m1 h1 where p: "persistLocked ?m h = (ok, m1, h1)" by (metis prod_cases3)
  have m1: "manager_ok G m1" using persist_ok [OF p, of G] assms(2) by (simp add: manager_ok_def)
  have "manager_ok [] m1" if ok
    using persist_done [of ?m h m1 h1] p that by (simp add: manager_ok_def file_ok_def)
  then show ?thesis using assms(1) m1
    by (auto simp: Manager_Disable_def Let_def p AuditLog_Write_eq [of _ m1 _ m'] split: bool.splits if_splits prod.splits)
qed

lemma Grant_ok:
  assumes "Manager_GrantSession actor d m h = (r, m', h')" and "manager_ok G m"
  shows "manager_ok (if st_Enabled (m_state m) then (fst (host_now h), d) # G else G) m'"
proof (cases "st_Enabled (m_state m)")
  case True
  obtain now h1 where n: "host_now h = (now, h1)" by (rule prod.exhaust)
  let ?s = "(m_state m)\<lparr>st_SessionActive := True, st_SessionExpiresAt := Some (now + d),
               st_SessionGrantedBy := actor, st_SessionGrantedAt := Some now\<rparr>"
  obtain ok m1 h2 where p: "persistLocked (m\<lparr>m_state := ?s\<rparr>) h1 = (ok, m1, h2)" by (metis prod_cases3)
  have s: "state_ok ((now, d) # G) ?s" using True by (simp add: state_ok_def)
  have "file_ok ((now, d) # G) m" using manager_ok_mono [OF assms(2), of "(now, d) # G"] by (auto simp: manager_ok_def)
  then have m1: "manager_ok ((now, d) # G) m1"
    using persist_ok [OF p, of "(now, d) # G"] s by simp
  show ?thesis using assms(1) m1 True
    by (auto simp: Manager_GrantSession_def Let_def n p AuditLog_Write_eq [of _ m1 _ m'] split: bool.splits if_splits prod.splits)
qed (use assms in \<open>simp add: Manager_GrantSession_def\<close>)

lemma Revoke_ok:
  assumes "Manager_RevokeSession actor m h = (r, m', h')" and "manager_ok G m"
  shows "manager_ok (if r = Inr () then [] else G) m'"
proof -
  let ?m = "m\<lparr>m_state := end_session (m_state m)\<rparr>"
  obtain ok m1 h1 where p: "persistLocked ?m h = (ok, m1, h1)" by (metis prod_cases3)
  have m1: "manager_ok G m1" using persist_ok [OF p, of G] assms(2) by (simp add: manager_ok_def)
  have "manager_ok [] m1" if ok
    using persist_done [of ?m h m1 h1] p that by (simp add: manager_ok_def file_ok_def)
  then show ?thesis using assms m1
    by (auto simp: Manager_RevokeSession_def p AuditLog_Write_eq [of _ m1 _ m'] split: bool.splits if_splits prod.splits)
qed

lemma cdm_reach_ok: "cdm_reach G m h \<Longrightarrow> manager_ok G m"
proof (induction rule: cdm_reach.induct)
  case (restart G m h m' h')
  then show ?case by (intro New_ok [OF restart(2)]) (auto simp: manager_ok_def file_ok_def)
next
  case (start log h m h')
  then show ?case by (intro New_ok [OF start]) simp
next
  case (enable G m h actor r m' h')
  then show ?case using Enable_ok by blast
next
  case (disable G m h actor r m' h')
  then show ?case using Disable_ok by blast
next
  case (grant G m h actor d r m' h')
  then show ?case using Grant_ok by blast
next
  case (revoke G m h actor r m' h')
  then show ?case using Revoke_ok by blast
next
  case (expire G m h m' h')
  then show ?case using checkExpiry_ok by blast
next
  case (job G m h jobID jobType actor m' h')
  then show ?case unfolding AuditLog_LogJobExecution_def by (metis AuditLog_Write_ok fst_conv)
qed

section \<open>The gate\<close>

lemma gate_exact:
  assumes "manager_ok G m"
  shows "fst (Manager_CanExecuteJob m h) \<longleftrightarrow>
    \<not> st_Enabled (m_state m) \<or> (\<exists>e. st_SessionActive (m_state m) \<and> st_SessionExpiresAt (m_state m) = Some e \<and> h_clock h (h_ticks h) \<le> e)"
proof -
  have s: "state_ok G (m_state m)" using assms by (simp add: manager_ok_def)
  have w: "m_state (fst (AuditLog_Write e m1 h2)) = m_state m1" for e m1 h2
    using AuditLog_Write_state [of e m1 h2 "fst (AuditLog_Write e m1 h2)" "snd (AuditLog_Write e m1 h2)"] by simp
  have p: "m_state (fst (snd (persistLocked m1 h2))) = m_state m1" for m1 h2
    by (simp add: persistLocked_def case_prod_beta)
  have "m_state (fst (checkExpiryLocked m h)) =
    (case st_SessionExpiresAt (m_state m) of
       Some e \<Rightarrow> if st_SessionActive (m_state m) \<and> h_clock h (h_ticks h) > e then end_session (m_state m) else m_state m
     | None \<Rightarrow> m_state m)"
    by (simp add: checkExpiryLocked_def host_now_def case_prod_beta w p split: option.split)
  then show ?thesis using s
    by (auto simp: Manager_CanExecuteJob_def case_prod_beta state_ok_def end_session_def split: option.splits if_splits)
qed

lemma cdm_gate_open:
  assumes "cdm_reach G m h"
  shows "fst (Manager_CanExecuteJob m h) \<longleftrightarrow>
    \<not> Manager_Enabled m \<or> (\<exists>(t, d) \<in> set G. st_SessionActive (m_state m) \<and> st_SessionGrantedAt (m_state m) = Some t
      \<and> st_SessionExpiresAt (m_state m) = Some (t + d) \<and> h_clock h (h_ticks h) \<le> t + d)"
proof -
  have ok: "manager_ok G m" using assms by (rule cdm_reach_ok)
  then have "st_SessionActive (m_state m) \<Longrightarrow>
      \<exists>(t, d) \<in> set G. st_SessionGrantedAt (m_state m) = Some t \<and> st_SessionExpiresAt (m_state m) = Some (t + d)"
    by (simp add: manager_ok_def state_ok_def)
  then show ?thesis unfolding gate_exact [OF ok] Manager_Enabled_def by fastforce
qed


definition sample_host :: host where
  "sample_host = \<lparr>h_clock = (\<lambda>n. int n * Second), h_ticks = 0, h_rand = (\<lambda>n. of_nat n), h_drawn = 0, h_io = []\<rparr>"

definition sample_enabled :: Manager where
  "sample_enabled = \<lparr>m_state = zero_State\<lparr>st_Enabled := True\<rparr>, m_file = Some (Doc (zero_State\<lparr>st_Enabled := True\<rparr>)), m_auditLog = None\<rparr>"

definition sample_session :: State where
  "sample_session = \<lparr>st_Enabled = True, st_SessionActive = True, st_SessionExpiresAt = Some (10 * Second),
     st_SessionGrantedBy = ''u'', st_SessionGrantedAt = Some 0\<rparr>"

lemma sample_enabled_reach: "cdm_reach [] sample_enabled sample_host"
proof -
  let ?m = "\<lparr>m_state = zero_State, m_file = None, m_auditLog = None\<rparr>"
  have "cdm_reach [] ?m sample_host"
    by (rule cdm_reach.start [of None sample_host])
       (simp add: Manager_New_def read_doc_def sample_host_def checkExpiryLocked_def zero_State_def)
  from cdm_reach.enable [OF this, of "''u''"] show ?thesis
    by (simp add: Manager_Enable_def persistLocked_def write_doc_def sample_host_def AuditLog_Write_def sample_enabled_def Let_def
        zero_State_def)
qed

lemma sample_granted:
  "Manager_GrantSession ''u'' (10 * Second) sample_enabled sample_host =
     (Inr (), \<lparr>m_state = sample_session, m_file = Some (Doc sample_session), m_auditLog = None\<rparr>, sample_host\<lparr>h_ticks := 1\<rparr>)"
  by (simp add: Manager_GrantSession_def sample_enabled_def zero_State_def host_now_def sample_host_def persistLocked_def
      write_doc_def AuditLog_Write_def Let_def sample_session_def)


text \<open>A grant whose state cannot be written is reported as failed and opens the gate all the same, and a
  revocation whose state cannot be written is undone by the next start of the agent.\<close>

lemma failed_grant_opens:
  "Manager_GrantSession ''u'' (10 * Second) sample_enabled (sample_host\<lparr>h_io := [IORefused]\<rparr>) = (Inl ''write'', m', h')
    \<Longrightarrow> fst (Manager_CanExecuteJob m' h')"
  by (auto simp: Manager_GrantSession_def sample_enabled_def zero_State_def host_now_def sample_host_def persistLocked_def
      write_doc_def next_io_def Let_def Manager_CanExecuteJob_def checkExpiryLocked_def)

lemma failed_revoke_resurrects:
  fixes m :: Manager
  defines "m \<equiv> \<lparr>m_state = sample_session, m_file = Some (Doc sample_session), m_auditLog = None\<rparr>"
  assumes "Manager_RevokeSession ''u'' m (sample_host\<lparr>h_io := [IORefused]\<rparr>) = (r, m1, h1)"
  shows "\<not> fst (Manager_CanExecuteJob m1 h1)
    \<and> (case Manager_New (m_file m1) (m_auditLog m1) h1 of
         (Some m2, h2) \<Rightarrow> fst (Manager_CanExecuteJob m2 h2)
       | (None, _) \<Rightarrow> False)"
  using assms(2)
  by (auto simp: m_def Manager_RevokeSession_def sample_session_def end_session_def host_now_def sample_host_def persistLocked_def
      write_doc_def next_io_def Manager_CanExecuteJob_def checkExpiryLocked_def Manager_New_def read_doc_def)

text \<open>A torn write of the state keeps the agent from starting.\<close>

lemma torn_state_blocks_start:
  "Manager_Enable ''u'' m (sample_host\<lparr>h_io := [IOTorn n]\<rparr>) = (r, m', h') \<Longrightarrow> fst (Manager_New (m_file m') log h'') = None"
  by (auto simp: Manager_Enable_def Let_def persistLocked_def write_doc_def next_io_def sample_host_def Manager_New_def read_doc_def
      split: prod.splits io_outcome.splits)

end
