(* ===== verification/Sessions.thy ===== *)
theory Sessions
  imports Host
begin

text \<open>Sessions of the agent's local interfaces (agent/localauth/session.go) and the local audit log
  (agent/localaudit/audit.go).  The session manager refines a store that never forgets: there a session is
  alive by its type, its creation and its last use, and the periodic clean-up does nothing.\<close>

section \<open>The session manager\<close>

datatype SessionType = SessionCLI | SessionWeb

definition cliIdleTimeout :: duration where "cliIdleTimeout = 15 * Minute"

definition webIdleTimeout :: duration where "webIdleTimeout = 30 * Minute"

definition webMaxLifetime :: duration where "webMaxLifetime = 8 * Hour"

definition tokenBytes :: nat where "tokenBytes = 32"

record Session =
  se_Token :: string
  se_Username :: string
  se_Type :: SessionType
  se_CreatedAt :: time
  se_LastUsed :: time
  se_ExpiresAt :: time

type_synonym SessionManager = "string \<rightharpoonup> Session"

definition NewSessionManager :: SessionManager where
  "NewSessionManager = Map.empty"

definition generateToken :: "host \<Rightarrow> string \<times> host" where
  "generateToken h = (case host_rand tokenBytes h of (b, h1) \<Rightarrow> (hex_encode b, h1))"

definition SessionManager_Create ::
  "string \<Rightarrow> SessionType \<Rightarrow> SessionManager \<Rightarrow> host \<Rightarrow> Session \<times> SessionManager \<times> host" where
  "SessionManager_Create username ty sm h =
    (case generateToken h of (token, h1) \<Rightarrow>
      (case host_now h1 of (now, h2) \<Rightarrow>
        (let s = \<lparr>se_Token = token, se_Username = username, se_Type = ty, se_CreatedAt = now, se_LastUsed = now,
                 se_ExpiresAt = (case ty of SessionCLI \<Rightarrow> now + cliIdleTimeout | SessionWeb \<Rightarrow> now + webMaxLifetime)\<rparr> in
         (s, sm(token \<mapsto> s), h2))))"

definition idle_timeout :: "SessionType \<Rightarrow> duration" where
  "idle_timeout ty = (case ty of SessionCLI \<Rightarrow> cliIdleTimeout | SessionWeb \<Rightarrow> webIdleTimeout)"

definition SessionManager_Validate ::
  "string \<Rightarrow> SessionManager \<Rightarrow> host \<Rightarrow> (string + Session) \<times> SessionManager \<times> host" where
  "SessionManager_Validate token sm h =
    (case sm token of
       None \<Rightarrow> (Inl ''unknown session token'', sm, h)
     | Some s \<Rightarrow>
       (case host_now h of (now, h1) \<Rightarrow>
         if now > se_ExpiresAt s then (Inl ''session expired'', sm(token := None), h1)
         else if now - se_LastUsed s > idle_timeout (se_Type s) then (Inl ''session idle timeout'', sm(token := None), h1)
         else let s1 = s\<lparr>se_LastUsed := now\<rparr>;
                  s2 = (if se_Type s = SessionCLI then s1\<lparr>se_ExpiresAt := now + cliIdleTimeout\<rparr> else s1) in
              (Inr s2, sm(token \<mapsto> s2), h1)))"

definition SessionManager_Revoke :: "string \<Rightarrow> SessionManager \<Rightarrow> SessionManager" where
  "SessionManager_Revoke token sm = sm(token := None)"

definition SessionManager_RevokeAll :: "SessionManager \<Rightarrow> SessionManager" where
  "SessionManager_RevokeAll sm = Map.empty"

definition SessionManager_Cleanup :: "SessionManager \<Rightarrow> host \<Rightarrow> SessionManager \<times> host" where
  "SessionManager_Cleanup sm h =
    (case host_now h of (now, h1) \<Rightarrow>
      ((\<lambda>token. case sm token of
          None \<Rightarrow> None
        | Some s \<Rightarrow> if now > se_ExpiresAt s \<or> now - se_LastUsed s > idle_timeout (se_Type s) then None else Some s), h1))"

section \<open>What the sessions promise\<close>

record spec_session =
  ss_Username :: string
  ss_Type :: SessionType
  ss_CreatedAt :: time
  ss_LastUsed :: time

definition alive :: "time \<Rightarrow> spec_session \<Rightarrow> bool" where
  "alive now a = (case ss_Type a of
       SessionCLI \<Rightarrow> now \<le> ss_LastUsed a + 15 * Minute
     | SessionWeb \<Rightarrow> now \<le> ss_LastUsed a + 30 * Minute \<and> now \<le> ss_CreatedAt a + 8 * Hour)"

datatype session_op = Create string SessionType | Validate string | Revoke string | RevokeAll | Cleanup

datatype session_result = Created string | Accepted string | Rejected | Unit

definition spec_op ::
  "session_op \<Rightarrow> string \<Rightarrow> time \<Rightarrow> (string \<rightharpoonup> spec_session) \<Rightarrow> session_result \<times> (string \<rightharpoonup> spec_session)" where
  "spec_op op new now A = (case op of
       Create username ty \<Rightarrow>
         (Created new, A(new \<mapsto> \<lparr>ss_Username = username, ss_Type = ty, ss_CreatedAt = now, ss_LastUsed = now\<rparr>))
     | Validate token \<Rightarrow>
         (case A token of
            Some a \<Rightarrow> if alive now a then (Accepted (ss_Username a), A(token \<mapsto> a\<lparr>ss_LastUsed := now\<rparr>)) else (Rejected, A)
          | None \<Rightarrow> (Rejected, A))
     | Revoke token \<Rightarrow> (Unit, A(token := None))
     | RevokeAll \<Rightarrow> (Unit, Map.empty)
     | Cleanup \<Rightarrow> (Unit, A))"

definition impl_op :: "session_op \<Rightarrow> host \<Rightarrow> SessionManager \<Rightarrow> session_result \<times> SessionManager" where
  "impl_op op h sm = (case op of
       Create username ty \<Rightarrow> (case SessionManager_Create username ty sm h of (s, sm1, _) \<Rightarrow> (Created (se_Token s), sm1))
     | Validate token \<Rightarrow>
         (case SessionManager_Validate token sm h of
            (Inr s, sm1, _) \<Rightarrow> (Accepted (se_Username s), sm1)
          | (Inl _, sm1, _) \<Rightarrow> (Rejected, sm1))
     | Revoke token \<Rightarrow> (Unit, SessionManager_Revoke token sm)
     | RevokeAll \<Rightarrow> (Unit, SessionManager_RevokeAll sm)
     | Cleanup \<Rightarrow> (Unit, fst (SessionManager_Cleanup sm h)))"

text \<open>A run: each operation with the host as it finds it.\<close>

fun run_impl :: "(host \<times> session_op) list \<Rightarrow> SessionManager \<Rightarrow> session_result list" where
  "run_impl [] sm = []"
| "run_impl ((h, op) # tr) sm = (case impl_op op h sm of (r, sm1) \<Rightarrow> r # run_impl tr sm1)"

definition host_time :: "host \<Rightarrow> time" where
  "host_time h = h_clock h (h_ticks h)"

fun run_spec :: "(host \<times> session_op) list \<Rightarrow> (string \<rightharpoonup> spec_session) \<Rightarrow> session_result list" where
  "run_spec [] A = []"
| "run_spec ((h, op) # tr) A =
    (case spec_op op (fst (generateToken h)) (host_time h) A of (r, A1) \<Rightarrow> r # run_spec tr A1)"

definition abs_session :: "Session \<Rightarrow> spec_session" where
  "abs_session s = \<lparr>ss_Username = se_Username s, ss_Type = se_Type s, ss_CreatedAt = se_CreatedAt s, ss_LastUsed = se_LastUsed s\<rparr>"

definition expiry_ok :: "Session \<Rightarrow> bool" where
  "expiry_ok s = (se_ExpiresAt s = (case se_Type s of
       SessionCLI \<Rightarrow> se_LastUsed s + cliIdleTimeout | SessionWeb \<Rightarrow> se_CreatedAt s + webMaxLifetime))"

text \<open>The manager holds the sessions of the store, except for some that are dead.\<close>

fun related :: "time \<Rightarrow> Session option \<Rightarrow> spec_session option \<Rightarrow> bool" where
  "related now (Some s) a = (a = Some (abs_session s) \<and> expiry_ok s)"
| "related now None (Some a) = (\<not> alive now a)"
| "related now None None = True"

definition simulates :: "time \<Rightarrow> SessionManager \<Rightarrow> (string \<rightharpoonup> spec_session) \<Rightarrow> bool" where
  "simulates now sm A = (\<forall>token. related now (sm token) (A token))"

lemma related_later: "related t s a \<Longrightarrow> t \<le> now \<Longrightarrow> related now s a"
  by (cases "(t, s, a)" rule: related.cases) (auto simp: alive_def split: SessionType.splits)

lemma simulates_later: "simulates t sm A \<Longrightarrow> t \<le> now \<Longrightarrow> simulates now sm A"
  unfolding simulates_def using related_later by blast

lemma alive_abs:
  "expiry_ok s \<Longrightarrow> alive now (abs_session s) \<longleftrightarrow> \<not> now > se_ExpiresAt s \<and> \<not> now - se_LastUsed s > idle_timeout (se_Type s)"
  by (cases "se_Type s")
     (auto simp: expiry_ok_def alive_def abs_session_def idle_timeout_def cliIdleTimeout_def webIdleTimeout_def webMaxLifetime_def)

lemma generateToken_time [simp]: "host_time (snd (generateToken h)) = host_time h"
  by (simp add: generateToken_def host_rand_def host_time_def)

lemma simulates_at:
  assumes "simulates now sm A"
  obtains s where "sm token = Some s" "A token = Some (abs_session s)" "expiry_ok s"
  | "sm token = None" "\<And>a. A token = Some a \<Longrightarrow> \<not> alive now a"
proof -
  have r: "related now (sm token) (A token)" using assms by (simp add: simulates_def)
  show thesis
  proof (cases "sm token")
    case None
    show thesis by (rule that(2)) (use r None in simp_all)
  next
    case (Some s)
    show thesis using that(1) [of s] r Some by simp
  qed
qed

lemma simulates_upd:
  "simulates now sm A \<Longrightarrow> expiry_ok s \<Longrightarrow> simulates now (sm(token \<mapsto> s)) (A(token \<mapsto> abs_session s))"
  by (simp add: simulates_def)

lemma simulates_del:
  "simulates now sm A \<Longrightarrow> simulates now (sm(token := None)) (A(token := None))"
  by (simp add: simulates_def)

lemma simulates_drop:
  "simulates now sm A \<Longrightarrow> (\<And>a. A token = Some a \<Longrightarrow> \<not> alive now a) \<Longrightarrow> simulates now (sm(token := None)) A"
  by (cases "A token") (auto simp: simulates_def)

lemma create_simulates:
  assumes "simulates (host_time h) sm A" and "spec_op (Create username ty) (fst (generateToken h)) (host_time h) A = (r, A')"
  shows "fst (impl_op (Create username ty) h sm) = r \<and> simulates (host_time h) (snd (impl_op (Create username ty) h sm)) A'"
proof -
  obtain token h1 where g: "generateToken h = (token, h1)" by (rule prod.exhaust)
  have t: "h_clock h1 (h_ticks h1) = host_time h" using generateToken_time [of h] by (simp add: g host_time_def)
  let ?s = "\<lparr>se_Token = token, se_Username = username, se_Type = ty, se_CreatedAt = host_time h, se_LastUsed = host_time h,
      se_ExpiresAt = (case ty of SessionCLI \<Rightarrow> host_time h + cliIdleTimeout | SessionWeb \<Rightarrow> host_time h + webMaxLifetime)\<rparr>"
  have "expiry_ok ?s" by (simp add: expiry_ok_def split: SessionType.split)
  from simulates_upd [OF assms(1) this, of token] assms(2) show ?thesis
    by (cases ty) (auto simp: spec_op_def impl_op_def SessionManager_Create_def g host_now_def t Let_def abs_session_def)
qed

lemma validate_simulates:
  assumes "simulates (host_time h) sm A" and "spec_op (Validate token) new (host_time h) A = (r, A')"
  shows "fst (impl_op (Validate token) h sm) = r \<and> simulates (host_time h) (snd (impl_op (Validate token) h sm)) A'"
proof (cases rule: simulates_at [OF assms(1), of token, case_names live dead])
  case dead
  then have "r = Rejected \<and> A' = A" using assms(2) by (auto simp: spec_op_def split: option.splits)
  then show ?thesis using dead assms(1) by (simp add: impl_op_def SessionManager_Validate_def)
next
  case (live s)
  show ?thesis
  proof (cases "alive (host_time h) (abs_session s)")
    case True
    let ?s1 = "s\<lparr>se_LastUsed := host_time h\<rparr>"
    let ?s = "if se_Type s = SessionCLI then ?s1\<lparr>se_ExpiresAt := host_time h + cliIdleTimeout\<rparr> else ?s1"
    have e: "expiry_ok ?s" using live(3) by (cases "se_Type s") (simp_all add: expiry_ok_def)
    have a: "abs_session ?s = (abs_session s)\<lparr>ss_LastUsed := host_time h\<rparr>" by (simp add: abs_session_def)
    have "impl_op (Validate token) h sm = (Accepted (se_Username s), sm(token \<mapsto> ?s))"
      using True live alive_abs [OF live(3), of "host_time h"]
      by (simp add: impl_op_def SessionManager_Validate_def host_now_def host_time_def Let_def)
    then show ?thesis using assms(2) live True simulates_upd [OF assms(1) e, of token]
      by (auto simp: spec_op_def a) (simp_all add: abs_session_def)
  next
    case False
    then have "impl_op (Validate token) h sm = (Rejected, sm(token := None))"
      using live alive_abs [OF live(3), of "host_time h"]
      by (auto simp: impl_op_def SessionManager_Validate_def host_now_def host_time_def Let_def)
    then show ?thesis using assms(2) live False simulates_drop [OF assms(1), of token] by (auto simp: spec_op_def)
  qed
qed

lemma cleanup_simulates:
  assumes "simulates (host_time h) sm A"
  shows "simulates (host_time h) (fst (SessionManager_Cleanup sm h)) A"
  unfolding simulates_def
proof
  fix token
  show "related (host_time h) (fst (SessionManager_Cleanup sm h) token) (A token)"
    using simulates_at [OF assms, of token]
  proof cases
    case (1 s)
    then show ?thesis using alive_abs [OF 1(3), of "host_time h"]
      by (auto simp: SessionManager_Cleanup_def host_now_def host_time_def split: if_splits)
  next
    case 2
    then show ?thesis by (cases "A token") (simp_all add: SessionManager_Cleanup_def host_now_def)
  qed
qed

lemma op_simulates:
  assumes "simulates (host_time h) sm A" and "spec_op op (fst (generateToken h)) (host_time h) A = (r, A')"
  shows "fst (impl_op op h sm) = r \<and> simulates (host_time h) (snd (impl_op op h sm)) A'"
proof (cases op)
  case (Create username ty)
  then show ?thesis using create_simulates assms by simp
next
  case (Validate token)
  then show ?thesis using validate_simulates assms by simp
next
  case (Revoke token)
  then show ?thesis using assms simulates_del [OF assms(1)] by (auto simp: spec_op_def impl_op_def SessionManager_Revoke_def)
next
  case RevokeAll
  then show ?thesis using assms by (auto simp: spec_op_def impl_op_def SessionManager_RevokeAll_def simulates_def)
next
  case Cleanup
  then show ?thesis using assms cleanup_simulates by (auto simp: spec_op_def impl_op_def)
qed

lemma run_simulates:
  assumes "simulates t sm A" and "sorted (t # map (\<lambda>p. host_time (fst p)) tr)"
  shows "run_impl tr sm = run_spec tr A"
  using assms
proof (induction tr arbitrary: t sm A)
  case (Cons p tr)
  obtain h op where p: "p = (h, op)" by (rule prod.exhaust)
  obtain r A' where s: "spec_op op (fst (generateToken h)) (host_time h) A = (r, A')" by (rule prod.exhaust)
  have "t \<le> host_time h" and srt: "sorted (host_time h # map (\<lambda>p. host_time (fst p)) tr)" using Cons.prems(2) by (simp_all add: p)
  then have "simulates (host_time h) sm A" using Cons.prems(1) simulates_later by blast
  from op_simulates [OF this s] have o: "fst (impl_op op h sm) = r" "simulates (host_time h) (snd (impl_op op h sm)) A'" by simp_all
  have "run_impl tr (snd (impl_op op h sm)) = run_spec tr A'"
    by (rule Cons.IH [OF o(2) srt])
  then show ?case using o(1) by (simp add: p s case_prod_beta)
qed simp

text \<open>C35: In any run of creations, validations, revocations and clean-ups, under a clock that does not run
  backwards, every operation answers as the store that never forgets: a token is accepted exactly when it
  was handed out, not revoked since, used within the last 15 minutes (CLI) or 30 minutes (web), and, for
  the web, created within the last 8 hours.  Refreshing, early deletion and the periodic clean-up cannot be
  observed.\<close>

theorem sessions_refine:
  assumes "sorted (map (\<lambda>p. host_time (fst p)) tr)"
  shows "run_impl tr NewSessionManager = run_spec tr Map.empty"
proof (cases tr)
  case (Cons p tr')
  have "simulates (host_time (fst p)) NewSessionManager Map.empty" by (simp add: simulates_def NewSessionManager_def)
  from run_simulates [OF this, of tr] assms show ?thesis by (simp add: Cons)
qed simp

definition host_at :: "time \<Rightarrow> host" where
  "host_at t = \<lparr>h_clock = (\<lambda>_. t), h_ticks = 0, h_rand = (\<lambda>n. of_nat n), h_drawn = 0, h_io = []\<rparr>"

theorem sessions_refine_witness:
  "let token = fst (generateToken (host_at 0)) in
   run_impl [(host_at 0, Create ''u'' SessionWeb), (host_at (20 * Minute), Validate token), (host_at (45 * Minute), Cleanup),
     (host_at (50 * Minute), Validate token), (host_at (81 * Minute), Validate token)] NewSessionManager =
   [Created token, Accepted ''u'', Unit, Accepted ''u'', Rejected]"
proof -
  define token where "token = fst (generateToken (host_at 0))"
  let ?tr = "[(host_at 0, Create ''u'' SessionWeb), (host_at (20 * Minute), Validate token), (host_at (45 * Minute), Cleanup),
     (host_at (50 * Minute), Validate token), (host_at (81 * Minute), Validate token)]"
  have "run_impl ?tr NewSessionManager = run_spec ?tr Map.empty"
    by (rule sessions_refine) (simp add: host_time_def host_at_def)
  moreover have "run_spec ?tr Map.empty = [Created token, Accepted ''u'', Unit, Accepted ''u'', Rejected]"
    by (simp add: spec_op_def token_def [symmetric] alive_def host_time_def) (simp add: host_at_def)
  ultimately show ?thesis by (simp add: token_def)
qed

section \<open>The local audit log (agent/localaudit/audit.go)\<close>

definition ActionAuthSuccess :: string where "ActionAuthSuccess = ''auth.success''"

definition ActionAuthFailure :: string where "ActionAuthFailure = ''auth.failure''"

definition ActionCDMToggle :: string where "ActionCDMToggle = ''cdm.toggle''"

definition ActionCDMGrant :: string where "ActionCDMGrant = ''cdm.session.grant''"

definition ActionCDMRevoke :: string where "ActionCDMRevoke = ''cdm.session.revoke''"

definition ActionConfigView :: string where "ActionConfigView = ''config.view''"

definition InterfaceCLI :: string where "InterfaceCLI = ''cli''"

definition InterfaceUI :: string where "InterfaceUI = ''ui''"

record LocalEntry =
  lae_Timestamp :: time
  lae_Action :: string
  lae_Username :: string
  lae_Interface :: string
  lae_OldState :: string
  lae_NewState :: string
  lae_Duration :: string
  lae_ExpiresAt :: "time option"
  lae_Reason :: string

definition local_entry :: "string \<Rightarrow> string \<Rightarrow> string \<Rightarrow> LocalEntry" where
  "local_entry action username iface = \<lparr>lae_Timestamp = 0, lae_Action = action, lae_Username = username, lae_Interface = iface,
     lae_OldState = '''', lae_NewState = '''', lae_Duration = '''', lae_ExpiresAt = None, lae_Reason = ''''\<rparr>"

type_synonym local_log = "LocalEntry chunk list"

definition LocalLogger_Write :: "LocalEntry \<Rightarrow> local_log \<Rightarrow> host \<Rightarrow> local_log \<times> host" where
  "LocalLogger_Write entry log h =
    (case host_now h of (now, h1) \<Rightarrow> append_line (entry\<lparr>lae_Timestamp := now\<rparr>) log h1)"

definition LogAuthSuccess :: "string \<Rightarrow> string \<Rightarrow> local_log \<Rightarrow> host \<Rightarrow> local_log \<times> host" where
  "LogAuthSuccess username iface = LocalLogger_Write (local_entry ActionAuthSuccess username iface)"

definition LogAuthFailure :: "string \<Rightarrow> string \<Rightarrow> string \<Rightarrow> local_log \<Rightarrow> host \<Rightarrow> local_log \<times> host" where
  "LogAuthFailure username iface reason = LocalLogger_Write ((local_entry ActionAuthFailure username iface)\<lparr>lae_Reason := reason\<rparr>)"

definition LogCDMToggle :: "string \<Rightarrow> string \<Rightarrow> string \<Rightarrow> string \<Rightarrow> local_log \<Rightarrow> host \<Rightarrow> local_log \<times> host" where
  "LogCDMToggle username iface oldState newState =
     LocalLogger_Write ((local_entry ActionCDMToggle username iface)\<lparr>lae_OldState := oldState, lae_NewState := newState\<rparr>)"

definition LogCDMGrant :: "string \<Rightarrow> string \<Rightarrow> string \<Rightarrow> time option \<Rightarrow> local_log \<Rightarrow> host \<Rightarrow> local_log \<times> host" where
  "LogCDMGrant username iface dur expiresAt =
     LocalLogger_Write ((local_entry ActionCDMGrant username iface)\<lparr>lae_Duration := dur, lae_ExpiresAt := expiresAt\<rparr>)"

definition LogCDMRevoke :: "string \<Rightarrow> string \<Rightarrow> string \<Rightarrow> local_log \<Rightarrow> host \<Rightarrow> local_log \<times> host" where
  "LogCDMRevoke username iface reason = LocalLogger_Write ((local_entry ActionCDMRevoke username iface)\<lparr>lae_Reason := reason\<rparr>)"

definition LogConfigView :: "string \<Rightarrow> string \<Rightarrow> local_log \<Rightarrow> host \<Rightarrow> local_log \<times> host" where
  "LogConfigView username iface = LocalLogger_Write (local_entry ActionConfigView username iface)"

definition LocalLogger_Read :: "int \<Rightarrow> local_log \<Rightarrow> host \<Rightarrow> LocalEntry list option \<times> host" where
  "LocalLogger_Read limit log h =
    (case next_io h of (IODone, h1) \<Rightarrow> (Some (read_lines limit log), h1) | (_, h1) \<Rightarrow> (None, h1))"

definition ReadCDMOnly :: "int \<Rightarrow> local_log \<Rightarrow> host \<Rightarrow> LocalEntry list option \<times> host" where
  "ReadCDMOnly limit log h =
    (case LocalLogger_Read 0 log h of
       (None, h1) \<Rightarrow> (None, h1)
     | (Some all, h1) \<Rightarrow>
       (let filtered = filter (\<lambda>e. lae_Action e \<in> {ActionCDMToggle, ActionCDMGrant, ActionCDMRevoke}) all in
        (Some (if limit > 0 \<and> int (length filtered) > limit then take (nat limit) filtered else filtered), h1)))"

end
