(* ===== verification/LocalIPC.thy ===== *)
theory LocalIPC
  imports CDM Sessions
begin

text \<open>The agent's local interfaces: the methods of the socket (agent/localauth/ipc.go, agent/localcli/ipc.go and
  auth.go, agent/ipc/handler.go) and the handlers of the web page (agent/localui/server.go), over one daemon
  with its sessions, its customer device mode and its local audit log.  The check of a password by the
  operating system is a parameter.  The text of an error of \<open>encoding/json\<close>, of a file or of
  \<open>time.ParseDuration\<close> is not modelled.\<close>

section \<open>Durations (time.ParseDuration)\<close>

definition is_digit :: "char \<Rightarrow> bool" where
  "is_digit c = (of_char c \<ge> (48::nat) \<and> of_char c \<le> (57::nat))"

definition digit_value :: "char \<Rightarrow> int" where
  "digit_value c = of_char c - 48"

fun digits_value :: "int \<Rightarrow> string \<Rightarrow> int" where
  "digits_value acc [] = acc"
| "digits_value acc (c # cs) = digits_value (10 * acc + digit_value c) cs"

text \<open>\<open>leadingInt\<close>: the number at the front and the rest; more than \<open>2 ^ 63\<close> is an error.\<close>

definition leadingInt :: "string \<Rightarrow> (int \<times> string) option" where
  "leadingInt s = (let ds = takeWhile is_digit s; v = digits_value 0 ds in
     if v > 2 ^ 63 then None else Some (v, dropWhile is_digit s))"

text \<open>\<open>leadingFraction\<close>: digits after a point are taken while they fit, the rest is skipped.\<close>

fun fraction_digits :: "int \<Rightarrow> int \<Rightarrow> string \<Rightarrow> int \<times> int" where
  "fraction_digits x scale [] = (x, scale)"
| "fraction_digits x scale (c # cs) =
    (if x > (2 ^ 63 - 1) div 10 then (x, scale)
     else let y = x * 10 + digit_value c in
       if y > 2 ^ 63 then (x, scale) else fraction_digits y (scale * 10) cs)"

definition leadingFraction :: "string \<Rightarrow> int \<times> int \<times> string" where
  "leadingFraction s = (case fraction_digits 0 1 (takeWhile is_digit s) of (f, scale) \<Rightarrow> (f, scale, dropWhile is_digit s))"

definition unitMap :: "(string \<times> int) list" where
  "unitMap = [(''ns'', 1), (''us'', 1000), ([CHR 0xC2, CHR 0xB5, CHR ''s''], 1000), ([CHR 0xCE, CHR 0xBC, CHR ''s''], 1000),
     (''ms'', 1000000), (''s'', Second), (''m'', Minute), (''h'', Hour)]"

definition is_unit_char :: "char \<Rightarrow> bool" where
  "is_unit_char c = (c \<noteq> CHR ''.'' \<and> \<not> is_digit c)"

text \<open>One number with its unit.\<close>

definition parse_component :: "string \<Rightarrow> (int \<times> string) option" where
  "parse_component s =
    (case leadingInt s of
       None \<Rightarrow> None
     | Some (v, s1) \<Rightarrow>
       (let pre = length s1 \<noteq> length s;
            (f, scale, s2, post) =
              (case s1 of c # s1' \<Rightarrow> if c = CHR ''.'' then (case leadingFraction s1' of (f, scale, r) \<Rightarrow> (f, scale, r, length r \<noteq> length s1'))
                               else (0, 1, s1, False)
               | [] \<Rightarrow> (0, 1, s1, False));
            u = takeWhile is_unit_char s2 in
        if \<not> pre \<and> \<not> post then None
        else if u = [] then None
        else case map_of unitMap u of
            None \<Rightarrow> None
          | Some unit \<Rightarrow>
            if v > 2 ^ 63 div unit then None
            else let v1 = v * unit + (if f > 0 then f * unit div scale else 0) in
              if v1 > 2 ^ 63 then None else Some (v1, dropWhile is_unit_char s2)))"

text \<open>The loop over the components takes at most one step per character.\<close>

fun parse_components :: "nat \<Rightarrow> int \<Rightarrow> string \<Rightarrow> int option" where
  "parse_components n d [] = Some d"
| "parse_components 0 d (c # s) = None"
| "parse_components (Suc n) d (c # s) =
    (if c \<noteq> CHR ''.'' \<and> \<not> is_digit c then None
     else case parse_component (c # s) of
         None \<Rightarrow> None
       | Some (v, rest) \<Rightarrow> if d + v > 2 ^ 63 then None else parse_components n (d + v) rest)"

definition ParseDuration :: "string \<Rightarrow> duration option" where
  "ParseDuration s =
    (let (neg, t) = (case s of c # s' \<Rightarrow> if c = CHR ''-'' then (True, s') else if c = CHR ''+'' then (False, s') else (False, s)
                     | [] \<Rightarrow> (False, s)) in
     if t = ''0'' then Some 0
     else if t = [] then None
     else case parse_components (length t) 0 t of
         None \<Rightarrow> None
       | Some d \<Rightarrow> if neg then Some (- d) else if d > 2 ^ 63 - 1 then None else Some d)"

section \<open>Requests and parameters (agent/ipc/protocol.go)\<close>

text \<open>The parameters of a request as \<open>encoding/json\<close> sees them: keys compare up to the case of ASCII letters, the
  last value of a key counts, and a value of another type is an error.\<close>

datatype jval = JString string | JNull | JNumber int | JOther

datatype ipc_params = NoParams | NullParams | NotObject | Fields "(string \<times> jval) list"

definition fold_case :: "char \<Rightarrow> char" where
  "fold_case c = (if of_char c \<ge> (65::nat) \<and> of_char c \<le> (90::nat) then char_of (of_char c + (32::nat)) else c)"

fun string_field :: "string \<Rightarrow> (string \<times> jval) list \<Rightarrow> string \<Rightarrow> string option" where
  "string_field name [] acc = Some acc"
| "string_field name ((k, v) # fs) acc =
    (if map fold_case k = name then
       (case v of JString s \<Rightarrow> string_field name fs s | JNull \<Rightarrow> string_field name fs acc | _ \<Rightarrow> None)
     else string_field name fs acc)"

definition unmarshal_string :: "string \<Rightarrow> ipc_params \<Rightarrow> string option" where
  "unmarshal_string name p =
    (case p of NoParams \<Rightarrow> None | NullParams \<Rightarrow> Some '''' | NotObject \<Rightarrow> None | Fields fs \<Rightarrow> string_field name fs '''')"

record ipc_error =
  ie_Code :: int
  ie_Message :: string

definition CodeMethodNotFound :: int where "CodeMethodNotFound = - 32601"

definition CodeInvalidParams :: int where "CodeInvalidParams = - 32602"

definition CodeInternal :: int where "CodeInternal = - 32603"

definition CodeUnauthorized :: int where "CodeUnauthorized = - 32001"

definition ipc_err :: "int \<Rightarrow> string \<Rightarrow> ipc_error" where
  "ipc_err code message = \<lparr>ie_Code = code, ie_Message = message\<rparr>"

record ipc_request =
  rq_ID :: string
  rq_Method :: string
  rq_Params :: ipc_params
  rq_Token :: string

record StatusResult =
  sr_AgentID :: string
  sr_Version :: string
  sr_ServerURL :: string
  sr_PollInterval :: int
  sr_CDMEnabled :: bool
  sr_SessionActive :: bool

text \<open>\<open>cdm.status\<close> copies the snapshot, with its times as text; the result is the snapshot.\<close>

datatype ipc_result =
    LoginResult string time
  | ValidateResult string bool
  | OkResult
  | StatusRes StatusResult
  | CDMStatusResult State
  | LogsResult "string list"
  | AuditResult "LocalEntry list"

section \<open>The daemon\<close>

record daemon =
  dm_AgentID :: string
  dm_Version :: string
  dm_ServerURL :: string
  dm_PollInterval :: int
  dm_sessions :: SessionManager
  dm_cdm :: Manager
  dm_audit :: "local_log option"
  dm_logPath :: string
  dm_logData :: "string option"
  dm_host :: host

type_synonym ipc_handler = "string \<Rightarrow> ipc_params \<Rightarrow> daemon \<Rightarrow> (ipc_error + ipc_result) \<times> daemon"

definition audited :: "(local_log \<Rightarrow> host \<Rightarrow> local_log \<times> host) \<Rightarrow> daemon \<Rightarrow> daemon" where
  "audited f d =
    (case dm_audit d of
       None \<Rightarrow> d
     | Some log \<Rightarrow> (case f log (dm_host d) of (log', h') \<Rightarrow> d\<lparr>dm_audit := Some log', dm_host := h'\<rparr>))"

definition on_cdm :: "(Manager \<Rightarrow> host \<Rightarrow> 'r \<times> Manager \<times> host) \<Rightarrow> daemon \<Rightarrow> 'r \<times> daemon" where
  "on_cdm f d = (case f (dm_cdm d) (dm_host d) of (r, m, h) \<Rightarrow> (r, d\<lparr>dm_cdm := m, dm_host := h\<rparr>))"

definition validate_session :: "string \<Rightarrow> daemon \<Rightarrow> (string + Session) \<times> daemon" where
  "validate_session token d =
    (case SessionManager_Validate token (dm_sessions d) (dm_host d) of
       (r, sm, h) \<Rightarrow> (r, d\<lparr>dm_sessions := sm, dm_host := h\<rparr>))"

definition create_session :: "string \<Rightarrow> SessionType \<Rightarrow> daemon \<Rightarrow> Session \<times> daemon" where
  "create_session username ty d =
    (case SessionManager_Create username ty (dm_sessions d) (dm_host d) of
       (s, sm, h) \<Rightarrow> (s, d\<lparr>dm_sessions := sm, dm_host := h\<rparr>))"

section \<open>Authentication methods (agent/localauth/ipc.go)\<close>

definition auth_login :: "(string \<Rightarrow> string \<Rightarrow> bool) \<Rightarrow> ipc_handler" where
  "auth_login authenticate token params d =
    (case (unmarshal_string ''username'' params, unmarshal_string ''password'' params) of
       (Some username, Some password) \<Rightarrow>
         (if username = '''' \<or> password = '''' then (Inl (ipc_err CodeInvalidParams ''username and password required''), d)
          else if \<not> authenticate username password then
            (Inl (ipc_err CodeUnauthorized (''authentication failed for '' @ username)),
             audited (LogAuthFailure username InterfaceCLI ''invalid credentials'') d)
          else case create_session username SessionCLI d of (s, d1) \<Rightarrow>
            (Inr (LoginResult (se_Token s) (se_ExpiresAt s)), audited (LogAuthSuccess username InterfaceCLI) d1))
     | _ \<Rightarrow> (Inl (ipc_err CodeInvalidParams ''invalid params''), d))"

definition auth_validate :: ipc_handler where
  "auth_validate token params d =
    (case unmarshal_string ''token'' params of
       None \<Rightarrow> (Inl (ipc_err CodeInvalidParams ''invalid params''), d)
     | Some t \<Rightarrow>
       (case validate_session t d of
          (Inl _, d1) \<Rightarrow> (Inr (ValidateResult '''' False), d1)
        | (Inr s, d1) \<Rightarrow> (Inr (ValidateResult (se_Username s) True), d1)))"

definition auth_logout :: ipc_handler where
  "auth_logout token params d =
    (case unmarshal_string ''token'' params of
       None \<Rightarrow> (Inl (ipc_err CodeInvalidParams ''invalid params''), d)
     | Some t \<Rightarrow> (Inr OkResult, d\<lparr>dm_sessions := SessionManager_Revoke t (dm_sessions d)\<rparr>))"

section \<open>Methods of the command line (agent/localcli)\<close>

definition RequireAuthMiddleware :: "ipc_handler \<Rightarrow> ipc_handler" where
  "RequireAuthMiddleware next token params d =
    (if token = '''' then (Inl (ipc_err CodeUnauthorized ''authentication required''), d)
     else case validate_session token d of
       (Inl _, d1) \<Rightarrow> (Inl (ipc_err CodeUnauthorized ''invalid or expired session''), d1)
     | (Inr _, d1) \<Rightarrow> next token params d1)"

definition agent_status :: ipc_handler where
  "agent_status token params d =
    (case on_cdm Manager_Snapshot d of (snap, d1) \<Rightarrow>
      (Inr (StatusRes \<lparr>sr_AgentID = dm_AgentID d, sr_Version = dm_Version d, sr_ServerURL = dm_ServerURL d,
         sr_PollInterval = dm_PollInterval d, sr_CDMEnabled = st_Enabled snap, sr_SessionActive = st_SessionActive snap\<rparr>),
       audited (LogConfigView '''' InterfaceCLI) d1))"

definition cdm_status :: ipc_handler where
  "cdm_status token params d = (case on_cdm Manager_Snapshot d of (snap, d1) \<Rightarrow> (Inr (CDMStatusResult snap), d1))"

definition cdm_enable :: ipc_handler where
  "cdm_enable token params d =
    (case unmarshal_string ''actor'' params of
       None \<Rightarrow> (Inl (ipc_err CodeInvalidParams ''invalid params''), d)
     | Some actor \<Rightarrow>
       (case on_cdm (Manager_Enable actor) d of
          (Inl e, d1) \<Rightarrow> (Inl (ipc_err CodeInternal e), d1)
        | (Inr _, d1) \<Rightarrow> (Inr OkResult, audited (LogCDMToggle actor InterfaceCLI ''disabled'' ''enabled'') d1)))"

definition cdm_disable :: ipc_handler where
  "cdm_disable token params d =
    (case unmarshal_string ''actor'' params of
       None \<Rightarrow> (Inl (ipc_err CodeInvalidParams ''invalid params''), d)
     | Some actor \<Rightarrow>
       (case on_cdm (Manager_Disable actor) d of
          (Inl e, d1) \<Rightarrow> (Inl (ipc_err CodeInternal e), d1)
        | (Inr _, d1) \<Rightarrow> (Inr OkResult, audited (LogCDMToggle actor InterfaceCLI ''enabled'' ''disabled'') d1)))"

text \<open>\<open>expires\<close> in the audit entry is computed anew from the clock.\<close>

definition log_grant :: "string \<Rightarrow> string \<Rightarrow> string \<Rightarrow> duration \<Rightarrow> daemon \<Rightarrow> daemon" where
  "log_grant actor iface text dur d =
    (case dm_audit d of
       None \<Rightarrow> d
     | Some _ \<Rightarrow>
       (case host_now (dm_host d) of (now, h) \<Rightarrow>
          audited (LogCDMGrant actor iface text (Some (now + dur))) (d\<lparr>dm_host := h\<rparr>)))"

definition cdm_grant :: ipc_handler where
  "cdm_grant token params d =
    (case (unmarshal_string ''actor'' params, unmarshal_string ''duration'' params) of
       (Some actor, Some text) \<Rightarrow>
         (case ParseDuration text of
            None \<Rightarrow> (Inl (ipc_err CodeInvalidParams ''invalid duration''), d)
          | Some dur \<Rightarrow>
            if dur \<le> 0 then (Inl (ipc_err CodeInvalidParams ''duration must be positive''), d)
            else case on_cdm (Manager_GrantSession actor dur) d of
               (Inl e, d1) \<Rightarrow> (Inl (ipc_err CodeInternal e), d1)
             | (Inr _, d1) \<Rightarrow> (Inr OkResult, log_grant actor InterfaceCLI text dur d1))
     | _ \<Rightarrow> (Inl (ipc_err CodeInvalidParams ''invalid params''), d))"

definition cdm_revoke :: ipc_handler where
  "cdm_revoke token params d =
    (case unmarshal_string ''actor'' params of
       None \<Rightarrow> (Inl (ipc_err CodeInvalidParams ''invalid params''), d)
     | Some actor \<Rightarrow>
       (case on_cdm (Manager_RevokeSession actor) d of
          (Inl e, d1) \<Rightarrow> (Inl (ipc_err CodeInternal e), d1)
        | (Inr _, d1) \<Rightarrow> (Inr OkResult, audited (LogCDMRevoke actor InterfaceCLI ''user request'') d1)))"

text \<open>Lines of the log file as \<open>bufio.Scanner\<close> reads them: a final line break ends the last line, one carriage return
  before a line break is dropped, and a line of 64 KB is an error.\<close>

fun scan_lines :: "string \<Rightarrow> string \<Rightarrow> string list" where
  "scan_lines line [] = (if line = [] then [] else [line])"
| "scan_lines line (c # cs) = (if c = CHR 0x0A then line # scan_lines [] cs else scan_lines (line @ [c]) cs)"

definition drop_cr :: "string \<Rightarrow> string" where
  "drop_cr l = (if l \<noteq> [] \<and> last l = CHR 0x0D then butlast l else l)"

definition MaxScanTokenSize :: nat where "MaxScanTokenSize = 65536"

definition readTailLines :: "string \<Rightarrow> string option \<Rightarrow> int \<Rightarrow> string + string list" where
  "readTailLines path data n =
    (if path = '''' then Inl ''no log file configured''
     else case data of
       None \<Rightarrow> Inl ''open log file''
     | Some text \<Rightarrow>
       (let ls = scan_lines [] text in
        if \<exists>l \<in> set ls. length l \<ge> MaxScanTokenSize then Inl ''read log file''
        else let all = map drop_cr ls in
          Inr (if int (length all) > n then drop (length all - nat n) all else all)))"

text \<open>The error of decoding \<open>tail\<close> is ignored, and what was decoded before it stays.\<close>

fun number_field :: "string \<Rightarrow> (string \<times> jval) list \<Rightarrow> int \<Rightarrow> int" where
  "number_field name [] acc = acc"
| "number_field name ((k, v) # fs) acc =
    number_field name fs (if map fold_case k = name then (case v of JNumber n \<Rightarrow> n | _ \<Rightarrow> acc) else acc)"

definition agent_logs :: ipc_handler where
  "agent_logs token params d =
    (let tail = (case params of Fields fs \<Rightarrow> number_field ''tail'' fs 0 | _ \<Rightarrow> 0);
         n = (if tail \<le> 0 then 50 else tail) in
     case readTailLines (dm_logPath d) (dm_logData d) n of
       Inl e \<Rightarrow> (Inl (ipc_err CodeInternal e), d)
     | Inr lines \<Rightarrow> (Inr (LogsResult lines), d))"

definition read_cdm_log :: "daemon \<Rightarrow> LocalEntry list option \<times> daemon" where
  "read_cdm_log d =
    (case dm_audit d of
       None \<Rightarrow> (Some [], d)
     | Some log \<Rightarrow> (case ReadCDMOnly 100 log (dm_host d) of (r, h) \<Rightarrow> (r, d\<lparr>dm_host := h\<rparr>)))"

definition agent_audit :: ipc_handler where
  "agent_audit token params d =
    (case read_cdm_log d of
       (None, d1) \<Rightarrow> (Inl (ipc_err CodeInternal ''read audit log''), d1)
     | (Some entries, d1) \<Rightarrow> (Inr (AuditResult entries), d1))"

section \<open>The router (agent/ipc/handler.go)\<close>

definition ipc_methods :: "(string \<Rightarrow> string \<Rightarrow> bool) \<Rightarrow> (string \<times> ipc_handler) list" where
  "ipc_methods authenticate =
    [(''auth.login'', auth_login authenticate), (''auth.validate'', auth_validate), (''auth.logout'', auth_logout),
     (''agent.status'', RequireAuthMiddleware agent_status), (''cdm.status'', RequireAuthMiddleware cdm_status),
     (''cdm.enable'', RequireAuthMiddleware cdm_enable), (''cdm.disable'', RequireAuthMiddleware cdm_disable),
     (''cdm.grant'', RequireAuthMiddleware cdm_grant), (''cdm.revoke'', RequireAuthMiddleware cdm_revoke),
     (''agent.logs'', RequireAuthMiddleware agent_logs), (''agent.audit'', RequireAuthMiddleware agent_audit)]"

text \<open>\<open>Dispatch\<close>: the reply carries the identifier of the request.\<close>

definition Dispatch ::
  "(string \<Rightarrow> string \<Rightarrow> bool) \<Rightarrow> ipc_request \<Rightarrow> daemon \<Rightarrow> (string \<times> (ipc_error + ipc_result)) \<times> daemon" where
  "Dispatch authenticate req d =
    (case map_of (ipc_methods authenticate) (rq_Method req) of
       None \<Rightarrow> ((rq_ID req, Inl (ipc_err CodeMethodNotFound (''method not found: '' @ rq_Method req))), d)
     | Some handler \<Rightarrow> (case handler (rq_Token req) (rq_Params req) d of (r, d1) \<Rightarrow> ((rq_ID req, r), d1)))"

section \<open>The web page (agent/localui/server.go)\<close>

text \<open>A reply is a status with a body; the cookie of a login is part of its body.\<close>

datatype ui_body =
    UIError string
  | UIOk
  | UILogin string string
  | UIStatus string string string bool bool
  | UICDMStatus State
  | UIAudit "LocalEntry list"

type_synonym ui_reply = "nat \<times> ui_body"

text \<open>A request: the session cookie, if any, and the decoded body.\<close>

datatype ui_request =
    PostLogin "(string \<times> string) json"
  | PostLogout
  | GetStatus
  | GetCDM
  | PostEnable
  | PostDisable
  | PostGrant "string json"
  | PostRevoke
  | GetAudit

definition handleLogin :: "(string \<Rightarrow> string \<Rightarrow> bool) \<Rightarrow> (string \<times> string) json \<Rightarrow> daemon \<Rightarrow> ui_reply \<times> daemon" where
  "handleLogin authenticate body d =
    (case body of
       Malformed \<Rightarrow> ((400, UIError ''invalid request body''), d)
     | Doc (username, password) \<Rightarrow>
       (if username = '''' \<or> password = '''' then ((400, UIError ''username and password required''), d)
        else if \<not> authenticate username password then
          ((401, UIError ''invalid credentials''), audited (LogAuthFailure username InterfaceUI ''invalid credentials'') d)
        else case create_session username SessionWeb d of (s, d1) \<Rightarrow>
          ((200, UILogin username (se_Token s)), audited (LogAuthSuccess username InterfaceUI) d1)))"

definition handleLogout :: "string \<Rightarrow> daemon \<Rightarrow> ui_reply \<times> daemon" where
  "handleLogout cookie d = ((200, UIOk), d\<lparr>dm_sessions := SessionManager_Revoke cookie (dm_sessions d)\<rparr>)"

definition handleStatus :: "daemon \<Rightarrow> ui_reply \<times> daemon" where
  "handleStatus d =
    (case on_cdm Manager_Snapshot d of (snap, d1) \<Rightarrow>
      ((200, UIStatus (dm_AgentID d) (dm_Version d) (dm_ServerURL d) (st_Enabled snap) (st_SessionActive snap)), d1))"

definition handleCDMStatus :: "daemon \<Rightarrow> ui_reply \<times> daemon" where
  "handleCDMStatus d = (case on_cdm Manager_Snapshot d of (snap, d1) \<Rightarrow> ((200, UICDMStatus snap), d1))"

definition handleCDMEnable :: "string \<Rightarrow> daemon \<Rightarrow> ui_reply \<times> daemon" where
  "handleCDMEnable username d =
    (case on_cdm (Manager_Enable username) d of
       (Inl e, d1) \<Rightarrow> ((500, UIError e), d1)
     | (Inr _, d1) \<Rightarrow> ((200, UIOk), audited (LogCDMToggle username InterfaceUI ''disabled'' ''enabled'') d1))"

definition handleCDMDisable :: "string \<Rightarrow> daemon \<Rightarrow> ui_reply \<times> daemon" where
  "handleCDMDisable username d =
    (case on_cdm (Manager_Disable username) d of
       (Inl e, d1) \<Rightarrow> ((500, UIError e), d1)
     | (Inr _, d1) \<Rightarrow> ((200, UIOk), audited (LogCDMToggle username InterfaceUI ''enabled'' ''disabled'') d1))"

definition handleCDMGrant :: "string \<Rightarrow> string json \<Rightarrow> daemon \<Rightarrow> ui_reply \<times> daemon" where
  "handleCDMGrant username body d =
    (case body of
       Malformed \<Rightarrow> ((400, UIError ''invalid request body''), d)
     | Doc text \<Rightarrow>
       (case ParseDuration text of
          None \<Rightarrow> ((400, UIError ''invalid duration''), d)
        | Some dur \<Rightarrow>
          if dur \<le> 0 then ((400, UIError ''duration must be positive''), d)
          else case on_cdm (Manager_GrantSession username dur) d of
             (Inl e, d1) \<Rightarrow> ((409, UIError e), d1)
           | (Inr _, d1) \<Rightarrow> ((200, UIOk), log_grant username InterfaceUI text dur d1)))"

definition handleCDMRevoke :: "string \<Rightarrow> daemon \<Rightarrow> ui_reply \<times> daemon" where
  "handleCDMRevoke username d =
    (case on_cdm (Manager_RevokeSession username) d of
       (Inl e, d1) \<Rightarrow> ((409, UIError e), d1)
     | (Inr _, d1) \<Rightarrow> ((200, UIOk), audited (LogCDMRevoke username InterfaceUI ''user request'') d1))"

definition handleAuditLog :: "daemon \<Rightarrow> ui_reply \<times> daemon" where
  "handleAuditLog d =
    (case read_cdm_log d of
       (None, d1) \<Rightarrow> ((500, UIError ''read audit log''), d1)
     | (Some entries, d1) \<Rightarrow> ((200, UIAudit entries), d1))"

definition Server_requireAuth :: "string option \<Rightarrow> (string \<Rightarrow> daemon \<Rightarrow> ui_reply \<times> daemon) \<Rightarrow> daemon \<Rightarrow> ui_reply \<times> daemon" where
  "Server_requireAuth cookie next d =
    (case cookie of
       None \<Rightarrow> ((401, UIError ''authentication required''), d)
     | Some token \<Rightarrow>
       (case validate_session token d of
          (Inl _, d1) \<Rightarrow> ((401, UIError ''session expired''), d1)
        | (Inr s, d1) \<Rightarrow> next (se_Username s) d1))"

text \<open>\<open>registerRoutes\<close>, without the files of the page.\<close>

definition Server_routes ::
  "(string \<Rightarrow> string \<Rightarrow> bool) \<Rightarrow> string option \<Rightarrow> ui_request \<Rightarrow> daemon \<Rightarrow> ui_reply \<times> daemon" where
  "Server_routes authenticate cookie r =
    (case r of
       PostLogin body \<Rightarrow> handleLogin authenticate body
     | PostLogout \<Rightarrow> Server_requireAuth cookie (\<lambda>_. case cookie of Some c \<Rightarrow> handleLogout c | None \<Rightarrow> \<lambda>d. ((200, UIOk), d))
     | GetStatus \<Rightarrow> Server_requireAuth cookie (\<lambda>_. handleStatus)
     | GetCDM \<Rightarrow> Server_requireAuth cookie (\<lambda>_. handleCDMStatus)
     | PostEnable \<Rightarrow> Server_requireAuth cookie handleCDMEnable
     | PostDisable \<Rightarrow> Server_requireAuth cookie handleCDMDisable
     | PostGrant body \<Rightarrow> Server_requireAuth cookie (\<lambda>u. handleCDMGrant u body)
     | PostRevoke \<Rightarrow> Server_requireAuth cookie handleCDMRevoke
     | GetAudit \<Rightarrow> Server_requireAuth cookie (\<lambda>_. handleAuditLog))"

section \<open>Who may change the customer device mode\<close>

text \<open>The daemon at work: requests on the socket and on the web page, the clean-up of sessions, and time passing.\<close>

inductive daemon_reach :: "(string \<Rightarrow> string \<Rightarrow> bool) \<Rightarrow> daemon \<Rightarrow> bool" for authenticate where
  start: "dm_sessions d = NewSessionManager \<Longrightarrow> Manager_New None log h = (Some (dm_cdm d), dm_host d) \<Longrightarrow> daemon_reach authenticate d"
| ipc: "daemon_reach authenticate d \<Longrightarrow> Dispatch authenticate req d = (r, d') \<Longrightarrow> daemon_reach authenticate d'"
| ui: "daemon_reach authenticate d \<Longrightarrow> Server_routes authenticate cookie q d = (reply, d') \<Longrightarrow> daemon_reach authenticate d'"
| clean: "daemon_reach authenticate d \<Longrightarrow> SessionManager_Cleanup (dm_sessions d) (dm_host d) = (sm, h) \<Longrightarrow>
    daemon_reach authenticate (d\<lparr>dm_sessions := sm, dm_host := h\<rparr>)"
| elapse: "daemon_reach authenticate d \<Longrightarrow> daemon_reach authenticate (d\<lparr>dm_host := h\<rparr>)"

text \<open>What a step of the daemon may do: keep the sessions to users the operating system has accepted, and keep
  the customer device mode within its machine, with grants of a positive duration.\<close>

definition known_users :: "(string \<Rightarrow> string \<Rightarrow> bool) \<Rightarrow> daemon \<Rightarrow> bool" where
  "known_users authenticate d = (\<forall>token s. dm_sessions d token = Some s \<longrightarrow> (\<exists>p. authenticate (se_Username s) p))"

definition positive :: "(time \<times> duration) list \<Rightarrow> bool" where
  "positive G = (\<forall>(t, dur) \<in> set G. dur > 0)"

definition cdm_live :: "daemon \<Rightarrow> bool" where
  "cdm_live d = (\<exists>G. cdm_reach G (dm_cdm d) (dm_host d) \<and> positive G)"

definition sound_step :: "(string \<Rightarrow> string \<Rightarrow> bool) \<Rightarrow> daemon \<Rightarrow> daemon \<Rightarrow> bool" where
  "sound_step authenticate d d' \<longleftrightarrow>
     (known_users authenticate d \<longrightarrow> known_users authenticate d') \<and> (cdm_live d \<longrightarrow> cdm_live d')"

lemma positive_simps [simp]: "positive []" "positive ((t, dur) # G) = (dur > 0 \<and> positive G)"
  by (simp_all add: positive_def)

lemma sound_refl [simp]: "sound_step a d d"
  by (simp add: sound_step_def)

lemma sound_trans: "sound_step a d d1 \<Longrightarrow> sound_step a d1 d2 \<Longrightarrow> sound_step a d d2"
  by (simp add: sound_step_def)

lemma cdm_live_same: "cdm_live d \<Longrightarrow> dm_cdm d' = dm_cdm d \<Longrightarrow> cdm_live d'"
  unfolding cdm_live_def using cdm_reach.elapse by metis

lemma sound_audited [simp]: "sound_step a d (audited f d)"
proof -
  have "dm_sessions (audited f d) = dm_sessions d" "dm_cdm (audited f d) = dm_cdm d"
    by (simp_all add: audited_def split: option.split prod.split)
  then show ?thesis by (auto simp: sound_step_def known_users_def intro: cdm_live_same)
qed

lemma sound_log_grant [simp]: "sound_step a d (log_grant actor iface text dur d)"
proof -
  have "dm_sessions (log_grant actor iface text dur d) = dm_sessions d" "dm_cdm (log_grant actor iface text dur d) = dm_cdm d"
    by (simp_all add: log_grant_def audited_def split: option.split prod.split)
  then show ?thesis by (auto simp: sound_step_def known_users_def intro: cdm_live_same)
qed

lemma sound_validate: "validate_session token d = (r, d') \<Longrightarrow> sound_step a d d'"
proof -
  assume v: "validate_session token d = (r, d')"
  have "\<exists>s'. dm_sessions d t = Some s' \<and> se_Username s' = se_Username s" if "dm_sessions d' t = Some s" for t s
    using v that by (auto simp: validate_session_def SessionManager_Validate_def Let_def split: option.splits prod.splits if_splits)
  moreover have "dm_cdm d' = dm_cdm d" using v by (auto simp: validate_session_def split: prod.splits)
  ultimately show ?thesis unfolding sound_step_def known_users_def using cdm_live_same by metis
qed

lemma sound_create:
  assumes "create_session username ty d = (s, d')" and "authenticate username p"
  shows "sound_step authenticate d d'"
proof -
  have "dm_sessions d t = Some s' \<or> se_Username s' = username" if "dm_sessions d' t = Some s'" for t s'
    using assms(1) that by (auto simp: create_session_def SessionManager_Create_def Let_def split: prod.splits if_splits)
  moreover have "dm_cdm d' = dm_cdm d" using assms(1) by (auto simp: create_session_def split: prod.splits)
  ultimately show ?thesis unfolding sound_step_def known_users_def using cdm_live_same assms(2) by metis
qed

lemma sound_revoke [simp]: "sound_step a d (d\<lparr>dm_sessions := SessionManager_Revoke t (dm_sessions d)\<rparr>)"
  by (auto simp: sound_step_def known_users_def SessionManager_Revoke_def cdm_live_def split: if_splits)

lemma sound_cdm:
  assumes "on_cdm f d = (r, d')"
    and "\<And>G m h r m' h'. cdm_reach G m h \<Longrightarrow> positive G \<Longrightarrow> f m h = (r, m', h') \<Longrightarrow> \<exists>G'. cdm_reach G' m' h' \<and> positive G'"
  shows "sound_step a d d'"
proof -
  obtain m h where f: "f (dm_cdm d) (dm_host d) = (r, m, h)" and d': "d' = d\<lparr>dm_cdm := m, dm_host := h\<rparr>"
    using assms(1) by (auto simp: on_cdm_def split: prod.splits)
  have "cdm_live d \<Longrightarrow> cdm_live d'" unfolding cdm_live_def using assms(2) f d' by auto
  then show ?thesis by (simp add: sound_step_def known_users_def d')
qed

lemma sound_snapshot: "on_cdm Manager_Snapshot d = (r, d') \<Longrightarrow> sound_step a d d'"
  by (erule sound_cdm) (auto simp: Manager_Snapshot_def split: prod.splits dest: cdm_reach.expire)

lemma sound_enable: "on_cdm (Manager_Enable actor) d = (r, d') \<Longrightarrow> sound_step a d d'"
  by (erule sound_cdm) (blast intro: cdm_reach.enable)

lemma sound_disable: "on_cdm (Manager_Disable actor) d = (r, d') \<Longrightarrow> sound_step a d d'"
  by (erule sound_cdm, drule (1) cdm_reach.disable) (auto split: if_splits)

lemma sound_session_revoke: "on_cdm (Manager_RevokeSession actor) d = (r, d') \<Longrightarrow> sound_step a d d'"
  by (erule sound_cdm, drule (1) cdm_reach.revoke) (auto split: if_splits)

lemma sound_grant:
  assumes "on_cdm (Manager_GrantSession actor dur) d = (r, d')" and "dur > 0"
  shows "sound_step a d d'"
proof (rule sound_cdm [OF assms(1)])
  fix G m h r m' h'
  assume "cdm_reach G m h" "positive G" "Manager_GrantSession actor dur m h = (r, m', h')"
  then show "\<exists>G'. cdm_reach G' m' h' \<and> positive G'"
    using cdm_reach.grant [of G m h actor dur r m' h'] assms(2)
    by (intro exI [of _ "if st_Enabled (m_state m) then (fst (host_now h), dur) # G else G"]) simp
qed

lemmas sound_ops = sound_snapshot sound_enable sound_disable sound_session_revoke sound_grant

lemma sound_read_log: "read_cdm_log d = (r, d') \<Longrightarrow> sound_step a d d'"
  by (auto simp: read_cdm_log_def sound_step_def known_users_def split: option.splits prod.splits intro: cdm_live_same)

lemma sound_handlers:
  "agent_status t p d = (r, d') \<Longrightarrow> sound_step a d d'"
  "cdm_status t p d = (r, d') \<Longrightarrow> sound_step a d d'"
  "cdm_enable t p d = (r, d') \<Longrightarrow> sound_step a d d'"
  "cdm_disable t p d = (r, d') \<Longrightarrow> sound_step a d d'"
  "cdm_grant t p d = (r, d') \<Longrightarrow> sound_step a d d'"
  "cdm_revoke t p d = (r, d') \<Longrightarrow> sound_step a d d'"
  "agent_logs t p d = (r, d') \<Longrightarrow> sound_step a d d'"
  "agent_audit t p d = (r, d') \<Longrightarrow> sound_step a d d'"
  by (auto simp: agent_status_def cdm_status_def cdm_enable_def cdm_disable_def cdm_grant_def cdm_revoke_def agent_logs_def
      agent_audit_def Let_def not_le
      split: option.splits prod.splits sum.splits if_splits dest!: sound_ops [where a = a] sound_read_log [where a = a]
      intro: sound_trans sound_audited sound_log_grant)

lemma sound_require:
  assumes "RequireAuthMiddleware next t p d = (r, d')"
    and "\<And>d1 r d2. next t p d1 = (r, d2) \<Longrightarrow> sound_step a d1 d2"
  shows "sound_step a d d'"
  using assms by (auto simp: RequireAuthMiddleware_def split: if_splits prod.splits sum.splits
      dest: sound_validate [where a = a] intro: sound_trans)

lemma sound_auth:
  "auth_login authenticate t p d = (r, d') \<Longrightarrow> sound_step authenticate d d'"
  "auth_validate t p d = (r, d') \<Longrightarrow> sound_step authenticate d d'"
  "auth_logout t p d = (r, d') \<Longrightarrow> sound_step authenticate d d'"
  by (auto simp: auth_login_def auth_validate_def auth_logout_def split: option.splits prod.splits sum.splits if_splits
      dest: sound_validate [where a = authenticate] intro: sound_trans [OF sound_create sound_audited])

lemma sound_dispatch: "Dispatch authenticate req d = (r, d') \<Longrightarrow> sound_step authenticate d d'"
  by (auto simp: Dispatch_def ipc_methods_def split: if_splits option.splits prod.splits
      dest: sound_auth [where authenticate = authenticate] intro: sound_require sound_handlers [where a = authenticate])

lemma sound_ui_handlers:
  "handleStatus d = (r, d') \<Longrightarrow> sound_step a d d'"
  "handleCDMStatus d = (r, d') \<Longrightarrow> sound_step a d d'"
  "handleCDMEnable u d = (r, d') \<Longrightarrow> sound_step a d d'"
  "handleCDMDisable u d = (r, d') \<Longrightarrow> sound_step a d d'"
  "handleCDMGrant u b d = (r, d') \<Longrightarrow> sound_step a d d'"
  "handleCDMRevoke u d = (r, d') \<Longrightarrow> sound_step a d d'"
  "handleAuditLog d = (r, d') \<Longrightarrow> sound_step a d d'"
  "handleLogout c d = (r, d') \<Longrightarrow> sound_step a d d'"
  by (auto simp: handleStatus_def handleCDMStatus_def handleCDMEnable_def handleCDMDisable_def handleCDMGrant_def handleCDMRevoke_def
      handleAuditLog_def handleLogout_def not_le
      split: json.splits option.splits prod.splits sum.splits if_splits dest!: sound_ops [where a = a] sound_read_log [where a = a]
      intro: sound_trans sound_audited sound_log_grant)

lemma sound_ui_require:
  assumes "Server_requireAuth cookie next d = (r, d')"
    and "\<And>u d1 r d2. next u d1 = (r, d2) \<Longrightarrow> sound_step a d1 d2"
  shows "sound_step a d d'"
  using assms by (cases r) (auto simp: Server_requireAuth_def split: option.splits prod.splits sum.splits
      dest: sound_validate [where a = a] intro: sound_trans)

lemma sound_ui_login: "handleLogin authenticate b d = (r, d') \<Longrightarrow> sound_step authenticate d d'"
  by (auto simp: handleLogin_def split: json.splits prod.splits if_splits intro: sound_trans [OF sound_create sound_audited])

lemma sound_ui: "Server_routes authenticate cookie q d = (r, d') \<Longrightarrow> sound_step authenticate d d'"
  by (cases q) (auto simp: Server_routes_def split: option.splits dest: sound_ui_login
      intro: sound_ui_require sound_ui_handlers [where a = authenticate])

lemma validate_session_Inr:
  "validate_session token d = (Inr s, d') \<Longrightarrow> \<exists>s0. dm_sessions d token = Some s0 \<and> se_Username s = se_Username s0
     \<and> host_time (dm_host d) \<le> se_ExpiresAt s0 \<and> host_time (dm_host d) - se_LastUsed s0 \<le> idle_timeout (se_Type s0)"
  by (auto simp: validate_session_def SessionManager_Validate_def host_now_def host_time_def Let_def not_less
      split: option.splits prod.splits if_splits)

lemma validate_session_cdm: "validate_session token d = (r, d') \<Longrightarrow> dm_cdm d' = dm_cdm d"
  by (auto simp: validate_session_def split: prod.splits)

lemma audited_cdm [simp]: "dm_cdm (audited f d) = dm_cdm d"
  by (simp add: audited_def split: option.split prod.split)

lemma create_session_cdm: "create_session u ty d = (s, d') \<Longrightarrow> dm_cdm d' = dm_cdm d"
  by (auto simp: create_session_def split: prod.splits)

lemma require_cdm:
  assumes "RequireAuthMiddleware next token p d = (r, d')" and "dm_cdm d' \<noteq> dm_cdm d"
  shows "\<exists>s d1. validate_session token d = (Inr s, d1)"
  using assms by (auto simp: RequireAuthMiddleware_def split: if_splits prod.splits sum.splits dest: validate_session_cdm)

lemma auth_cdm:
  "auth_login authenticate t p d = (r, d') \<Longrightarrow> dm_cdm d' = dm_cdm d"
  "auth_validate t p d = (r, d') \<Longrightarrow> dm_cdm d' = dm_cdm d"
  "auth_logout t p d = (r, d') \<Longrightarrow> dm_cdm d' = dm_cdm d"
  by (auto simp: auth_login_def auth_validate_def auth_logout_def split: option.splits prod.splits sum.splits if_splits
      dest: validate_session_cdm create_session_cdm)

lemma dispatch_guarded:
  assumes "Dispatch authenticate req d = (r, d')" and "dm_cdm d' \<noteq> dm_cdm d"
  shows "\<exists>s d1. validate_session (rq_Token req) d = (Inr s, d1)"
  using assms by (auto simp: Dispatch_def ipc_methods_def split: if_splits option.splits prod.splits dest: require_cdm auth_cdm)

lemma ui_require_cdm:
  assumes "Server_requireAuth cookie next d = (r, d')" and "dm_cdm d' \<noteq> dm_cdm d"
  shows "\<exists>token s d1. cookie = Some token \<and> validate_session token d = (Inr s, d1)"
  using assms by (auto simp: Server_requireAuth_def split: option.splits prod.splits sum.splits dest: validate_session_cdm)

lemma ui_guarded:
  assumes "Server_routes authenticate cookie q d = (r, d')" and "dm_cdm d' \<noteq> dm_cdm d"
  shows "\<exists>token s d1. cookie = Some token \<and> validate_session token d = (Inr s, d1)"
proof -
  have "dm_cdm d' = dm_cdm d" if "handleLogin authenticate b d = (r, d')" for b
    using that by (auto simp: handleLogin_def split: json.splits prod.splits if_splits dest: create_session_cdm)
  then show ?thesis using assms by (cases q) (auto simp: Server_routes_def dest: ui_require_cdm)
qed

lemma daemon_reach_sound:
  "daemon_reach authenticate d \<Longrightarrow> known_users authenticate d \<and> cdm_live d"
proof (induction rule: daemon_reach.induct)
  case (start d log h)
  then show ?case using cdm_reach.start [of log h "dm_cdm d" "dm_host d"]
    by (auto simp: known_users_def NewSessionManager_def cdm_live_def intro: exI [of _ "[]"])
next
  case (ipc d req r d')
  then show ?case using sound_dispatch [of authenticate req d r d'] by (simp add: sound_step_def)
next
  case (ui d cookie q reply d')
  then show ?case using sound_ui [of authenticate cookie q d reply d'] by (simp add: sound_step_def)
next
  case (clean d sm h)
  then have "known_users authenticate (d\<lparr>dm_sessions := sm, dm_host := h\<rparr>)"
    by (auto simp: known_users_def SessionManager_Cleanup_def split: prod.splits option.splits if_splits)
  then show ?case using clean cdm_live_same [of d] by simp
next
  case (elapse d h)
  then show ?case using cdm_live_same [of d "d\<lparr>dm_host := h\<rparr>"] by (simp add: known_users_def)
qed

definition live_user :: "(string \<Rightarrow> string \<Rightarrow> bool) \<Rightarrow> daemon \<Rightarrow> string \<Rightarrow> bool" where
  "live_user authenticate d token = (\<exists>s. dm_sessions d token = Some s \<and> host_time (dm_host d) \<le> se_ExpiresAt s
     \<and> host_time (dm_host d) - se_LastUsed s \<le> idle_timeout (se_Type s) \<and> (\<exists>p. authenticate (se_Username s) p))"

lemma validated_live:
  "known_users authenticate d \<Longrightarrow> validate_session token d = (Inr s, d1) \<Longrightarrow> live_user authenticate d token"
  using validate_session_Inr [of token d s d1] by (auto simp: live_user_def known_users_def)

text \<open>C36: Whoever changes the customer device mode through a local interface presents, on the socket or as
  the page's cookie, the token of a session that has not expired and that belongs to a user whose password the
  operating system has accepted; and in every state the daemon can reach, the gate for jobs is open with the
  mode on only while a grant of positive duration made there has not run out.\<close>

theorem local_cdm_guarded:
  assumes "daemon_reach authenticate d"
  shows "(Dispatch authenticate req d = (r, d1) \<and> dm_cdm d1 \<noteq> dm_cdm d \<longrightarrow> live_user authenticate d (rq_Token req))
    \<and> (Server_routes authenticate cookie q d = (reply, d2) \<and> dm_cdm d2 \<noteq> dm_cdm d \<longrightarrow>
        (\<exists>token. cookie = Some token \<and> live_user authenticate d token))
    \<and> (fst (Manager_CanExecuteJob (dm_cdm d) (dm_host d)) \<and> Manager_Enabled (dm_cdm d) \<longrightarrow>
        (\<exists>t dur. dur > 0 \<and> st_SessionGrantedAt (m_state (dm_cdm d)) = Some t \<and> host_time (dm_host d) \<le> t + dur))"
proof -
  have k: "known_users authenticate d" and "cdm_live d" using daemon_reach_sound [OF assms] by simp_all
  then obtain G where G: "cdm_reach G (dm_cdm d) (dm_host d)" "positive G" by (auto simp: cdm_live_def)
  have "fst (Manager_CanExecuteJob (dm_cdm d) (dm_host d)) \<and> Manager_Enabled (dm_cdm d) \<longrightarrow>
        (\<exists>t dur. dur > 0 \<and> st_SessionGrantedAt (m_state (dm_cdm d)) = Some t \<and> host_time (dm_host d) \<le> t + dur)"
    using cdm_gate_open [OF G(1)] G(2) by (fastforce simp: positive_def host_time_def)
  then show ?thesis using k dispatch_guarded ui_guarded validated_live by metis
qed

definition sample_password :: "string \<Rightarrow> string \<Rightarrow> bool" where
  "sample_password u p = (u = ''u'' \<and> p = ''pw'')"

definition sample_daemon :: daemon where
  "sample_daemon = \<lparr>dm_AgentID = ''d1'', dm_Version = ''1.0'', dm_ServerURL = '''', dm_PollInterval = 30, dm_sessions = NewSessionManager,
     dm_cdm = \<lparr>m_state = zero_State, m_file = None, m_auditLog = None\<rparr>, dm_audit = None, dm_logPath = '''', dm_logData = None,
     dm_host = sample_host\<rparr>"

definition sample_token :: string where
  "sample_token = fst (generateToken sample_host)"

definition sample_logged_in :: daemon where
  "sample_logged_in = snd (Dispatch sample_password \<lparr>rq_ID = ''1'', rq_Method = ''auth.login'',
     rq_Params = Fields [(''Username'', JString ''u''), (''password'', JString ''pw'')], rq_Token = ''''\<rparr> sample_daemon)"

definition sample_enable :: ipc_request where
  "sample_enable = \<lparr>rq_ID = ''2'', rq_Method = ''cdm.enable'', rq_Params = Fields [(''actor'', JString ''u'')], rq_Token = sample_token\<rparr>"

lemma sample_token_nonempty: "sample_token \<noteq> ''''"
  by (simp add: sample_token_def generateToken_def host_rand_def tokenBytes_def sample_host_def upt_conv_Cons)

lemma sample_logged_in_eq:
  "sample_logged_in = sample_daemon\<lparr>dm_sessions := [sample_token \<mapsto> \<lparr>se_Token = sample_token, se_Username = ''u'',
      se_Type = SessionCLI, se_CreatedAt = 0, se_LastUsed = 0, se_ExpiresAt = cliIdleTimeout\<rparr>],
     dm_host := sample_host\<lparr>h_drawn := 32, h_ticks := 1\<rparr>\<rparr>"
proof -
  have g: "generateToken sample_host = (sample_token, sample_host\<lparr>h_drawn := 32\<rparr>)"
    by (simp add: sample_token_def generateToken_def host_rand_def tokenBytes_def sample_host_def)
  have f: "map fold_case ''Username'' = ''username''" "map fold_case ''password'' = ''password''" by code_simp+
  show ?thesis
    by (simp add: sample_logged_in_def Dispatch_def ipc_methods_def auth_login_def unmarshal_string_def f [simplified] sample_password_def
        create_session_def SessionManager_Create_def sample_daemon_def g host_now_def audited_def NewSessionManager_def Let_def)
       (simp add: sample_host_def)
qed

theorem local_cdm_guarded_witness:
  "live_user sample_password sample_logged_in sample_token
   \<and> dm_cdm (snd (Dispatch sample_password sample_enable sample_logged_in)) \<noteq> dm_cdm sample_logged_in"
proof -
  have "daemon_reach sample_password sample_daemon"
    by (rule daemon_reach.start [of _ None sample_host])
       (simp_all add: sample_daemon_def Manager_New_def read_doc_def sample_host_def checkExpiryLocked_def zero_State_def)
  then have r: "daemon_reach sample_password sample_logged_in"
    unfolding sample_logged_in_def by (rule daemon_reach.ipc) (rule surjective_pairing)
  have f: "map fold_case ''actor'' = ''actor''" by code_simp
  have c: "dm_cdm (snd (Dispatch sample_password sample_enable sample_logged_in)) \<noteq> dm_cdm sample_logged_in"
    by (simp add: sample_logged_in_eq sample_enable_def Dispatch_def ipc_methods_def RequireAuthMiddleware_def sample_token_nonempty
        validate_session_def SessionManager_Validate_def host_now_def sample_host_def cliIdleTimeout_def idle_timeout_def Let_def
        cdm_enable_def unmarshal_string_def f [simplified] on_cdm_def Manager_Enable_def persistLocked_def write_doc_def next_io_def
        AuditLog_Write_def audited_def sample_daemon_def zero_State_def)
  obtain r1 d1 where d: "Dispatch sample_password sample_enable sample_logged_in = (r1, d1)" by (rule prod.exhaust)
  show ?thesis
    using local_cdm_guarded [OF r, of sample_enable r1 d1] c d by (simp add: sample_enable_def)
qed

text \<open>On the socket the audit entry names the actor of the request, whoever holds the session.\<close>

lemma ipc_actor_unchecked:
  "cdm_enable token (Fields [(''actor'', JString actor)]) d =
    (case on_cdm (Manager_Enable actor) d of
       (Inl e, d1) \<Rightarrow> (Inl (ipc_err CodeInternal e), d1)
     | (Inr _, d1) \<Rightarrow> (Inr OkResult, audited (LogCDMToggle actor InterfaceCLI ''disabled'' ''enabled'') d1))"
proof -
  have "map fold_case ''actor'' = ''actor''" by code_simp
  then show ?thesis by (simp add: cdm_enable_def unmarshal_string_def)
qed

end
