(* ===== verification/Inventory.thy ===== *)
theory Inventory
  imports Checkin LocalIPC "HOL-Library.AList" "HOL-Library.Multiset"
begin

text \<open>The package inventory of the agent (agent/inventory/collector.go and packages_linux.go) and its way into the
  server's tables: the delta the agent computes is the delta the check-in applies.  The order in which Go walks
  a map is unspecified; it is a parameter that may be any reordering.\<close>

section \<open>Collecting packages\<close>

text \<open>\<open>strings.SplitN\<close> with a tab and two parts.\<close>

definition split_tab :: "string \<Rightarrow> (string \<times> string) option" where
  "split_tab line = (let name = takeWhile (\<lambda>c. c \<noteq> CHR 0x09) line in
     if length name = length line then None else Some (name, drop (Suc (length name)) line))"

definition parse_package :: "string \<Rightarrow> string \<Rightarrow> PackageRef option" where
  "parse_package manager line = (case split_tab line of
       None \<Rightarrow> None
     | Some (name, version) \<Rightarrow>
       if name = '''' then None else Some \<lparr>pr_Name = name, pr_Version = version, pr_Manager = manager\<rparr>)"

text \<open>The scanner stops for good at a line that is too long, and its error is not looked at.\<close>

definition parseTSV :: "string \<Rightarrow> string \<Rightarrow> PackageRef list" where
  "parseTSV output manager =
     List.map_filter (parse_package manager) (map drop_cr (takeWhile (\<lambda>l. length l < MaxScanTokenSize) (scan_lines [] output)))"

definition collectDpkg :: "string option \<Rightarrow> PackageRef list option" where
  "collectDpkg out = map_option (\<lambda>o1. parseTSV o1 ''apt'') out"

definition collectRPM :: "string option \<Rightarrow> PackageRef list option" where
  "collectRPM out = map_option (\<lambda>o1. parseTSV o1 ''rpm'') out"

text \<open>The outputs of the two commands, or their failures; no package at all is the nil slice.\<close>

definition collectPackages :: "string option \<Rightarrow> string option \<Rightarrow> PackageRef list" where
  "collectPackages dpkg rpm =
    (case collectDpkg dpkg of None \<Rightarrow> [] | Some ps \<Rightarrow> ps) @ (case collectRPM rpm of None \<Rightarrow> [] | Some ps \<Rightarrow> ps)"

section \<open>The delta\<close>

type_synonym snapshot = "(string \<times> PackageRef) list"

record Collector =
  co_lastPkgs :: "snapshot option"

definition pkgKey :: "PackageRef \<Rightarrow> string" where
  "pkgKey p = pr_Manager p @ '':'' @ pr_Name p"

definition snapshot_of :: "PackageRef list \<Rightarrow> snapshot" where
  "snapshot_of current = fold (\<lambda>p. AList.update (pkgKey p) p) current []"

definition delta_added :: "snapshot \<Rightarrow> snapshot \<Rightarrow> PackageRef list" where
  "delta_added old cur = map snd (filter (\<lambda>e. map_of old (fst e) = None) cur)"

definition delta_updated :: "snapshot \<Rightarrow> snapshot \<Rightarrow> PackageRef list" where
  "delta_updated old cur = map snd (filter (\<lambda>e. case map_of old (fst e) of
       None \<Rightarrow> False | Some prev \<Rightarrow> pr_Version prev \<noteq> pr_Version (snd e)) cur)"

definition ComputeDelta ::
  "(snapshot \<Rightarrow> snapshot) \<Rightarrow> PackageRef list \<Rightarrow> Collector \<Rightarrow> InventoryDelta option \<times> Collector" where
  "ComputeDelta walk current c =
    (if current = [] then (None, c)
     else let currentMap = snapshot_of current in
       case co_lastPkgs c of
         None \<Rightarrow> (None, c\<lparr>co_lastPkgs := Some currentMap\<rparr>)
       | Some old \<Rightarrow>
         (let delta = \<lparr>pd_Added = delta_added old (walk currentMap),
                       pd_Removed = delta_added currentMap (walk old),
                       pd_Updated = delta_updated old (walk currentMap)\<rparr> in
          (if pd_Added delta = [] \<and> pd_Removed delta = [] \<and> pd_Updated delta = [] then None
           else Some \<lparr>id_Packages = Some delta\<rparr>,
           c\<lparr>co_lastPkgs := Some currentMap\<rparr>)))"

section \<open>What the server holds for a device\<close>

type_synonym package_key = "string \<times> string"

definition ref_key :: "PackageRef \<Rightarrow> package_key" where
  "ref_key p = (pr_Manager p, pr_Name p)"

definition row_key :: "Package \<Rightarrow> package_key" where
  "row_key q = (p_Manager q, p_Name q)"

definition device_rows :: "id \<Rightarrow> db \<Rightarrow> Package list" where
  "device_rows dev d = filter (\<lambda>q. p_DeviceID q = dev) (db_inventory_packages d)"

definition content :: "id \<Rightarrow> db \<Rightarrow> package_key \<rightharpoonup> string" where
  "content dev d = map_of (map (\<lambda>q. (row_key q, p_Version q)) (device_rows dev d))"

definition snapshot_content :: "snapshot \<Rightarrow> package_key \<rightharpoonup> string" where
  "snapshot_content s = map_of (map (\<lambda>(k, p). (ref_key p, pr_Version p)) s)"

definition server_holds :: "id \<Rightarrow> db \<Rightarrow> snapshot \<Rightarrow> bool" where
  "server_holds dev d s \<longleftrightarrow> distinct (map row_key (device_rows dev d)) \<and> content dev d = snapshot_content s"

definition known_manager :: "string \<Rightarrow> bool" where
  "known_manager m \<longleftrightarrow> m = ''apt'' \<or> m = ''rpm''"

text \<open>Snapshots of collected packages: one entry per key, and keys that tell manager and name.\<close>

definition snapshot_ok :: "snapshot \<Rightarrow> bool" where
  "snapshot_ok s \<longleftrightarrow> distinct (map fst s) \<and> (\<forall>(k, p) \<in> set s. k = pkgKey p \<and> known_manager (pr_Manager p))"

lemma pkgKey_inj:
  assumes "known_manager (pr_Manager p)" and "known_manager (pr_Manager q)"
  shows "pkgKey p = pkgKey q \<longleftrightarrow> ref_key p = ref_key q"
  using assms by (auto simp: pkgKey_def ref_key_def known_manager_def)

lemma parseTSV_manager: "p \<in> set (parseTSV out m) \<Longrightarrow> pr_Manager p = m"
  by (auto simp: parseTSV_def List.map_filter_def parse_package_def split: option.splits prod.splits if_splits)

lemma collect_manager: "p \<in> set (collectPackages dpkg rpm) \<Longrightarrow> known_manager (pr_Manager p)"
  by (auto simp: collectPackages_def collectDpkg_def collectRPM_def known_manager_def dest: parseTSV_manager split: option.splits)

lemma set_update_cases: "e \<in> set (AList.update k v s) \<Longrightarrow> e = (k, v) \<or> e \<in> set s"
  by (induction s) (auto split: if_splits)

lemma snapshot_ok_update:
  assumes "snapshot_ok s" and "known_manager (pr_Manager p)"
  shows "snapshot_ok (AList.update (pkgKey p) p s)"
proof -
  have "k = pkgKey q \<and> known_manager (pr_Manager q)" if "(k, q) \<in> set (AList.update (pkgKey p) p s)" for k q
    using set_update_cases [OF that] assms unfolding snapshot_ok_def by blast
  moreover have "distinct (map fst (AList.update (pkgKey p) p s))" using assms(1) by (simp add: snapshot_ok_def distinct_update)
  ultimately show ?thesis unfolding snapshot_ok_def by blast
qed

lemma snapshot_of_ok:
  assumes "\<And>p. p \<in> set ps \<Longrightarrow> known_manager (pr_Manager p)"
  shows "snapshot_ok (snapshot_of ps)"
proof -
  have "snapshot_ok (fold (\<lambda>p. AList.update (pkgKey p) p) ps s)" if "snapshot_ok s" for s
    using assms that
  proof (induction ps arbitrary: s)
    case (Cons p ps)
    have "snapshot_ok (AList.update (pkgKey p) p s)"
      using Cons.prems by (intro snapshot_ok_update) simp_all
    then have "snapshot_ok (fold (\<lambda>p. AList.update (pkgKey p) p) ps (AList.update (pkgKey p) p s))"
      by (intro Cons.IH) (simp_all add: Cons.prems(1))
    then show ?case by simp
  qed simp
  from this [of "[]"] show ?thesis by (simp add: snapshot_of_def snapshot_ok_def)
qed

lemma snapshot_lookup:
  assumes "snapshot_ok s" and "known_manager (pr_Manager p)"
  shows "snapshot_content s (ref_key p) = map_option pr_Version (map_of s (pkgKey p))"
  using assms
proof (induction s)
  case (Cons e s)
  obtain k q where e: "e = (k, q)" by (rule prod.exhaust)
  have s: "snapshot_ok s" and q: "k = pkgKey q" "known_manager (pr_Manager q)" using Cons.prems(1) by (auto simp: snapshot_ok_def e)
  have "snapshot_content (e # s) (ref_key p) = (if ref_key q = ref_key p then Some (pr_Version q) else snapshot_content s (ref_key p))"
    by (simp add: snapshot_content_def e)
  then show ?case using Cons.IH [OF s Cons.prems(2)] pkgKey_inj [OF q(2) Cons.prems(2)] by (auto simp: e q(1))
qed (simp add: snapshot_content_def)

lemma snapshot_content_dom:
  assumes "snapshot_ok s" and "snapshot_content s k = Some v"
  shows "\<exists>p. k = ref_key p \<and> known_manager (pr_Manager p) \<and> (pkgKey p, p) \<in> set s \<and> pr_Version p = v"
proof -
  obtain k' p where p: "(k', p) \<in> set s" "k = ref_key p" "pr_Version p = v"
    using map_of_SomeD [OF assms(2) [unfolded snapshot_content_def]] by auto
  moreover have "k' = pkgKey p \<and> known_manager (pr_Manager p)" using assms(1) p(1) unfolding snapshot_ok_def by blast
  ultimately show ?thesis by blast
qed

section \<open>Applying a delta\<close>

text \<open>The identifiers the next insertions draw are new.\<close>

definition package_id :: "world \<Rightarrow> nat \<Rightarrow> id" where
  "package_id w i = ''ipk_'' @ hex_encode (map (w_rand w) [w_drawn w + 8 * i..<w_drawn w + 8 * i + 8])"

definition fresh_packages :: "nat \<Rightarrow> world \<Rightarrow> bool" where
  "fresh_packages n w \<longleftrightarrow> inj_on (package_id w) {..<n}
     \<and> (\<forall>i < n. package_id w i \<notin> set (map p_ID (db_inventory_packages (w_db w))))"

definition package_row :: "id \<Rightarrow> time \<Rightarrow> id \<Rightarrow> PackageRef \<Rightarrow> Package" where
  "package_row dev now i p = \<lparr>p_ID = i, p_DeviceID = dev, p_Name = pr_Name p, p_Version = pr_Version p, p_Manager = pr_Manager p,
     p_InstalledAt = None, p_LastSeenAt = now\<rparr>"

lemma package_row_sel [simp]: "p_ID (package_row dev now i p) = i" "p_DeviceID (package_row dev now i p) = dev"
    "row_key (package_row dev now i p) = ref_key p" "p_Version (package_row dev now i p) = pr_Version p"
  by (simp_all add: package_row_def row_key_def ref_key_def)

definition known_device :: "id \<Rightarrow> db \<Rightarrow> bool" where
  "known_device dev d \<longleftrightarrow> dev \<in> set (map d_id (db_devices d))"

lemma delta_add_no_fault:
  assumes "w_faults w = []" and "known_device dev (w_db w)" and "fresh_packages (Suc n) w"
  shows "delta_add dev now p w = (Inr (), w\<lparr>w_db := (w_db w)\<lparr>db_inventory_packages := db_inventory_packages (w_db w)
      @ [package_row dev now (package_id w 0) p]\<rparr>, w_drawn := w_drawn w + 8\<rparr>)"
proof -
  have "package_id w 0 \<notin> set (map p_ID (db_inventory_packages (w_db w)))" using assms(3) unfolding fresh_packages_def by blast
  then have "''ipk_'' @ hex_encode (map (w_rand w) [w_drawn w..<w_drawn w + 8]) \<notin> set (map p_ID (db_inventory_packages (w_db w)))"
    by (simp add: package_id_def)
  then show ?thesis using assms(1,2)
    by (simp add: delta_add_def newID_def rand_Read_def Exec_no_fault insert_package_nothing_def insert_package_def constrained_def
        known_device_def package_row_def package_id_def)
qed

lemma fresh_packages_next:
  assumes "fresh_packages (Suc n) w"
  shows "fresh_packages n (w\<lparr>w_db := (w_db w)\<lparr>db_inventory_packages := db_inventory_packages (w_db w)
      @ [package_row dev now (package_id w 0) p]\<rparr>, w_drawn := w_drawn w + 8\<rparr>)"
proof -
  let ?w = "w\<lparr>w_db := (w_db w)\<lparr>db_inventory_packages := db_inventory_packages (w_db w)
      @ [package_row dev now (package_id w 0) p]\<rparr>, w_drawn := w_drawn w + 8\<rparr>"
  have i: "package_id ?w i = package_id w (Suc i)" for i by (simp add: package_id_def add.commute add.left_commute)
  have inj: "inj_on (package_id w) {..<Suc n}" and new: "\<And>j. j < Suc n \<Longrightarrow> package_id w j \<notin> p_ID ` set (db_inventory_packages (w_db w))"
    using assms by (simp_all add: fresh_packages_def)
  have "inj_on (package_id ?w) {..<n}" using inj by (auto simp: i inj_on_def)
  moreover have "package_id w (Suc j) \<noteq> package_id w 0" if "j < n" for j
    using inj that by (auto dest: inj_onD)
  ultimately show ?thesis using new unfolding fresh_packages_def i by (simp add: i)
qed

lemma adds_applied:
  assumes "w_faults w = []" and "known_device dev (w_db w)" and "fresh_packages (length ps) w"
  shows "\<exists>w' new. for_each (delta_add dev now) ps w = (Inr (), w') \<and> w_faults w' = []
    \<and> db_inventory_packages (w_db w') = db_inventory_packages (w_db w) @ new
    \<and> map (\<lambda>q. (row_key q, p_Version q)) new = map (\<lambda>p. (ref_key p, pr_Version p)) ps \<and> (\<forall>q \<in> set new. p_DeviceID q = dev)"
  using assms
proof (induction ps arbitrary: w)
  case (Cons p ps)
  let ?w = "w\<lparr>w_db := (w_db w)\<lparr>db_inventory_packages := db_inventory_packages (w_db w)
      @ [package_row dev now (package_id w 0) p]\<rparr>, w_drawn := w_drawn w + 8\<rparr>"
  have step: "delta_add dev now p w = (Inr (), ?w)" using Cons.prems by (intro delta_add_no_fault [of _ _ "length ps"]) simp_all
  have "fresh_packages (length ps) ?w" using Cons.prems(3) by (intro fresh_packages_next) simp
  then obtain w' new where IH: "for_each (delta_add dev now) ps ?w = (Inr (), w')" "w_faults w' = []"
      "db_inventory_packages (w_db w') = db_inventory_packages (w_db ?w) @ new"
      "map (\<lambda>q. (row_key q, p_Version q)) new = map (\<lambda>p. (ref_key p, pr_Version p)) ps" "\<forall>q \<in> set new. p_DeviceID q = dev"
    using Cons.IH [of ?w] Cons.prems by (auto simp: known_device_def)
  show ?case
    by (rule exI [of _ w'], rule exI [of _ "package_row dev now (package_id w 0) p # new"])
       (use IH in \<open>simp add: step\<close>)
qed simp

lemma device_rows_upd [simp]:
  "device_rows dev (d\<lparr>db_inventory_packages := rs\<rparr>) = filter (\<lambda>q. p_DeviceID q = dev) rs"
  by (simp add: device_rows_def)

lemma row_key_is: "package_is dev p q \<longleftrightarrow> p_DeviceID q = dev \<and> row_key q = ref_key p"
  by (auto simp: package_is_def row_key_def ref_key_def)

definition versions_of :: "Package list \<Rightarrow> package_key \<rightharpoonup> string" where
  "versions_of rs = map_of (map (\<lambda>q. (row_key q, p_Version q)) rs)"

lemma content_versions: "content dev d = versions_of (device_rows dev d)"
  by (simp add: content_def versions_of_def)

lemma update_package:
  fixes f :: "Package \<Rightarrow> Package" and rs :: "Package list" and dev :: id
  assumes "\<And>q. row_key (f q) = row_key q" and "\<And>q. p_DeviceID (f q) = p_DeviceID q" and "\<And>q. p_Version (f q) = pr_Version p"
  defines "rs' \<equiv> filter (\<lambda>q. p_DeviceID q = dev) (update_rows (package_is dev p) f rs)"
    and "rs0 \<equiv> filter (\<lambda>q. p_DeviceID q = dev) rs"
  shows "map row_key rs' = map row_key rs0"
    and "versions_of rs' k = (if k = ref_key p then map_option (\<lambda>_. pr_Version p) (versions_of rs0 k) else versions_of rs0 k)"
proof -
  have e: "rs' = map (\<lambda>q. if row_key q = ref_key p then f q else q) rs0"
    unfolding rs'_def rs0_def by (induction rs) (auto simp: assms(1,2) row_key_is)
  show "map row_key rs' = map row_key rs0" by (simp add: e assms(1))
  show "versions_of rs' k = (if k = ref_key p then map_option (\<lambda>_. pr_Version p) (versions_of rs0 k) else versions_of rs0 k)"
    unfolding e by (induction rs0) (auto simp: versions_of_def assms(1,3))
qed

lemma delete_package:
  fixes rs :: "Package list" and dev :: id and p :: PackageRef
  defines "rs' \<equiv> filter (\<lambda>q. p_DeviceID q = dev) (delete_rows (package_is dev p) rs)"
    and "rs0 \<equiv> filter (\<lambda>q. p_DeviceID q = dev) rs"
  shows "distinct (map row_key rs0) \<Longrightarrow> distinct (map row_key rs')"
    and "versions_of rs' = (versions_of rs0)(ref_key p := None)"
proof -
  have e: "rs' = filter (\<lambda>q. row_key q \<noteq> ref_key p) rs0"
    unfolding rs'_def rs0_def by (induction rs) (auto simp: delete_rows_def row_key_is)
  show "distinct (map row_key rs0) \<Longrightarrow> distinct (map row_key rs')" by (simp add: e distinct_map_filterI)
  show "versions_of rs' = (versions_of rs0)(ref_key p := None)"
  proof
    show "versions_of rs' k = ((versions_of rs0)(ref_key p := None)) k" for k
      unfolding e by (induction rs0) (auto simp: versions_of_def)
  qed
qed

lemma updates_applied:
  assumes "w_faults w = []" and "distinct (map row_key (device_rows dev (w_db w)))"
  shows "\<exists>w'. for_each (delta_update dev now) ps w = (Inr (), w') \<and> w_faults w' = []
    \<and> distinct (map row_key (device_rows dev (w_db w')))
    \<and> content dev (w_db w') = fold (\<lambda>p c. c(ref_key p := map_option (\<lambda>_. pr_Version p) (c (ref_key p)))) ps (content dev (w_db w))"
  using assms
proof (induction ps arbitrary: w)
  case (Cons p ps)
  let ?f = "\<lambda>q. q\<lparr>p_Version := pr_Version p, p_LastSeenAt := now\<rparr>"
  let ?d = "(w_db w)\<lparr>db_inventory_packages := update_rows (package_is dev p) ?f (db_inventory_packages (w_db w))\<rparr>"
  have step: "delta_update dev now p w = (Inr (), w\<lparr>w_db := ?d\<rparr>)"
    using Cons.prems(1) by (simp add: delta_update_def Exec_no_fault update_packages_def)
  note u = update_package [of ?f p dev "db_inventory_packages (w_db w)"]
  have k: "map row_key (device_rows dev ?d) = map row_key (device_rows dev (w_db w))"
    using u(1) by (simp add: row_key_def device_rows_def)
  have c: "content dev ?d = (content dev (w_db w))(ref_key p := map_option (\<lambda>_. pr_Version p) (content dev (w_db w) (ref_key p)))"
    using u(2) by (simp add: row_key_def device_rows_def content_versions fun_eq_iff)
  show ?case using Cons.IH [of "w\<lparr>w_db := ?d\<rparr>"] Cons.prems step k c by simp
qed simp

lemma removes_applied:
  assumes "w_faults w = []" and "distinct (map row_key (device_rows dev (w_db w)))"
  shows "\<exists>w'. for_each (delta_remove dev) ps w = (Inr (), w') \<and> w_faults w' = []
    \<and> distinct (map row_key (device_rows dev (w_db w')))
    \<and> content dev (w_db w') = fold (\<lambda>p c. c(ref_key p := None)) ps (content dev (w_db w))"
  using assms
proof (induction ps arbitrary: w)
  case (Cons p ps)
  let ?d = "(w_db w)\<lparr>db_inventory_packages := delete_rows (package_is dev p) (db_inventory_packages (w_db w))\<rparr>"
  have step: "delta_remove dev p w = (Inr (), w\<lparr>w_db := ?d\<rparr>)"
    using Cons.prems(1) by (simp add: delta_remove_def Exec_no_fault delete_packages_def)
  note u = delete_package [where dev = dev and p = p and rs = "db_inventory_packages (w_db w)"]
  have "distinct (map row_key (device_rows dev ?d))" "content dev ?d = (content dev (w_db w))(ref_key p := None)"
    using u Cons.prems(2) by (simp_all add: device_rows_def content_versions)
  then show ?case using Cons.IH [of "w\<lparr>w_db := ?d\<rparr>"] Cons.prems step by simp
qed simp

lemma fold_removes: "fold (\<lambda>p c. c(ref_key p := None)) ps c k = (if k \<in> ref_key ` set ps then None else c k)"
  by (induction ps arbitrary: c) auto

lemma fold_updates:
  assumes "distinct (map ref_key ps)"
  shows "fold (\<lambda>p c. c(ref_key p := map_option (\<lambda>_. pr_Version p) (c (ref_key p)))) ps c k =
    (case map_of (map (\<lambda>p. (ref_key p, pr_Version p)) ps) k of None \<Rightarrow> c k | Some v \<Rightarrow> map_option (\<lambda>_. v) (c k))"
  using assms
proof (induction ps arbitrary: c)
  case (Cons p ps)
  have n: "map_of (map (\<lambda>p. (ref_key p, pr_Version p)) ps) (ref_key p) = None"
    using Cons.prems by (auto simp: map_of_eq_None_iff)
  show ?case
    using Cons.IH [of "c(ref_key p := map_option (\<lambda>_. pr_Version p) (c (ref_key p)))"] Cons.prems n
    by (cases "k = ref_key p") (simp_all split: option.split)
qed simp

section \<open>From the agent to the server\<close>

text \<open>A walk over a map visits every entry once, in some order.\<close>

definition walks :: "(snapshot \<Rightarrow> snapshot) \<Rightarrow> bool" where
  "walks walk \<longleftrightarrow> (\<forall>s. mset (walk s) = mset s)"

lemma walk_ok: "walks walk \<Longrightarrow> snapshot_ok s \<Longrightarrow> snapshot_ok (walk s)"
  unfolding walks_def snapshot_ok_def using mset_eq_setD [of "walk s" s] mset_eq_imp_distinct_iff [of "map fst (walk s)" "map fst s"]
  by simp

lemma walk_set: "walks walk \<Longrightarrow> set (walk s) = set s"
  unfolding walks_def using mset_eq_setD [of "walk s" s] by simp

lemma set_delta_added:
  "p \<in> set (delta_added old cur) \<longleftrightarrow> (\<exists>k. (k, p) \<in> set cur \<and> map_of old k = None)"
  by (force simp: delta_added_def)

lemma set_delta_updated:
  "p \<in> set (delta_updated old cur) \<longleftrightarrow> (\<exists>k prev. (k, p) \<in> set cur \<and> map_of old k = Some prev \<and> pr_Version prev \<noteq> pr_Version p)"
proof
  assume "p \<in> set (delta_updated old cur)"
  then show "\<exists>k prev. (k, p) \<in> set cur \<and> map_of old k = Some prev \<and> pr_Version prev \<noteq> pr_Version p"
    by (auto simp: delta_updated_def split: option.splits)
next
  assume "\<exists>k prev. (k, p) \<in> set cur \<and> map_of old k = Some prev \<and> pr_Version prev \<noteq> pr_Version p"
  then obtain k prev where "(k, p) \<in> set cur" "map_of old k = Some prev" "pr_Version prev \<noteq> pr_Version p" by blast
  then show "p \<in> set (delta_updated old cur)"
    unfolding delta_updated_def set_map set_filter by (intro image_eqI [of _ _ "(k, p)"]) simp_all
qed

lemma snapshot_member:
  "snapshot_ok s \<Longrightarrow> (k, p) \<in> set s \<Longrightarrow> k = pkgKey p \<and> known_manager (pr_Manager p) \<and> map_of s (pkgKey p) = Some p"
  unfolding snapshot_ok_def by (auto dest: map_of_is_SomeI)

lemma snapshot_distinct_keys: "snapshot_ok s \<Longrightarrow> distinct (map (\<lambda>e. ref_key (snd e)) s)"
proof (induction s)
  case (Cons e s)
  obtain k p where e: "e = (k, p)" by (rule prod.exhaust)
  have s: "snapshot_ok s" and p: "k = pkgKey p" "known_manager (pr_Manager p)" and k: "k \<notin> fst ` set s"
    using Cons.prems by (auto simp: snapshot_ok_def e)
  have "ref_key (snd e') \<noteq> ref_key p" if "e' \<in> set s" for e'
  proof -
    obtain k' q where q: "e' = (k', q)" by (rule prod.exhaust)
    have "k' = pkgKey q" "known_manager (pr_Manager q)" using snapshot_member [OF s] that q by blast+
    moreover have "k' \<noteq> k" using k that q by force
    ultimately show ?thesis using pkgKey_inj [of q p] p q by simp
  qed
  then have "ref_key p \<notin> (\<lambda>e. ref_key (snd e)) ` set s" by (metis imageE)
  then show ?case using Cons.IH [OF s] by (simp add: e)
qed simp

lemma deltas_distinct:
  assumes "snapshot_ok cur"
  shows "distinct (map ref_key (delta_added old cur))" and "distinct (map ref_key (delta_updated old cur))"
  using snapshot_distinct_keys [OF assms] by (simp_all add: delta_added_def delta_updated_def comp_def distinct_map_filterI)

lemma walk_map_of: "walks walk \<Longrightarrow> snapshot_ok s \<Longrightarrow> map_of (walk s) = map_of s"
  using walk_ok [of walk s] walk_set [of walk s] by (auto simp: snapshot_ok_def intro!: map_of_inject_set [THEN iffD2])

lemma filtered_lookup:
  assumes "snapshot_ok s" and "known_manager (pr_Manager p)"
  shows "map_of (map (\<lambda>p. (ref_key p, pr_Version p)) (map snd (filter Q s))) (ref_key p) =
    (case map_of s (pkgKey p) of None \<Rightarrow> None | Some q \<Rightarrow> if Q (pkgKey p, q) then Some (pr_Version q) else None)"
  using assms
proof (induction s)
  case (Cons e s)
  obtain k q where e: "e = (k, q)" by (rule prod.exhaust)
  have s: "snapshot_ok s" and q: "k = pkgKey q" "known_manager (pr_Manager q)" and k: "k \<notin> fst ` set s"
    using Cons.prems(1) by (auto simp: snapshot_ok_def e)
  have i: "pkgKey q = pkgKey p \<longleftrightarrow> ref_key q = ref_key p" using pkgKey_inj [OF q(2) Cons.prems(2)] .
  have n: "map_of s (pkgKey q) = None" using k q(1) by (simp add: map_of_eq_None_iff)
  show ?case
  proof (cases "ref_key q = ref_key p")
    case True
    then have "pkgKey p = pkgKey q" using i by simp
    then show ?thesis using Cons.IH [OF s Cons.prems(2)] True n by (simp add: e q(1))
  next
    case False
    then have "pkgKey p \<noteq> pkgKey q" using i by auto
    then show ?thesis using Cons.IH [OF s Cons.prems(2)] False by (simp add: e q(1))
  qed
qed simp

lemma in_keys_iff: "k \<in> ref_key ` set ps \<longleftrightarrow> map_of (map (\<lambda>p. (ref_key p, pr_Version p)) ps) k \<noteq> None"
  by (simp add: map_of_eq_None_iff image_image)

lemma unknown_lookup:
  assumes "snapshot_ok s" and "\<And>p. known_manager (pr_Manager p) \<Longrightarrow> k \<noteq> ref_key p"
  shows "map_of (map (\<lambda>p. (ref_key p, pr_Version p)) (map snd (filter Q s))) k = None" and "snapshot_content s k = None"
  using assms by (fastforce simp: map_of_eq_None_iff snapshot_ok_def snapshot_content_def)+

text \<open>The content after the three loops of the server, for a delta between two snapshots.\<close>

definition applied :: "snapshot \<Rightarrow> snapshot \<Rightarrow> snapshot \<Rightarrow> snapshot \<Rightarrow> package_key \<rightharpoonup> string" where
  "applied old wold cur wcur = (let A = map (\<lambda>p. (ref_key p, pr_Version p)) (delta_added old wcur); U = delta_updated old wcur;
     R = delta_added cur wold in
     fold (\<lambda>p c. c(ref_key p := None)) R
      (fold (\<lambda>p c. c(ref_key p := map_option (\<lambda>_. pr_Version p) (c (ref_key p)))) U (map_of A ++ snapshot_content old)))"

lemma applied_delta:
  assumes "walks walk" and "snapshot_ok old" and "snapshot_ok cur"
  shows "applied old (walk old) cur (walk cur) = snapshot_content cur"
proof
  fix k
  let ?L = "\<lambda>ps. map_of (map (\<lambda>p. (ref_key p, pr_Version p)) ps) k"
  have w: "snapshot_ok (walk old)" "snapshot_ok (walk cur)" using assms walk_ok by blast+
  have m: "map_of (walk old) = map_of old" "map_of (walk cur) = map_of cur" using assms walk_map_of by blast+
  have e: "applied old (walk old) cur (walk cur) k =
    (if ?L (delta_added cur (walk old)) \<noteq> None then None
     else case ?L (delta_updated old (walk cur)) of
         None \<Rightarrow> (case snapshot_content old k of Some v \<Rightarrow> Some v | None \<Rightarrow> ?L (delta_added old (walk cur)))
       | Some v \<Rightarrow> map_option (\<lambda>_. v) (case snapshot_content old k of Some v \<Rightarrow> Some v | None \<Rightarrow> ?L (delta_added old (walk cur))))"
    unfolding applied_def Let_def fold_removes fold_updates [OF deltas_distinct(2) [OF w(2)]] in_keys_iff map_add_def by simp
  show "applied old (walk old) cur (walk cur) k = snapshot_content cur k"
  proof (cases "\<exists>p. known_manager (pr_Manager p) \<and> k = ref_key p")
    case True
    then obtain p :: PackageRef where p: "known_manager (pr_Manager p)" "k = ref_key p" by blast
    have a: "?L (delta_added old (walk cur)) = (if map_of old (pkgKey p) = None then map_option pr_Version (map_of cur (pkgKey p)) else None)"
      unfolding delta_added_def p(2) filtered_lookup [OF w(2) p(1)] m by (simp split: option.split)
    have r: "?L (delta_added cur (walk old)) = (if map_of cur (pkgKey p) = None then map_option pr_Version (map_of old (pkgKey p)) else None)"
      unfolding delta_added_def p(2) filtered_lookup [OF w(1) p(1)] m by (simp split: option.split)
    have u: "?L (delta_updated old (walk cur)) = (case map_of cur (pkgKey p) of None \<Rightarrow> None | Some q \<Rightarrow>
        (case map_of old (pkgKey p) of None \<Rightarrow> None | Some prev \<Rightarrow> if pr_Version prev \<noteq> pr_Version q then Some (pr_Version q) else None))"
      unfolding delta_updated_def p(2) filtered_lookup [OF w(2) p(1)] m by (simp split: option.split)
    show ?thesis unfolding e a r u unfolding p(2) snapshot_lookup [OF assms(2) p(1)] snapshot_lookup [OF assms(3) p(1)]
      by (cases "map_of old (pkgKey p)"; cases "map_of cur (pkgKey p)") simp_all
  next
    case False
    then have n: "\<And>p. known_manager (pr_Manager p) \<Longrightarrow> k \<noteq> ref_key p" by blast
    show ?thesis unfolding e delta_added_def delta_updated_def
      using unknown_lookup [OF w(1) n] unknown_lookup [OF w(2) n] unknown_lookup [OF assms(2) n] unknown_lookup [OF assms(3) n] by simp
  qed
qed

lemma delta_added_new:
  assumes "snapshot_ok cur" and "snapshot_ok old" and "p \<in> set (delta_added old cur)"
  shows "snapshot_content old (ref_key p) = None"
proof -
  obtain k where "(k, p) \<in> set cur" "map_of old k = None" using assms(3) set_delta_added by blast
  then show ?thesis using snapshot_member [OF assms(1)] snapshot_lookup [OF assms(2)] by fastforce
qed

lemma delta_applied:
  assumes "walks walk" and "snapshot_ok old" and "snapshot_ok cur" and "server_holds dev (w_db w) old"
    and "w_faults w = []" and "known_device dev (w_db w)" and "fresh_packages (length cur) w"
  shows "\<exists>w'. CheckinHandler_processPackageDelta dev \<lparr>pd_Added = delta_added old (walk cur), pd_Removed = delta_added cur (walk old),
      pd_Updated = delta_updated old (walk cur)\<rparr> w = (Inr (), w') \<and> server_holds dev (w_db w') cur"
proof -
  let ?A = "delta_added old (walk cur)"
  obtain now w0 where n: "Now w = (now, w0)" by (rule prod.exhaust)
  have w0: "w_db w0 = w_db w" "w_faults w0 = []" "w_rand w0 = w_rand w" "w_drawn w0 = w_drawn w"
    using n assms(5) by (auto simp: Now_def)
  have wc: "snapshot_ok (walk cur)" using walk_ok assms by blast
  have "length ?A \<le> length (walk cur)" by (simp add: delta_added_def)
  also have "\<dots> = length cur" using assms(1) unfolding walks_def by (metis size_mset)
  finally have "fresh_packages (length ?A) w" using assms(7) inj_on_subset [of "package_id w" "{..<length cur}" "{..<length ?A}"]
    by (auto simp: fresh_packages_def)
  moreover have "package_id w0 i = package_id w i" for i by (simp add: package_id_def w0)
  ultimately have "fresh_packages (length ?A) w0" by (simp add: fresh_packages_def w0 inj_on_def)
  then obtain w1 new where a: "for_each (delta_add dev now) ?A w0 = (Inr (), w1)" "w_faults w1 = []"
      "db_inventory_packages (w_db w1) = db_inventory_packages (w_db w) @ new"
      "map (\<lambda>q. (row_key q, p_Version q)) new = map (\<lambda>p. (ref_key p, pr_Version p)) ?A" "\<forall>q \<in> set new. p_DeviceID q = dev"
    using adds_applied [of w0 dev ?A now] assms(6) w0 by (auto simp: known_device_def)
  have rows: "device_rows dev (w_db w1) = device_rows dev (w_db w) @ new" using a(3,5) by (simp add: device_rows_def)
  have c1: "content dev (w_db w1) = map_of (map (\<lambda>p. (ref_key p, pr_Version p)) ?A) ++ snapshot_content old"
    using assms(4) unfolding content_def rows map_append map_of_append a(4) by (simp add: server_holds_def content_def)
  have keys: "map row_key new = map ref_key ?A" using arg_cong [OF a(4), where f = "map fst"] by (simp add: comp_def)
  have "ref_key p \<notin> row_key ` set (device_rows dev (w_db w))" if "p \<in> set ?A" for p
  proof -
    have "content dev (w_db w) (ref_key p) = None" using delta_added_new [OF wc assms(2) that] assms(4) by (simp add: server_holds_def)
    then show ?thesis by (simp add: content_def map_of_eq_None_iff image_image)
  qed
  then have "set (map row_key (device_rows dev (w_db w))) \<inter> set (map row_key new) = {}" unfolding keys set_map disjoint_iff by (metis imageE)
  then have "distinct (map row_key (device_rows dev (w_db w1)))"
    using assms(4) deltas_distinct(1) [OF wc, of old] unfolding rows server_holds_def map_append distinct_append keys by blast
  then obtain w2 where u: "for_each (delta_update dev now) (delta_updated old (walk cur)) w1 = (Inr (), w2)" "w_faults w2 = []"
      "distinct (map row_key (device_rows dev (w_db w2)))"
      "content dev (w_db w2) = fold (\<lambda>p c. c(ref_key p := map_option (\<lambda>_. pr_Version p) (c (ref_key p))))
        (delta_updated old (walk cur)) (content dev (w_db w1))"
    using updates_applied [OF a(2)] by blast
  obtain w3 where r: "for_each (delta_remove dev) (delta_added cur (walk old)) w2 = (Inr (), w3)"
      "distinct (map row_key (device_rows dev (w_db w3)))"
      "content dev (w_db w3) = fold (\<lambda>p c. c(ref_key p := None)) (delta_added cur (walk old)) (content dev (w_db w2))"
    using removes_applied [OF u(2,3)] by blast
  have "content dev (w_db w3) = applied old (walk old) cur (walk cur)"
    unfolding r(3) u(4) c1 applied_def Let_def ..
  then have "server_holds dev (w_db w3) cur" using r(2) applied_delta [OF assms(1-3)] by (simp add: server_holds_def)
  then show ?thesis by (simp add: CheckinHandler_processPackageDelta_def n a(1) u(1) r(1))
qed

text \<open>C37: The delta the agent computes is the delta the server applies.  If the server's packages of the device are
  those of the agent's last snapshot, then after the agent has computed its delta from the current packages, in
  whatever order it walks its maps, and the check-in has applied it without faults, they are those of the
  agent's new snapshot, and the new snapshot is the current list unless nothing could be collected.\<close>

theorem inventory_roundtrip:
  assumes "walks walk" and "co_lastPkgs c = Some old" and "snapshot_ok old" and "server_holds dev (w_db w) old"
    and "current = collectPackages dpkg rpm" and "ComputeDelta walk current c = (delta, c')" and "cq_InventoryDelta req = delta"
    and "w_faults w = []" and "known_device dev (w_db w)" and "fresh_packages (length (snapshot_of current)) w"
  shows "\<exists>s. co_lastPkgs c' = Some s \<and> snapshot_ok s \<and> server_holds dev (w_db (checkin_inventory dev req w)) s
     \<and> (current \<noteq> [] \<longrightarrow> s = snapshot_of current)"
proof (cases "current = []")
  case True
  then show ?thesis using assms by (simp add: ComputeDelta_def checkin_inventory_def)
next
  case False
  let ?cur = "snapshot_of current"
  let ?delta = "\<lparr>pd_Added = delta_added old (walk ?cur), pd_Removed = delta_added ?cur (walk old), pd_Updated = delta_updated old (walk ?cur)\<rparr>"
  have cur: "snapshot_ok ?cur" using collect_manager assms(5) by (intro snapshot_of_ok) blast
  obtain w' where p: "CheckinHandler_processPackageDelta dev ?delta w = (Inr (), w')" and h: "server_holds dev (w_db w') ?cur"
    using delta_applied [OF assms(1,3) cur assms(4,8,9,10)] by blast
  have c': "c' = c\<lparr>co_lastPkgs := Some ?cur\<rparr>" using assms(2,6) False by (auto simp: ComputeDelta_def Let_def)
  have "server_holds dev (w_db (checkin_inventory dev req w)) ?cur"
  proof (cases "pd_Added ?delta = [] \<and> pd_Removed ?delta = [] \<and> pd_Updated ?delta = []")
    case True
    then have "w_db w' = w_db w" using p by (auto simp: CheckinHandler_processPackageDelta_def Now_def)
    moreover have "delta = None" using True assms(2,6) False by (auto simp: ComputeDelta_def Let_def)
    ultimately show ?thesis using h assms(7) by (simp add: checkin_inventory_def)
  next
    case False
    then have "delta = Some \<lparr>id_Packages = Some ?delta\<rparr>" using assms(2,6) \<open>current \<noteq> []\<close> by (auto simp: ComputeDelta_def Let_def)
    then show ?thesis using h p assms(7) by (simp add: checkin_inventory_def)
  qed
  then show ?thesis using cur c' by simp
qed

definition sample_ref :: "string \<Rightarrow> string \<Rightarrow> PackageRef" where
  "sample_ref n v = \<lparr>pr_Name = n, pr_Version = v, pr_Manager = ''apt''\<rparr>"

definition sample_dpkg :: string where
  "sample_dpkg = ''vim'' @ [CHR 0x09] @ ''2'' @ [CHR 0x0A] @ ''curl'' @ [CHR 0x09] @ ''1'' @ [CHR 0x0A]"

definition sample_inventory_world :: world where
  "sample_inventory_world = (sample_world [])\<lparr>w_db := (sample_db [])\<lparr>db_inventory_packages :=
     [package_row ''d1'' 0 ''i1'' (sample_ref ''vim'' ''1''), package_row ''d1'' 0 ''i2'' (sample_ref ''nano'' ''1'')]\<rparr>\<rparr>"

definition sample_collector :: Collector where
  "sample_collector = \<lparr>co_lastPkgs = Some [(''apt:vim'', sample_ref ''vim'' ''1''), (''apt:nano'', sample_ref ''nano'' ''1'')]\<rparr>"

lemma sample_current: "collectPackages (Some sample_dpkg) None = [sample_ref ''vim'' ''2'', sample_ref ''curl'' ''1'']"
  by (simp add: collectPackages_def collectDpkg_def collectRPM_def parseTSV_def sample_dpkg_def MaxScanTokenSize_def drop_cr_def
      List.map_filter_simps parse_package_def split_tab_def sample_ref_def)

lemma sample_snapshot:
  "snapshot_of [sample_ref ''vim'' ''2'', sample_ref ''curl'' ''1'']
     = [(''apt:vim'', sample_ref ''vim'' ''2''), (''apt:curl'', sample_ref ''curl'' ''1'')]"
  by (simp add: snapshot_of_def pkgKey_def sample_ref_def)

lemma sample_fresh: "fresh_packages 2 sample_inventory_world"
proof -
  have i: "package_id sample_inventory_world 0 = ''ipk_0001020304050607''" "package_id sample_inventory_world 1 = ''ipk_08090a0b0c0d0e0f''"
    by code_simp+
  have l: "n < 2 \<longleftrightarrow> n = 0 \<or> n = 1" for n :: nat by auto
  have "map p_ID (db_inventory_packages (w_db sample_inventory_world)) = [''i1'', ''i2'']" by (simp add: sample_inventory_world_def)
  then show ?thesis using i unfolding fresh_packages_def inj_on_def lessThan_iff by (auto simp: l)
qed

theorem inventory_roundtrip_witness:
  "\<exists>delta c'. ComputeDelta id [sample_ref ''vim'' ''2'', sample_ref ''curl'' ''1''] sample_collector = (delta, c')
    \<and> (\<forall>req. cq_InventoryDelta req = delta \<longrightarrow>
        server_holds ''d1'' (w_db (checkin_inventory ''d1'' req sample_inventory_world))
          [(''apt:vim'', sample_ref ''vim'' ''2''), (''apt:curl'', sample_ref ''curl'' ''1'')])"
proof -
  let ?old = "[(''apt:vim'', sample_ref ''vim'' ''1''), (''apt:nano'', sample_ref ''nano'' ''1'')]"
  obtain delta c' where d: "ComputeDelta id [sample_ref ''vim'' ''2'', sample_ref ''curl'' ''1''] sample_collector = (delta, c')"
    by (rule prod.exhaust)
  have w: "walks id" by (simp add: walks_def)
  have c: "co_lastPkgs sample_collector = Some ?old" by (simp add: sample_collector_def)
  have o: "snapshot_ok ?old" by (simp add: snapshot_ok_def pkgKey_def sample_ref_def known_manager_def)
  have h: "server_holds ''d1'' (w_db sample_inventory_world) ?old"
    by (simp add: server_holds_def content_def snapshot_content_def device_rows_def sample_inventory_world_def sample_ref_def ref_key_def)
  have k: "known_device ''d1'' (w_db sample_inventory_world)"
    by (simp add: known_device_def sample_inventory_world_def sample_db_def sample_device_def)
  have f: "w_faults sample_inventory_world = []" by (simp add: sample_inventory_world_def sample_world_def)
  have n: "fresh_packages (length (snapshot_of [sample_ref ''vim'' ''2'', sample_ref ''curl'' ''1''])) sample_inventory_world"
    using sample_fresh by (simp add: sample_snapshot numeral_2_eq_2)
  have "server_holds ''d1'' (w_db (checkin_inventory ''d1'' req sample_inventory_world))
          (snapshot_of [sample_ref ''vim'' ''2'', sample_ref ''curl'' ''1''])" if "cq_InventoryDelta req = delta" for req
    using inventory_roundtrip [OF w c o h sample_current [symmetric] d that f k n] by auto
  then show ?thesis using d by (simp add: sample_snapshot)
qed

text \<open>A delta is computed once: a second computation over the same packages, such as the one of the next check-in
  after a package job has computed and dropped the first, reports no change.\<close>

lemma delta_only_once:
  assumes "walks walk" and "ComputeDelta walk current c = (delta, c1)" and "current = collectPackages dpkg rpm" and "current \<noteq> []"
  shows "ComputeDelta walk current c1 = (None, c1)"
proof -
  let ?cur = "snapshot_of current"
  have cur: "snapshot_ok ?cur" using collect_manager assms(3) by (intro snapshot_of_ok) blast
  have c1: "c1 = c\<lparr>co_lastPkgs := Some ?cur\<rparr>" using assms(2,4) by (auto simp: ComputeDelta_def Let_def split: option.splits)
  have "map_of ?cur k = Some p" if "(k, p) \<in> set (walk ?cur)" for k p
    using that walk_set [OF assms(1)] cur by (simp add: snapshot_ok_def)
  then have "delta_added ?cur (walk ?cur) = []" "delta_updated ?cur (walk ?cur) = []"
    by (fastforce simp: delta_added_def delta_updated_def filter_empty_conv)+
  then show ?thesis using assms(4) by (simp add: ComputeDelta_def c1 Let_def)
qed

end
