(* ===== verification/Packages.thy ===== *)
theory Packages
  imports Http Quota
begin

text \<open>Package management of the Linux agent (agent/platform/linux/pkgmanager.go) and the setuid helper that runs the
  native package manager (agent/cmd/pkg-helper/main.go).  What a native command does is a parameter, a function
  of the command and of the machine's files; a helper that refuses ends with status 1.\<close>

section \<open>Running a command\<close>

datatype run_error = ExitError int | OtherError string

definition run_error_text :: "run_error \<Rightarrow> string" where
  "run_error_text e = (case e of ExitError n \<Rightarrow> ''exit status '' @ decimal n | OtherError s \<Rightarrow> s)"

record exec_outcome =
  eo_Err :: "run_error option"
  eo_Stdout :: string
  eo_Stderr :: string

type_synonym 'f command = "string \<Rightarrow> string list \<Rightarrow> 'f \<Rightarrow> exec_outcome \<times> 'f"

section \<open>The helper (agent/cmd/pkg-helper/main.go)\<close>

definition ContainsAny :: "string \<Rightarrow> string \<Rightarrow> bool" where
  "ContainsAny s chars = list_ex (\<lambda>c. c \<in> set chars) s"

definition shell_metacharacters :: string where
  "shell_metacharacters = '';|&$`'' @ [CHR 0x5C, CHR 0x22, CHR 0x27] @ ''<>(){}!'' @ [CHR 0x0A, CHR 0x0D, CHR 0x09, CHR 0x20]"

definition ValidateHelperArgs :: "string list \<Rightarrow> string option" where
  "ValidateHelperArgs args =
    (case args of
       manager # action # name # rest \<Rightarrow>
         if length rest > 1 then Some ''expected 3-4 arguments: <manager> <action> <package> [version]''
         else if manager \<noteq> ''apt'' \<and> manager \<noteq> ''dnf'' then Some (''invalid manager: '' @ quote manager)
         else if action \<noteq> ''install'' \<and> action \<noteq> ''remove'' \<and> action \<noteq> ''update'' then Some (''invalid action: '' @ quote action)
         else if name = '''' then Some ''empty package name''
         else if ContainsAny name shell_metacharacters then Some ''invalid package name: contains shell metacharacters''
         else (case rest of
             [] \<Rightarrow> None
           | version # _ \<Rightarrow>
             if ContainsAny version shell_metacharacters then Some ''invalid version: contains shell metacharacters'' else None)
     | _ \<Rightarrow> Some ''expected 3-4 arguments: <manager> <action> <package> [version]'')"

definition buildAptArgs :: "string \<Rightarrow> string \<Rightarrow> string \<Rightarrow> string + (string \<times> string list)" where
  "buildAptArgs action name version =
    (let pkg = (if version \<noteq> '''' then name @ ''='' @ version else name) in
     if action = ''install'' then Inr (''apt-get'', [''install'', ''-y'', ''--no-install-recommends'', pkg])
     else if action = ''remove'' then Inr (''apt-get'', [''remove'', ''-y'', name])
     else if action = ''update'' then Inr (''apt-get'', [''install'', ''-y'', ''--only-upgrade'', pkg])
     else Inl (''unsupported action: '' @ action))"

definition buildDnfArgs :: "string \<Rightarrow> string \<Rightarrow> string \<Rightarrow> string + (string \<times> string list)" where
  "buildDnfArgs action name version =
    (let pkg = (if version \<noteq> '''' then name @ ''-'' @ version else name) in
     if action = ''install'' then Inr (''dnf'', [''install'', ''-y'', pkg])
     else if action = ''remove'' then Inr (''dnf'', [''remove'', ''-y'', name])
     else if action = ''update'' then Inr (''dnf'', [''update'', ''-y'', pkg])
     else Inl (''unsupported action: '' @ action))"

definition BuildNativeArgs :: "string \<Rightarrow> string \<Rightarrow> string \<Rightarrow> string \<Rightarrow> string + (string \<times> string list)" where
  "BuildNativeArgs manager action name version =
    (if manager = ''apt'' then buildAptArgs action name version
     else if manager = ''dnf'' then buildDnfArgs action name version
     else Inl (''unsupported manager: '' @ manager))"

text \<open>What the helper hands to \<open>execve\<close>: the resolved binary and the arguments after its name.  \<open>look\<close> is
  \<open>exec.LookPath\<close>.\<close>

definition helper_command :: "(string \<Rightarrow> string option) \<Rightarrow> string list \<Rightarrow> string + (string \<times> string list)" where
  "helper_command look args =
    (case ValidateHelperArgs args of
       Some e \<Rightarrow> Inl e
     | None \<Rightarrow>
       (let version = (if length args = 4 then args ! 3 else '''') in
        case BuildNativeArgs (args ! 0) (args ! 1) (args ! 2) version of
          Inl e \<Rightarrow> Inl e
        | Inr (binary, cmdArgs) \<Rightarrow>
          (case look binary of
             None \<Rightarrow> Inl (''package manager not found: '' @ binary)
           | Some path \<Rightarrow> Inr (path, cmdArgs))))"

definition pkg_helper :: "(string \<Rightarrow> string option) \<Rightarrow> 'f command \<Rightarrow> string list \<Rightarrow> 'f \<Rightarrow> exec_outcome \<times> 'f" where
  "pkg_helper look native args f =
    (case helper_command look args of
       Inl e \<Rightarrow> (\<lparr>eo_Err = Some (ExitError 1), eo_Stdout = '''', eo_Stderr = ''pkg-helper: '' @ e @ [CHR 0x0A]\<rparr>, f)
     | Inr (path, cmdArgs) \<Rightarrow> native path cmdArgs f)"

section \<open>The package manager of the agent\<close>

record PackageResult =
  pk_Success :: bool
  pk_ExitCode :: int
  pk_Stdout :: string
  pk_Stderr :: string
  pk_Error :: string

definition detectManager :: "(string \<Rightarrow> string option) \<Rightarrow> string" where
  "detectManager look =
    (case look ''apt-get'' of
       Some path \<Rightarrow> if path \<noteq> '''' then ''apt'' else (case look ''dnf'' of Some q \<Rightarrow> if q \<noteq> '''' then ''dnf'' else '''' | None \<Rightarrow> '''')
     | None \<Rightarrow> (case look ''dnf'' of Some q \<Rightarrow> if q \<noteq> '''' then ''dnf'' else '''' | None \<Rightarrow> ''''))"

text \<open>A package manager is its name; \<open>NewPkgManager\<close> takes the hint of the job.\<close>

definition NewPkgManager :: "(string \<Rightarrow> string option) \<Rightarrow> string \<Rightarrow> string" where
  "NewPkgManager look hint = (if hint = '''' then detectManager look else hint)"

definition buildHelperArgs :: "string \<Rightarrow> string \<Rightarrow> string \<Rightarrow> string \<Rightarrow> string list" where
  "buildHelperArgs manager action name version = [manager, action, name] @ (if version \<noteq> '''' then [version] else [])"

text \<open>\<open>helper\<close> runs the helper on its arguments.\<close>

definition PkgManager_run ::
  "(string list \<Rightarrow> 'f \<Rightarrow> exec_outcome \<times> 'f) \<Rightarrow> string \<Rightarrow> string \<Rightarrow> string \<Rightarrow> string \<Rightarrow> 'f \<Rightarrow> PackageResult \<times> 'f" where
  "PkgManager_run helper manager action name version f =
    (if manager = '''' then
       (\<lparr>pk_Success = False, pk_ExitCode = - 1, pk_Stdout = '''', pk_Stderr = '''',
         pk_Error = ''no supported package manager detected (need apt-get or dnf)''\<rparr>, f)
     else case helper (buildHelperArgs manager action name version) f of (r, f1) \<Rightarrow>
       (case eo_Err r of
          None \<Rightarrow> (\<lparr>pk_Success = True, pk_ExitCode = 0, pk_Stdout = eo_Stdout r, pk_Stderr = eo_Stderr r, pk_Error = ''''\<rparr>, f1)
        | Some e \<Rightarrow>
          (\<lparr>pk_Success = False, pk_ExitCode = (case e of ExitError n \<Rightarrow> n | OtherError _ \<Rightarrow> - 1),
            pk_Stdout = eo_Stdout r, pk_Stderr = eo_Stderr r, pk_Error = run_error_text e\<rparr>, f1)))"

section \<open>What the helper runs\<close>

definition clean :: "string \<Rightarrow> bool" where
  "clean s \<longleftrightarrow> (\<forall>c \<in> set s. c \<notin> set shell_metacharacters)"

lemma ContainsAny_clean [simp]: "ContainsAny s shell_metacharacters \<longleftrightarrow> \<not> clean s"
  by (auto simp: ContainsAny_def clean_def list_ex_iff)

lemma clean_append [simp]: "clean (s @ t) \<longleftrightarrow> clean s \<and> clean t"
  by (auto simp: clean_def)

definition native_commands :: "string \<Rightarrow> string list \<Rightarrow> bool" where
  "native_commands binary args \<longleftrightarrow>
     (\<exists>pkg. clean pkg \<and> pkg \<noteq> '''' \<and>
       (binary = ''apt-get'' \<and> args \<in> {[''install'', ''-y'', ''--no-install-recommends'', pkg], [''remove'', ''-y'', pkg],
           [''install'', ''-y'', ''--only-upgrade'', pkg]}
        \<or> binary = ''dnf'' \<and> args \<in> {[''install'', ''-y'', pkg], [''remove'', ''-y'', pkg], [''update'', ''-y'', pkg]}))"

lemma ValidateHelperArgs_None:
  assumes "ValidateHelperArgs args = None"
  obtains manager action name version where "args = buildHelperArgs manager action name version \<or> args = [manager, action, name, version]"
    "manager \<in> {''apt'', ''dnf''}" "action \<in> {''install'', ''remove'', ''update''}" "name \<noteq> ''''" "clean name" "clean version"
proof -
  obtain manager action name rest where a: "args = manager # action # name # rest" and l: "length rest \<le> 1"
    using assms by (auto simp: ValidateHelperArgs_def split: list.splits if_splits)
  have c: "clean ([] :: string)" by (simp add: clean_def)
  consider "rest = []" | v where "rest = [v]" using l by (cases rest) auto
  then show thesis
  proof cases
    case 1
    show thesis by (rule that [of manager action name "''''"])
      (use assms a 1 c in \<open>auto simp: ValidateHelperArgs_def buildHelperArgs_def split: if_splits\<close>)
  next
    case (2 v)
    show thesis by (rule that [of manager action name v])
      (use assms a 2 in \<open>auto simp: ValidateHelperArgs_def buildHelperArgs_def split: if_splits\<close>)
  qed
qed

lemma buildAptArgs_commands:
  assumes "buildAptArgs action name ver = Inr (binary, cmdArgs)" "action \<in> {''install'', ''remove'', ''update''}"
    and "clean name" "name \<noteq> ''''" "clean ver"
  shows "native_commands binary cmdArgs"
proof -
  have e: "clean (name @ ''='' @ ver)" using assms(3,5) by (auto simp: clean_def shell_metacharacters_def)
  consider "action = ''install''" | "action = ''remove''" | "action = ''update''" using assms(2) by auto
  then show ?thesis
  proof cases
    case 1
    with assms(1) have "binary = ''apt-get''" "cmdArgs = [''install'', ''-y'', ''--no-install-recommends'', if ver \<noteq> '''' then name @ ''='' @ ver else name]"
      by (simp_all add: buildAptArgs_def split: if_splits)
    then show ?thesis unfolding native_commands_def using e assms(3,4)
      by (intro exI [of _ "if ver \<noteq> '''' then name @ ''='' @ ver else name"]) simp
  next
    case 2
    with assms(1) have "binary = ''apt-get''" "cmdArgs = [''remove'', ''-y'', name]" by (simp_all add: buildAptArgs_def)
    then show ?thesis unfolding native_commands_def using assms(3,4) by (intro exI [of _ name]) simp
  next
    case 3
    with assms(1) have "binary = ''apt-get''" "cmdArgs = [''install'', ''-y'', ''--only-upgrade'', if ver \<noteq> '''' then name @ ''='' @ ver else name]"
      by (simp_all add: buildAptArgs_def split: if_splits)
    then show ?thesis unfolding native_commands_def using e assms(3,4)
      by (intro exI [of _ "if ver \<noteq> '''' then name @ ''='' @ ver else name"]) simp
  qed
qed

lemma buildDnfArgs_commands:
  assumes "buildDnfArgs action name ver = Inr (binary, cmdArgs)" "action \<in> {''install'', ''remove'', ''update''}"
    and "clean name" "name \<noteq> ''''" "clean ver"
  shows "native_commands binary cmdArgs"
proof -
  have e: "clean (name @ ''-'' @ ver)" using assms(3,5) by (auto simp: clean_def shell_metacharacters_def)
  consider "action = ''install''" | "action = ''remove''" | "action = ''update''" using assms(2) by auto
  then show ?thesis
  proof cases
    case 1
    with assms(1) have "binary = ''dnf''" "cmdArgs = [''install'', ''-y'', if ver \<noteq> '''' then name @ ''-'' @ ver else name]"
      by (simp_all add: buildDnfArgs_def split: if_splits)
    then show ?thesis unfolding native_commands_def using e assms(3,4)
      by (intro exI [of _ "if ver \<noteq> '''' then name @ ''-'' @ ver else name"]) simp
  next
    case 2
    with assms(1) have "binary = ''dnf''" "cmdArgs = [''remove'', ''-y'', name]" by (simp_all add: buildDnfArgs_def)
    then show ?thesis unfolding native_commands_def using assms(3,4) by (intro exI [of _ name]) simp
  next
    case 3
    with assms(1) have "binary = ''dnf''" "cmdArgs = [''update'', ''-y'', if ver \<noteq> '''' then name @ ''-'' @ ver else name]"
      by (simp_all add: buildDnfArgs_def split: if_splits)
    then show ?thesis unfolding native_commands_def using e assms(3,4)
      by (intro exI [of _ "if ver \<noteq> '''' then name @ ''-'' @ ver else name"]) simp
  qed
qed



text \<open>The helper reads what the agent writes.\<close>

lemma helper_reads_args:
  assumes "manager \<in> {''apt'', ''dnf''}" "action \<in> {''install'', ''remove'', ''update''}" "name \<noteq> ''''" "clean name" "clean version"
  shows "helper_command look (buildHelperArgs manager action name version) =
    (case BuildNativeArgs manager action name version of
       Inl e \<Rightarrow> Inl e
     | Inr (binary, cmdArgs) \<Rightarrow> (case look binary of None \<Rightarrow> Inl (''package manager not found: '' @ binary) | Some path \<Rightarrow> Inr (path, cmdArgs)))"
  using assms by (auto simp: helper_command_def ValidateHelperArgs_def buildHelperArgs_def Let_def)

text \<open>A package name that starts with a dash is an option of the package manager, and passes.\<close>

lemma helper_option_injection:
  "helper_command look [''apt'', ''install'', ''-oDPkg::Pre-Invoke::=/tmp/x''] =
    (case look ''apt-get'' of
       None \<Rightarrow> Inl ''package manager not found: apt-get''
     | Some path \<Rightarrow> Inr (path, [''install'', ''-y'', ''--no-install-recommends'', ''-oDPkg::Pre-Invoke::=/tmp/x'']))"
proof -
  have "clean ''-oDPkg::Pre-Invoke::=/tmp/x''" by code_simp
  then show ?thesis by (simp add: helper_command_def ValidateHelperArgs_def BuildNativeArgs_def buildAptArgs_def split: option.split)
qed

end
