(* ===== verification/Update.thy ===== *)
theory Update
  imports Files Inventory Packages
begin

text \<open>The machine an agent runs on and the update protocol on it: the paths of the Linux platform
  (agent/platform/linux/linux.go), the files of the machine with the operations the agent calls, the pending
  update and its verification after a restart (agent/update/pending.go, agent/update/verify.go) and the part
  of agent/cmd/agent/main.go that acts on it.  File modes are not part of the machine; an operation that
  changes them may fail.  The texts of errors of the system are not modelled: a message ends where such a text
  would start.\<close>

section \<open>Paths (agent/platform/linux/linux.go)\<close>

text \<open>\<open>filepath.Clean\<close>, \<open>Join\<close> and \<open>Base\<close> on Unix: the elements of a path without empty ones and dots.\<close>

fun path_elements :: "string \<Rightarrow> string \<Rightarrow> string list" where
  "path_elements acc [] = [acc]"
| "path_elements acc (c # cs) = (if c = CHR ''/'' then acc # path_elements [] cs else path_elements (acc @ [c]) cs)"

text \<open>The elements kept so far, the last one first.\<close>

fun clean_elements :: "bool \<Rightarrow> string list \<Rightarrow> string list \<Rightarrow> string list" where
  "clean_elements rooted stack [] = rev stack"
| "clean_elements rooted stack (x # xs) =
    (if x = '''' \<or> x = ''.'' then clean_elements rooted stack xs
     else if x = ''..'' then
       (case stack of
          [] \<Rightarrow> clean_elements rooted (if rooted then [] else [''..'']) xs
        | y # ys \<Rightarrow> clean_elements rooted (if y = ''..'' then ''..'' # stack else ys) xs)
     else clean_elements rooted (x # stack) xs)"

fun slashed :: "string list \<Rightarrow> string" where
  "slashed [] = ''''"
| "slashed [x] = x"
| "slashed (x # xs) = x @ ''/'' @ slashed xs"

definition path_Clean :: "string \<Rightarrow> string" where
  "path_Clean p =
    (let rooted = HasPrefix p ''/''; out = slashed (clean_elements rooted [] (path_elements [] p)) in
     if rooted then ''/'' @ out else if out = '''' then ''.'' else out)"

definition path_Join :: "string \<Rightarrow> string \<Rightarrow> string" where
  "path_Join a b =
    (if a = '''' then (if b = '''' then '''' else path_Clean b)
     else if b = '''' then path_Clean a else path_Clean (a @ ''/'' @ b))"

definition path_Base :: "string \<Rightarrow> string" where
  "path_Base p =
    (if p = '''' then ''.''
     else let s = rev (dropWhile (\<lambda>c. c = CHR ''/'') (rev p)) in
       if s = '''' then ''/'' else rev (takeWhile (\<lambda>c. c \<noteq> CHR ''/'') (rev s)))"

definition ConfigDir :: string where "ConfigDir = ''/etc/moebius-agent''"
definition BinaryDir :: string where "BinaryDir = ''/usr/local/bin''"
definition DataDir :: string where "DataDir = ''/var/lib/moebius-agent''"
definition RuntimeDir :: string where "RuntimeDir = ''/run/moebius-agent''"
definition DropDir :: string where "DropDir = ''/opt/moebius-agent/drop''"
definition ConfigPath :: string where "ConfigPath = path_Join ConfigDir ''config.toml''"
definition EnrollmentTokenPath :: string where "EnrollmentTokenPath = path_Join ConfigDir ''enrollment.token''"
definition CACertPath :: string where "CACertPath = path_Join ConfigDir ''ca.crt''"
definition ClientCertPath :: string where "ClientCertPath = path_Join ConfigDir ''client.crt''"
definition ClientKeyPath :: string where "ClientKeyPath = path_Join ConfigDir ''client.key''"
definition AgentIDPath :: string where "AgentIDPath = path_Join ConfigDir ''agent_id''"
definition BinaryPath :: string where "BinaryPath = path_Join BinaryDir ''moebius-agent''"
definition BinaryStagingPath :: string where "BinaryStagingPath = path_Join BinaryDir ''moebius-agent.new''"
definition BinaryPreviousPath :: string where "BinaryPreviousPath = path_Join BinaryDir ''moebius-agent.previous''"

lemma binary_paths_distinct [simp]:
  "BinaryPath \<noteq> BinaryStagingPath" "BinaryStagingPath \<noteq> BinaryPath" "BinaryPath \<noteq> BinaryPreviousPath"
  "BinaryPreviousPath \<noteq> BinaryPath" "BinaryStagingPath \<noteq> BinaryPreviousPath" "BinaryPreviousPath \<noteq> BinaryStagingPath"
  by code_simp+

section \<open>The machine\<close>

record PendingUpdate =
  pu_JobID :: id
  pu_ExpectedVersion :: string
  pu_PreviousVersion :: string
  pu_Deadline :: time

text \<open>The regular files of the machine by path, the pending update, what the running agent holds, and how often
  the agent has asked the service manager to restart it.  The files of customer device mode are part of its
  manager.\<close>

record machine =
  mc_files :: "string \<rightharpoonup> byte list"
  mc_pending :: "PendingUpdate json option"
  mc_inventory :: "Collector option"
  mc_cdm :: "Manager option"
  mc_host :: host
  mc_restarts :: nat

definition machine_io :: "machine \<Rightarrow> io_outcome \<times> machine" where
  "machine_io m = (case next_io (mc_host m) of (i, h) \<Rightarrow> (i, m\<lparr>mc_host := h\<rparr>))"

definition machine_now :: "machine \<Rightarrow> time \<times> machine" where
  "machine_now m = (case host_now (mc_host m) of (now, h) \<Rightarrow> (now, m\<lparr>mc_host := h\<rparr>))"

text \<open>\<open>os.Stat\<close>: whether there was no error.\<close>

definition fs_Stat :: "string \<Rightarrow> machine \<Rightarrow> bool \<times> machine" where
  "fs_Stat path m = (case machine_io m of (i, m1) \<Rightarrow> (i = IODone \<and> mc_files m1 path \<noteq> None, m1))"

definition fs_Remove :: "string \<Rightarrow> machine \<Rightarrow> machine" where
  "fs_Remove path m =
    (case machine_io m of (i, m1) \<Rightarrow> if i = IODone then m1\<lparr>mc_files := (mc_files m1)(path := None)\<rparr> else m1)"

text \<open>\<open>os.Rename\<close> replaces the target in one step or leaves both names as they are.\<close>

definition fs_Rename :: "string \<Rightarrow> string \<Rightarrow> machine \<Rightarrow> bool \<times> machine" where
  "fs_Rename old new m =
    (case machine_io m of (i, m1) \<Rightarrow>
     case mc_files m1 old of
       None \<Rightarrow> (False, m1)
     | Some data \<Rightarrow>
       if i = IODone then (True, m1\<lparr>mc_files := (mc_files m1)(old := None, new \<mapsto> data)\<rparr>) else (False, m1))"

definition fs_ReadFile :: "string \<Rightarrow> machine \<Rightarrow> byte list option \<times> machine" where
  "fs_ReadFile path m = (case machine_io m of (i, m1) \<Rightarrow> (if i = IODone then mc_files m1 path else None, m1))"

text \<open>\<open>os.Create\<close> empties the file; \<open>io.Copy\<close> then writes all of the data, some of it or none.\<close>

definition fs_Create :: "string \<Rightarrow> machine \<Rightarrow> bool \<times> machine" where
  "fs_Create path m =
    (case machine_io m of (i, m1) \<Rightarrow>
     if i = IODone then (True, m1\<lparr>mc_files := (mc_files m1)(path \<mapsto> [])\<rparr>) else (False, m1))"

definition fs_Copy :: "string \<Rightarrow> byte list \<Rightarrow> machine \<Rightarrow> bool \<times> machine" where
  "fs_Copy path data m =
    (case machine_io m of (i, m1) \<Rightarrow>
       (i = IODone, m1\<lparr>mc_files := (mc_files m1)(path \<mapsto>
          (case i of IODone \<Rightarrow> data | IORefused \<Rightarrow> [] | IOTorn n \<Rightarrow> take n data | IOLate \<Rightarrow> data))\<rparr>))"

definition fs_Chmod :: "string \<Rightarrow> machine \<Rightarrow> bool \<times> machine" where
  "fs_Chmod path m = (case machine_io m of (i, m1) \<Rightarrow> (i = IODone \<and> mc_files m1 path \<noteq> None, m1))"

definition fs_MkdirAll :: "string \<Rightarrow> machine \<Rightarrow> bool \<times> machine" where
  "fs_MkdirAll path m = (case machine_io m of (i, m1) \<Rightarrow> (i = IODone, m1))"

definition fileSHA256 :: "string \<Rightarrow> machine \<Rightarrow> string option \<times> machine" where
  "fileSHA256 path m =
    (case fs_ReadFile path m of (data, m1) \<Rightarrow> (map_option (\<lambda>d. hex_encode (Sum256 d)) data, m1))"

definition copyFile :: "string \<Rightarrow> string \<Rightarrow> machine \<Rightarrow> bool \<times> machine" where
  "copyFile src dst m =
    (case fs_ReadFile src m of
       (None, m1) \<Rightarrow> (False, m1)
     | (Some data, m1) \<Rightarrow>
       (case fs_Create dst m1 of
          (False, m2) \<Rightarrow> (False, m2)
        | (True, m2) \<Rightarrow>
          (case fs_Copy dst data m2 of
             (False, m3) \<Rightarrow> (False, m3)
           | (True, m3) \<Rightarrow>
             (case fs_Stat src m3 of
                (False, m4) \<Rightarrow> (False, m4)
              | (True, m4) \<Rightarrow> fs_Chmod dst m4))))"

section \<open>The pending update (agent/update)\<close>

definition WritePending :: "PendingUpdate \<Rightarrow> machine \<Rightarrow> bool \<times> machine" where
  "WritePending p m =
    (case write_doc p (mc_pending m) (mc_host m) of (ok, file, h) \<Rightarrow> (ok, m\<lparr>mc_pending := file, mc_host := h\<rparr>))"

text \<open>\<open>None\<close> is an error; the inner \<open>None\<close> is the nil pointer of a missing file.\<close>

definition ReadPending :: "machine \<Rightarrow> PendingUpdate option option \<times> machine" where
  "ReadPending m =
    (case read_doc (mc_pending m) (mc_host m) of (r, h) \<Rightarrow>
       (case r of
          None \<Rightarrow> None
        | Some None \<Rightarrow> Some None
        | Some (Some Malformed) \<Rightarrow> None
        | Some (Some (Doc p)) \<Rightarrow> Some (Some p), m\<lparr>mc_host := h\<rparr>))"

definition RemovePending :: "machine \<Rightarrow> machine" where
  "RemovePending m = (case machine_io m of (i, m1) \<Rightarrow> if i = IODone then m1\<lparr>mc_pending := None\<rparr> else m1)"

text \<open>The text of an error is only logged and is not modelled.\<close>

record VerifyResult =
  vr_Pending :: PendingUpdate
  vr_Success :: bool
  vr_NeedRoll :: bool

definition CheckPostRestart :: "string \<Rightarrow> machine \<Rightarrow> VerifyResult option \<times> machine" where
  "CheckPostRestart currentVersion m =
    (case ReadPending m of
       (None, m1) \<Rightarrow> (None, m1)
     | (Some None, m1) \<Rightarrow> (None, m1)
     | (Some (Some pending), m1) \<Rightarrow>
       (case machine_now m1 of (now, m2) \<Rightarrow>
         if now > pu_Deadline pending then (Some \<lparr>vr_Pending = pending, vr_Success = False, vr_NeedRoll = True\<rparr>, m2)
         else if currentVersion \<noteq> pu_ExpectedVersion pending
           then (Some \<lparr>vr_Pending = pending, vr_Success = False, vr_NeedRoll = True\<rparr>, m2)
         else (Some \<lparr>vr_Pending = pending, vr_Success = True, vr_NeedRoll = False\<rparr>, m2)))"

definition Rollback :: "machine \<Rightarrow> (string + unit) \<times> machine" where
  "Rollback m =
    (case fs_Stat BinaryPreviousPath m of
       (False, m1) \<Rightarrow> (Inl (''previous binary not found at '' @ BinaryPreviousPath @ '': ''), m1)
     | (True, m1) \<Rightarrow>
       (case fs_Rename BinaryPreviousPath BinaryPath m1 of
          (False, m2) \<Rightarrow> (Inl ''rollback rename failed: '', m2)
        | (True, m2) \<Rightarrow> (Inr (), RemovePending m2)))"

text \<open>What the daemon does about a pending update when it starts (agent/cmd/agent/main.go).\<close>

definition verify_pending :: "string \<Rightarrow> machine \<Rightarrow> machine" where
  "verify_pending currentVersion m =
    (case CheckPostRestart currentVersion m of
       (None, m1) \<Rightarrow> m1
     | (Some result, m1) \<Rightarrow>
       if vr_Success result then RemovePending m1
       else if vr_NeedRoll result then snd (Rollback m1)
       else m1)"

section \<open>What the file operations change\<close>

definition same_files :: "string set \<Rightarrow> machine \<Rightarrow> machine \<Rightarrow> bool" where
  "same_files X m m' \<longleftrightarrow> (\<forall>p. p \<notin> X \<longrightarrow> mc_files m' p = mc_files m p)"

text \<open>Everything but the files, the clock and the schedule.\<close>

definition same_agent :: "machine \<Rightarrow> machine \<Rightarrow> bool" where
  "same_agent m m' \<longleftrightarrow> mc_pending m' = mc_pending m \<and> mc_inventory m' = mc_inventory m \<and> mc_cdm m' = mc_cdm m
     \<and> mc_restarts m' = mc_restarts m"

lemma same_files_refl [simp]: "same_files X m m"
  by (simp add: same_files_def)

lemma same_files_trans: "same_files X m m1 \<Longrightarrow> same_files X m1 m2 \<Longrightarrow> same_files X m m2"
  by (simp add: same_files_def)

lemma same_files_mono: "same_files X m m1 \<Longrightarrow> X \<subseteq> Y \<Longrightarrow> same_files Y m m1"
  by (auto simp: same_files_def)

lemma same_agent_refl [simp]: "same_agent m m"
  by (simp add: same_agent_def)

lemma same_agent_trans: "same_agent m m1 \<Longrightarrow> same_agent m1 m2 \<Longrightarrow> same_agent m m2"
  by (simp add: same_agent_def)

lemma machine_io_sel [simp]:
  "mc_files (snd (machine_io m)) = mc_files m" "mc_pending (snd (machine_io m)) = mc_pending m"
  "mc_inventory (snd (machine_io m)) = mc_inventory m" "mc_cdm (snd (machine_io m)) = mc_cdm m"
  "mc_restarts (snd (machine_io m)) = mc_restarts m"
  by (simp_all add: machine_io_def split: prod.split)

lemma machine_io_eq:
  assumes "machine_io m = (i, m1)"
  shows "mc_files m1 = mc_files m" "same_agent m m1"
  using machine_io_sel [of m] assms by (simp_all add: same_agent_def)

lemma fs_Stat_eq:
  assumes "fs_Stat path m = (ok, m1)"
  shows "mc_files m1 = mc_files m" "same_agent m m1" "ok \<Longrightarrow> mc_files m path \<noteq> None"
  using assms by (auto simp: fs_Stat_def dest: machine_io_eq split: prod.splits)

lemma fs_Chmod_eq:
  assumes "fs_Chmod path m = (ok, m1)"
  shows "mc_files m1 = mc_files m" "same_agent m m1"
  using assms by (auto simp: fs_Chmod_def dest: machine_io_eq split: prod.splits)

lemma fs_MkdirAll_eq:
  assumes "fs_MkdirAll path m = (ok, m1)"
  shows "mc_files m1 = mc_files m" "same_agent m m1"
  using assms by (auto simp: fs_MkdirAll_def dest: machine_io_eq split: prod.splits)

lemma fs_ReadFile_eq:
  assumes "fs_ReadFile path m = (r, m1)"
  shows "mc_files m1 = mc_files m" "same_agent m m1" "r = Some data \<Longrightarrow> mc_files m path = Some data"
  using assms by (auto simp: fs_ReadFile_def dest: machine_io_eq split: prod.splits if_splits)

lemma fileSHA256_eq:
  assumes "fileSHA256 path m = (r, m1)"
  shows "mc_files m1 = mc_files m" "same_agent m m1"
    "r = Some s \<Longrightarrow> \<exists>data. mc_files m path = Some data \<and> s = hex_encode (Sum256 data)"
  using assms by (auto simp: fileSHA256_def dest: fs_ReadFile_eq split: prod.splits)

lemma fs_Remove_eq: "same_files {path} m (fs_Remove path m)" "same_agent m (fs_Remove path m)"
proof -
  obtain i m1 where io: "machine_io m = (i, m1)" by force
  note e = machine_io_eq [OF io]
  show "same_files {path} m (fs_Remove path m)" "same_agent m (fs_Remove path m)"
    using e by (simp_all add: fs_Remove_def io same_files_def same_agent_def)
qed

lemma fs_Create_eq:
  assumes "fs_Create path m = (ok, m1)"
  shows "same_files {path} m m1" "same_agent m m1"
proof -
  obtain i m0 where io: "machine_io m = (i, m0)" by force
  note e = machine_io_eq [OF io]
  show "same_files {path} m m1" "same_agent m m1"
    using e assms by (auto simp: fs_Create_def io same_files_def same_agent_def split: if_splits)
qed

lemma fs_Copy_eq:
  assumes "fs_Copy path data m = (ok, m1)"
  shows "same_files {path} m m1" "same_agent m m1" "ok \<Longrightarrow> mc_files m1 path = Some data"
proof -
  obtain i m0 where io: "machine_io m = (i, m0)" by force
  note e = machine_io_eq [OF io]
  show "same_files {path} m m1" "same_agent m m1" "ok \<Longrightarrow> mc_files m1 path = Some data"
    using e assms by (auto simp: fs_Copy_def io same_files_def same_agent_def)
qed

lemma fs_Rename_eq:
  assumes "fs_Rename old new m = (ok, m1)"
  shows "\<not> ok \<Longrightarrow> mc_files m1 = mc_files m" "same_agent m m1"
    "ok \<Longrightarrow> \<exists>data. mc_files m old = Some data \<and> mc_files m1 = (mc_files m)(old := None, new \<mapsto> data)"
proof -
  obtain i m0 where io: "machine_io m = (i, m0)" by force
  note e = machine_io_eq [OF io]
  show "\<not> ok \<Longrightarrow> mc_files m1 = mc_files m" "same_agent m m1"
    "ok \<Longrightarrow> \<exists>data. mc_files m old = Some data \<and> mc_files m1 = (mc_files m)(old := None, new \<mapsto> data)"
    using e assms by (auto simp: fs_Rename_def io same_agent_def split: option.splits if_splits)
qed

lemma copyFile_eq:
  assumes "copyFile src dst m = (ok, m')" and "src \<noteq> dst"
  shows "same_files {dst} m m'" "same_agent m m'"
    "ok \<Longrightarrow> \<exists>data. mc_files m src = Some data \<and> mc_files m' dst = Some data"
proof -
  have "same_files {dst} m m' \<and> same_agent m m' \<and>
    (ok \<longrightarrow> (\<exists>data. mc_files m src = Some data \<and> mc_files m' dst = Some data))"
  proof -
    obtain r m1 where r: "fs_ReadFile src m = (r, m1)" by force
    show ?thesis
    proof (cases r)
      case None
      then show ?thesis using assms fs_ReadFile_eq [OF r] by (simp add: copyFile_def r same_files_def)
    next
      case (Some data)
      obtain c m2 where c: "fs_Create dst m1 = (c, m2)" by force
      obtain w m3 where w: "fs_Copy dst data m2 = (w, m3)" by force
      obtain t m4 where t: "fs_Stat src m3 = (t, m4)" by force
      obtain q m5 where q: "fs_Chmod dst m4 = (q, m5)" by force
      note e = fs_ReadFile_eq [OF r] fs_Create_eq [OF c] fs_Copy_eq [OF w] fs_Stat_eq [OF t] fs_Chmod_eq [OF q]
      have 2: "same_files {dst} m m2" "same_agent m m2" using e by (auto simp: same_files_def same_agent_def)
      have 3: "same_files {dst} m m3" "same_agent m m3" using 2 e by (auto simp: same_files_def same_agent_def)
      have 4: "same_files {dst} m m4" "same_agent m m4" using 3 e by (auto simp: same_files_def same_agent_def)
      have 5: "same_files {dst} m m5" "same_agent m m5" using 4 e by (auto simp: same_files_def same_agent_def)
      show ?thesis using assms(1) 2 3 4 5 e Some
        by (cases c; cases w; cases t) (auto simp: copyFile_def r c w t q)
    qed
  qed
  then show "same_files {dst} m m'" "same_agent m m'"
    "ok \<Longrightarrow> \<exists>data. mc_files m src = Some data \<and> mc_files m' dst = Some data" by blast+
qed

lemma RemovePending_eq: "mc_files (RemovePending m) = mc_files m"
  by (auto simp: RemovePending_def machine_io_eq(1) split: prod.splits)

lemma Rollback_eq:
  assumes "Rollback m = (r, m')"
  shows "r = Inr () \<Longrightarrow> \<exists>old. mc_files m BinaryPreviousPath = Some old
      \<and> mc_files m' = (mc_files m)(BinaryPreviousPath := None, BinaryPath \<mapsto> old)"
    and "r \<noteq> Inr () \<Longrightarrow> mc_files m' = mc_files m \<and> same_agent m m'"
proof -
  obtain ok m1 where s: "fs_Stat BinaryPreviousPath m = (ok, m1)" by force
  obtain ok2 m2 where n: "fs_Rename BinaryPreviousPath BinaryPath m1 = (ok2, m2)" by force
  note e = fs_Stat_eq [OF s] fs_Rename_eq [OF n]
  show "r = Inr () \<Longrightarrow> \<exists>old. mc_files m BinaryPreviousPath = Some old
      \<and> mc_files m' = (mc_files m)(BinaryPreviousPath := None, BinaryPath \<mapsto> old)"
    using assms e by (cases ok; cases ok2) (auto simp: Rollback_def s n RemovePending_eq)
  show "r \<noteq> Inr () \<Longrightarrow> mc_files m' = mc_files m \<and> same_agent m m'"
    using assms e by (cases ok; cases ok2) (auto simp: Rollback_def s n same_agent_def)
qed

end
