(* ===== verification/Executor.thy ===== *)
theory Executor
  imports Update AgentJobs
begin

text \<open>The job executor of the agent (agent/executor): the gate of customer device mode, the acknowledgement, the
  eight job types and the report of the result.  The server the agent talks to is a record of calls on a
  state of any type, so that the same executor runs against an arbitrary network and, in a later theory,
  against the handlers of this development.  Programs the agent starts, library functions and decoders of
  raw payloads are parameters.  Jobs run one at a time.\<close>

section \<open>Payloads (shared/protocol/job.go)\<close>

record ExecPayload =
  ep_Command :: string
  ep_TimeoutSeconds :: int

text \<open>One record for the three package payloads; the version of a removal is not used.\<close>

record PackagePayload =
  pp_Name :: string
  pp_Version :: string
  pp_Manager :: string

record FileTransferIntegrity =
  fti_RequireSHA256 :: bool
  fti_RequireSignature :: bool

record FileTransferStorage =
  fts_SpaceCheckEnabled :: "bool option"
  fts_SpaceCheckThreshold :: "rat option"

record FileTransferPayload =
  ft_FileID :: id
  ft_Integrity :: "FileTransferIntegrity option"
  ft_Storage :: "FileTransferStorage option"
  ft_OnComplete :: "string option"

record AgentUpdatePayload =
  au_Version :: string
  au_DownloadURL :: string
  au_SHA256 :: string
  au_Signature :: string
  au_SignatureKeyID :: string
  au_SizeBytes :: int
  au_Force :: bool

record AgentRollbackPayload =
  rb_Reason :: string
  rb_MinRollbackVersion :: string

section \<open>What the executor is connected to\<close>

text \<open>A response: its status, the text of its body and what the body decodes to.  A call that gets no response
  gives the text of the error.\<close>

record 'a reply =
  rp_Status :: nat
  rp_Text :: string
  rp_Body :: "'a json"

record 's peer =
  p_Acknowledge :: "id \<Rightarrow> 's \<Rightarrow> (string + unit reply) \<times> 's"
  p_SubmitResult :: "id \<Rightarrow> JobResultSubmission \<Rightarrow> 's \<Rightarrow> (string + unit reply) \<times> 's"
  p_Download :: "id \<Rightarrow> 's \<Rightarrow> (string + fileDownloadResponse reply) \<times> 's"
  p_SigningKey :: "id \<Rightarrow> 's \<Rightarrow> (string + string reply) \<times> 's"
  p_Get :: "string \<Rightarrow> 's \<Rightarrow> (string + byte list reply) \<times> 's"

text \<open>The programs of the machine and the libraries.  \<open>x_shell\<close> runs a command of \<open>sh\<close> under a deadline and says
  whether the deadline passed; \<open>x_onComplete\<close> runs one with a variable added to its environment and gives its
  output; \<open>x_free\<close> is \<open>statfs\<close>; \<open>x_full\<close> is the encoding of the full inventory.\<close>

record outside =
  x_shell :: "string \<Rightarrow> int \<Rightarrow> machine \<Rightarrow> bool \<times> exec_outcome \<times> machine"
  x_onComplete :: "string \<Rightarrow> string \<Rightarrow> machine \<Rightarrow> string \<times> run_error option \<times> machine"
  x_look :: "string \<Rightarrow> string option"
  x_native :: "machine command"
  x_free :: "string \<Rightarrow> machine \<Rightarrow> int option"
  x_dpkg :: "machine \<Rightarrow> string option"
  x_rpm :: "machine \<Rightarrow> string option"
  x_walk :: "snapshot \<Rightarrow> snapshot"
  x_full :: "machine \<Rightarrow> string"
  x_signatures :: signature_library
  x_ExecPayload :: "string \<Rightarrow> ExecPayload json"
  x_PackagePayload :: "string \<Rightarrow> PackagePayload json"
  x_FileTransferPayload :: "string \<Rightarrow> FileTransferPayload json"
  x_AgentUpdatePayload :: "string \<Rightarrow> AgentUpdatePayload json"
  x_AgentRollbackPayload :: "string \<Rightarrow> AgentRollbackPayload json"

text \<open>The executor itself, as \<open>New\<close> and the setters leave it: \<open>e_platform\<close> and \<open>e_restartFunc\<close> say whether those were
  set, and \<open>e_version\<close> is the version the binary was built with.\<close>

record executor =
  e_dropDir :: string
  e_platform :: bool
  e_pollInterval :: int
  e_restartFunc :: bool
  e_version :: string

definition Executor_New :: "string \<Rightarrow> string \<Rightarrow> executor" where
  "Executor_New dropDir version = \<lparr>e_dropDir = dropDir, e_platform = False, e_pollInterval = 0, e_restartFunc = False, e_version = version\<rparr>"

definition job_result :: "string \<Rightarrow> string \<Rightarrow> JobResultSubmission" where
  "job_result status message = \<lparr>js_Status = status, js_ExitCode = None, js_Stdout = '''', js_Stderr = '''',
     js_Message = message, js_StartedAt = None, js_CompletedAt = None\<rparr>"

abbreviation job_failed :: "string \<Rightarrow> JobResultSubmission" where
  "job_failed message \<equiv> job_result ''failed'' message"

section \<open>Commands, inventory and packages\<close>

definition executeExec :: "outside \<Rightarrow> string \<Rightarrow> machine \<Rightarrow> JobResultSubmission \<times> machine" where
  "executeExec x payload m =
    (case x_ExecPayload x payload of
       Malformed \<Rightarrow> (job_failed ''invalid exec payload: '', m)
     | Doc p \<Rightarrow>
       if ep_Command p = '''' then (job_failed ''empty command'', m)
       else case x_shell x (ep_Command p) (ep_TimeoutSeconds p) m of (late, out, m1) \<Rightarrow>
         (let expired = (ep_TimeoutSeconds p > 0 \<and> late) in
          (\<lparr>js_Status = (case eo_Err out of None \<Rightarrow> ''completed'' | Some _ \<Rightarrow> if expired then ''timed_out'' else ''failed''),
            js_ExitCode = Some (case eo_Err out of None \<Rightarrow> 0 | Some (ExitError n) \<Rightarrow> n
                                 | Some (OtherError _) \<Rightarrow> if expired then 0 else - 1),
            js_Stdout = eo_Stdout out, js_Stderr = eo_Stderr out,
            js_Message = (case eo_Err out of None \<Rightarrow> '''' | Some e \<Rightarrow> if expired then ''command timed out'' else run_error_text e),
            js_StartedAt = None, js_CompletedAt = None\<rparr>, m1)))"

definition executeInventoryFull :: "outside \<Rightarrow> machine \<Rightarrow> JobResultSubmission" where
  "executeInventoryFull x m =
    (case mc_inventory m of
       None \<Rightarrow> job_failed ''inventory collector not configured''
     | Some _ \<Rightarrow> (job_result ''completed'' '''')\<lparr>js_Stdout := x_full x m\<rparr>)"

definition packageResultToJob ::
  "outside \<Rightarrow> PackageResult \<Rightarrow> string \<Rightarrow> string \<Rightarrow> machine \<Rightarrow> JobResultSubmission \<times> machine" where
  "packageResultToJob x r action pkgName m =
    (if pk_Success r then
       ((job_result ''completed'' (action @ '' succeeded for '' @ pkgName))\<lparr>js_ExitCode := Some (pk_ExitCode r),
          js_Stdout := pk_Stdout r, js_Stderr := pk_Stderr r\<rparr>,
        case mc_inventory m of
          None \<Rightarrow> m
        | Some c \<Rightarrow> m\<lparr>mc_inventory := Some (snd (ComputeDelta (x_walk x) (collectPackages (x_dpkg x m) (x_rpm x m)) c))\<rparr>)
     else
       ((job_failed (pk_Error r))\<lparr>js_ExitCode := Some (pk_ExitCode r), js_Stdout := pk_Stdout r, js_Stderr := pk_Stderr r\<rparr>, m))"

text \<open>The three package jobs differ in the action; a removal passes no version.\<close>

definition executePackage :: "outside \<Rightarrow> string \<Rightarrow> string \<Rightarrow> machine \<Rightarrow> JobResultSubmission \<times> machine" where
  "executePackage x action payload m =
    (case x_PackagePayload x payload of
       Malformed \<Rightarrow> (job_failed (''invalid package_'' @ action @ '' payload: ''), m)
     | Doc p \<Rightarrow>
       if pp_Name p = '''' then (job_failed ''package name is required'', m)
       else case PkgManager_run (pkg_helper (x_look x) (x_native x)) (NewPkgManager (x_look x) (pp_Manager p)) action
              (pp_Name p) (if action = ''remove'' then '''' else pp_Version p) m of
         (r, m1) \<Rightarrow> packageResultToJob x r action (pp_Name p) m1)"

definition executePackageInstall :: "outside \<Rightarrow> string \<Rightarrow> machine \<Rightarrow> JobResultSubmission \<times> machine" where
  "executePackageInstall x = executePackage x ''install''"

definition executePackageRemove :: "outside \<Rightarrow> string \<Rightarrow> machine \<Rightarrow> JobResultSubmission \<times> machine" where
  "executePackageRemove x = executePackage x ''remove''"

definition executePackageUpdate :: "outside \<Rightarrow> string \<Rightarrow> machine \<Rightarrow> JobResultSubmission \<times> machine" where
  "executePackageUpdate x = executePackage x ''update''"

section \<open>Downloads\<close>

text \<open>The share of the free space, truncated as the conversion to an integer does.\<close>

definition checkDiskSpace :: "outside \<Rightarrow> string \<Rightarrow> int \<Rightarrow> rat \<Rightarrow> machine \<Rightarrow> string option" where
  "checkDiskSpace x path fileSize threshold m =
    (case x_free x path m of
       None \<Rightarrow> Some ''statfs: ''
     | Some freeBytes \<Rightarrow>
       (let share = of_int freeBytes * threshold; maxSize = (if share < 0 then \<lceil>share\<rceil> else \<lfloor>share\<rfloor>) in
        if fileSize > maxSize then Some (''insufficient_disk_space: file '' @ decimal fileSize @ '' bytes exceeds threshold'')
        else None))"

definition shouldCheckSpace :: "FileTransferStorage option \<Rightarrow> bool" where
  "shouldCheckSpace storage =
    (case storage of None \<Rightarrow> True | Some s \<Rightarrow> (case fts_SpaceCheckEnabled s of None \<Rightarrow> True | Some b \<Rightarrow> b))"

definition getDownloadInfo :: "'s peer \<Rightarrow> id \<Rightarrow> 's \<Rightarrow> (string + fileDownloadResponse) \<times> 's" where
  "getDownloadInfo peer fileID s =
    (case p_Download peer fileID s of
       (Inl e, s1) \<Rightarrow> (Inl (''GET download info: '' @ e), s1)
     | (Inr r, s1) \<Rightarrow>
       if rp_Status r \<noteq> StatusOK then (Inl (''server returned '' @ decimal (int (rp_Status r)) @ '': '' @ rp_Text r), s1)
       else (case rp_Body r of Malformed \<Rightarrow> (Inl ''decode response: '', s1) | Doc d \<Rightarrow> (Inr d, s1)))"

text \<open>The error, if there is one.  A body that breaks off shows as a torn copy.\<close>

definition downloadFile :: "'s peer \<Rightarrow> string \<Rightarrow> string \<Rightarrow> machine \<Rightarrow> 's \<Rightarrow> string option \<times> machine \<times> 's" where
  "downloadFile peer url destPath m s =
    (case p_Get peer url s of
       (Inl e, s1) \<Rightarrow> (Some (''GET file: '' @ e), m, s1)
     | (Inr r, s1) \<Rightarrow>
       if rp_Status r \<noteq> StatusOK \<and> rp_Status r \<noteq> 206 then (Some (''server returned '' @ decimal (int (rp_Status r))), m, s1)
       else case fs_Create destPath m of
         (False, m1) \<Rightarrow> (Some ''create file: '', m1, s1)
       | (True, m1) \<Rightarrow>
         (case rp_Body r of
            Malformed \<Rightarrow> (Some ''write file: '', m1, s1)
          | Doc data \<Rightarrow>
            (case fs_Copy destPath data m1 of
               (True, m2) \<Rightarrow> (None, m2, s1)
             | (False, m2) \<Rightarrow> (Some ''write file: '', m2, s1))))"

text \<open>The part of \<open>executeFileTransfer\<close> up to the move: download, and verification where it is asked for.\<close>

definition fetch_file ::
  "'s peer \<Rightarrow> FileTransferPayload \<Rightarrow> fileDownloadResponse \<Rightarrow> string \<Rightarrow> machine \<Rightarrow> 's \<Rightarrow> string option \<times> machine \<times> 's" where
  "fetch_file peer p dl tempFile m s =
    (case downloadFile peer (fd_URL dl) tempFile m s of
       (Some e, m1, s1) \<Rightarrow> (Some (''download failed: '' @ e), fs_Remove tempFile m1, s1)
     | (None, m1, s1) \<Rightarrow>
       (let requireSHA = (case ft_Integrity p of None \<Rightarrow> True | Some i \<Rightarrow> fti_RequireSHA256 i) in
        if requireSHA \<and> fd_SHA256 dl \<noteq> '''' then
          (case fileSHA256 tempFile m1 of
             (None, m2) \<Rightarrow> (Some ''failed to compute SHA-256: '', fs_Remove tempFile m2, s1)
           | (Some actual, m2) \<Rightarrow>
             if actual \<noteq> fd_SHA256 dl then
               (Some (''checksum_mismatch: expected '' @ fd_SHA256 dl @ '', got '' @ actual), fs_Remove tempFile m2, s1)
             else (None, m2, s1))
        else (None, m1, s1)))"

text \<open>From the download on: the move to the drop directory, and the command to run then.\<close>

definition transfer_file ::
  "outside \<Rightarrow> 's peer \<Rightarrow> FileTransferPayload \<Rightarrow> fileDownloadResponse \<Rightarrow> string \<Rightarrow> string \<Rightarrow> machine \<Rightarrow> 's
     \<Rightarrow> JobResultSubmission \<times> machine \<times> 's" where
  "transfer_file x peer p dl tempFile finalPath m s =
    (case fetch_file peer p dl tempFile m s of
       (Some err, m1, s1) \<Rightarrow> (job_failed err, m1, s1)
     | (None, m1, s1) \<Rightarrow>
     (case fs_Rename tempFile finalPath m1 of
        (False, m2) \<Rightarrow> (job_failed ''failed to move file to drop directory: '', fs_Remove tempFile m2, s1)
      | (True, m2) \<Rightarrow>
     (case ft_OnComplete p of
        None \<Rightarrow> (job_result ''completed'' (''file transferred to '' @ finalPath), m2, s1)
      | Some command \<Rightarrow>
        if command = '''' then (job_result ''completed'' (''file transferred to '' @ finalPath), m2, s1)
        else case x_onComplete x command (''MOEBIUS_FILE_PATH='' @ finalPath) m2 of
          (out, None, m3) \<Rightarrow> (job_result ''completed'' (''file transferred to '' @ finalPath), m3, s1)
        | (out, Some err, m3) \<Rightarrow>
          ((job_failed (''on_complete failed: '' @ run_error_text err))\<lparr>js_Stdout := out\<rparr>, m3, s1))))"

definition executeFileTransfer ::
  "outside \<Rightarrow> 's peer \<Rightarrow> executor \<Rightarrow> string \<Rightarrow> machine \<Rightarrow> 's \<Rightarrow> JobResultSubmission \<times> machine \<times> 's" where
  "executeFileTransfer x peer e payload m s =
    (case x_FileTransferPayload x payload of
       Malformed \<Rightarrow> (job_failed ''invalid file_transfer payload: '', m, s)
     | Doc p \<Rightarrow>
     if ft_FileID p = '''' then (job_failed ''file_id is required'', m, s)
     else if e_dropDir e = '''' then (job_failed ''drop directory not configured'', m, s)
     else case getDownloadInfo peer (ft_FileID p) s of
       (Inl err, s1) \<Rightarrow> (job_failed (''failed to get download info: '' @ err), m, s1)
     | (Inr dl, s1) \<Rightarrow>
     (case (if shouldCheckSpace (ft_Storage p)
            then checkDiskSpace x (e_dropDir e) (fd_SizeBytes dl)
                   (case Option.bind (ft_Storage p) fts_SpaceCheckThreshold of None \<Rightarrow> 1 / 2 | Some t \<Rightarrow> t) m
            else None) of
        Some err \<Rightarrow> (job_failed err, m, s1)
      | None \<Rightarrow>
     (case fs_MkdirAll (e_dropDir e) m of
        (False, m1) \<Rightarrow> (job_failed ''failed to create drop directory: '', m1, s1)
      | (True, m1) \<Rightarrow>
        transfer_file x peer p dl (path_Join (e_dropDir e) (''.downloading-'' @ ft_FileID p))
          (path_Join (e_dropDir e) (path_Base (ft_FileID p))) m1 s1)))"

section \<open>Updating the agent\<close>

definition fetchSigningKey :: "outside \<Rightarrow> 's peer \<Rightarrow> id \<Rightarrow> 's \<Rightarrow> (string + byte list) \<times> 's" where
  "fetchSigningKey x peer keyID s =
    (case p_SigningKey peer keyID s of
       (Inl e, s1) \<Rightarrow> (Inl e, s1)
     | (Inr r, s1) \<Rightarrow>
       if rp_Status r \<noteq> StatusOK then (Inl (''server returned '' @ decimal (int (rp_Status r)) @ '': '' @ rp_Text r), s1)
       else (case rp_Body r of
          Malformed \<Rightarrow> (Inl ''decode key response: '', s1)
        | Doc pem \<Rightarrow>
          (case pem_Decode (x_signatures x) pem of
             None \<Rightarrow> (Inl ''invalid PEM data'', s1)
           | Some block \<Rightarrow>
             (case ParsePKIXPublicKey (x_signatures x) block of
                None \<Rightarrow> (Inl ''parse public key: '', s1)
              | Some OtherKey \<Rightarrow> (Inl ''key is not Ed25519'', s1)
              | Some (Ed25519Key pub) \<Rightarrow> (Inr pub, s1)))))"

definition verifySignature ::
  "outside \<Rightarrow> 's peer \<Rightarrow> string \<Rightarrow> string \<Rightarrow> id \<Rightarrow> machine \<Rightarrow> 's \<Rightarrow> string option \<times> machine \<times> 's" where
  "verifySignature x peer filePath signatureB64 keyID m s =
    (case fetchSigningKey x peer keyID s of
       (Inl e, s1) \<Rightarrow> (Some (''fetch signing key: '' @ e), m, s1)
     | (Inr pubKey, s1) \<Rightarrow>
       (case fs_ReadFile filePath m of
          (None, m1) \<Rightarrow> (Some ''read file: '', m1, s1)
        | (Some data, m1) \<Rightarrow>
          (case base64_decode signatureB64 of
             None \<Rightarrow> (Some ''decode signature: '', m1, s1)
           | Some sig \<Rightarrow>
             if ed25519_Verify (x_signatures x) pubKey (Sum256 data) sig then (None, m1, s1)
             else (Some ''Ed25519 signature is invalid'', m1, s1))))"

text \<open>Steps 2 and 3: the new binary in its staging place, verified.  Every failure removes it.\<close>

definition stage_update ::
  "outside \<Rightarrow> 's peer \<Rightarrow> AgentUpdatePayload \<Rightarrow> machine \<Rightarrow> 's \<Rightarrow> string option \<times> machine \<times> 's" where
  "stage_update x peer p m s =
    (case downloadFile peer (au_DownloadURL p) BinaryStagingPath m s of
       (Some e, m1, s1) \<Rightarrow> (Some (''download failed: '' @ e), fs_Remove BinaryStagingPath m1, s1)
     | (None, m1, s1) \<Rightarrow>
     if au_SHA256 p = '''' then (Some ''sha256 is required for agent updates'', fs_Remove BinaryStagingPath m1, s1)
     else case fileSHA256 BinaryStagingPath m1 of
       (None, m2) \<Rightarrow> (Some ''sha256 computation failed: '', fs_Remove BinaryStagingPath m2, s1)
     | (Some actual, m2) \<Rightarrow>
     if actual \<noteq> au_SHA256 p then
       (Some (''checksum_mismatch: expected '' @ au_SHA256 p @ '', got '' @ actual), fs_Remove BinaryStagingPath m2, s1)
     else if au_Signature p = '''' \<or> au_SignatureKeyID p = '''' then
       (Some ''signature and signature_key_id are required for agent updates'', fs_Remove BinaryStagingPath m2, s1)
     else case verifySignature x peer BinaryStagingPath (au_Signature p) (au_SignatureKeyID p) m2 s1 of
       (Some e, m3, s2) \<Rightarrow> (Some (''signature verification failed: '' @ e), fs_Remove BinaryStagingPath m3, s2)
     | (None, m3, s2) \<Rightarrow>
     (case fs_Chmod BinaryStagingPath m3 of
        (False, m4) \<Rightarrow> (Some ''failed to set binary permissions: '', fs_Remove BinaryStagingPath m4, s2)
      | (True, m4) \<Rightarrow> (None, m4, s2)))"

text \<open>Steps 4 and 5: the backup, the swap and the pending update.  A pending update that cannot be written is only
  logged.\<close>

definition install_update :: "executor \<Rightarrow> id \<Rightarrow> AgentUpdatePayload \<Rightarrow> machine \<Rightarrow> string option \<times> machine" where
  "install_update e jobID p m =
    (case copyFile BinaryPath BinaryPreviousPath m of
       (False, m1) \<Rightarrow> (Some ''failed to backup current binary: '', fs_Remove BinaryStagingPath m1)
     | (True, m1) \<Rightarrow>
       (case fs_Rename BinaryStagingPath BinaryPath m1 of
          (False, m2) \<Rightarrow> (Some ''failed to replace binary: '', fs_Remove BinaryStagingPath m2)
        | (True, m2) \<Rightarrow>
          (let pollInterval = (if e_pollInterval e > 0 then e_pollInterval e else 30) in
           case machine_now m2 of (now, m3) \<Rightarrow>
             (None, snd (WritePending \<lparr>pu_JobID = jobID, pu_ExpectedVersion = au_Version p, pu_PreviousVersion = e_version e,
                pu_Deadline = now + 3 * pollInterval * Second\<rparr> m3)))))"

definition executeAgentUpdate ::
  "outside \<Rightarrow> 's peer \<Rightarrow> executor \<Rightarrow> id \<Rightarrow> string \<Rightarrow> machine \<Rightarrow> 's \<Rightarrow> JobResultSubmission \<times> machine \<times> 's" where
  "executeAgentUpdate x peer e jobID payload m s =
    (case x_AgentUpdatePayload x payload of
       Malformed \<Rightarrow> (job_failed ''invalid agent_update payload: '', m, s)
     | Doc p \<Rightarrow>
     if au_Version p = '''' then (job_failed ''version is required in update payload'', m, s)
     else if \<not> au_Force p \<and> e_version e \<noteq> ''dev'' \<and> au_Version p \<le> e_version e then
       (job_failed (''target version '' @ au_Version p @ '' is not newer than current '' @ e_version e @ '' (use force to downgrade)''), m, s)
     else if \<not> e_platform e then (job_failed ''platform not configured (cannot determine binary paths)'', m, s)
     else case fs_Stat BinaryPath m of
       (False, m1) \<Rightarrow> (job_failed ''current binary not found: '', m1, s)
     | (True, m1) \<Rightarrow>
     (case (if au_SizeBytes p > 0 then checkDiskSpace x BinaryDir (au_SizeBytes p) (1 / 2) m1 else None) of
        Some err \<Rightarrow> (job_failed err, m1, s)
      | None \<Rightarrow>
     if au_DownloadURL p = '''' then (job_failed ''download_url is required'', m1, s)
     else case stage_update x peer p m1 s of
       (Some err, m2, s1) \<Rightarrow> (job_failed err, m2, s1)
     | (None, m2, s1) \<Rightarrow>
     (case install_update e jobID p m2 of
        (Some err, m3) \<Rightarrow> (job_failed err, m3, s1)
      | (None, m3) \<Rightarrow>
        (job_result ''restarting'' (''New binary installed, restarting into v'' @ au_Version p), m3, s1))))"

definition executeAgentRollback ::
  "outside \<Rightarrow> executor \<Rightarrow> string \<Rightarrow> machine \<Rightarrow> JobResultSubmission \<times> machine" where
  "executeAgentRollback x e payload m =
    (case x_AgentRollbackPayload x payload of
       Malformed \<Rightarrow> (job_failed ''invalid agent_rollback payload: '', m)
     | Doc p \<Rightarrow>
     if \<not> e_platform e then (job_failed ''platform not configured'', m)
     else case fs_Stat BinaryPreviousPath m of
       (False, m1) \<Rightarrow> (job_failed (''no previous binary at '' @ BinaryPreviousPath @ '': cannot roll back''), m1)
     | (True, m1) \<Rightarrow>
     (case Rollback m1 of
        (Inl err, m2) \<Rightarrow> (job_failed (''rollback failed: '' @ err), m2)
      | (Inr _, m2) \<Rightarrow> (job_result ''restarting'' (''Rolled back to previous binary. Reason: '' @ rb_Reason p), m2)))"

section \<open>Running a job (agent/executor/executor.go)\<close>

definition execute ::
  "outside \<Rightarrow> 's peer \<Rightarrow> executor \<Rightarrow> JobDispatch \<Rightarrow> machine \<Rightarrow> 's \<Rightarrow> JobResultSubmission \<times> machine \<times> 's" where
  "execute x peer e job m s =
    (if jd_Type job = ''exec'' then (case executeExec x (jd_Payload job) m of (r, m1) \<Rightarrow> (r, m1, s))
     else if jd_Type job = ''inventory_full'' then (executeInventoryFull x m, m, s)
     else if jd_Type job = ''file_transfer'' then executeFileTransfer x peer e (jd_Payload job) m s
     else if jd_Type job = ''package_install'' then (case executePackageInstall x (jd_Payload job) m of (r, m1) \<Rightarrow> (r, m1, s))
     else if jd_Type job = ''package_remove'' then (case executePackageRemove x (jd_Payload job) m of (r, m1) \<Rightarrow> (r, m1, s))
     else if jd_Type job = ''package_update'' then (case executePackageUpdate x (jd_Payload job) m of (r, m1) \<Rightarrow> (r, m1, s))
     else if jd_Type job = ''agent_update'' then executeAgentUpdate x peer e (jd_JobID job) (jd_Payload job) m s
     else if jd_Type job = ''agent_rollback'' then (case executeAgentRollback x e (jd_Payload job) m of (r, m1) \<Rightarrow> (r, m1, s))
     else (job_failed (''unsupported job type: '' @ jd_Type job), m, s))"

definition acknowledge :: "'s peer \<Rightarrow> id \<Rightarrow> 's \<Rightarrow> (string + unit) \<times> 's" where
  "acknowledge peer jobID s =
    (case p_Acknowledge peer jobID s of
       (Inl e, s1) \<Rightarrow> (Inl (''POST acknowledge: '' @ e), s1)
     | (Inr r, s1) \<Rightarrow>
       if rp_Status r \<noteq> 204 \<and> rp_Status r \<noteq> StatusOK
       then (Inl (''acknowledge failed (HTTP '' @ decimal (int (rp_Status r)) @ ''): '' @ rp_Text r), s1)
       else (Inr (), s1))"

definition submitResult :: "'s peer \<Rightarrow> id \<Rightarrow> JobResultSubmission \<Rightarrow> 's \<Rightarrow> (string + unit) \<times> 's" where
  "submitResult peer jobID result s =
    (case p_SubmitResult peer jobID result s of
       (Inl e, s1) \<Rightarrow> (Inl (''POST result: '' @ e), s1)
     | (Inr r, s1) \<Rightarrow>
       if rp_Status r \<noteq> 204 \<and> rp_Status r \<noteq> StatusOK
       then (Inl (''submit result failed (HTTP '' @ decimal (int (rp_Status r)) @ ''): '' @ rp_Text r), s1)
       else (Inr (), s1))"

text \<open>The entry of the audit log of customer device mode.\<close>

definition log_execution :: "JobDispatch \<Rightarrow> Manager \<Rightarrow> host \<Rightarrow> Manager \<times> host" where
  "log_execution job c h =
    (if Manager_Enabled c then
       (case Manager_Snapshot c h of (snap, c1, h1) \<Rightarrow>
         if st_SessionActive snap \<and> m_auditLog c1 \<noteq> None
         then AuditLog_LogJobExecution (jd_JobID job) (jd_Type job) (st_SessionGrantedBy snap) c1 h1
         else (c1, h1))
     else (c, h))"

text \<open>From the acknowledgement on.\<close>

definition run_acknowledged ::
  "outside \<Rightarrow> 's peer \<Rightarrow> executor \<Rightarrow> JobDispatch \<Rightarrow> machine \<Rightarrow> 's \<Rightarrow> machine \<times> 's" where
  "run_acknowledged x peer e job m s =
    (case machine_now m of (startedAt, m1) \<Rightarrow>
     case execute x peer e job m1 s of (result, m2, s1) \<Rightarrow>
     case machine_now m2 of (completedAt, m3) \<Rightarrow>
     case submitResult peer (jd_JobID job) (result\<lparr>js_StartedAt := Some startedAt, js_CompletedAt := Some completedAt\<rparr>) s1 of
       (Inl _, s2) \<Rightarrow> (m3, s2)
     | (Inr _, s2) \<Rightarrow>
       (if js_Status result = ''restarting'' \<and> e_restartFunc e then m3\<lparr>mc_restarts := Suc (mc_restarts m3)\<rparr> else m3, s2))"

definition runJob ::
  "outside \<Rightarrow> 's peer \<Rightarrow> executor \<Rightarrow> JobDispatch \<Rightarrow> machine \<Rightarrow> 's \<Rightarrow> machine \<times> 's" where
  "runJob x peer e job m s =
    (case mc_cdm m of
       None \<Rightarrow> (m, s)
     | Some c \<Rightarrow>
       (case Manager_CanExecuteJob c (mc_host m) of (ok, c1, h1) \<Rightarrow>
         (let m1 = m\<lparr>mc_cdm := Some c1, mc_host := h1\<rparr> in
          if \<not> ok then (m1, s)
          else case acknowledge peer (jd_JobID job) s of
            (Inl _, s1) \<Rightarrow> (m1, s1)
          | (Inr _, s1) \<Rightarrow>
            (case log_execution job c1 h1 of (c2, h2) \<Rightarrow>
              run_acknowledged x peer e job (m1\<lparr>mc_cdm := Some c2, mc_host := h2\<rparr>) s1))))"

section \<open>What an update changes\<close>

lemma downloadFile_eq:
  assumes "downloadFile peer url dst m s = (r, m', s')"
  shows "same_files {dst} m m'" "same_agent m m'"
proof -
  obtain ok m1 where c: "fs_Create dst m = (ok, m1)" by force
  note e = fs_Create_eq [OF c]
  have k: "same_files {dst} m m2 \<and> same_agent m m2" if "fs_Copy dst data m1 = (b, m2)" for data b m2
    using e fs_Copy_eq [OF that] same_files_trans same_agent_trans by blast
  show "same_files {dst} m m'" "same_agent m m'"
    using assms e
    by (auto simp: downloadFile_def c split: prod.splits sum.splits if_splits bool.splits json.splits dest: k)
qed

lemma verifySignature_eq:
  assumes "verifySignature x peer path sig64 key m s = (r, m', s')"
  shows "mc_files m' = mc_files m" "same_agent m m'"
    "r = None \<Longrightarrow> \<exists>pub data sig. fetchSigningKey x peer key s = (Inr pub, s') \<and> mc_files m path = Some data
       \<and> base64_decode sig64 = Some sig \<and> ed25519_Verify (x_signatures x) pub (Sum256 data) sig"
  using assms
  by (auto simp: verifySignature_def split: prod.splits sum.splits if_splits option.splits dest: fs_ReadFile_eq)

text \<open>A binary that has the digest of the job, and a signature by the key the server gave for the job's key
  identifier.\<close>

definition update_verified :: "outside \<Rightarrow> 's peer \<Rightarrow> AgentUpdatePayload \<Rightarrow> byte list \<Rightarrow> bool" where
  "update_verified x peer p new \<longleftrightarrow> hex_encode (Sum256 new) = au_SHA256 p \<and>
     (\<exists>s s' pub sig. fetchSigningKey x peer (au_SignatureKeyID p) s = (Inr pub, s')
        \<and> base64_decode (au_Signature p) = Some sig \<and> ed25519_Verify (x_signatures x) pub (Sum256 new) sig)"

lemma stage_update_eq:
  assumes "stage_update x peer p m s = (r, m', s')"
  shows "same_files {BinaryStagingPath} m m'" "same_agent m m'"
    "r = None \<Longrightarrow> \<exists>new. mc_files m' BinaryStagingPath = Some new \<and> update_verified x peer p new"
proof -
  let ?S = "BinaryStagingPath"
  let ?ok = "\<lambda>n. same_files {?S} m n \<and> same_agent m n"
  have rm: "?ok (fs_Remove ?S n)" if "?ok n" for n
    using that fs_Remove_eq [where path = ?S and m = n] same_files_trans same_agent_trans by blast
  have keep: "?ok n'" if "?ok n" "mc_files n' = mc_files n" "same_agent n n'" for n n'
    using that by (auto simp: same_files_def same_agent_def)
  obtain d m1 s1 where d: "downloadFile peer (au_DownloadURL p) ?S m s = (d, m1, s1)" by (metis prod_cases3)
  obtain h m2 where h: "fileSHA256 ?S m1 = (h, m2)" by force
  obtain v m3 s2 where v: "verifySignature x peer ?S (au_Signature p) (au_SignatureKeyID p) m2 s1 = (v, m3, s2)"
    by (metis prod_cases3)
  obtain c m4 where c: "fs_Chmod ?S m3 = (c, m4)" by force
  have 1: "?ok m1" using downloadFile_eq [OF d] by blast
  have 2: "?ok m2" using keep [OF 1 fileSHA256_eq(1,2) [OF h]] .
  have 3: "?ok m3" using keep [OF 2 verifySignature_eq(1,2) [OF v]] .
  have 4: "?ok m4" using keep [OF 3 fs_Chmod_eq(1,2) [OF c]] .
  note defs = stage_update_def d h v c
  have "?ok m'"
    using assms rm [OF 1] rm [OF 2] rm [OF 3] rm [OF 4] 4
    by (cases d; cases h; cases v; cases c) (auto simp: defs split: if_splits)
  then show "same_files {?S} m m'" "same_agent m m'" by simp_all
  assume "r = None"
  then have "d = None \<and> v = None \<and> c \<and> m' = m4 \<and> h = Some (au_SHA256 p)"
    using assms by (cases d; cases h; cases v; cases c) (auto simp: defs split: if_splits)
  then have f: "v = None" "h = Some (au_SHA256 p)" "mc_files m' = mc_files m3"
    using fs_Chmod_eq(1) [OF c] by simp_all
  from fileSHA256_eq(3) [OF h f(2)] obtain new where n: "mc_files m1 ?S = Some new" "au_SHA256 p = hex_encode (Sum256 new)"
    by blast
  from verifySignature_eq(3) [OF v f(1)] obtain pub data sig where
    g: "fetchSigningKey x peer (au_SignatureKeyID p) s1 = (Inr pub, s2)" "mc_files m2 ?S = Some data"
      "base64_decode (au_Signature p) = Some sig" "ed25519_Verify (x_signatures x) pub (Sum256 data) sig" by blast
  have "data = new" "mc_files m' ?S = Some new"
    using n(1) g(2) f(3) fileSHA256_eq(1) [OF h] verifySignature_eq(1) [OF v] by simp_all
  then show "\<exists>new. mc_files m' ?S = Some new \<and> update_verified x peer p new"
    using n(2) g unfolding update_verified_def by metis
qed

lemma WritePending_eq: "mc_files (snd (WritePending p m)) = mc_files m"
  by (simp add: WritePending_def split: prod.splits)

lemma machine_now_eq: "mc_files (snd (machine_now m)) = mc_files m" "same_agent m (snd (machine_now m))"
  by (simp_all add: machine_now_def same_agent_def split: prod.splits)

lemma install_update_eq:
  assumes "install_update e j p m = (r, m')"
  shows "r \<noteq> None \<Longrightarrow> same_files {BinaryStagingPath, BinaryPreviousPath} m m'"
    "r = None \<Longrightarrow> \<exists>old new. mc_files m BinaryPath = Some old \<and> mc_files m BinaryStagingPath = Some new
       \<and> mc_files m' = (mc_files m)(BinaryPreviousPath \<mapsto> old, BinaryStagingPath := None, BinaryPath \<mapsto> new)"
proof -
  let ?X = "{BinaryStagingPath, BinaryPreviousPath}"
  have rm: "same_files ?X m (fs_Remove BinaryStagingPath n)" if "same_files ?X m n" for n
    using that fs_Remove_eq(1) [where path = BinaryStagingPath and m = n] by (auto simp: same_files_def)
  obtain c m1 where c: "copyFile BinaryPath BinaryPreviousPath m = (c, m1)" by force
  obtain n m2 where n: "fs_Rename BinaryStagingPath BinaryPath m1 = (n, m2)" by force
  note ce = copyFile_eq [OF c, simplified] and ne = fs_Rename_eq [OF n]
  have 1: "same_files ?X m m1" using ce(1) by (auto simp: same_files_def)
  have 2: "same_files ?X m m2" if "\<not> n" using 1 ne(1) that by (auto simp: same_files_def)
  show "r \<noteq> None \<Longrightarrow> same_files ?X m m'"
    using assms rm [OF 1] rm [OF 2] by (cases c; cases n) (auto simp: install_update_def c n Let_def split: prod.splits)
  assume "r = None"
  then have ok: "c" "n" and m': "mc_files m' = mc_files m2"
    using assms machine_now_eq(1) [of m2] WritePending_eq
    by (cases c; cases n; auto simp: install_update_def c n Let_def split: prod.splits)+
  from ce(3) ok obtain old where old: "mc_files m BinaryPath = Some old" "mc_files m1 BinaryPreviousPath = Some old" by blast
  from ne(3) ok obtain new where new: "mc_files m1 BinaryStagingPath = Some new"
    "mc_files m2 = (mc_files m1)(BinaryStagingPath := None, BinaryPath \<mapsto> new)" by blast
  have "mc_files m1 = (mc_files m)(BinaryPreviousPath \<mapsto> old)" using ce(1) old(2) by (auto simp: same_files_def)
  then show "\<exists>old new. mc_files m BinaryPath = Some old \<and> mc_files m BinaryStagingPath = Some new
       \<and> mc_files m' = (mc_files m)(BinaryPreviousPath \<mapsto> old, BinaryStagingPath := None, BinaryPath \<mapsto> new)"
    using old(1) new m' by auto
qed

text \<open>A job that updates the agent fails or ends with the request for a restart, and this is what it leaves.\<close>

lemma executeAgentUpdate_eq:
  assumes "executeAgentUpdate x peer e j payload m s = (r, m', s')"
  shows "js_Status r = ''failed'' \<and> same_files {BinaryStagingPath, BinaryPreviousPath} m m'
    \<or> js_Status r = ''restarting'' \<and> (\<exists>p old new. x_AgentUpdatePayload x payload = Doc p
        \<and> (au_Force p \<or> e_version e = ''dev'' \<or> e_version e < au_Version p)
        \<and> mc_files m BinaryPath = Some old \<and> update_verified x peer p new
        \<and> mc_files m' = (mc_files m)(BinaryPreviousPath \<mapsto> old, BinaryStagingPath := None, BinaryPath \<mapsto> new))"
proof (cases "x_AgentUpdatePayload x payload")
  case Malformed
  then show ?thesis using assms by (auto simp: executeAgentUpdate_def job_result_def)
next
  case (Doc p)
  let ?X = "{BinaryStagingPath, BinaryPreviousPath}"
  obtain ok m1 where st: "fs_Stat BinaryPath m = (ok, m1)" by force
  obtain g m2 s1 where g: "stage_update x peer p m1 s = (g, m2, s1)" by (metis prod_cases3)
  obtain i m3 where i: "install_update e j p m2 = (i, m3)" by force
  have 1: "mc_files m1 = mc_files m" using fs_Stat_eq(1) [OF st] .
  have 2: "same_files ?X m m2" "same_files {BinaryStagingPath} m m2" using stage_update_eq(1) [OF g] 1 by (auto simp: same_files_def)
  have 3: "same_files ?X m m3" if "i \<noteq> None" using install_update_eq(1) [OF i that] 2 by (auto simp: same_files_def)
  let ?new = "\<not> (\<not> au_Force p \<and> e_version e \<noteq> ''dev'' \<and> au_Version p \<le> e_version e)"
  have cases: "js_Status r = ''failed'' \<and> (mc_files m' = mc_files m \<or> m' = m2 \<or> m' = m3 \<and> i \<noteq> None)
     \<or> js_Status r = ''restarting'' \<and> ?new \<and> g = None \<and> i = None \<and> m' = m3"
    using assms 1
    by (cases ok; cases g; cases i) (auto simp: executeAgentUpdate_def Doc st g i job_result_def split: if_splits option.splits)
  show ?thesis
  proof (cases "js_Status r = ''failed''")
    case True
    then show ?thesis using cases 2 3 by (auto simp: same_files_def)
  next
    case False
    then have ok: "js_Status r = ''restarting''" ?new "g = None" "i = None" "m' = m3" using cases by auto
    from install_update_eq(2) [OF i ok(4)] obtain old new where
      new: "mc_files m2 BinaryPath = Some old" "mc_files m2 BinaryStagingPath = Some new"
        "mc_files m3 = (mc_files m2)(BinaryPreviousPath \<mapsto> old, BinaryStagingPath := None, BinaryPath \<mapsto> new)" by blast
    have v: "update_verified x peer p new" using stage_update_eq(3) [OF g ok(3)] new(2) by auto
    have "mc_files m BinaryPath = Some old" using 2(1) new(1) by (simp add: same_files_def)
    moreover have "mc_files m' = (mc_files m)(BinaryPreviousPath \<mapsto> old, BinaryStagingPath := None, BinaryPath \<mapsto> new)"
      using 2(2) unfolding ok(5) new(3) by (auto simp: same_files_def)
    ultimately show ?thesis using ok(1,2) v Doc by auto
  qed
qed

text \<open>C5: Whatever the network and the file operations do, an update job replaces the agent's binary only by data
  with the digest of the job and with an Ed25519 signature of that digest by the key the server gave for the
  job's key identifier, and only by a version that compares greater unless the job forces it; then the
  replaced binary is kept as the previous one and the job asks for a restart.  A job that reports failure has
  left the binary as it was, and no update touches a file other than the binary and its two companions.\<close>

theorem agent_update_sound:
  assumes "executeAgentUpdate x peer e j payload m s = (r, m', s')"
  shows "same_files {BinaryPath, BinaryStagingPath, BinaryPreviousPath} m m'
    \<and> (js_Status r = ''failed'' \<and> mc_files m' BinaryPath = mc_files m BinaryPath
       \<or> js_Status r = ''restarting'' \<and> (\<exists>p new. x_AgentUpdatePayload x payload = Doc p
           \<and> (au_Force p \<or> e_version e = ''dev'' \<or> e_version e < au_Version p)
           \<and> mc_files m' BinaryPath = Some new \<and> update_verified x peer p new
           \<and> mc_files m BinaryPath \<noteq> None \<and> mc_files m' BinaryPreviousPath = mc_files m BinaryPath))"
  using executeAgentUpdate_eq [OF assms] by (auto simp: same_files_def)

text \<open>C39: Rolling back undoes an update: after an update job that asked for a restart, a rollback job on the same
  machine, with no failing file operation, puts the replaced binary back, removes the pending update and
  leaves no other trace than the removed companions of the binary.\<close>

theorem update_rollback_roundtrip:
  assumes "executeAgentUpdate x peer e j payload m s = (r, m', s')" and "js_Status r = ''restarting''"
    and "x_AgentRollbackPayload x back = Doc q" and "h_io (mc_host m') = []" and "e_platform e"
  shows "\<exists>r2 m2. executeAgentRollback x e back m' = (r2, m2) \<and> js_Status r2 = ''restarting''
    \<and> mc_pending m2 = None \<and> mc_files m2 = (mc_files m)(BinaryPreviousPath := None, BinaryStagingPath := None)"
proof -
  from executeAgentUpdate_eq [OF assms(1)] assms(2) obtain old new where
    old: "mc_files m BinaryPath = Some old"
    and files: "mc_files m' = (mc_files m)(BinaryPreviousPath \<mapsto> old, BinaryStagingPath := None, BinaryPath \<mapsto> new)"
    by auto
  have io: "machine_io n = (IODone, n)" if "mc_host n = mc_host m'" for n
    using that assms(4) by (simp add: machine_io_def)
  let ?m2 = "m'\<lparr>mc_files := (mc_files m')(BinaryPreviousPath := None, BinaryPath \<mapsto> old)\<rparr>"
  have st: "fs_Stat BinaryPreviousPath m' = (True, m')" by (simp add: fs_Stat_def io files)
  have rn: "fs_Rename BinaryPreviousPath BinaryPath m' = (True, ?m2)" by (simp add: fs_Rename_def io files)
  have rp: "RemovePending ?m2 = ?m2\<lparr>mc_pending := None\<rparr>" by (simp add: RemovePending_def io)
  have "Rollback m' = (Inr (), ?m2\<lparr>mc_pending := None\<rparr>)" by (simp add: Rollback_def st rn rp)
  then have "executeAgentRollback x e back m' =
      (job_result ''restarting'' (''Rolled back to previous binary. Reason: '' @ rb_Reason q), ?m2\<lparr>mc_pending := None\<rparr>)"
    by (simp add: executeAgentRollback_def assms(3,5) st)
  moreover have "mc_files ?m2 = (mc_files m)(BinaryPreviousPath := None, BinaryStagingPath := None)"
    using old by (auto simp: files)
  ultimately show ?thesis by (simp add: job_result_def)
qed

text \<open>A backup that breaks off leaves a truncated previous binary: the update fails, and a later rollback job
  installs what was left and reports success.\<close>

lemma torn_backup_installed:
  assumes "x_AgentRollbackPayload x back = Doc q" and "e_platform e" and "mc_files m BinaryPath = Some old"
    and "h_io (mc_host m) = [IODone, IODone, IOTorn n]"
  obtains m1 r2 m2 where "install_update e j p m = (Some ''failed to backup current binary: '', m1)"
    and "executeAgentRollback x e back m1 = (r2, m2)" and "js_Status r2 = ''restarting''"
    and "mc_files m2 BinaryPath = Some (take n old)"
proof -
  let ?h = "\<lambda>is. (mc_host m)\<lparr>h_io := is\<rparr>"
  let ?f = "(mc_files m)(BinaryPreviousPath \<mapsto> take n old)"
  let ?m0 = "m\<lparr>mc_host := ?h [], mc_files := ?f\<rparr>"
  have c: "copyFile BinaryPath BinaryPreviousPath m = (False, ?m0)"
    by (simp add: copyFile_def fs_ReadFile_def fs_Create_def fs_Copy_def machine_io_def next_io_def assms)
  let ?m1 = "?m0\<lparr>mc_files := ?f(BinaryStagingPath := None)\<rparr>"
  have i: "install_update e j p m = (Some ''failed to backup current binary: '', ?m1)"
    by (simp add: install_update_def c fs_Remove_def machine_io_def next_io_def)
  let ?m2 = "?m1\<lparr>mc_files := (mc_files ?m1)(BinaryPreviousPath := None, BinaryPath \<mapsto> take n old), mc_pending := None\<rparr>"
  have "executeAgentRollback x e back ?m1 =
      (job_result ''restarting'' (''Rolled back to previous binary. Reason: '' @ rb_Reason q), ?m2)"
    by (simp add: executeAgentRollback_def Rollback_def fs_Stat_def fs_Rename_def RemovePending_def machine_io_def next_io_def assms)
  with i show ?thesis by (rule that) (simp_all add: job_result_def)
qed

section \<open>Transfers\<close>

lemma path_elements_slash: "path_elements acc (u @ CHR ''/'' # v) = path_elements acc u @ path_elements [] v"
  by (induction u arbitrary: acc) auto

lemma path_elements_plain: "CHR ''/'' \<notin> set v \<Longrightarrow> path_elements acc v = [acc @ v]"
  by (induction v arbitrary: acc) auto

lemma clean_elements_append:
  "clean_elements b stack (xs @ ys) = clean_elements b (rev (clean_elements b stack xs)) ys"
  by (induction b stack xs rule: clean_elements.induct) (auto split: list.split)

lemma DropDir_Join:
  assumes "CHR ''/'' \<notin> set v" and "v \<noteq> ''''" and "v \<noteq> ''.''" and "v \<noteq> ''..''"
  shows "path_Join DropDir v = DropDir @ ''/'' @ v"
proof -
  have d: "path_elements [] DropDir = ['''', ''opt'', ''moebius-agent'', ''drop'']" by code_simp
  have s: "DropDir @ ''/'' @ v = DropDir @ CHR ''/'' # v" by simp
  have "path_elements [] (DropDir @ ''/'' @ v) = ['''', ''opt'', ''moebius-agent'', ''drop'', v]"
    unfolding s path_elements_slash d path_elements_plain [OF assms(1)] by simp
  moreover have "HasPrefix (DropDir @ ''/'' @ v) ''/''" by (simp add: DropDir_def HasPrefix_def)
  ultimately have "path_Clean (DropDir @ ''/'' @ v) = ''/'' @ slashed [''opt'', ''moebius-agent'', ''drop'', v]"
    using assms by (simp add: path_Clean_def)
  also have "\<dots> = DropDir @ ''/'' @ v" by (simp add: DropDir_def)
  finally show ?thesis using assms(2) by (simp add: path_Join_def DropDir_def)
qed

lemma path_Base_plain: "CHR ''/'' \<notin> set v \<Longrightarrow> v \<noteq> '''' \<Longrightarrow> path_Base v = v"
proof -
  assume v: "CHR ''/'' \<notin> set v" "v \<noteq> ''''"
  have d: "dropWhile (\<lambda>c. c = CHR ''/'') (rev v) = rev v"
    using v by (cases "rev v") (auto simp: dropWhile_eq_self_iff)
  have t: "takeWhile (\<lambda>c. c \<noteq> CHR ''/'') (rev v) = rev v" using v(1) by (auto simp: takeWhile_eq_all_conv)
  show ?thesis unfolding path_Base_def d Let_def rev_rev_ident t using v(2) by simp
qed

text \<open>A file identifier is part of a path without a check: with separators in it, the temporary file of a transfer
  can be any file, the agent's binary for one.\<close>

lemma transfer_path_escapes:
  "path_Join DropDir (''.downloading-'' @ ''f/download?/../../../../../usr/local/bin/moebius-agent'') = BinaryPath"
  by code_simp

lemma fetch_file_eq:
  assumes "fetch_file peer p dl t m s = (r, m', s')"
  shows "same_files {t} m m'" "same_agent m m'"
    "r = None \<Longrightarrow> (case ft_Integrity p of None \<Rightarrow> True | Some i \<Rightarrow> fti_RequireSHA256 i) \<Longrightarrow> fd_SHA256 dl \<noteq> '''' \<Longrightarrow>
       \<exists>data. mc_files m' t = Some data \<and> hex_encode (Sum256 data) = fd_SHA256 dl"
proof -
  let ?ok = "\<lambda>n. same_files {t} m n \<and> same_agent m n"
  have rm: "?ok (fs_Remove t n)" if "?ok n" for n
    using that fs_Remove_eq [where path = t and m = n] same_files_trans same_agent_trans by blast
  obtain d m1 s1 where d: "downloadFile peer (fd_URL dl) t m s = (d, m1, s1)" by (metis prod_cases3)
  obtain h m2 where h: "fileSHA256 t m1 = (h, m2)" by force
  have 1: "?ok m1" using downloadFile_eq [OF d] by blast
  have 2: "?ok m2" using 1 fileSHA256_eq(1,2) [OF h] by (auto simp: same_files_def same_agent_def)
  have "?ok m'"
    using assms rm [OF 1] rm [OF 2] 1 2
    by (cases d; cases h) (auto simp: fetch_file_def d h Let_def split: if_splits)
  then show "same_files {t} m m'" "same_agent m m'" by simp_all
  assume "r = None" "case ft_Integrity p of None \<Rightarrow> True | Some i \<Rightarrow> fti_RequireSHA256 i" "fd_SHA256 dl \<noteq> ''''"
  then have "h = Some (fd_SHA256 dl) \<and> m' = m2"
    using assms by (cases d; cases h) (auto simp: fetch_file_def d h Let_def split: if_splits)
  then show "\<exists>data. mc_files m' t = Some data \<and> hex_encode (Sum256 data) = fd_SHA256 dl"
    using fileSHA256_eq(1,3) [OF h] by metis
qed

lemma transfer_file_eq:
  assumes "transfer_file x peer p dl t f m s = (r, m', s')" and "ft_OnComplete p = None" and "t \<noteq> f"
  shows "js_Status r = ''failed'' \<and> same_files {t} m m'
    \<or> js_Status r = ''completed'' \<and> same_files {t, f} m m' \<and> (\<exists>data. mc_files m' f = Some data
       \<and> (fd_SHA256 dl = '''' \<or> hex_encode (Sum256 data) = fd_SHA256 dl
              \<or> (\<exists>i. ft_Integrity p = Some i \<and> \<not> fti_RequireSHA256 i)))"
proof -
  obtain h m1 s1 where h: "fetch_file peer p dl t m s = (h, m1, s1)" by (metis prod_cases3)
  obtain n m2 where n: "fs_Rename t f m1 = (n, m2)" by force
  have 1: "same_files {t} m m1" using fetch_file_eq(1) [OF h] .
  have 2: "same_files {t} m (fs_Remove t m2)" if "\<not> n"
    using 1 fs_Rename_eq(1) [OF n that] fs_Remove_eq(1) [where path = t and m = m2] by (auto simp: same_files_def)
  have "js_Status r = ''failed'' \<and> (m' = m1 \<or> m' = fs_Remove t m2 \<and> \<not> n)
      \<or> js_Status r = ''completed'' \<and> h = None \<and> n \<and> m' = m2"
    using assms(1) by (cases h; cases n) (auto simp: transfer_file_def assms(2) h n job_result_def)
  then show ?thesis
  proof (elim disjE conjE)
    assume r: "js_Status r = ''completed''" "h = None" "n" "m' = m2"
    from fs_Rename_eq(3) [OF n r(3)] obtain data where
      data: "mc_files m1 t = Some data" "mc_files m2 = (mc_files m1)(t := None, f \<mapsto> data)" by blast
    have "fd_SHA256 dl = '''' \<or> hex_encode (Sum256 data) = fd_SHA256 dl \<or> (\<exists>i. ft_Integrity p = Some i \<and> \<not> fti_RequireSHA256 i)"
      using fetch_file_eq(3) [OF h r(2)] data(1) by (cases "ft_Integrity p") auto
    moreover have "same_files {t, f} m m'" using 1 by (simp add: r(4) data(2) same_files_def)
    ultimately show ?thesis using r data assms(3) by auto
  qed (use 1 2 in auto)
qed


section \<open>The gate\<close>

text \<open>A run that left the machine alone, apart from customer device mode's own state and the clock.\<close>

definition idle :: "machine \<Rightarrow> machine \<Rightarrow> bool" where
  "idle m m' \<longleftrightarrow> mc_files m' = mc_files m \<and> mc_pending m' = mc_pending m \<and> mc_inventory m' = mc_inventory m
     \<and> mc_restarts m' = mc_restarts m"

lemma runJob_unacknowledged:
  assumes "runJob x peer e job m s = (m', s')" and "\<not> idle m m'"
  obtains c s1 where "mc_cdm m = Some c" and "fst (Manager_CanExecuteJob c (mc_host m))"
    and "acknowledge peer (jd_JobID job) s = (Inr (), s1)"
proof -
  obtain c where c: "mc_cdm m = Some c" using assms by (cases "mc_cdm m") (auto simp: runJob_def idle_def)
  obtain ok c1 h1 where g: "Manager_CanExecuteJob c (mc_host m) = (ok, c1, h1)" by (metis prod_cases3)
  obtain a s1 where a: "acknowledge peer (jd_JobID job) s = (a, s1)" by force
  have "ok" using assms by (auto simp: runJob_def c g idle_def Let_def split: if_splits)
  moreover have "a = Inr ()" using assms by (cases a) (auto simp: runJob_def c g a idle_def Let_def split: if_splits)
  ultimately show ?thesis using that c a g by simp
qed

text \<open>C6: A job acts on the device only through the gate: when running a job changed a file, the pending update, the
  inventory or asked for a restart, then the server had acknowledged the job to this run and, if customer
  device mode was on, a session granted to the agent was in force, whatever the server sent.\<close>

theorem job_gate_sound:
  assumes "mc_cdm m = Some c" and "cdm_reach G c (mc_host m)"
    and "runJob x peer e job m s = (m', s')" and "\<not> idle m m'"
  shows "(\<exists>s1. acknowledge peer (jd_JobID job) s = (Inr (), s1))
    \<and> (\<not> Manager_Enabled c \<or> (\<exists>(t, d) \<in> set G. h_clock (mc_host m) (h_ticks (mc_host m)) \<le> t + d))"
proof -
  obtain c' s1 where "mc_cdm m = Some c'" "fst (Manager_CanExecuteJob c' (mc_host m))"
    "acknowledge peer (jd_JobID job) s = (Inr (), s1)"
    using runJob_unacknowledged [OF assms(3,4)] .
  then show ?thesis using cdm_gate_open [OF assms(2)] assms(1) by auto
qed

text \<open>Neither an update nor a rollback asks for a restart by itself.\<close>

lemma WritePending_restarts [simp]: "mc_restarts (snd (WritePending p m)) = mc_restarts m"
  by (simp add: WritePending_def split: prod.splits)

lemma RemovePending_restarts [simp]: "mc_restarts (RemovePending m) = mc_restarts m"
  by (auto simp: RemovePending_def same_agent_def dest: machine_io_eq(2) split: prod.splits)

lemma install_update_restarts:
  assumes "install_update e j p m = (r, m')"
  shows "mc_restarts m' = mc_restarts m"
proof -
  obtain c m1 where c: "copyFile BinaryPath BinaryPreviousPath m = (c, m1)" by force
  obtain n m2 where n: "fs_Rename BinaryStagingPath BinaryPath m1 = (n, m2)" by force
  obtain t m3 where t: "machine_now m2 = (t, m3)" by force
  have 1: "mc_restarts m1 = mc_restarts m" using copyFile_eq(2) [OF c] by (simp add: same_agent_def)
  have 2: "mc_restarts m2 = mc_restarts m" using fs_Rename_eq(2) [OF n] 1 by (simp add: same_agent_def)
  have 3: "mc_restarts m3 = mc_restarts m" using machine_now_eq(2) [of m2] t 2 by (simp add: same_agent_def)
  have rm: "mc_restarts (fs_Remove f k) = mc_restarts k" for f k
    using fs_Remove_eq(2) [where path = f and m = k] by (simp add: same_agent_def)
  show ?thesis
    using assms 1 2 3 by (cases c; cases n) (auto simp: install_update_def c n t Let_def rm)
qed

lemma executeAgentUpdate_restarts:
  assumes "executeAgentUpdate x peer e j payload m s = (r, m', s')"
  shows "mc_restarts m' = mc_restarts m"
proof -
  have 1: "mc_restarts m1 = mc_restarts m" if "fs_Stat path m = (ok, m1)" for path ok m1
    using fs_Stat_eq(2) [OF that] by (simp add: same_agent_def)
  have 2: "mc_restarts m2 = mc_restarts m1" if "stage_update x peer p m1 s = (g, m2, s1)" for p m1 g m2 s1
    using stage_update_eq(2) [OF that] by (simp add: same_agent_def)
  show ?thesis
    using assms
    by (auto simp: executeAgentUpdate_def dest!: 1 2 install_update_restarts
        split: json.splits if_splits prod.splits option.splits bool.splits)
qed

lemma executeAgentRollback_restarts:
  assumes "executeAgentRollback x e payload m = (r, m')"
  shows "mc_restarts m' = mc_restarts m"
proof -
  have 1: "mc_restarts m1 = mc_restarts n" if "fs_Stat path n = (ok, m1)" for path ok m1 n
    using fs_Stat_eq(2) [OF that] by (simp add: same_agent_def)
  have 2: "mc_restarts m1 = mc_restarts n" if "fs_Rename a b n = (ok, m1)" for a b ok m1 n
    using fs_Rename_eq(2) [OF that] by (simp add: same_agent_def)
  have 3: "mc_restarts m2 = mc_restarts n" if "Rollback n = (q, m2)" for q m2 n
    using that by (auto simp: Rollback_def dest!: 1 2 split: prod.splits bool.splits)
  show ?thesis
    using assms by (auto simp: executeAgentRollback_def dest!: 1 3 split: json.splits if_splits prod.splits sum.splits bool.splits)
qed

text \<open>An update that is still pending when the agent starts after its deadline is undone, even when the running
  version is the one the update was to install.\<close>

lemma late_start_rolls_back:
  assumes "mc_pending m = Some (Doc p)" and "h_io (mc_host m) = []" and "mc_files m BinaryPreviousPath = Some old"
    and "pu_Deadline p < h_clock (mc_host m) (h_ticks (mc_host m))"
  shows "mc_files (verify_pending (pu_ExpectedVersion p) m) BinaryPath = Some old
    \<and> mc_pending (verify_pending (pu_ExpectedVersion p) m) = None"
proof -
  let ?h = "(mc_host m)\<lparr>h_ticks := Suc (h_ticks (mc_host m))\<rparr>"
  define m1 where "m1 = m\<lparr>mc_host := ?h\<rparr>"
  have io: "machine_io n = (IODone, n)" if "h_io (mc_host n) = []" for n using that by (simp add: machine_io_def)
  have m1: "h_io (mc_host m1) = []" "mc_files m1 BinaryPreviousPath = Some old" using assms by (simp_all add: m1_def)
  have "ReadPending m = (Some (Some p), m)" using assms(1,2) by (simp add: ReadPending_def read_doc_def)
  moreover have "machine_now m = (h_clock (mc_host m) (h_ticks (mc_host m)), m1)" by (simp add: machine_now_def host_now_def m1_def)
  ultimately have c: "CheckPostRestart (pu_ExpectedVersion p) m = (Some \<lparr>vr_Pending = p, vr_Success = False, vr_NeedRoll = True\<rparr>, m1)"
    using assms(4) by (simp add: CheckPostRestart_def)
  define m2 where "m2 = m1\<lparr>mc_files := (mc_files m1)(BinaryPreviousPath := None, BinaryPath \<mapsto> old)\<rparr>"
  have m2: "h_io (mc_host m2) = []" "mc_files m2 BinaryPath = Some old" using m1 by (simp_all add: m2_def)
  have "fs_Stat BinaryPreviousPath m1 = (True, m1)" using m1 by (simp add: fs_Stat_def io)
  moreover have "fs_Rename BinaryPreviousPath BinaryPath m1 = (True, m2)" using m1 by (simp add: fs_Rename_def io m2_def)
  moreover have "RemovePending m2 = m2\<lparr>mc_pending := None\<rparr>" using m2 by (simp add: RemovePending_def io)
  ultimately have "snd (Rollback m1) = m2\<lparr>mc_pending := None\<rparr>" by (simp add: Rollback_def)
  then show ?thesis using m2(2) by (simp add: verify_pending_def c)
qed

section \<open>Witnesses\<close>

definition sample_answer :: "'a \<Rightarrow> 's \<Rightarrow> (string + 'a reply) \<times> 's" where
  "sample_answer x s = (Inr \<lparr>rp_Status = 200, rp_Text = '''', rp_Body = Doc x\<rparr>, s)"

definition sample_download :: fileDownloadResponse where
  "sample_download = \<lparr>fd_URL = ''https://cdn/f1'', fd_SizeBytes = 1, fd_ChunkSizeBytes = 5, fd_TotalChunks = 1,
     fd_SHA256 = hex_encode (Sum256 [7]), fd_Signature = '''', fd_SignatureKeyID = '''', fd_ExpiresAt = 0\<rparr>"

definition sample_peer :: "unit peer" where
  "sample_peer = \<lparr>p_Acknowledge = (\<lambda>_. sample_answer ()), p_SubmitResult = (\<lambda>_ _. sample_answer ()),
     p_Download = (\<lambda>_. sample_answer sample_download), p_SigningKey = (\<lambda>_. sample_answer ''k''), p_Get = (\<lambda>_. sample_answer [7])\<rparr>"

definition sample_update :: AgentUpdatePayload where
  "sample_update = \<lparr>au_Version = ''2'', au_DownloadURL = ''https://cdn/agent'', au_SHA256 = hex_encode (Sum256 [7]),
     au_Signature = base64_encode (bytes_of ''k'' @ Sum256 [7]), au_SignatureKeyID = ''key1'', au_SizeBytes = 0, au_Force = False\<rparr>"

text \<open>A shell whose commands write one file.\<close>

definition sample_outside :: outside where
  "sample_outside = \<lparr>x_shell = (\<lambda>_ _ m. (False, \<lparr>eo_Err = None, eo_Stdout = ''done'', eo_Stderr = ''''\<rparr>,
       m\<lparr>mc_files := (mc_files m)(''/tmp/x'' \<mapsto> [1])\<rparr>)),
     x_onComplete = (\<lambda>_ _ m. ('''', None, m)), x_look = (\<lambda>_. None),
     x_native = (\<lambda>_ _ m. (\<lparr>eo_Err = None, eo_Stdout = '''', eo_Stderr = ''''\<rparr>, m)),
     x_free = (\<lambda>_ _. Some 1000), x_dpkg = (\<lambda>_. None), x_rpm = (\<lambda>_. None), x_walk = (\<lambda>s. s), x_full = (\<lambda>_. ''{}''),
     x_signatures = sample_library,
     x_ExecPayload = (\<lambda>_. Doc \<lparr>ep_Command = ''touch /tmp/x'', ep_TimeoutSeconds = 0\<rparr>), x_PackagePayload = (\<lambda>_. Malformed),
     x_FileTransferPayload = (\<lambda>_. Doc \<lparr>ft_FileID = ''f1'', ft_Integrity = None, ft_Storage = None, ft_OnComplete = None\<rparr>),
     x_AgentUpdatePayload = (\<lambda>_. Doc sample_update),
     x_AgentRollbackPayload = (\<lambda>_. Doc \<lparr>rb_Reason = ''test'', rb_MinRollbackVersion = ''''\<rparr>)\<rparr>"

definition sample_executor :: executor where
  "sample_executor = \<lparr>e_dropDir = DropDir, e_platform = True, e_pollInterval = 30, e_restartFunc = True, e_version = ''1''\<rparr>"

definition sample_machine :: "Manager \<Rightarrow> machine" where
  "sample_machine c = \<lparr>mc_files = [BinaryPath \<mapsto> [1, 2, 3]], mc_pending = None, mc_inventory = None, mc_cdm = Some c,
     mc_host = sample_host\<lparr>h_ticks := 1\<rparr>, mc_restarts = 0\<rparr>"

lemma sample_outside_sel [simp]:
  "x_signatures sample_outside = sample_library" "x_AgentUpdatePayload sample_outside = (\<lambda>_. Doc sample_update)"
  "x_free sample_outside = (\<lambda>_ _. Some 1000)"
  "x_FileTransferPayload sample_outside = (\<lambda>_. Doc \<lparr>ft_FileID = ''f1'', ft_Integrity = None, ft_Storage = None, ft_OnComplete = None\<rparr>)"
  "x_AgentRollbackPayload sample_outside = (\<lambda>_. Doc \<lparr>rb_Reason = ''test'', rb_MinRollbackVersion = ''''\<rparr>)"
  by (simp_all add: sample_outside_def)

lemma sample_peer_sel [simp]:
  "p_Download sample_peer i = sample_answer sample_download" "p_SigningKey sample_peer i = sample_answer ''k''"
  "p_Get sample_peer url = sample_answer [7]"
  by (simp_all add: sample_peer_def)

lemma sample_library_sel [simp]:
  "pem_Decode sample_library t = Some (bytes_of t)" "ParsePKIXPublicKey sample_library k = Some (Ed25519Key k)"
  "ed25519_Verify sample_library pub d sig \<longleftrightarrow> sig = pub @ d"
  by (simp_all add: sample_library_def)

lemma hex_digest_nonempty: "hex_encode (Sum256 data) \<noteq> ''''"
  using length_Sum256 [of data] by (cases "Sum256 data") auto

lemma sample_update_runs:
  "case executeAgentUpdate sample_outside sample_peer sample_executor ''j1'' '''' (sample_machine sample_enabled) () of
     (r, m', s') \<Rightarrow> js_Status r = ''restarting'' \<and> h_io (mc_host m') = []"
proof -
  have io: "machine_io n = (IODone, n)" if "h_io (mc_host n) = []" for n using that by (simp add: machine_io_def)
  have v: "''2'' \<le> (''1'' :: string) \<longleftrightarrow> False" by code_simp
  note n = hex_digest_nonempty
  have "base64_decode '''' = Some []" by code_simp
  then have b: "base64_encode (bytes_of ''k'' @ Sum256 [7]) \<noteq> ''''"
    using base64_roundtrip [of "bytes_of ''k'' @ Sum256 [7]"] by (auto simp: bytes_of_def)
  define m0 where "m0 = sample_machine sample_enabled"
  have m0: "h_io (mc_host m0) = []" "mc_files m0 = [BinaryPath \<mapsto> [1, 2, 3]]" by (simp_all add: m0_def sample_machine_def sample_host_def)
  define m1 where "m1 = m0\<lparr>mc_files := (mc_files m0)(BinaryStagingPath \<mapsto> [7])\<rparr>"
  have m1: "h_io (mc_host m1) = []" "mc_files m1 BinaryStagingPath = Some [7]" "mc_files m1 BinaryPath = Some [1, 2, 3]"
    using m0 by (simp_all add: m1_def)
  have d: "downloadFile sample_peer (au_DownloadURL sample_update) BinaryStagingPath m0 () = (None, m1, ())"
    by (simp add: downloadFile_def sample_answer_def fs_Create_def fs_Copy_def io m0 m1_def)
  have h: "fileSHA256 BinaryStagingPath m1 = (Some (au_SHA256 sample_update), m1)"
    by (simp add: fileSHA256_def fs_ReadFile_def io m1 sample_update_def)
  have k: "fetchSigningKey sample_outside sample_peer (au_SignatureKeyID sample_update) () = (Inr (bytes_of ''k''), ())"
    by (simp add: fetchSigningKey_def sample_answer_def)
  have s: "verifySignature sample_outside sample_peer BinaryStagingPath (au_Signature sample_update) (au_SignatureKeyID sample_update) m1 ()
      = (None, m1, ())"
    by (simp add: verifySignature_def k fs_ReadFile_def io m1 base64_roundtrip sample_update_def [THEN arg_cong [where f = au_Signature]])
  have g: "stage_update sample_outside sample_peer sample_update m0 () = (None, m1, ())"
    by (simp add: stage_update_def d h s fs_Chmod_def io m1) (simp add: sample_update_def n b)
  define m2 where "m2 = m1\<lparr>mc_files := (mc_files m1)(BinaryPreviousPath \<mapsto> [1, 2, 3])\<rparr>"
  have m2: "h_io (mc_host m2) = []" "mc_files m2 BinaryStagingPath = Some [7]" using m1 by (simp_all add: m2_def)
  have c: "copyFile BinaryPath BinaryPreviousPath m1 = (True, m2)"
    by (simp add: copyFile_def fs_ReadFile_def fs_Create_def fs_Copy_def fs_Stat_def fs_Chmod_def io m1 m2_def)
  obtain m3 where i: "install_update sample_executor ''j1'' sample_update m1 = (None, m3)" "h_io (mc_host m3) = []"
    by (simp add: install_update_def c fs_Rename_def io m2 machine_now_def host_now_def WritePending_def write_doc_def sample_executor_def)
  have "executeAgentUpdate sample_outside sample_peer sample_executor ''j1'' '''' m0 () =
      (job_result ''restarting'' (''New binary installed, restarting into v'' @ au_Version sample_update), m3, ())"
    by (simp add: executeAgentUpdate_def fs_Stat_def io m0 g i(1))
      (simp add: sample_update_def sample_executor_def v)
  then show ?thesis using i(2) by (simp add: m0_def job_result_def)
qed

theorem agent_update_sound_witness:
  "\<exists>r m'. executeAgentUpdate sample_outside sample_peer sample_executor ''j1'' '''' (sample_machine sample_enabled) () = (r, m', ())
     \<and> js_Status r = ''restarting'' \<and> mc_files m' BinaryPreviousPath = Some [1, 2, 3]
     \<and> (\<exists>new. mc_files m' BinaryPath = Some new \<and> update_verified sample_outside sample_peer sample_update new)"
proof -
  obtain r m' s' where u: "executeAgentUpdate sample_outside sample_peer sample_executor ''j1'' '''' (sample_machine sample_enabled) () = (r, m', s')"
    by (metis prod_cases3)
  have r: "js_Status r = ''restarting''" using sample_update_runs by (simp add: u)
  have d: "x_AgentUpdatePayload sample_outside '''' = Doc sample_update" by simp
  have o: "mc_files (sample_machine sample_enabled) BinaryPath = Some [1, 2, 3]" by (simp add: sample_machine_def)
  show ?thesis using agent_update_sound [OF u] r unfolding d o by (auto simp: u)
qed

theorem update_rollback_roundtrip_witness:
  "\<exists>r m' r2 m2. executeAgentUpdate sample_outside sample_peer sample_executor ''j1'' '''' (sample_machine sample_enabled) () = (r, m', ())
     \<and> executeAgentRollback sample_outside sample_executor '''' m' = (r2, m2) \<and> js_Status r2 = ''restarting''
     \<and> mc_files m2 BinaryPath = Some [1, 2, 3]"
proof -
  obtain r m' s' where u: "executeAgentUpdate sample_outside sample_peer sample_executor ''j1'' '''' (sample_machine sample_enabled) () = (r, m', s')"
    by (metis prod_cases3)
  have r: "js_Status r = ''restarting''" "h_io (mc_host m') = []" using sample_update_runs by (simp_all add: u)
  have q: "x_AgentRollbackPayload sample_outside '''' = Doc \<lparr>rb_Reason = ''test'', rb_MinRollbackVersion = ''''\<rparr>" by simp
  have p: "e_platform sample_executor" by (simp add: sample_executor_def)
  from update_rollback_roundtrip [OF u r(1) q r(2) p] obtain r2 m2 where
    b: "executeAgentRollback sample_outside sample_executor '''' m' = (r2, m2)" "js_Status r2 = ''restarting''"
      "mc_files m2 = (mc_files (sample_machine sample_enabled))(BinaryPreviousPath := None, BinaryStagingPath := None)" by blast
  then show ?thesis using u by (auto simp: sample_machine_def)
qed


theorem job_gate_sound_witness:
  "\<exists>m'. runJob sample_outside sample_peer sample_executor \<lparr>jd_JobID = ''j1'', jd_Type = ''exec'', jd_Payload = '''', jd_CreatedAt = 0\<rparr>
      (sample_machine \<lparr>m_state = sample_session, m_file = Some (Doc sample_session), m_auditLog = None\<rparr>) () = (m', ())
    \<and> \<not> idle (sample_machine \<lparr>m_state = sample_session, m_file = Some (Doc sample_session), m_auditLog = None\<rparr>) m'
    \<and> Manager_Enabled \<lparr>m_state = sample_session, m_file = Some (Doc sample_session), m_auditLog = None\<rparr>
    \<and> (\<exists>(t, d) \<in> set [(0, 10 * Second)]. h_clock (mc_host (sample_machine sample_enabled)) 1 \<le> t + d)"
proof -
  let ?c = "\<lparr>m_state = sample_session, m_file = Some (Doc sample_session), m_auditLog = None\<rparr>"
  let ?j = "\<lparr>jd_JobID = ''j1'', jd_Type = ''exec'', jd_Payload = '''', jd_CreatedAt = 0\<rparr>"
  obtain m' s' where u: "runJob sample_outside sample_peer sample_executor ?j (sample_machine ?c) () = (m', s')" by (rule prod.exhaust)
  have "fst (Manager_CanExecuteJob ?c (sample_host\<lparr>h_ticks := 1\<rparr>))" by code_simp
  then obtain c1 h1 where o: "Manager_CanExecuteJob ?c (sample_host\<lparr>h_ticks := 1\<rparr>) = (True, c1, h1)" by (metis prod_cases3 fst_conv)
  obtain c2 h2 where l: "log_execution ?j c1 h1 = (c2, h2)" by force
  have k: "acknowledge sample_peer ''j1'' () = (Inr (), ())" "submitResult sample_peer ''j1'' q () = (Inr (), ())" for q
    by (simp_all add: acknowledge_def submitResult_def sample_peer_def sample_answer_def)
  have "mc_files m' ''/tmp/x'' = Some [1]"
    using u by (auto simp: runJob_def sample_machine_def o k l run_acknowledged_def machine_now_def host_now_def execute_def executeExec_def
        sample_outside_def Let_def simp del: One_nat_def split: if_splits)
  moreover have "mc_files (sample_machine ?c) ''/tmp/x'' = None" by code_simp
  ultimately have i: "\<not> idle (sample_machine ?c) m'" by (auto simp: idle_def)
  have g: "cdm_reach [(0, 10 * Second)] ?c h'" for h'
    using cdm_reach.elapse [OF cdm_reach.grant [OF sample_enabled_reach sample_granted]]
    by (simp add: sample_enabled_def host_now_def sample_host_def)
  have c: "mc_cdm (sample_machine ?c) = Some ?c" by (simp add: sample_machine_def)
  have en: "Manager_Enabled ?c" by (simp add: Manager_Enabled_def sample_session_def)
  show ?thesis using job_gate_sound [OF c g u i] en i u by (auto simp: sample_machine_def)
qed

end
