(* ===== verification/AgentServer.thy ===== *)
theory AgentServer
  imports Executor JobsAPI Scheduler
begin

text \<open>The agent and the server together: the calls of the executor answered by the handlers of the server, over a
  network that may lose a request or a response, and what the two promise together about a job.\<close>

section \<open>The server as the agent sees it\<close>

text \<open>What becomes of a call: it is answered, it never arrives, or its answer is lost.  An exhausted schedule
  means that every further call is answered.\<close>

datatype delivery = Answered | Lost | Unanswered

record server =
  sv_world :: world
  sv_disk :: disk
  sv_net :: "delivery list"

text \<open>The body of an error stands for its message.\<close>

definition reply_of :: "'a response \<Rightarrow> 'a reply" where
  "reply_of r = \<lparr>rp_Status = status_of r,
     rp_Text = (case r of ErrorBody _ _ msg \<Rightarrow> msg | _ \<Rightarrow> ''''),
     rp_Body = (case r of JSON _ x \<Rightarrow> Doc x | _ \<Rightarrow> Malformed)\<rparr>"

definition next_delivery :: "server \<Rightarrow> delivery \<times> server" where
  "next_delivery sv = (case sv_net sv of [] \<Rightarrow> (Answered, sv) | d # ds \<Rightarrow> (d, sv\<lparr>sv_net := ds\<rparr>))"

definition call :: "(world \<Rightarrow> 'a response \<times> world) \<Rightarrow> server \<Rightarrow> (string + 'a reply) \<times> server" where
  "call handler sv =
    (case next_delivery sv of (d, sv1) \<Rightarrow>
     if d = Lost then (Inl ''connection refused'', sv1)
     else case handler (sv_world sv1) of (r, w) \<Rightarrow>
       (if d = Unanswered then Inl ''EOF'' else Inr (reply_of r), sv1\<lparr>sv_world := w\<rparr>))"

text \<open>Addresses without a scheme are refused by the client.  Addresses that are not the server's are answered by
  \<open>elsewhere\<close>.\<close>

definition file_data :: "string \<Rightarrow> (string \<Rightarrow> string + byte list reply) \<Rightarrow> string \<Rightarrow> server \<Rightarrow> (string + byte list reply) \<times> server" where
  "file_data base elsewhere url sv =
    (if \<not> HasPrefix url ''http://'' \<and> \<not> HasPrefix url ''https://'' then (Inl ''unsupported protocol scheme'', sv)
     else if HasPrefix url (base @ ''/v1/files/data/'') then
       (case FilesHandler_ServeFileData (TrimPrefix url (base @ ''/v1/files/data/'')) (sv_disk sv) of (r, k) \<Rightarrow>
         (Inr (reply_of r), sv\<lparr>sv_disk := k\<rparr>))
     else (elsewhere url, sv))"

text \<open>The identity of the agent is the one its certificate was authenticated with.\<close>

definition agent_peer ::
  "(string \<Rightarrow> full_inventory json) \<Rightarrow> request_context \<Rightarrow> string \<Rightarrow> (string \<Rightarrow> string + byte list reply) \<Rightarrow> server peer" where
  "agent_peer unmarshal ctx base elsewhere =
    \<lparr>p_Acknowledge = (\<lambda>jobID. call (AgentJobsHandler_Acknowledge True (ctx_AgentID ctx) (ctx_TenantID ctx) jobID)),
     p_SubmitResult = (\<lambda>jobID result. call (AgentJobsHandler_SubmitResult unmarshal True (ctx_AgentID ctx) (ctx_TenantID ctx) jobID (Doc result))),
     p_Download = (\<lambda>fileID. call (FilesHandler_Download ctx fileID)),
     p_SigningKey = (\<lambda>keyID. call (AgentSigningKeysHandler_Get ctx keyID)),
     p_Get = file_data base elsewhere\<rparr>"

section \<open>A job is run at most once\<close>

text \<open>A job that has left the queue for good.\<close>

definition taken :: "string \<Rightarrow> bool" where
  "taken status \<longleftrightarrow> status \<notin> {JobStatusPending, JobStatusQueued, JobStatusCDMHold, JobStatusDispatched}"

definition stays_taken :: "job_row \<Rightarrow> job_row \<Rightarrow> bool" where
  "stays_taken r r' \<longleftrightarrow> j_id r' = j_id r \<and> (taken (j_status r) \<longrightarrow> taken (j_status r'))"

interpretation delivered: row_preorder stays_taken
  by unfold_locales (auto simp: stays_taken_def)

text \<open>What the server does with jobs, in any order.  Identifiers of jobs are the primary key of their table.\<close>

inductive server_activity :: "world \<Rightarrow> world \<Rightarrow> bool" where
  checkin: "server_activity w (snd (CheckinHandler_ServeHTTP a t body w))"
| acknowledged: "server_activity w (snd (AgentJobsHandler_Acknowledge audit a t jid w))"
| submitted: "server_activity w (snd (AgentJobsHandler_SubmitResult u audit a t jid res w))"
| created: "server_activity w (snd (JobsHandler_Create quota audit ctx req w))"
| cancelled: "server_activity w (snd (JobsHandler_Cancel audit ctx jid w))"
| retried: "server_activity w (snd (JobsHandler_Retry quota audit ctx jid w))"
| ticked: "server_activity w (runTick cron s w)"

inductive server_runs :: "world \<Rightarrow> world \<Rightarrow> bool" where
  idle_server: "server_runs w w"
| more: "server_runs w w1 \<Longrightarrow> distinct_jobs (w_db w1) \<Longrightarrow> server_activity w1 w2 \<Longrightarrow> server_runs w w2"

lemma taken_statuses [simp]:
  "taken JobStatusAcknowledged" "taken JobStatusRunning" "taken JobStatusCompleted" "taken JobStatusFailed"
  "taken JobStatusTimedOut" "taken JobStatusCancelled" "\<not> taken JobStatusPending" "\<not> taken JobStatusQueued"
  "\<not> taken JobStatusCDMHold" "\<not> taken JobStatusDispatched"
  by (simp_all add: taken_def)

lemma submitted_taken: "submitted_status s = Some tgt \<Longrightarrow> taken tgt"
  by (auto simp: submitted_status_def split: if_splits)

lemma activity_delivered:
  assumes "server_activity w w'" and "distinct_jobs (w_db w)"
  shows "jobs_related stays_taken (w_db w) (w_db w')"
  using assms
proof cases
  case checkin
  then show ?thesis
    by (simp, intro delivered.ServeHTTP_related assms(2))
      (auto simp: stays_taken_def own_with_status_def mark_dispatched_def)
next
  case acknowledged
  then show ?thesis by (simp, intro delivered.Acknowledge_related assms(2)) (simp add: stays_taken_def)
next
  case submitted
  then show ?thesis
    by (simp, intro delivered.SubmitResult_related assms(2)) (simp add: stays_taken_def submitted_taken)
next
  case created
  then show ?thesis using delivered.Create_related by simp
next
  case cancelled
  then show ?thesis by (simp, intro delivered.Cancel_related assms(2)) (simp add: stays_taken_def)
next
  case retried
  then show ?thesis using delivered.Retry_related by simp
next
  case ticked
  then show ?thesis
    by (simp, intro delivered.runTick_related) (auto simp: stays_taken_def stuck_dispatched_def)
qed

lemma runs_delivered:
  assumes "server_runs w w'"
  shows "jobs_related stays_taken (w_db w) (w_db w')"
  using assms
proof induction
  case (more w w1 w2)
  then show ?case using delivered.related_trans activity_delivered by blast
qed (rule delivered.related_refl)

definition job_taken :: "id \<Rightarrow> db \<Rightarrow> bool" where
  "job_taken jid d \<longleftrightarrow> (\<exists>r \<in> set (db_jobs d). j_id r = jid \<and> taken (j_status r))"

lemma related_taken: "jobs_related stays_taken d d' \<Longrightarrow> job_taken jid d \<Longrightarrow> job_taken jid d'"
  unfolding jobs_related_def job_taken_def stays_taken_def
  by (metis in_set_conv_nth order.strict_trans2)

lemma Acknowledge_accepted:
  assumes "fst (AgentJobsHandler_Acknowledge audit a t jid w) = NoContent"
  obtains r where "r \<in> set (db_jobs (w_db w))" and "agent_job jid a t r" and "j_status r = JobStatusDispatched"
    and "job_taken jid (w_db (snd (AgentJobsHandler_Acknowledge audit a t jid w)))"
proof -
  obtain now w0 where now: "Now w = (now, w0)" by (cases "Now w")
  have w0: "w_db w0 = w_db w" using Now_db [of w] now by simp
  obtain q w1 where q: "Query (\<lambda>d. select_row (agent_job jid a t) (db_jobs d)) w0 = (q, w1)" by force
  obtain job where job: "q = Inr job" using assms by (cases q) (auto simp: AgentJobsHandler_Acknowledge_def now q split: if_splits)
  have sel: "job \<in> set (db_jobs (w_db w))" "agent_job jid a t job" and w1: "w_db w1 = w_db w"
    using Query_Inr [OF q [unfolded job]] w0 by (auto dest: select_row_Inr)
  have v: "ValidateTransition (j_status job) JobStatusAcknowledged = Inr ()"
    using assms by (cases "ValidateTransition (j_status job) JobStatusAcknowledged")
      (auto simp: AgentJobsHandler_Acknowledge_def now q job)
  then have st: "j_status job = JobStatusDispatched" by (metis job_step.intros job_step_into(2))
  let ?f = "\<lambda>r. r\<lparr>j_status := JobStatusAcknowledged, j_acknowledged_at := Some now\<rparr>"
  obtain x w2 where x: "Exec (update_jobs (\<lambda>r. j_id r = jid) ?f) w1 = (x, w2)" by force
  obtain y where y: "x = Inr y" using assms by (cases x) (auto simp: AgentJobsHandler_Acknowledge_def now q job v x)
  have "db_jobs (w_db w2) = update_rows (\<lambda>r. j_id r = jid) ?f (db_jobs (w_db w))"
    using Exec_Inr [OF x [unfolded y]] w1 by (simp add: update_jobs_Inr)
  moreover have "?f job \<in> set (update_rows (\<lambda>r. j_id r = jid) ?f (db_jobs (w_db w)))"
    using sel by (intro update_rows_mem) (simp_all add: agent_job_def)
  ultimately have "?f job \<in> set (db_jobs (w_db w2))" by simp
  then have t2: "job_taken jid (w_db w2)" using sel(2) unfolding job_taken_def by (intro bexI) (auto simp: agent_job_def)
  have "jobs_related stays_taken (w_db w2) (w_db (snd (AgentJobsHandler_Acknowledge audit a t jid w)))"
    using delivered.LogAction_respects delivered.related_refl
    by (simp add: AgentJobsHandler_Acknowledge_def now q job v x y)
  then show ?thesis using that [OF sel st] related_taken t2 by blast
qed

text \<open>Once a job is taken, it is not acknowledged to another run.\<close>

lemma taken_not_acknowledged:
  assumes "distinct_jobs (w_db w)" and "job_taken jid (w_db w)"
  shows "fst (AgentJobsHandler_Acknowledge audit a t jid w) \<noteq> NoContent"
proof
  assume "fst (AgentJobsHandler_Acknowledge audit a t jid w) = NoContent"
  then obtain r where r: "r \<in> set (db_jobs (w_db w))" "agent_job jid a t r" "j_status r = JobStatusDispatched"
    by (rule Acknowledge_accepted)
  obtain q where q: "q \<in> set (db_jobs (w_db w))" "j_id q = jid" "taken (j_status q)"
    using assms(2) unfolding job_taken_def by blast
  have "r = q" using distinct_jobs_row [OF assms(1) r(1) q(1)] r(2) q(2) by (simp add: agent_job_def)
  then show False using r(3) q(3) by simp
qed

text \<open>What the executor asks of a server beside acknowledgement and report leaves an observation of it alone.\<close>

locale quiet_peer =
  fixes peer :: "'s peer" and obs :: "'s \<Rightarrow> 'o"
  assumes Download_quiet: "obs (snd (p_Download peer fileID s)) = obs s"
    and SigningKey_quiet: "obs (snd (p_SigningKey peer keyID s)) = obs s"
    and Get_quiet: "obs (snd (p_Get peer url s)) = obs s"
begin

lemma getDownloadInfo_quiet: "getDownloadInfo peer i s = (r, s') \<Longrightarrow> obs s' = obs s"
  using Download_quiet [of i s] by (auto simp: getDownloadInfo_def split: prod.splits sum.splits if_splits json.splits)

lemma fetchSigningKey_quiet: "fetchSigningKey x peer i s = (r, s') \<Longrightarrow> obs s' = obs s"
  using SigningKey_quiet [of i s]
  by (auto simp: fetchSigningKey_def split: prod.splits sum.splits if_splits json.splits option.splits pkix_key.splits)

lemma downloadFile_quiet: "downloadFile peer url dst m s = (r, m', s') \<Longrightarrow> obs s' = obs s"
  using Get_quiet [of url s]
  by (auto simp: downloadFile_def split: prod.splits sum.splits if_splits json.splits bool.splits)

lemma verifySignature_quiet: "verifySignature x peer path sig key m s = (r, m', s') \<Longrightarrow> obs s' = obs s"
  by (auto simp: verifySignature_def dest: fetchSigningKey_quiet split: prod.splits sum.splits if_splits option.splits)

lemma stage_update_quiet:
  assumes "stage_update x peer p m s = (r, m', s')"
  shows "obs s' = obs s"
proof -
  obtain d m1 s1 where d: "downloadFile peer (au_DownloadURL p) BinaryStagingPath m s = (d, m1, s1)" by (metis prod_cases3)
  obtain h m2 where h: "fileSHA256 BinaryStagingPath m1 = (h, m2)" by force
  obtain v m3 s2 where v: "verifySignature x peer BinaryStagingPath (au_Signature p) (au_SignatureKeyID p) m2 s1 = (v, m3, s2)"
    by (metis prod_cases3)
  have "obs s1 = obs s" "obs s2 = obs s" using downloadFile_quiet [OF d] verifySignature_quiet [OF v] by simp_all
  then show ?thesis
    using assms by (cases d; cases h; cases v) (auto simp: stage_update_def d h v split: if_splits prod.splits bool.splits)
qed

lemma executeAgentUpdate_quiet:
  assumes "executeAgentUpdate x peer e j payload m s = (r, m', s')"
  shows "obs s' = obs s"
  using assms
  by (auto simp: executeAgentUpdate_def dest: stage_update_quiet
      split: prod.splits if_splits option.splits json.splits bool.splits)

lemma fetch_file_quiet:
  assumes "fetch_file peer p dl t m s = (r, m', s')"
  shows "obs s' = obs s"
proof -
  obtain d m1 s1 where d: "downloadFile peer (fd_URL dl) t m s = (d, m1, s1)" by (metis prod_cases3)
  show ?thesis
    using assms downloadFile_quiet [OF d]
    by (cases d) (auto simp: fetch_file_def d Let_def split: if_splits prod.splits option.splits)
qed

lemma transfer_file_quiet:
  assumes "transfer_file x peer p dl t f m s = (r, m', s')"
  shows "obs s' = obs s"
proof -
  obtain h m1 s1 where h: "fetch_file peer p dl t m s = (h, m1, s1)" by (metis prod_cases3)
  show ?thesis
    using assms fetch_file_quiet [OF h]
    by (cases h) (auto simp: transfer_file_def h split: if_splits prod.splits option.splits bool.splits)
qed

lemma executeFileTransfer_quiet:
  assumes "executeFileTransfer x peer e payload m s = (r, m', s')"
  shows "obs s' = obs s"
proof (cases "x_FileTransferPayload x payload")
  case (Doc p)
  obtain g s1 where g: "getDownloadInfo peer (ft_FileID p) s = (g, s1)" by force
  have 1: "obs s1 = obs s" using getDownloadInfo_quiet [OF g] .
  have 2: "obs s2 = obs s" if "transfer_file x peer p dl t f n s1 = (r2, m2, s2)" for dl t f n r2 m2 s2
    using transfer_file_quiet [OF that] 1 by simp
  show ?thesis
    using assms 1 by (cases g) (auto simp: executeFileTransfer_def Doc g dest!: 2 split: if_splits prod.splits option.splits bool.splits)
qed (use assms in \<open>simp add: executeFileTransfer_def\<close>)

lemma execute_quiet:
  assumes "execute x peer e job m s = (r, m', s')"
  shows "obs s' = obs s"
  using assms
  by (auto simp: execute_def dest: executeFileTransfer_quiet executeAgentUpdate_quiet split: if_splits prod.splits)

end

lemma next_delivery_world [simp]: "sv_world (snd (next_delivery sv)) = sv_world sv"
  by (simp add: next_delivery_def split: list.split)

lemma call_keeps:
  assumes "w_db (snd (handler (sv_world sv))) = w_db (sv_world sv)"
  shows "w_db (sv_world (snd (call handler sv))) = w_db (sv_world sv)"
proof -
  obtain d sv1 where d: "next_delivery sv = (d, sv1)" by force
  have "sv_world sv1 = sv_world sv" using next_delivery_world [of sv] d by simp
  then show ?thesis using assms by (auto simp: call_def d split: prod.splits)
qed

lemma Download_db: "w_db (snd (FilesHandler_Download ctx i w)) = w_db w"
  by (auto simp: FilesHandler_Download_def get_file_def Now_def split: prod.splits sum.splits dest!: Query_same_db)

lemma SigningKey_db: "w_db (snd (AgentSigningKeysHandler_Get ctx i w)) = w_db w"
  by (auto simp: AgentSigningKeysHandler_Get_def split: prod.splits sum.splits dest!: Query_same_db)

interpretation server_database: quiet_peer "agent_peer u ctx base elsewhere" "\<lambda>sv. w_db (sv_world sv)"
  for u ctx base elsewhere
  by unfold_locales
    (simp_all add: agent_peer_def call_keeps Download_db SigningKey_db file_data_def split: prod.splits)

lemma Acknowledge_responses:
  "status_of (fst (AgentJobsHandler_Acknowledge audit a t jid w)) \<in> {200, 204} \<Longrightarrow>
     fst (AgentJobsHandler_Acknowledge audit a t jid w) = NoContent"
  by (auto simp: AgentJobsHandler_Acknowledge_def split: prod.splits sum.splits if_splits)

lemma acknowledge_server:
  assumes "acknowledge (agent_peer u ctx base elsewhere) jid sv = (Inr (), sv1)"
  shows "fst (AgentJobsHandler_Acknowledge True (ctx_AgentID ctx) (ctx_TenantID ctx) jid (sv_world sv)) = NoContent"
    and "sv_world sv1 = snd (AgentJobsHandler_Acknowledge True (ctx_AgentID ctx) (ctx_TenantID ctx) jid (sv_world sv))"
proof -
  let ?h = "AgentJobsHandler_Acknowledge True (ctx_AgentID ctx) (ctx_TenantID ctx) jid"
  obtain d sv0 where d: "next_delivery sv = (d, sv0)" by force
  have w: "sv_world sv0 = sv_world sv" using next_delivery_world [of sv] d by simp
  obtain r w1 where r: "?h (sv_world sv) = (r, w1)" by force
  have *: "d = Answered" "sv1 = sv0\<lparr>sv_world := w1\<rparr>" "status_of r \<in> {200, 204}"
    using assms by (cases d; auto simp: acknowledge_def agent_peer_def call_def d w r reply_of_def split: if_splits)+
  show "fst (?h (sv_world sv)) = NoContent" using Acknowledge_responses [of True _ _ jid "sv_world sv"] r *(3) by (metis fst_conv)
  show "sv_world sv1 = snd (?h (sv_world sv))" using * r by simp
qed

lemma Acknowledge_ids:
  "map j_id (db_jobs (w_db (snd (AgentJobsHandler_Acknowledge audit a t jid w)))) = map j_id (db_jobs (w_db w))"
  by (auto simp: AgentJobsHandler_Acknowledge_def Now_def case_prod_beta Query_db Exec_job_ids_update
      job_ids.LogAction_respects split: sum.split)

lemma submitResult_server:
  assumes "submitResult (agent_peer u ctx base elsewhere) jid result sv = (r, sv1)"
  shows "sv_world sv1 = sv_world sv \<or>
    sv_world sv1 = snd (AgentJobsHandler_SubmitResult u True (ctx_AgentID ctx) (ctx_TenantID ctx) jid (Doc result) (sv_world sv))"
proof -
  obtain d sv0 where d: "next_delivery sv = (d, sv0)" by force
  have w: "sv_world sv0 = sv_world sv" using next_delivery_world [of sv] d by simp
  show ?thesis
    using assms w by (auto simp: submitResult_def agent_peer_def call_def d split: if_splits prod.splits sum.splits)
qed

text \<open>A run from the acknowledgement on keeps the job taken.\<close>

lemma run_acknowledged_taken:
  assumes "run_acknowledged x (agent_peer u ctx base elsewhere) e job m sv = (m', sv')"
    and "distinct_jobs (w_db (sv_world sv))" and "job_taken jid (w_db (sv_world sv))"
  shows "job_taken jid (w_db (sv_world sv'))"
proof -
  let ?P = "agent_peer u ctx base elsewhere"
  obtain t1 m1 where t1: "machine_now m = (t1, m1)" by force
  obtain r m2 s1 where ex: "execute x ?P e job m1 sv = (r, m2, s1)" by (metis prod_cases3)
  obtain t2 m3 where t2: "machine_now m2 = (t2, m3)" by force
  obtain q s2 where sub: "submitResult ?P (jd_JobID job) (r\<lparr>js_StartedAt := Some t1, js_CompletedAt := Some t2\<rparr>) s1 = (q, s2)" by force
  have s': "sv' = s2" using assms(1) by (auto simp: run_acknowledged_def t1 ex t2 sub split: sum.splits)
  have db: "w_db (sv_world s1) = w_db (sv_world sv)" by (rule server_database.execute_quiet [OF ex])
  have "jobs_related stays_taken (w_db (sv_world s1)) (w_db (sv_world s2))"
    using submitResult_server [OF sub] activity_delivered [OF server_activity.submitted] assms(2) db delivered.related_refl by metis
  then show ?thesis using related_taken assms(3) db s' by simp
qed

lemma runJob_takes:
  assumes "runJob x (agent_peer u ctx base elsewhere) e job m sv = (m', sv')" and "\<not> idle m m'"
    and "distinct_jobs (w_db (sv_world sv))"
  shows "job_taken (jd_JobID job) (w_db (sv_world sv'))"
proof -
  let ?P = "agent_peer u ctx base elsewhere"
  obtain c s1 where c: "mc_cdm m = Some c" "fst (Manager_CanExecuteJob c (mc_host m))"
    and a: "acknowledge ?P (jd_JobID job) sv = (Inr (), s1)"
    using runJob_unacknowledged [OF assms(1,2)] .
  obtain c1 h1 where g: "Manager_CanExecuteJob c (mc_host m) = (True, c1, h1)" using c(2) by (metis prod_cases3 fst_conv)
  obtain c2 h2 where l: "log_execution job c1 h1 = (c2, h2)" by force
  have run: "run_acknowledged x ?P e job (m\<lparr>mc_cdm := Some c2, mc_host := h2\<rparr>) s1 = (m', sv')"
    using assms(1) by (simp add: runJob_def c(1) g a l)
  note s = acknowledge_server [OF a]
  obtain r where "job_taken (jd_JobID job) (w_db (sv_world s1))" using Acknowledge_accepted [OF s(1)] s(2) by metis
  moreover have "distinct_jobs (w_db (sv_world s1))" using Acknowledge_ids assms(3) s(2) by (simp add: distinct_jobs_def)
  ultimately show ?thesis using run_acknowledged_taken [OF run] by blast
qed


section \<open>What the two do not achieve together\<close>

text \<open>A download of the local backend is announced with an address that has no scheme, which the agent's client
  refuses: no transfer from such a server ever completes.\<close>

lemma transfer_never_completes:
  "js_Status (fst (executeFileTransfer x (agent_peer u ctx base elsewhere) e payload m sv)) = ''failed''"
proof (cases "x_FileTransferPayload x payload")
  case (Doc p)
  let ?P = "agent_peer u ctx base elsewhere"
  obtain g s1 where g: "getDownloadInfo ?P (ft_FileID p) sv = (g, s1)" by force
  have url: "fd_URL dl = LocalBackend_URL (ft_FileID p)" if "g = Inr dl" for dl
    using g that
    by (auto simp: getDownloadInfo_def agent_peer_def call_def FilesHandler_Download_def reply_of_def
        split: prod.splits sum.splits if_splits json.splits response.splits)
  have "js_Status (fst (transfer_file x ?P p dl t f m1 s1)) = ''failed''" if "g = Inr dl" for dl t f m1
    by (simp add: transfer_file_def fetch_file_def downloadFile_def agent_peer_def file_data_def url [OF that]
        LocalBackend_URL_def HasPrefix_def job_result_def)
  then show ?thesis
    by (cases g) (auto simp: executeFileTransfer_def Doc g job_result_def split: prod.splits bool.splits option.splits)
qed (simp add: executeFileTransfer_def job_result_def)

text \<open>The server knows no status \<open>restarting\<close>: the report is refused, so the agent never asks for the restart that
  an update or a rollback needs.\<close>

lemma restarting_not_accepted:
  assumes "js_Status result = ''restarting''"
  shows "\<exists>msg s1. submitResult (agent_peer u ctx base elsewhere) jid result sv = (Inl msg, s1)"
proof -
  obtain d sv0 where d: "next_delivery sv = (d, sv0)" by force
  show ?thesis
    by (cases d) (auto simp: submitResult_def agent_peer_def call_def d AgentJobsHandler_SubmitResult_def assms submitted_status_def
        reply_of_def split: prod.splits)
qed

lemma update_never_restarts:
  assumes "runJob x (agent_peer u ctx base elsewhere) e job m sv = (m', sv')"
    and "jd_Type job = ''agent_update'' \<or> jd_Type job = ''agent_rollback''"
  shows "mc_restarts m' = mc_restarts m"
proof (cases "mc_cdm m")
  case (Some c)
  let ?P = "agent_peer u ctx base elsewhere"
  have now: "mc_restarts n' = mc_restarts n" if "machine_now n = (t, n')" for n t n'
    using machine_now_eq(2) [of n] that by (simp add: same_agent_def)
  have ex: "mc_restarts n' = mc_restarts n" if "execute x ?P e job n s = (r, n', s')" for n s r n' s'
  proof (cases "jd_Type job = ''agent_update''")
    case True
    then show ?thesis using that executeAgentUpdate_restarts by (simp add: execute_def)
  next
    case False
    then show ?thesis using that assms(2) executeAgentRollback_restarts by (auto simp: execute_def split: prod.splits)
  qed
  have run: "mc_restarts n' = mc_restarts n" if r: "run_acknowledged x ?P e job n s = (n', s')" for n s n' s'
  proof -
    obtain t1 n1 where t1: "machine_now n = (t1, n1)" by force
    obtain r n2 s1 where e: "execute x ?P e job n1 s = (r, n2, s1)" by (metis prod_cases3)
    obtain t2 n3 where t2: "machine_now n2 = (t2, n3)" by force
    obtain q s2 where sub: "submitResult ?P (jd_JobID job) (r\<lparr>js_StartedAt := Some t1, js_CompletedAt := Some t2\<rparr>) s1 = (q, s2)" by force
    have "\<exists>msg. q = Inl msg" if "js_Status r = ''restarting''"
    proof -
      have "js_Status (r\<lparr>js_StartedAt := Some t1, js_CompletedAt := Some t2\<rparr>) = ''restarting''" using that by simp
      from restarting_not_accepted [OF this, of u ctx base elsewhere "jd_JobID job" s1] sub show ?thesis by auto
    qed
    then have "n' = n3"
      using r by (cases q) (auto simp: run_acknowledged_def t1 e t2 sub split: if_splits)
    then show ?thesis using now [OF t1] ex [OF e] now [OF t2] by simp
  qed
  obtain ok c1 h1 where g: "Manager_CanExecuteJob c (mc_host m) = (ok, c1, h1)" by (metis prod_cases3)
  obtain a s1 where a: "acknowledge ?P (jd_JobID job) sv = (a, s1)" by force
  obtain c2 h2 where l: "log_execution job c1 h1 = (c2, h2)" by force
  show ?thesis
  proof (cases "ok \<and> (\<exists>z. a = Inr z)")
    case True
    then have "run_acknowledged x ?P e job (m\<lparr>mc_cdm := Some c2, mc_host := h2\<rparr>) s1 = (m', sv')"
      using assms(1) by (auto simp: runJob_def Some g a l)
    from run [OF this] show ?thesis by simp
  next
    case False
    then have "m' = m\<lparr>mc_cdm := Some c1, mc_host := h1\<rparr>"
      using assms(1) by (cases a) (auto simp: runJob_def Some g a Let_def split: if_splits)
    then show ?thesis by simp
  qed
qed (use assms(1) in \<open>simp add: runJob_def\<close>)

section \<open>Witness\<close>

definition sample_shell :: outside where
  "sample_shell = \<lparr>x_shell = (\<lambda>_ _ m. (False, \<lparr>eo_Err = None, eo_Stdout = ''done'', eo_Stderr = ''''\<rparr>,
       m\<lparr>mc_files := (mc_files m)(''/tmp/x'' \<mapsto> [1])\<rparr>)),
     x_onComplete = (\<lambda>_ _ m. ('''', None, m)), x_look = (\<lambda>_. None),
     x_native = (\<lambda>_ _ m. (\<lparr>eo_Err = None, eo_Stdout = '''', eo_Stderr = ''''\<rparr>, m)),
     x_free = (\<lambda>_ _. None), x_dpkg = (\<lambda>_. None), x_rpm = (\<lambda>_. None), x_walk = (\<lambda>s. s), x_full = (\<lambda>_. ''{}''),
     x_signatures = sample_library,
     x_ExecPayload = (\<lambda>_. Doc \<lparr>ep_Command = ''touch /tmp/x'', ep_TimeoutSeconds = 0\<rparr>), x_PackagePayload = (\<lambda>_. Malformed),
     x_FileTransferPayload = (\<lambda>_. Malformed), x_AgentUpdatePayload = (\<lambda>_. Malformed), x_AgentRollbackPayload = (\<lambda>_. Malformed)\<rparr>"

definition sample_server :: server where
  "sample_server = \<lparr>sv_world = sample_world sample_jobs, sv_disk = sample_disk [], sv_net = []\<rparr>"

definition sample_agent_ctx :: request_context where
  "sample_agent_ctx = \<lparr>ctx_TenantID = ''t1'', ctx_UserID = '''', ctx_RoleID = '''', ctx_Permissions = [], ctx_Scope = None,
     ctx_IsAdmin = False, ctx_AgentID = ''d1''\<rparr>"

definition sample_run :: "machine \<times> server" where
  "sample_run = runJob sample_shell (agent_peer (\<lambda>_. Malformed) sample_agent_ctx ''https://s'' (\<lambda>_. Inl '''')) sample_executor
     \<lparr>jd_JobID = ''j4'', jd_Type = ''exec'', jd_Payload = '''', jd_CreatedAt = 0\<rparr>
     (sample_machine \<lparr>m_state = zero_State, m_file = None, m_auditLog = None\<rparr>) sample_server"

lemma sample_run_acts:
  "mc_files (fst sample_run) ''/tmp/x'' = Some [1]" "distinct_jobs (w_db (sv_world (snd sample_run)))"
  by code_simp+


end
