(* ===== verification/Spec2Isabelle.thy ===== *)
theory Spec2Isabelle
  imports Checkin AgentJobs JobsAPI Scheduler Versions LocalIPC AgentServer
begin

text \<open>
  \<^bold>\<open>Moebius\<close> manages fleets of devices.  A server keeps tenants, users, devices and jobs in PostgreSQL
  and offers an HTTP interface to operators (API keys and OIDC tokens) and to agents (client certificates).
  A scheduler beside it requeues and expires jobs, runs scheduled jobs and evaluates alert rules.  On every
  device an agent polls the server, runs the jobs it is given and reports their results; customer device
  mode (CDM) lets the owner of a device decide when jobs may run.  This development is a shallow embedding
  of both programs, file by file, with the theorems that make them correct.

  \<^bold>\<open>The state of the server.\<close>  Theory Models has the structs of shared/models and shared/protocol as records and the
  rows of the tables.  Theory Database has the database as a record of tables, a statement as a function from
  a database to an error or to a result and a new database, and the world a handler runs in: the database, a
  schedule of faults (any statement may fail, and may have taken effect although it failed), the clock, the
  random source and what was sent out.  Exec, Query, ExecRow and Transaction are the calls of pgx; the constraints of the
  migrations (primary keys, references, unique columns) are part of the statements (Database, Statements).  A handler is a
  function of the request, of what the middleware put into its context and of the world, and returns a
  response (Http) and a world.  Two locales carry the proofs about handlers: \<open>db_contract\<close> and
  \<open>audited_contract\<close> lift a reflexive and transitive relation on databases from statements to handlers, and
  \<open>invariant\<close> does the same for a predicate.  Lifecycle instantiates them row by row for jobs.

  \<^bold>\<open>The server, theory by theory.\<close>
  \<^item> Jobs: server/jobs (transition table, types, retry policy).  Lifecycle: what may happen to a row of table jobs.
  \<^item> Checkin: server/api/checkin.go.  AgentJobs: server/api/agent_jobs.go.  JobsAPI: server/api/jobs.go.  Every job moves
    only along the state machine, a finished job is never touched again, a check-in dispatches exactly the oldest eligible
    jobs of its own device, a created batch is exactly the targeted devices in scope and in quota, and
    automatic retries are bounded.
  \<^item> Scope: server/auth/scope.go.  Quota: server/quota/quota.go.
  \<^item> ScheduledJobs, AlertRules, Scheduler: server/store and server/api of both, server/scheduler/scheduler.go, server/notify.  A tick
    keeps the state machine and leaves no stuck job or expired token; the advisory lock admits one leader.
  \<^item> RateLimit: server/ratelimit.  The token bucket refines an exact bucket and bounds what it admits.
  \<^item> Crypto: SHA-256, hexadecimal, base64 and query escaping as the Go library has them.  Auth: server/auth (API keys, OIDC, mutual TLS, the
    proxy header, tenants) and server/rbac.  A request gets through only with the live credential it claims.
  \<^item> Enrollment: server/auth/enrollment.go, server/api/enroll.go, renew.go, enrollment_tokens.go, server/pki/ca.go.  A token enrolls
    once, enrollment is atomic, and the certificate it returns authenticates the agent.
  \<^item> Fleet: devices, inventory, logs, groups, sites, tags.  A revoked device is locked out.
  \<^item> Admin: users, roles, API keys, tenants, audit log.  Roles cannot be used to escalate, a created key authenticates,
    and the keys of administrators are out of reach of other callers.
  \<^item> Files: server/api/files.go, signingkeys.go, server/storage, with the disk and the pipe of an upload.  What is stored has the
    announced digest and a valid signature, and an upload without faults completes.
  \<^item> Versions: agent versions, rollouts, update policies, installers and install scripts, the scripts line by line.

  \<^bold>\<open>The agent, theory by theory.\<close>  Host is the machine's clock, random source and the schedule of its file operations: each may be refused, break
  off, or fail after it took effect.  CDM: agent/cdm.  Sessions, LocalIPC: agent/localauth, agent/localaudit, agent/localcli, agent/ipc/handler.go and
  agent/localui/server.go.  Inventory: agent/inventory.  Packages: agent/platform/linux/pkgmanager.go and agent/cmd/pkg-helper.  Update: agent/update and the
  paths of agent/platform/linux.  Executor: agent/executor.  AgentServer: the executor's calls answered by the handlers of the
  server, over a network that loses requests and responses.  The theorems say that a job runs in customer
  device mode only under a session in force, that local requests change the mode only with a live session,
  that the session store refines one that never forgets, that deltas bring the server to what is installed, that the
  setuid helper runs only six kinds of commands, that a binary is replaced only by verified data and comes back by a
  rollback, and that a job acts at most once whatever is lost or repeated.

  \<^bold>\<open>Modelling choices.\<close>  Go's int and int64 are \<open>int\<close>: no value the theorems speak of comes near the bound.  Bytes are 8-bit words
  and SHA-256 works on 32-bit words.  Float64 is \<open>rat\<close> in the rate limiter and the space check.  Times are nanoseconds.
  Strings are lists of bytes; ORDER BY on text is the C collation.  Goroutines of one request run to completion one after
  another, requests are atomic up to the transactions the code takes, and jobs run one at a time.  Reading a NULL into
  a plain string is a scan error, as in pgx.  JSON documents are their decoded value or malformed.  Loops are structural recursion or
  bounded by the length of their input; no definition uses fuel.

  \<^bold>\<open>Parameters.\<close>  Code outside the repository is a parameter with named hypotheses where a theorem needs one: the cron parser, X.509 and
  PEM, Ed25519, the verification of ID tokens, networks of addresses, decoders of raw payloads, the check of a local password,
  native package managers, shells, free disk space, the order in which a Go map is walked.

  \<^bold>\<open>Not modelled.\<close>  Listeners, connections, flags, logging, metrics and migrations as programs; the generation of the local web certificate and the trust
  stores; installers of the agent; the Windows variants; the hardware inventory; the tools.  They are calls of the operating
  system or of libraries with no state of their own.
\<close>

end
